(* ===== verification/Prelude.thy ===== *)
theory Prelude
  imports Main "HOL-Library.AList" "HOL-Library.Char_ord" "HOL-Library.List_Lexorder"
    "HOL-Library.Sublist"
begin

text \<open>
  Prelude of the development: the errors of the program, the result type of fallible pure
  code, the monad of code that talks to an API server, its weakest preconditions, and the
  finite maps shared by all components.

  Go values. A Go \<open>string\<close> is a HOL \<open>string\<close> (a list of bytes). A Go map is the list of its
  entries in the order in which one \<open>range\<close> loop of the program meets them, with distinct keys;
  \<open>map_of\<close> is the map it denotes and \<open>AList.update\<close> the assignment \<open>m[k] = v\<close>. A nil map
  and an empty map are the same list: no code of the repository tells them apart except
  where a definition says so. A Go pointer is an \<open>option\<close>.
\<close>

named_theorems wp_simps "unfolding a weakest precondition along the structure of a program"
named_theorems wp_intros "proving a weakest precondition backwards"
named_theorems res_simps "inverting the result of fallible pure code"
named_theorems res_splits "case splits on results"

section \<open>Errors and results\<close>

text \<open>
  An error is one of the API server's statuses the code asks for (\<open>kerrors.IsNotFound\<close>,
  already exists), any other failure of a call that leaves the program, a formatted error
  (\<open>fmt.Errorf\<close> or \<open>errors.New\<close>: the format and its operands) possibly wrapping a cause
  (\<open>%w\<close>), or a panic.
\<close>

datatype error =
    NotFound
  | AlreadyExists
  | Failure string
  | Errorf string "string list"
  | Wrapf string "string list" error
  | Panic string

type_synonym 'a res = "error + 'a"

fun IsNotFound :: "error \<Rightarrow> bool" where
  "IsNotFound NotFound = True"
| "IsNotFound (Wrapf f args e) = IsNotFound e"
| "IsNotFound _ = False"

definition bindR :: "'a res \<Rightarrow> ('a \<Rightarrow> 'b res) \<Rightarrow> 'b res" where
  "bindR r f = (case r of Inl e \<Rightarrow> Inl e | Inr x \<Rightarrow> f x)"

definition wrapR :: "string \<Rightarrow> string list \<Rightarrow> 'a res \<Rightarrow> 'a res" where
  "wrapR fmt args r = (case r of Inl e \<Rightarrow> Inl (Wrapf fmt args e) | Inr x \<Rightarrow> Inr x)"

fun isOk :: "'a res \<Rightarrow> bool" where
  "isOk (Inl e) = False"
| "isOk (Inr x) = True"

lemma bindR_simps [simp]:
  "bindR (Inl e) f = Inl e"
  "bindR (Inr x) f = f x"
  by (simp_all add: bindR_def)

lemma wrapR_simps [simp]:
  "wrapR fmt args (Inl e) = Inl (Wrapf fmt args e)"
  "wrapR fmt args (Inr x) = Inr x"
  by (simp_all add: wrapR_def)

lemma bindR_Inr [res_simps]: "bindR r f = Inr y \<longleftrightarrow> (\<exists>x. r = Inr x \<and> f x = Inr y)"
  by (cases r) auto

lemma bindR_Inl [res_simps]:
  "bindR r f = Inl e \<longleftrightarrow> r = Inl e \<or> (\<exists>x. r = Inr x \<and> f x = Inl e)"
  by (cases r) auto

lemma wrapR_Inr [res_simps]: "wrapR fmt args r = Inr y \<longleftrightarrow> r = Inr y"
  by (cases r) auto

lemma isOk_iff: "isOk r \<longleftrightarrow> (\<exists>x. r = Inr x)"
  by (cases r) auto

lemma isOk_bindR [simp]: "isOk (bindR r f) \<longleftrightarrow> (\<exists>x. r = Inr x \<and> isOk (f x))"
  by (cases r) auto

lemma isOk_wrapR [simp]: "isOk (wrapR fmt args r) = isOk r"
  by (cases r) auto

text \<open>A loop whose body may fail: it stops at the first error.\<close>

fun mapR :: "('a \<Rightarrow> 'b res) \<Rightarrow> 'a list \<Rightarrow> 'b list res" where
  "mapR f [] = Inr []"
| "mapR f (x # xs) = bindR (f x) (\<lambda>y. bindR (mapR f xs) (\<lambda>ys. Inr (y # ys)))"

lemma mapR_Inr: "mapR f xs = Inr ys \<longleftrightarrow> list_all2 (\<lambda>x y. f x = Inr y) xs ys"
proof (induction xs arbitrary: ys)
  case Nil
  then show ?case by (auto simp: list_all2_Nil)
next
  case (Cons x xs)
  then show ?case by (cases ys) (auto simp: res_simps)
qed

lemma mapR_length: "mapR f xs = Inr ys \<Longrightarrow> length ys = length xs"
  by (auto simp: mapR_Inr dest: list_all2_lengthD)

lemma mapR_Inr_map: "(\<And>x. x \<in> set xs \<Longrightarrow> f x = Inr (g x)) \<Longrightarrow> mapR f xs = Inr (map g xs)"
  by (induction xs) simp_all

section \<open>Code that talks to a server\<close>

text \<open>
  \<open>('w, 'a) M\<close>: a computation that reads and changes a world \<open>'w\<close> (the cluster and whatever
  else lies outside the process) and returns a result or an error. The world after a failed
  computation is kept: an early return of the Go code undoes nothing.
\<close>

type_synonym ('w, 'a) M = "'w \<Rightarrow> 'a res \<times> 'w"

definition ret :: "'a \<Rightarrow> ('w, 'a) M" where
  "ret x = (\<lambda>w. (Inr x, w))"

definition throw :: "error \<Rightarrow> ('w, 'a) M" where
  "throw e = (\<lambda>w. (Inl e, w))"

definition lift :: "'a res \<Rightarrow> ('w, 'a) M" where
  "lift r = (\<lambda>w. (r, w))"

definition bindE :: "('w, 'a) M \<Rightarrow> ('a \<Rightarrow> ('w, 'b) M) \<Rightarrow> ('w, 'b) M" where
  "bindE m f = (\<lambda>w. case m w of (Inl e, w') \<Rightarrow> (Inl e, w') | (Inr x, w') \<Rightarrow> f x w')"

text \<open>\<open>tryE m h\<close>: run \<open>m\<close> and let \<open>h\<close> look at its error value, \<open>if err != nil\<close>.\<close>

definition tryE :: "('w, 'a) M \<Rightarrow> ('a res \<Rightarrow> ('w, 'b) M) \<Rightarrow> ('w, 'b) M" where
  "tryE m h = (\<lambda>w. case m w of (r, w') \<Rightarrow> h r w')"

definition wrapE :: "string \<Rightarrow> string list \<Rightarrow> ('w, 'a) M \<Rightarrow> ('w, 'a) M" where
  "wrapE fmt args m = (\<lambda>w. case m w of (r, w') \<Rightarrow> (wrapR fmt args r, w'))"

definition wp :: "('w, 'a) M \<Rightarrow> ('a res \<Rightarrow> 'w \<Rightarrow> bool) \<Rightarrow> 'w \<Rightarrow> bool" where
  "wp m Q w \<longleftrightarrow> (case m w of (r, w') \<Rightarrow> Q r w')"

lemma wp_ret [wp_simps]: "wp (ret x) Q w = Q (Inr x) w"
  by (simp add: wp_def ret_def)

lemma wp_throw [wp_simps]: "wp (throw e) Q w = Q (Inl e) w"
  by (simp add: wp_def throw_def)

lemma wp_lift [wp_simps]: "wp (lift r) Q w = Q r w"
  by (simp add: wp_def lift_def)

lemma wp_bindE [wp_simps]:
  "wp (bindE m f) Q w = wp m (\<lambda>r w'. case r of Inl e \<Rightarrow> Q (Inl e) w' | Inr x \<Rightarrow> wp (f x) Q w') w"
  by (simp add: wp_def bindE_def split: prod.splits sum.splits)

lemma wp_tryE [wp_simps]: "wp (tryE m h) Q w = wp m (\<lambda>r w'. wp (h r) Q w') w"
  by (simp add: wp_def tryE_def split: prod.splits)

lemma wp_wrapE [wp_simps]: "wp (wrapE fmt args m) Q w = wp m (\<lambda>r w'. Q (wrapR fmt args r) w') w"
  by (simp add: wp_def wrapE_def split: prod.splits)

lemma wp_run: "wp m Q w \<longleftrightarrow> (\<forall>r w'. m w = (r, w') \<longrightarrow> Q r w')"
  by (auto simp: wp_def split: prod.splits)

lemma wpI: "(\<And>r w'. m w = (r, w') \<Longrightarrow> Q r w') \<Longrightarrow> wp m Q w"
  by (simp add: wp_run)

lemma wpD: "wp m Q w \<Longrightarrow> m w = (r, w') \<Longrightarrow> Q r w'"
  by (simp add: wp_run)

lemma wp_mono: "wp m Q w \<Longrightarrow> (\<And>r w'. Q r w' \<Longrightarrow> Q' r w') \<Longrightarrow> wp m Q' w"
  by (simp add: wp_run)

lemma wp_conj: "wp m Q w \<Longrightarrow> wp m Q' w \<Longrightarrow> wp m (\<lambda>r w'. Q r w' \<and> Q' r w') w"
  by (simp add: wp_run)

text \<open>
  The same rules backwards: \<open>intro wp_intros\<close> walks a program and leaves one goal for each way
  to leave it.
\<close>

lemma wp_retI [wp_intros]: "Q (Inr x) w \<Longrightarrow> wp (ret x) Q w"
  by (simp add: wp_simps)

lemma wp_throwI [wp_intros]: "Q (Inl e) w \<Longrightarrow> wp (throw e) Q w"
  by (simp add: wp_simps)

lemma wp_liftI [wp_intros]:
  "(\<And>e. r = Inl e \<Longrightarrow> Q (Inl e) w) \<Longrightarrow> (\<And>x. r = Inr x \<Longrightarrow> Q (Inr x) w) \<Longrightarrow> wp (lift r) Q w"
  by (cases r) (simp_all add: wp_simps)

lemma wp_bindI [wp_intros]:
  "wp m (\<lambda>r w'. case r of Inl e \<Rightarrow> Q (Inl e) w' | Inr x \<Rightarrow> wp (f x) Q w') w \<Longrightarrow> wp (bindE m f) Q w"
  by (simp add: wp_simps)

lemma wp_tryI [wp_intros]: "wp m (\<lambda>r w'. wp (h r) Q w') w \<Longrightarrow> wp (tryE m h) Q w"
  by (simp add: wp_simps)

lemma wp_wrapI [wp_intros]:
  assumes "wp m (\<lambda>r w'. case r of Inl e \<Rightarrow> Q (Inl (Wrapf fmt args e)) w' | Inr x \<Rightarrow> Q (Inr x) w') w"
  shows "wp (wrapE fmt args m) Q w"
  using assms unfolding wp_wrapE by (rule wp_mono) (auto split: sum.splits)

lemma wp_ifI [wp_intros]:
  "(b \<Longrightarrow> wp m Q w) \<Longrightarrow> (\<not> b \<Longrightarrow> wp m' Q w) \<Longrightarrow> wp (if b then m else m') Q w"
  by simp

lemma wp_optionI [wp_intros]:
  "(x = None \<Longrightarrow> wp m Q w) \<Longrightarrow> (\<And>y. x = Some y \<Longrightarrow> wp (f y) Q w)
    \<Longrightarrow> wp (case x of None \<Rightarrow> m | Some y \<Rightarrow> f y) Q w"
  by (simp split: option.split)

lemma wp_prodI [wp_intros]:
  "(\<And>a b. p = (a, b) \<Longrightarrow> wp (f a b) Q w) \<Longrightarrow> wp (case p of (a, b) \<Rightarrow> f a b) Q w"
  by (simp split: prod.split)

lemma wp_listI [wp_intros]:
  "(xs = [] \<Longrightarrow> wp m Q w) \<Longrightarrow> (\<And>y ys. xs = y # ys \<Longrightarrow> wp (f y ys) Q w)
    \<Longrightarrow> wp (case xs of [] \<Rightarrow> m | y # ys \<Rightarrow> f y ys) Q w"
  by (simp split: list.split)

lemma wp_case_Inl [wp_intros]: "wp (f e) Q w \<Longrightarrow> wp (case Inl e of Inl a \<Rightarrow> f a | Inr b \<Rightarrow> g b) Q w"
  by simp

lemma wp_case_Inr [wp_intros]: "wp (g x) Q w \<Longrightarrow> wp (case Inr x of Inl a \<Rightarrow> f a | Inr b \<Rightarrow> g b) Q w"
  by simp

lemma case_InlI [wp_intros]: "f e \<Longrightarrow> case Inl e of Inl a \<Rightarrow> f a | Inr b \<Rightarrow> g b"
  by simp

lemma case_InrI [wp_intros]: "g x \<Longrightarrow> case Inr x of Inl a \<Rightarrow> f a | Inr b \<Rightarrow> g b"
  by simp

section \<open>Go maps\<close>

type_synonym strmap = "(string \<times> string) list"

text \<open>\<open>m[k]\<close> of a map to strings: the zero value when the key is missing.\<close>

definition mget :: "strmap \<Rightarrow> string \<Rightarrow> string" where
  "mget m k = (case map_of m k of None \<Rightarrow> [] | Some v \<Rightarrow> v)"

definition mput :: "'k \<Rightarrow> 'v \<Rightarrow> ('k \<times> 'v) list \<Rightarrow> ('k \<times> 'v) list" where
  "mput k v m = AList.update k v m"

definition mdel :: "'k \<Rightarrow> ('k \<times> 'v) list \<Rightarrow> ('k \<times> 'v) list" where
  "mdel k m = AList.delete k m"

definition keys :: "('k \<times> 'v) list \<Rightarrow> 'k list" where
  "keys m = map fst m"

lemma map_of_mput [simp]: "map_of (mput k v m) = (map_of m)(k \<mapsto> v)"
  by (simp add: mput_def update_conv')

lemma map_of_mdel [simp]: "map_of (mdel k m) = (map_of m)(k := None)"
  by (simp add: mdel_def delete_conv')

lemma mget_mput [simp]: "mget (mput k v m) k' = (if k' = k then v else mget m k')"
  by (simp add: mget_def)

lemma distinct_keys_mput [simp]: "distinct (keys m) \<Longrightarrow> distinct (keys (mput k v m))"
  by (simp add: keys_def mput_def distinct_update)

lemma distinct_keys_mdel [simp]: "distinct (keys m) \<Longrightarrow> distinct (keys (mdel k m))"
  by (simp add: keys_def mdel_def distinct_delete)

lemma set_keys: "set (keys m) = dom (map_of m)"
  by (simp add: keys_def dom_map_of_conv_image_fst)

lemma map_of_eq_keys: "map_of m = map_of m' \<Longrightarrow> set (keys m) = set (keys m')"
  by (simp add: set_keys)

text \<open>\<open>sort.Strings\<close> over the keys of a map, the code's way to a deterministic order.\<close>

definition sorted_keys :: "(string \<times> 'v) list \<Rightarrow> string list" where
  "sorted_keys m = sort (keys m)"

lemma set_sorted_keys [simp]: "set (sorted_keys m) = dom (map_of m)"
  by (simp add: sorted_keys_def set_keys)

lemma distinct_sorted_keys: "distinct (keys m) \<Longrightarrow> distinct (sorted_keys m)"
  by (simp add: sorted_keys_def)

lemma sorted_keys_cong:
  assumes "distinct (keys m)" "distinct (keys m')" "map_of m = map_of m'"
  shows "sorted_keys m = sorted_keys m'"
proof -
  have "set (keys m) = set (keys m')"
    using assms(3) by (rule map_of_eq_keys)
  with assms(1,2) show ?thesis
    unfolding sorted_keys_def
    by (intro sorted_distinct_set_unique) (simp_all only: sorted_sort distinct_sort set_sort)
qed

text \<open>Keeping the first occurrence of every element.\<close>

fun nub :: "'a list \<Rightarrow> 'a list" where
  "nub [] = []"
| "nub (x # xs) = x # filter (\<lambda>y. y \<noteq> x) (nub xs)"

lemma set_nub [simp]: "set (nub xs) = set xs"
  by (induction xs) auto

lemma distinct_nub [simp]: "distinct (nub xs)"
  by (induction xs) auto

lemma nub_distinct: "distinct xs \<Longrightarrow> nub xs = xs"
  by (induction xs) (auto simp: filter_id_conv)

lemma subseq_nub: "subseq (nub xs) xs"
  by (induction xs) (auto intro: subseq_order.trans [OF subseq_filter_left])

section \<open>Frames and results\<close>

text \<open>
  \<open>keeps R m\<close>: whatever \<open>m\<close> does, errors included, the worlds before and after are related.
  \<open>yields P m\<close>: a result that \<open>m\<close> returns satisfies \<open>P\<close>. For a preorder \<open>R\<close> both follow the
  structure of the program.
\<close>

named_theorems keeps_intros "composing keeps"

definition keeps :: "('w \<Rightarrow> 'w \<Rightarrow> bool) \<Rightarrow> ('w, 'a) M \<Rightarrow> bool" where
  "keeps R m \<longleftrightarrow> (\<forall>w. wp m (\<lambda>r w'. R w w') w)"

definition yields :: "('a \<Rightarrow> bool) \<Rightarrow> ('w, 'a) M \<Rightarrow> bool" where
  "yields P m \<longleftrightarrow> (\<forall>w. wp m (\<lambda>r w'. \<forall>x. r = Inr x \<longrightarrow> P x) w)"

definition preorder :: "('w \<Rightarrow> 'w \<Rightarrow> bool) \<Rightarrow> bool" where
  "preorder R \<longleftrightarrow> (\<forall>w. R w w) \<and> (\<forall>u v w. R u v \<longrightarrow> R v w \<longrightarrow> R u w)"

lemma keepsD: "keeps R m \<Longrightarrow> m w = (r, w') \<Longrightarrow> R w w'"
  by (auto simp: keeps_def wp_run)

lemma keeps_wp: "keeps R m \<Longrightarrow> wp m (\<lambda>r w'. R w w') w"
  by (simp add: keeps_def)

lemma keeps_ret [keeps_intros]: "preorder R \<Longrightarrow> keeps R (ret x)"
  by (simp add: keeps_def wp_simps preorder_def)

lemma keeps_throw [keeps_intros]: "preorder R \<Longrightarrow> keeps R (throw e)"
  by (simp add: keeps_def wp_simps preorder_def)

lemma keeps_lift [keeps_intros]: "preorder R \<Longrightarrow> keeps R (lift r)"
  by (simp add: keeps_def wp_simps preorder_def)

lemma keeps_bindE_post:
  assumes R: "preorder R" and m: "keeps R m" and P: "yields P m" and f: "\<And>x. P x \<Longrightarrow> keeps R (f x)"
  shows "keeps R (bindE m f)"
  unfolding keeps_def wp_simps
proof
  fix w
  have "wp m (\<lambda>r w'. R w w' \<and> (\<forall>x. r = Inr x \<longrightarrow> P x)) w"
    using m P by (intro wp_conj) (simp_all add: keeps_def yields_def)
  then show "wp m (\<lambda>r w'. case r of Inl e \<Rightarrow> R w w' | Inr x \<Rightarrow> wp (f x) (\<lambda>r. R w) w') w"
  proof (rule wp_mono)
    fix r w'
    assume *: "R w w' \<and> (\<forall>x. r = Inr x \<longrightarrow> P x)"
    show "case r of Inl e \<Rightarrow> R w w' | Inr x \<Rightarrow> wp (f x) (\<lambda>r. R w) w'"
    proof (cases r)
      case (Inr x)
      with * f have "wp (f x) (\<lambda>r. R w') w'" by (simp add: keeps_def)
      then have "wp (f x) (\<lambda>r. R w) w'"
        by (rule wp_mono) (use R * in \<open>auto simp: preorder_def\<close>)
      with Inr show ?thesis by simp
    qed (use * in simp)
  qed
qed

lemma keeps_bindE [keeps_intros]:
  "preorder R \<Longrightarrow> keeps R m \<Longrightarrow> (\<And>x. keeps R (f x)) \<Longrightarrow> keeps R (bindE m f)"
  by (rule keeps_bindE_post [where P = "\<lambda>_. True"]) (simp_all add: yields_def wp_run)

lemma keeps_tryE [keeps_intros]:
  assumes R: "preorder R" and m: "keeps R m" and h: "\<And>r. keeps R (h r)"
  shows "keeps R (tryE m h)"
  unfolding keeps_def wp_simps
proof
  fix w
  show "wp m (\<lambda>r w'. wp (h r) (\<lambda>r. R w) w') w"
  proof (rule wp_mono [OF keeps_wp [OF m]])
    fix r w'
    assume "R w w'"
    then show "wp (h r) (\<lambda>r. R w) w'"
      by (intro wp_mono [OF keeps_wp [OF h]]) (use R in \<open>auto simp: preorder_def\<close>)
  qed
qed

lemma keeps_wrapE [keeps_intros]: "keeps R m \<Longrightarrow> keeps R (wrapE fmt args m)"
  by (simp add: keeps_def wp_simps)

lemma keeps_if [keeps_intros]:
  "(b \<Longrightarrow> keeps R m) \<Longrightarrow> (\<not> b \<Longrightarrow> keeps R m') \<Longrightarrow> keeps R (if b then m else m')"
  by simp

lemma keeps_option [keeps_intros]:
  "(x = None \<Longrightarrow> keeps R m) \<Longrightarrow> (\<And>y. x = Some y \<Longrightarrow> keeps R (f y))
    \<Longrightarrow> keeps R (case x of None \<Rightarrow> m | Some y \<Rightarrow> f y)"
  by (simp split: option.split)

lemma keeps_sum [keeps_intros]:
  "(\<And>e. x = Inl e \<Longrightarrow> keeps R (g e)) \<Longrightarrow> (\<And>y. x = Inr y \<Longrightarrow> keeps R (f y))
    \<Longrightarrow> keeps R (case x of Inl e \<Rightarrow> g e | Inr y \<Rightarrow> f y)"
  by (simp split: sum.split)

lemma keeps_prod [keeps_intros]:
  "(\<And>a b. p = (a, b) \<Longrightarrow> keeps R (f a b)) \<Longrightarrow> keeps R (case p of (a, b) \<Rightarrow> f a b)"
  by (simp split: prod.split)

lemma keeps_list [keeps_intros]:
  "(xs = [] \<Longrightarrow> keeps R m) \<Longrightarrow> (\<And>y ys. xs = y # ys \<Longrightarrow> keeps R (f y ys))
    \<Longrightarrow> keeps R (case xs of [] \<Rightarrow> m | y # ys \<Rightarrow> f y ys)"
  by (simp split: list.split)

lemma keeps_weaken: "keeps R m \<Longrightarrow> (\<And>w w'. R w w' \<Longrightarrow> R' w w') \<Longrightarrow> keeps R' m"
  by (auto simp: keeps_def wp_run)

lemma bindE_assoc: "bindE (bindE m f) g = bindE m (\<lambda>x. bindE (f x) g)"
  by (auto simp: bindE_def fun_eq_iff split: prod.splits sum.splits)

end
