(* ===== verification/GoStrings.thy ===== *)
theory GoStrings
  imports Prelude "HOL-Library.Word"
begin

text \<open>
  The parts of Go's \<open>strings\<close>, \<open>strconv\<close>, \<open>fmt\<close> and \<open>encoding/base64\<close> packages that the
  repository uses, on byte strings. Separators are single bytes, the only ones the code uses.
\<close>

section \<open>Prefixes, suffixes, trimming\<close>

definition HasPrefix :: "string \<Rightarrow> string \<Rightarrow> bool" where
  "HasPrefix s p \<longleftrightarrow> prefix p s"

definition HasSuffix :: "string \<Rightarrow> string \<Rightarrow> bool" where
  "HasSuffix s p \<longleftrightarrow> prefix (rev p) (rev s)"

definition TrimPrefix :: "string \<Rightarrow> string \<Rightarrow> string" where
  "TrimPrefix s p = (if HasPrefix s p then drop (length p) s else s)"

definition TrimSuffix :: "string \<Rightarrow> string \<Rightarrow> string" where
  "TrimSuffix s p = (if HasSuffix s p then take (length s - length p) s else s)"

text \<open>
  \<open>TrimSpace\<close> removes leading and trailing white space as Unicode defines it: the UTF-8
  encodings of those code points are listed, and stripped one at a time from either end.
\<close>

definition space_encodings :: "string list" where
  "space_encodings =
     [[CHR 0x09], [CHR 0x0A], [CHR 0x0B], [CHR 0x0C], [CHR 0x0D], [CHR 0x20],
      [CHR 0xC2, CHR 0x85], [CHR 0xC2, CHR 0xA0], [CHR 0xE1, CHR 0x9A, CHR 0x80],
      [CHR 0xE2, CHR 0x80, CHR 0x80], [CHR 0xE2, CHR 0x80, CHR 0x81],
      [CHR 0xE2, CHR 0x80, CHR 0x82], [CHR 0xE2, CHR 0x80, CHR 0x83],
      [CHR 0xE2, CHR 0x80, CHR 0x84], [CHR 0xE2, CHR 0x80, CHR 0x85],
      [CHR 0xE2, CHR 0x80, CHR 0x86], [CHR 0xE2, CHR 0x80, CHR 0x87],
      [CHR 0xE2, CHR 0x80, CHR 0x88], [CHR 0xE2, CHR 0x80, CHR 0x89],
      [CHR 0xE2, CHR 0x80, CHR 0x8A], [CHR 0xE2, CHR 0x80, CHR 0xA8],
      [CHR 0xE2, CHR 0x80, CHR 0xA9], [CHR 0xE2, CHR 0x80, CHR 0xAF],
      [CHR 0xE2, CHR 0x81, CHR 0x9F], [CHR 0xE3, CHR 0x80, CHR 0x80]]"

function strip_front :: "string list \<Rightarrow> string \<Rightarrow> string" where
  "strip_front es s =
     (case find (\<lambda>p. p \<noteq> [] \<and> prefix p s) es of
        None \<Rightarrow> s
      | Some p \<Rightarrow> strip_front es (drop (length p) s))"
  by pat_completeness auto
termination
  by (relation "measure (\<lambda>(es, s). length s)")
    (auto simp: find_Some_iff, metis diff_less length_greater_0_conv prefix_Nil)

declare strip_front.simps [simp del]

definition TrimLeftSpace :: "string \<Rightarrow> string" where
  "TrimLeftSpace s = strip_front space_encodings s"

definition TrimRightSpace :: "string \<Rightarrow> string" where
  "TrimRightSpace s = rev (strip_front (map rev space_encodings) (rev s))"

definition TrimSpace :: "string \<Rightarrow> string" where
  "TrimSpace s = TrimRightSpace (TrimLeftSpace s)"

lemma strip_front_suffix: "\<exists>pre. s = pre @ strip_front es s"
proof (induction es s rule: strip_front.induct)
  case (1 es s)
  show ?case
  proof (cases "find (\<lambda>p. p \<noteq> [] \<and> prefix p s) es")
    case None
    then show ?thesis by (subst strip_front.simps) simp
  next
    case (Some p)
    then have "prefix p s" by (auto simp: find_Some_iff)
    then have s: "s = p @ drop (length p) s" by (auto simp: prefix_def)
    from "1.IH" [OF Some] obtain pre
      where "drop (length p) s = pre @ strip_front es (drop (length p) s)" by blast
    with s have "s = (p @ pre) @ strip_front es (drop (length p) s)" by simp
    moreover have "strip_front es s = strip_front es (drop (length p) s)"
      using Some by (subst strip_front.simps) simp
    ultimately show ?thesis by metis
  qed
qed

lemma strip_front_no_prefix: "p \<in> set es \<Longrightarrow> p \<noteq> [] \<Longrightarrow> \<not> prefix p (strip_front es s)"
proof (induction es s rule: strip_front.induct)
  case (1 es s)
  show ?case
  proof (cases "find (\<lambda>p. p \<noteq> [] \<and> prefix p s) es")
    case None
    with "1.prems" have "\<not> prefix p s" by (auto simp: find_None_iff)
    with None show ?thesis by (subst strip_front.simps) simp
  next
    case (Some q)
    from "1.IH" [OF Some "1.prems"] Some show ?thesis
      by (subst strip_front.simps) simp
  qed
qed

lemma strip_front_fix:
  assumes "\<And>p. p \<in> set es \<Longrightarrow> p \<noteq> [] \<Longrightarrow> \<not> prefix p s"
  shows "strip_front es s = s"
proof -
  have "find (\<lambda>p. p \<noteq> [] \<and> prefix p s) es = None"
    using assms by (auto simp: find_None_iff)
  then show ?thesis by (subst strip_front.simps) simp
qed

lemma strip_front_idem [simp]: "strip_front es (strip_front es s) = strip_front es s"
  by (rule strip_front_fix) (simp add: strip_front_no_prefix)

lemma TrimRightSpace_prefix: "prefix (TrimRightSpace t) t"
proof -
  obtain pre where "rev t = pre @ strip_front (map rev space_encodings) (rev t)"
    using strip_front_suffix by blast
  then have "t = TrimRightSpace t @ rev pre"
    unfolding TrimRightSpace_def by (metis rev_append rev_rev_ident)
  then show ?thesis by (metis prefixI)
qed

lemma TrimSpace_idem [simp]: "TrimSpace (TrimSpace s) = TrimSpace s"
proof -
  have "TrimLeftSpace (TrimSpace s) = TrimSpace s"
    unfolding TrimLeftSpace_def
  proof (rule strip_front_fix)
    fix p
    assume p: "p \<in> set space_encodings" "p \<noteq> []"
    show "\<not> prefix p (TrimSpace s)"
    proof
      assume "prefix p (TrimSpace s)"
      then have "prefix p (TrimLeftSpace s)"
        unfolding TrimSpace_def using TrimRightSpace_prefix prefix_order.trans by blast
      with strip_front_no_prefix [OF p] show False by (simp add: TrimLeftSpace_def)
    qed
  qed
  then show ?thesis by (simp add: TrimSpace_def [of "TrimSpace s"]) (simp add: TrimSpace_def TrimRightSpace_def)
qed

section \<open>Splitting and joining\<close>

fun SplitC :: "char \<Rightarrow> string \<Rightarrow> string list" where
  "SplitC c [] = [[]]"
| "SplitC c (x # xs) =
     (if x = c then [] # SplitC c xs
      else (case SplitC c xs of [] \<Rightarrow> [[x]] | y # ys \<Rightarrow> (x # y) # ys))"

text \<open>\<open>strings.SplitN(s, sep, 2)\<close>: at the first separator only.\<close>

definition SplitN2 :: "char \<Rightarrow> string \<Rightarrow> string list" where
  "SplitN2 c s =
     (if c \<in> set s then [takeWhile (\<lambda>x. x \<noteq> c) s, tl (dropWhile (\<lambda>x. x \<noteq> c) s)] else [s])"

text \<open>\<open>strings.SplitAfter\<close>: each separator stays at the end of its piece.\<close>

fun SplitAfterC :: "char \<Rightarrow> string \<Rightarrow> string list" where
  "SplitAfterC c [] = [[]]"
| "SplitAfterC c (x # xs) =
     (if x = c then [x] # SplitAfterC c xs
      else (case SplitAfterC c xs of [] \<Rightarrow> [[x]] | y # ys \<Rightarrow> (x # y) # ys))"

fun Join :: "string \<Rightarrow> string list \<Rightarrow> string" where
  "Join sep [] = []"
| "Join sep [s] = s"
| "Join sep (s # t # ss) = s @ sep @ Join sep (t # ss)"

lemma SplitC_nonempty [simp]: "SplitC c s \<noteq> []"
  by (cases s) (auto split: list.splits)

lemma SplitAfterC_nonempty [simp]: "SplitAfterC c s \<noteq> []"
  by (cases s) (auto split: list.splits)

lemma Join_Cons: "Join sep (s # ss) = (if ss = [] then s else s @ sep @ Join sep ss)"
  by (cases ss) auto

lemma Join_SplitC: "Join [c] (SplitC c s) = s"
  by (induction s) (auto simp: Join_Cons split: list.splits)

lemma SplitC_no_sep: "p \<in> set (SplitC c s) \<Longrightarrow> c \<notin> set p"
  by (induction s arbitrary: p) (auto split: list.splits if_splits)

lemma SplitC_id: "c \<notin> set s \<Longrightarrow> SplitC c s = [s]"
  by (induction s) auto

lemma SplitC_append: "c \<notin> set s \<Longrightarrow> SplitC c (s @ c # t) = s # SplitC c t"
  by (induction s) auto

lemma SplitC_Join:
  "ss \<noteq> [] \<Longrightarrow> (\<And>s. s \<in> set ss \<Longrightarrow> c \<notin> set s) \<Longrightarrow> SplitC c (Join [c] ss) = ss"
  by (induction ss) (auto simp: Join_Cons SplitC_id SplitC_append)

lemma length_SplitC: "length (SplitC c s) = Suc (count_list s c)"
  by (induction s) (auto split: list.splits)

lemma SplitN2_pair: "SplitN2 c s = [a, b] \<longleftrightarrow> s = a @ c # b \<and> c \<notin> set a"
proof
  assume *: "SplitN2 c s = [a, b]"
  then have "c \<in> set s" by (auto simp: SplitN2_def split: if_splits)
  then obtain u v where s: "s = u @ c # v" and "c \<notin> set u"
    by (metis split_list_first)
  then have "takeWhile (\<lambda>x. x \<noteq> c) s = u" "dropWhile (\<lambda>x. x \<noteq> c) s = c # v"
    by (auto simp: takeWhile_append dropWhile_append)
  with * s \<open>c \<notin> set u\<close> show "s = a @ c # b \<and> c \<notin> set a"
    by (auto simp: SplitN2_def)
next
  assume "s = a @ c # b \<and> c \<notin> set a"
  then show "SplitN2 c s = [a, b]"
    by (auto simp: SplitN2_def takeWhile_append dropWhile_append)
qed

lemma SplitN2_length: "length (SplitN2 c s) = (if c \<in> set s then 2 else 1)"
  by (simp add: SplitN2_def)

text \<open>\<open>strings.ReplaceAll\<close> with a non-empty old string, from left to right.\<close>

function ReplaceAll :: "string \<Rightarrow> string \<Rightarrow> string \<Rightarrow> string" where
  "ReplaceAll old new s =
     (if old = [] then s
      else if prefix old s then new @ ReplaceAll old new (drop (length old) s)
      else (case s of [] \<Rightarrow> [] | x # xs \<Rightarrow> x # ReplaceAll old new xs))"
  by pat_completeness auto
termination
  by (relation "measure (\<lambda>(old, new, s). length s)")
    (auto, metis diff_less length_greater_0_conv prefix_Nil)

declare ReplaceAll.simps [simp del]

text \<open>A line break, and the \<open>indent\<close> of the sprig library: a pad in front of every line.\<close>

definition nl :: string where
  "nl = [CHR 0x0A]"

definition indent :: "nat \<Rightarrow> string \<Rightarrow> string" where
  "indent n s = replicate n CHR '' '' @ ReplaceAll nl (nl @ replicate n CHR '' '') s"

lemma ReplaceAll_char: "ReplaceAll [c] new s = Join new (SplitC c s)"
proof (induction s)
  case Nil
  show ?case by (subst ReplaceAll.simps) simp
next
  case (Cons a s)
  have "ReplaceAll [c] new (a # s) = (if c = a then new @ ReplaceAll [c] new s else a # ReplaceAll [c] new s)"
    by (subst ReplaceAll.simps) simp
  with Cons show ?case by (auto simp: Join_Cons split: list.splits)
qed

lemma Join_pad: "ls \<noteq> [] \<Longrightarrow> pad @ Join (sep @ pad) ls = Join sep (map (append pad) ls)"
  by (induction ls rule: induct_list012) auto

lemma indent_lines: "indent n s = Join nl (map (append (replicate n CHR '' '')) (SplitC CHR 0x0A s))"
  using Join_pad [of "SplitC CHR 0x0A s" "replicate n CHR '' ''" nl]
  by (simp add: indent_def nl_def ReplaceAll_char)

lemma SplitC_indent: "SplitC CHR 0x0A (indent n s) = map (append (replicate n CHR '' '')) (SplitC CHR 0x0A s)"
  unfolding indent_lines nl_def by (rule SplitC_Join) (auto dest: SplitC_no_sep)

lemma unindent_indent: "Join nl (map (drop n) (SplitC CHR 0x0A (indent n s))) = s"
  by (simp add: SplitC_indent o_def Join_SplitC nl_def)

section \<open>Numbers\<close>

definition digit_char :: "nat \<Rightarrow> char" where
  "digit_char d = char_of (48 + d)"

fun show_nat :: "nat \<Rightarrow> string" where
  "show_nat n = (if n < 10 then [digit_char n] else show_nat (n div 10) @ [digit_char (n mod 10)])"

declare show_nat.simps [simp del]

definition show_int :: "int \<Rightarrow> string" where
  "show_int i = (if i < 0 then CHR ''-'' # show_nat (nat (- i)) else show_nat (nat i))"

definition is_digit :: "char \<Rightarrow> bool" where
  "is_digit c \<longleftrightarrow> 48 \<le> (of_char c :: nat) \<and> (of_char c :: nat) \<le> 57"

definition digit_val :: "char \<Rightarrow> nat" where
  "digit_val c = of_char c - 48"

definition read_nat :: "string \<Rightarrow> nat option" where
  "read_nat s =
     (if s \<noteq> [] \<and> list_all is_digit s then Some (foldl (\<lambda>n c. 10 * n + digit_val c) 0 s) else None)"

text \<open>\<open>strconv.ParseInt(s, 10, bits)\<close>: an optional sign, decimal digits, and the range check.\<close>

definition ParseInt10 :: "nat \<Rightarrow> string \<Rightarrow> int res" where
  "ParseInt10 bits s =
     (let (neg, ds) = (case s of
          c # cs \<Rightarrow> if c = CHR ''-'' then (True, cs) else if c = CHR ''+'' then (False, cs) else (False, s)
        | [] \<Rightarrow> (False, []))
      in case read_nat ds of
           None \<Rightarrow> Inl (Errorf ''strconv.ParseInt: invalid syntax'' [s])
         | Some n \<Rightarrow>
             (let i = (if neg then - int n else int n) in
              if - (2 ^ (bits - 1)) \<le> i \<and> i < 2 ^ (bits - 1) then Inr i
              else Inl (Errorf ''strconv.ParseInt: value out of range'' [s])))"

definition ParseBool :: "string \<Rightarrow> bool res" where
  "ParseBool s =
     (if s \<in> {''1'', ''t'', ''T'', ''TRUE'', ''true'', ''True''} then Inr True
      else if s \<in> {''0'', ''f'', ''F'', ''FALSE'', ''false'', ''False''} then Inr False
      else Inl (Errorf ''strconv.ParseBool: invalid syntax'' [s]))"

definition FormatBool :: "bool \<Rightarrow> string" where
  "FormatBool b = (if b then ''true'' else ''false'')"

lemma ParseInt10_range:
  "ParseInt10 bits s = Inr i \<Longrightarrow> - (2 ^ (bits - 1)) \<le> i \<and> i < 2 ^ (bits - 1)"
  by (auto simp: ParseInt10_def Let_def split: option.splits prod.splits if_splits)

lemma ParseBool_FormatBool [simp]: "ParseBool (FormatBool b) = Inr b"
  by (cases b) (simp_all add: ParseBool_def FormatBool_def)

lemma of_char_digit_char [simp]: "d < 10 \<Longrightarrow> (of_char (digit_char d) :: nat) = 48 + d"
  by (simp add: digit_char_def)

lemma is_digit_digit_char [simp]: "d < 10 \<Longrightarrow> is_digit (digit_char d)"
  by (simp add: is_digit_def)

lemma digit_val_digit_char [simp]: "d < 10 \<Longrightarrow> digit_val (digit_char d) = d"
  by (simp add: digit_val_def)

lemma show_nat_nonempty [simp]: "show_nat n \<noteq> []"
  by (subst show_nat.simps) simp

lemma show_nat_digits: "list_all is_digit (show_nat n)"
proof (induction n rule: show_nat.induct)
  case (1 n)
  then show ?case by (subst show_nat.simps) auto
qed

lemma read_show_nat [simp]: "read_nat (show_nat n) = Some n"
proof -
  have "foldl (\<lambda>n c. 10 * n + digit_val c) 0 (show_nat n) = n"
  proof (induction n rule: show_nat.induct)
    case (1 n)
    then show ?case by (subst show_nat.simps) auto
  qed
  then show ?thesis by (simp add: read_nat_def show_nat_digits)
qed

lemma show_nat_inj [simp]: "show_nat m = show_nat n \<longleftrightarrow> m = n"
  by (metis option.inject read_show_nat)

lemma length_show_nat_3:
  assumes "100 \<le> n" "n < 1000"
  shows "length (show_nat n) = 3"
proof -
  have "n div 10 div 10 = n div 100" by (simp flip: div_mult2_eq)
  then have *: "n div 10 div 10 < 10" "\<not> n div 10 < 10" "\<not> n < 10"
    using assms by (simp_all add: less_mult_imp_div_less)
  have "length (show_nat (n div 10 div 10)) = 1" by (subst show_nat.simps) (simp add: *)
  then have "length (show_nat (n div 10)) = 2" by (subst show_nat.simps) (simp add: *)
  then show ?thesis by (subst show_nat.simps) (simp add: *)
qed

text \<open>Hexadecimal digits.\<close>

definition hex_digit :: "nat \<Rightarrow> char" where
  "hex_digit n = ''0123456789abcdef'' ! (n mod 16)"

definition hex_val :: "char \<Rightarrow> nat option" where
  "hex_val c =
     (let n = (of_char c :: nat) in
      if 48 \<le> n \<and> n \<le> 57 then Some (n - 48)
      else if 97 \<le> n \<and> n \<le> 102 then Some (n - 87)
      else if 65 \<le> n \<and> n \<le> 70 then Some (n - 55)
      else None)"

section \<open>Base64\<close>

text \<open>\<open>base64.StdEncoding\<close>: the standard alphabet, padded with \<open>=\<close>.\<close>

definition b64_alphabet :: string where
  "b64_alphabet = ''ABCDEFGHIJKLMNOPQRSTUVWXYZabcdefghijklmnopqrstuvwxyz0123456789+/''"

definition b64_char :: "nat \<Rightarrow> char" where
  "b64_char n = b64_alphabet ! (n mod 64)"

fun b64_encode :: "string \<Rightarrow> string" where
  "b64_encode [] = []"
| "b64_encode [a] =
     (let n = (of_char a :: nat) in
      [b64_char (n div 4), b64_char (n mod 4 * 16), CHR ''='', CHR ''=''])"
| "b64_encode [a, b] =
     (let m = (of_char a :: nat); n = of_char b in
      [b64_char (m div 4), b64_char (m mod 4 * 16 + n div 16), b64_char (n mod 16 * 4), CHR ''=''])"
| "b64_encode (a # b # c # s) =
     (let m = (of_char a :: nat); n = of_char b; k = of_char c in
      b64_char (m div 4) # b64_char (m mod 4 * 16 + n div 16) # b64_char (n mod 16 * 4 + k div 64)
      # b64_char (k mod 64) # b64_encode s)"

definition b64_value :: "char \<Rightarrow> nat option" where
  "b64_value c =
     (case List.extract (\<lambda>x. x = c) b64_alphabet of None \<Rightarrow> None | Some (pre, _, _) \<Rightarrow> Some (length pre))"

text \<open>
  \<open>DecodeString\<close> on input without line breaks, which Go's decoder would skip: groups of four,
  the last one possibly padded. \<open>None\<close> is the \<open>CorruptInputError\<close>.
\<close>

fun b64_groups :: "string \<Rightarrow> string option" where
  "b64_groups [] = Some []"
| "b64_groups (a # b # c # d # s) =
     (case (b64_value a, b64_value b) of
        (Some x, Some y) \<Rightarrow>
          (if c = CHR ''='' then
             (if d = CHR ''='' \<and> s = [] then Some [char_of (x * 4 + y div 16)] else None)
           else (case b64_value c of
               None \<Rightarrow> None
             | Some z \<Rightarrow>
                 (if d = CHR ''='' then
                    (if s = [] then Some [char_of (x * 4 + y div 16), char_of (y mod 16 * 16 + z div 4)]
                     else None)
                  else (case b64_value d of
                      None \<Rightarrow> None
                    | Some w \<Rightarrow>
                        map_option (\<lambda>t. char_of (x * 4 + y div 16) # char_of (y mod 16 * 16 + z div 4)
                            # char_of (z mod 4 * 64 + w) # t) (b64_groups s)))))
      | _ \<Rightarrow> None)"
| "b64_groups s = None"

definition b64_decode :: "string \<Rightarrow> string option" where
  "b64_decode s = b64_groups (filter (\<lambda>c. c \<noteq> CHR 0x0A \<and> c \<noteq> CHR 0x0D) s)"

lemma b64_alphabet_values:
  "\<forall>n < 64. b64_value (b64_char n) = Some n \<and> b64_char n \<noteq> CHR ''=''
     \<and> b64_char n \<noteq> CHR 0x0A \<and> b64_char n \<noteq> CHR 0x0D"
  by code_simp

lemma b64_value_char [simp]: "n < 64 \<Longrightarrow> b64_value (b64_char n) = Some n"
  using b64_alphabet_values by blast

lemma b64_char_ne [simp]:
  "b64_char n \<noteq> CHR ''=''" "b64_char n \<noteq> CHR 0x0A" "b64_char n \<noteq> CHR 0x0D"
proof -
  have "b64_char n = b64_char (n mod 64)" by (simp add: b64_char_def)
  then show "b64_char n \<noteq> CHR ''=''" "b64_char n \<noteq> CHR 0x0A" "b64_char n \<noteq> CHR 0x0D"
    using b64_alphabet_values [rule_format, of "n mod 64"] by auto
qed

lemma b64_char_mod: "b64_char n = b64_char (n mod 64)"
  by (simp add: b64_char_def)

lemma b64_no_breaks: "filter (\<lambda>c. c \<noteq> CHR 0x0A \<and> c \<noteq> CHR 0x0D) (b64_encode s) = b64_encode s"
  by (induction s rule: b64_encode.induct) (auto simp: Let_def)

lemma b64_sextets:
  fixes m n k :: nat
  assumes "m < 256" "n < 256" "k < 256"
  shows "m div 4 < 64" "m mod 4 * 16 + n div 16 < 64" "n mod 16 * 4 + k div 64 < 64" "k mod 64 < 64"
    "m mod 4 * 16 < 64" "n mod 16 * 4 < 64"
    "m div 4 * 4 + (m mod 4 * 16 + n div 16) div 16 = m"
    "(m mod 4 * 16 + n div 16) mod 16 * 16 + (n mod 16 * 4 + k div 64) div 4 = n"
    "(n mod 16 * 4 + k div 64) mod 4 * 64 + k mod 64 = k"
    "n div 16 mod 16 * 16 + n mod 16 = n"
proof -
  have *: "n div 16 < 16" "k div 64 < 4" "m mod 4 < 4" "n mod 16 < 16" using assms by auto
  show "m div 4 < 64" "k mod 64 < 64" using assms by auto
  show "m mod 4 * 16 + n div 16 < 64" "n mod 16 * 4 + k div 64 < 64"
    "m mod 4 * 16 < 64" "n mod 16 * 4 < 64" using * by linarith+
  show "m div 4 * 4 + (m mod 4 * 16 + n div 16) div 16 = m" using * by simp
  show "(m mod 4 * 16 + n div 16) mod 16 * 16 + (n mod 16 * 4 + k div 64) div 4 = n"
    using * by simp
  show "(n mod 16 * 4 + k div 64) mod 4 * 64 + k mod 64 = k" using * by simp
  show "n div 16 mod 16 * 16 + n mod 16 = n" using * by simp
qed

lemma b64_groups_encode: "b64_groups (b64_encode s) = Some s"
proof (induction s rule: b64_encode.induct)
  case (2 a)
  show ?case using b64_sextets [of "of_char a" 0 0] by (simp add: Let_def)
next
  case (3 a b)
  show ?case using b64_sextets [of "of_char a" "of_char b" 0] by (simp add: Let_def)
next
  case (4 a b c s)
  show ?case using b64_sextets [of "of_char a" "of_char b" "of_char c"] 4 by (simp add: Let_def)
qed simp

lemma b64_decode_encode: "b64_decode (b64_encode s) = Some s"
  unfolding b64_decode_def b64_no_breaks by (rule b64_groups_encode)

end
