(* ===== verification/Types.thy ===== *)
theory Types
  imports GoStrings
begin

text \<open>
  The data model: the custom resources of \<open>pkg/crd/osm/v1alpha1\<close> and the fields of Kubernetes and
  machine-controller objects that the repository reads or writes. Record fields carry the Go
  field's name after a short prefix of their struct. \<open>DeepCopy\<close> is the identity on values.
\<close>

section \<open>Enumerations\<close>

text \<open>
  The Go types \<open>OperatingSystem\<close>, \<open>CloudProvider\<close>, \<open>ContainerRuntime\<close> and \<open>ProvisioningUtility\<close>
  are named strings: a value outside the constants is possible, and the code handles it.
\<close>

type_synonym OperatingSystem = string
type_synonym CloudProvider = string
type_synonym ContainerRuntime = string
type_synonym ProvisioningUtility = string

definition OperatingSystemFlatcar :: OperatingSystem where
  "OperatingSystemFlatcar = ''flatcar''"

definition OperatingSystemRHEL :: OperatingSystem where
  "OperatingSystemRHEL = ''rhel''"

definition OperatingSystemUbuntu :: OperatingSystem where
  "OperatingSystemUbuntu = ''ubuntu''"

definition OperatingSystemAmazonLinux2 :: OperatingSystem where
  "OperatingSystemAmazonLinux2 = ''amzn2''"

definition OperatingSystemRockyLinux :: OperatingSystem where
  "OperatingSystemRockyLinux = ''rockylinux''"

definition ProvisioningUtilityCloudInit :: ProvisioningUtility where
  "ProvisioningUtilityCloudInit = ''cloud-init''"

definition ProvisioningUtilityIgnition :: ProvisioningUtility where
  "ProvisioningUtilityIgnition = ''ignition''"

lemmas os_defs = OperatingSystemFlatcar_def OperatingSystemRHEL_def OperatingSystemUbuntu_def
  OperatingSystemAmazonLinux2_def OperatingSystemRockyLinux_def

lemmas provisioning_defs = ProvisioningUtilityCloudInit_def ProvisioningUtilityIgnition_def

section \<open>Files, units, modules\<close>

text \<open>\<open>runtime.RawExtension\<close>: its \<open>Raw\<close> bytes, nil or not.\<close>

type_synonym RawExtension = "string option"

type_synonym int32 = "32 word"

record FileContentInline =
  inl_Encoding :: string
  inl_Data :: string

text \<open>The \<open>Inline\<close> pointer of a file's content may be nil.\<close>

record File =
  file_Path :: string
  file_Permissions :: int32
  file_Inline :: "FileContentInline option"

record DropIn =
  dropin_Name :: string
  dropin_Content :: string

record Unit =
  unit_Name :: string
  unit_Enable :: "bool option"
  unit_Mask :: "bool option"
  unit_Content :: "string option"
  unit_DropIns :: "DropIn list"

record ContainerRuntimeSpec =
  crs_Name :: ContainerRuntime
  crs_Files :: "File list"
  crs_Templates :: strmap

record CloudInitModule =
  cim_BootCMD :: "string list"
  cim_RHSubscription :: strmap
  cim_RunCMD :: "string list"
  cim_YumRepos :: "(string \<times> strmap) list"
  cim_YumRepoDir :: string

definition emptyCloudInitModule :: CloudInitModule where
  "emptyCloudInitModule = \<lparr>cim_BootCMD = [], cim_RHSubscription = [], cim_RunCMD = [],
     cim_YumRepos = [], cim_YumRepoDir = []\<rparr>"

record CloudProviderSpec =
  cps_Name :: CloudProvider
  cps_Spec :: RawExtension

section \<open>OperatingSystemProfile and OperatingSystemConfig\<close>

record ObjectMeta =
  meta_Name :: string
  meta_Namespace :: string
  meta_Labels :: strmap
  meta_Annotations :: strmap

definition emptyMeta :: ObjectMeta where
  "emptyMeta = \<lparr>meta_Name = [], meta_Namespace = [], meta_Labels = [], meta_Annotations = []\<rparr>"

record OSPConfig =
  ospc_SupportedContainerRuntimes :: "ContainerRuntimeSpec list"
  ospc_Templates :: strmap
  ospc_Units :: "Unit list"
  ospc_Files :: "File list"
  ospc_CloudInitModules :: "CloudInitModule option"

record OperatingSystemProfileSpec =
  osps_OSName :: OperatingSystem
  osps_OSVersion :: string
  osps_Version :: string
  osps_SupportedCloudProviders :: "CloudProviderSpec list"
  osps_BootstrapConfig :: OSPConfig
  osps_ProvisioningConfig :: OSPConfig
  osps_ProvisioningUtility :: ProvisioningUtility

record OperatingSystemProfile =
  osp_meta :: ObjectMeta
  osp_Spec :: OperatingSystemProfileSpec

record OSCConfig =
  oscc_Units :: "Unit list"
  oscc_Files :: "File list"
  oscc_UserSSHKeys :: "string list"
  oscc_CloudInitModules :: "CloudInitModule option"

record OperatingSystemConfigSpec =
  oscs_OSName :: OperatingSystem
  oscs_OSVersion :: string
  oscs_CloudProvider :: CloudProviderSpec
  oscs_BootstrapConfig :: OSCConfig
  oscs_ProvisioningConfig :: OSCConfig
  oscs_ProvisioningUtility :: ProvisioningUtility

record OperatingSystemConfig =
  osc_meta :: ObjectMeta
  osc_Spec :: OperatingSystemConfigSpec

section \<open>Kubernetes and machine-controller objects\<close>

text \<open>
  A MachineDeployment with the fields the code uses. \<open>md_ProviderSpecValue\<close> is
  \<open>Spec.Template.Spec.ProviderSpec.Value\<close>, a pointer to raw JSON; \<open>md_Kubelet\<close> is
  \<open>Spec.Template.Spec.Versions.Kubelet\<close>.
\<close>

record MachineDeployment =
  md_meta :: ObjectMeta
  md_Finalizers :: "string list"
  md_DeletionTimestamp :: "int option"
  md_ProviderSpecValue :: "RawExtension option"
  md_Kubelet :: string

record Secret =
  secret_meta :: ObjectMeta
  secret_Type :: string
  secret_Data :: strmap
  secret_Immutable :: "bool option"

record ConfigMap =
  cm_meta :: ObjectMeta
  cm_Data :: strmap

record ServiceAccount =
  sa_meta :: ObjectMeta
  sa_Secrets :: "string list"

record EndpointPort =
  ep_Name :: "string option"
  ep_Port :: "int32 option"

record Endpoint =
  ep_Addresses :: "string list"
  ep_Ready :: "bool option"

record EndpointSlice =
  eps_meta :: ObjectMeta
  eps_Ports :: "EndpointPort list"
  eps_Endpoints :: "Endpoint list"

abbreviation md_Name :: "MachineDeployment \<Rightarrow> string" where
  "md_Name md \<equiv> meta_Name (md_meta md)"

abbreviation md_Namespace :: "MachineDeployment \<Rightarrow> string" where
  "md_Namespace md \<equiv> meta_Namespace (md_meta md)"

abbreviation md_Annotations :: "MachineDeployment \<Rightarrow> strmap" where
  "md_Annotations md \<equiv> meta_Annotations (md_meta md)"

abbreviation osc_Annotations :: "OperatingSystemConfig \<Rightarrow> strmap" where
  "osc_Annotations osc \<equiv> meta_Annotations (osc_meta osc)"

abbreviation osp_Version :: "OperatingSystemProfile \<Rightarrow> string" where
  "osp_Version osp \<equiv> osps_Version (osp_Spec osp)"

section \<open>Kubeconfigs\<close>

text \<open>
  The fields of \<open>clientcmdapi.Config\<close> the repository sets or reads. \<open>Clusters\<close> maps names to
  pointers, which may be nil.
\<close>

record Cluster =
  cl_Server :: string
  cl_CertificateAuthorityData :: string

record Kubeconfig =
  kc_Clusters :: "(string \<times> Cluster option) list"
  kc_AuthInfos :: strmap
  kc_Contexts :: "(string \<times> (string \<times> string)) list"
  kc_CurrentContext :: string

end
