(* ===== verification/GoJson.thy ===== *)
theory GoJson
  imports GoStrings
begin

text \<open>
  The part of \<open>encoding/json\<close> the repository uses: documents, \<open>Marshal\<close> with its HTML escaping,
  the syntax accepted by \<open>Unmarshal\<close> and by a \<open>Decoder\<close>, and the decoding of an object into the
  fields of a struct. Text is taken to be valid UTF-8, as everything an API server hands out is.
  The parser is fuelled; \<open>json_parse\<close> gives it twice the length of its input, of which every
  nested call uses at most two per character read.
\<close>

datatype json =
    JNull
  | JBool bool
  | JNum string
  | JStr string
  | JArr "json list"
  | JObj "(string \<times> json) list"

section \<open>Writing\<close>

definition u_escape :: "nat \<Rightarrow> string" where
  "u_escape n = CHR 0x5C # ''u'' @ [hex_digit (n div 4096 mod 16), hex_digit (n div 256 mod 16),
     hex_digit (n div 16 mod 16), hex_digit (n mod 16)]"

definition esc_char :: "char \<Rightarrow> string" where
  "esc_char c =
     (if c = CHR 0x22 then [CHR 0x5C, CHR 0x22]
      else if c = CHR 0x5C then [CHR 0x5C, CHR 0x5C]
      else if c = CHR 0x08 then [CHR 0x5C, CHR ''b'']
      else if c = CHR 0x0C then [CHR 0x5C, CHR ''f'']
      else if c = CHR 0x0A then [CHR 0x5C, CHR ''n'']
      else if c = CHR 0x0D then [CHR 0x5C, CHR ''r'']
      else if c = CHR 0x09 then [CHR 0x5C, CHR ''t'']
      else if (of_char c :: nat) < 32 \<or> c \<in> {CHR ''<'', CHR ''>'', CHR ''&''} then u_escape (of_char c)
      else [c])"

text \<open>U+2028 and U+2029, the three bytes E2 80 A8 and E2 80 A9, are escaped too.\<close>

fun json_escape :: "string \<Rightarrow> string" where
  "json_escape [] = []"
| "json_escape (a # b # c # s) =
     (if a = CHR 0xE2 \<and> b = CHR 0x80 \<and> c = CHR 0xA8 then u_escape 8232 @ json_escape s
      else if a = CHR 0xE2 \<and> b = CHR 0x80 \<and> c = CHR 0xA9 then u_escape 8233 @ json_escape s
      else esc_char a @ json_escape (b # c # s))"
| "json_escape (a # s) = esc_char a @ json_escape s"

definition json_quote :: "string \<Rightarrow> string" where
  "json_quote s = CHR 0x22 # json_escape s @ [CHR 0x22]"

fun json_print :: "json \<Rightarrow> string" where
  "json_print JNull = ''null''"
| "json_print (JBool b) = FormatBool b"
| "json_print (JNum n) = n"
| "json_print (JStr s) = json_quote s"
| "json_print (JArr js) = ''['' @ Join '','' (map json_print js) @ '']''"
| "json_print (JObj ms) =
     ''{'' @ Join '','' (map (\<lambda>(k, j). json_quote k @ '':'' @ json_print j) ms) @ ''}''"

text \<open>\<open>json.Marshal\<close> of a \<open>map[string]string\<close>: the keys in sorted order.\<close>

definition marshal_strmap :: "strmap \<Rightarrow> string" where
  "marshal_strmap m = json_print (JObj (map (\<lambda>k. (k, JStr (mget m k))) (sorted_keys m)))"

section \<open>Reading\<close>

definition is_ws :: "char \<Rightarrow> bool" where
  "is_ws c \<longleftrightarrow> c \<in> {CHR '' '', CHR 0x09, CHR 0x0A, CHR 0x0D}"

definition skip_ws :: "string \<Rightarrow> string" where
  "skip_ws s = dropWhile is_ws s"

definition hex4 :: "char \<Rightarrow> char \<Rightarrow> char \<Rightarrow> char \<Rightarrow> nat option" where
  "hex4 a b c d =
     (case (hex_val a, hex_val b, hex_val c, hex_val d) of
        (Some w, Some x, Some y, Some z) \<Rightarrow> Some (4096 * w + 256 * x + 16 * y + z)
      | _ \<Rightarrow> None)"

definition utf8 :: "nat \<Rightarrow> string" where
  "utf8 n = map char_of
     (if n < 128 then [n]
      else if n < 2048 then [192 + n div 64, 128 + n mod 64]
      else if n < 65536 then [224 + n div 4096, 128 + n div 64 mod 64, 128 + n mod 64]
      else [240 + n div 262144, 128 + n div 4096 mod 64, 128 + n div 64 mod 64, 128 + n mod 64])"

definition high_surrogate :: "nat \<Rightarrow> bool" where
  "high_surrogate n \<longleftrightarrow> 55296 \<le> n \<and> n < 56320"

definition low_surrogate :: "nat \<Rightarrow> bool" where
  "low_surrogate n \<longleftrightarrow> 56320 \<le> n \<and> n < 57344"

definition simple_escape :: "char \<Rightarrow> char option" where
  "simple_escape e =
     (if e \<in> {CHR 0x22, CHR 0x5C, CHR ''/''} then Some e
      else if e = CHR ''b'' then Some (CHR 0x08)
      else if e = CHR ''f'' then Some (CHR 0x0C)
      else if e = CHR ''n'' then Some (CHR 0x0A)
      else if e = CHR ''r'' then Some (CHR 0x0D)
      else if e = CHR ''t'' then Some (CHR 0x09)
      else None)"

text \<open>
  The body of a string literal up to its closing quote. A surrogate pair is one code point, a
  lone surrogate the replacement character.
\<close>

fun pstr :: "string \<Rightarrow> (string \<times> string) option" where
  "pstr [] = None"
| "pstr (c # s) =
     (if c = CHR 0x22 then Some ([], s)
      else if c = CHR 0x5C then
        (case s of
           [] \<Rightarrow> None
         | e # t \<Rightarrow>
             (if e = CHR ''u'' then
                (case t of
                   h1 # h2 # h3 # h4 # r \<Rightarrow>
                     (case hex4 h1 h2 h3 h4 of
                        None \<Rightarrow> None
                      | Some n \<Rightarrow>
                          (case r of
                             b # u # g1 # g2 # g3 # g4 # r' \<Rightarrow>
                               (if high_surrogate n \<and> b = CHR 0x5C \<and> u = CHR ''u'' then
                                  (case hex4 g1 g2 g3 g4 of
                                     None \<Rightarrow> None
                                   | Some m \<Rightarrow>
                                       (if low_surrogate m then
                                          map_option (apfst (append
                                            (utf8 (65536 + (n - 55296) * 1024 + (m - 56320))))) (pstr r')
                                        else map_option (apfst (append (utf8 65533))) (pstr r)))
                                else map_option (apfst (append
                                       (utf8 (if high_surrogate n \<or> low_surrogate n then 65533 else n))))
                                     (pstr r))
                           | _ \<Rightarrow>
                               map_option (apfst (append
                                 (utf8 (if high_surrogate n \<or> low_surrogate n then 65533 else n))))
                               (pstr r)))
                 | _ \<Rightarrow> None)
              else (case simple_escape e of
                  None \<Rightarrow> None
                | Some x \<Rightarrow> map_option (apfst (Cons x)) (pstr t))))
      else if (of_char c :: nat) < 32 then None
      else map_option (apfst (Cons c)) (pstr s))"

text \<open>Numbers: \<open>-?(0|[1-9][0-9]*)(\.[0-9]+)?([eE][+-]?[0-9]+)?\<close>, kept as text.\<close>

definition pdigits :: "string \<Rightarrow> (string \<times> string) option" where
  "pdigits s = (if takeWhile is_digit s = [] then None
                else Some (takeWhile is_digit s, dropWhile is_digit s))"

definition pint :: "string \<Rightarrow> (string \<times> string) option" where
  "pint s = (case s of
       c # r \<Rightarrow> if c = CHR ''0'' then Some ([c], r) else pdigits s
     | [] \<Rightarrow> None)"

definition pfrac :: "string \<Rightarrow> (string \<times> string) option" where
  "pfrac s = (case s of
       c # r \<Rightarrow> if c = CHR ''.'' then map_option (apfst (Cons c)) (pdigits r) else Some ([], s)
     | [] \<Rightarrow> Some ([], s))"

definition pexp :: "string \<Rightarrow> (string \<times> string) option" where
  "pexp s = (case s of
       c # r \<Rightarrow>
         (if c \<in> {CHR ''e'', CHR ''E''} then
            (case r of
               d # t \<Rightarrow> if d \<in> {CHR ''+'', CHR ''-''} then map_option (apfst (append [c, d])) (pdigits t)
                        else map_option (apfst (Cons c)) (pdigits r)
             | [] \<Rightarrow> None)
          else Some ([], s))
     | [] \<Rightarrow> Some ([], s))"

definition pnum :: "string \<Rightarrow> (string \<times> string) option" where
  "pnum s =
     (let (sign, s1) = (case s of c # r \<Rightarrow> if c = CHR ''-'' then ([c], r) else ([], s) | [] \<Rightarrow> ([], s)) in
      case pint s1 of None \<Rightarrow> None | Some (i, s2) \<Rightarrow>
      (case pfrac s2 of None \<Rightarrow> None | Some (f, s3) \<Rightarrow>
       (case pexp s3 of None \<Rightarrow> None | Some (e, s4) \<Rightarrow> Some (sign @ i @ f @ e, s4))))"

fun pval :: "nat \<Rightarrow> string \<Rightarrow> (json \<times> string) option"
  and parr :: "nat \<Rightarrow> string \<Rightarrow> (json list \<times> string) option"
  and pmem :: "nat \<Rightarrow> string \<Rightarrow> ((string \<times> json) list \<times> string) option" where
  "pval 0 s = None"
| "pval (Suc n) s =
     (case skip_ws s of
        [] \<Rightarrow> None
      | c # r \<Rightarrow>
          (if c = CHR 0x22 then map_option (apfst JStr) (pstr r)
           else if c = CHR ''{'' then
             (case skip_ws r of
                [] \<Rightarrow> None
              | d # t \<Rightarrow> if d = CHR ''}'' then Some (JObj [], t) else map_option (apfst JObj) (pmem n (d # t)))
           else if c = CHR ''['' then
             (case skip_ws r of
                [] \<Rightarrow> None
              | d # t \<Rightarrow> if d = CHR '']'' then Some (JArr [], t) else map_option (apfst JArr) (parr n (d # t)))
           else if prefix ''null'' (c # r) then Some (JNull, drop 4 (c # r))
           else if prefix ''true'' (c # r) then Some (JBool True, drop 4 (c # r))
           else if prefix ''false'' (c # r) then Some (JBool False, drop 5 (c # r))
           else map_option (apfst JNum) (pnum (c # r))))"
| "parr 0 s = None"
| "parr (Suc n) s =
     (case pval n s of
        None \<Rightarrow> None
      | Some (j, r) \<Rightarrow>
          (case skip_ws r of
             [] \<Rightarrow> None
           | d # t \<Rightarrow> if d = CHR '','' then map_option (apfst (Cons j)) (parr n t)
                      else if d = CHR '']'' then Some ([j], t) else None))"
| "pmem 0 s = None"
| "pmem (Suc n) s =
     (case skip_ws s of
        [] \<Rightarrow> None
      | c # r \<Rightarrow>
          (if c \<noteq> CHR 0x22 then None else
           (case pstr r of
              None \<Rightarrow> None
            | Some (k, r1) \<Rightarrow>
                (case skip_ws r1 of
                   [] \<Rightarrow> None
                 | col # r2 \<Rightarrow>
                     (if col \<noteq> CHR '':'' then None else
                      (case pval n r2 of
                         None \<Rightarrow> None
                       | Some (j, r3) \<Rightarrow>
                           (case skip_ws r3 of
                              [] \<Rightarrow> None
                            | d # t \<Rightarrow> if d = CHR '','' then map_option (apfst (Cons (k, j))) (pmem n t)
                                       else if d = CHR ''}'' then Some ([(k, j)], t) else None)))))))"

definition json_fuel :: "string \<Rightarrow> nat" where
  "json_fuel s = 2 * length s + 2"

text \<open>
  The scanner refuses a document with more than 10000 arrays and objects open at once (\<open>maxNestingDepth\<close>).
  As a document that is nested too deeply is refused whatever else is in it, the check can come after the parser.
\<close>

fun nestedWithin :: "int \<Rightarrow> json \<Rightarrow> bool" where
  "nestedWithin n (JArr js) \<longleftrightarrow> 0 < n \<and> list_all (nestedWithin (n - 1)) js"
| "nestedWithin n (JObj ms) \<longleftrightarrow> 0 < n \<and> list_all (\<lambda>(k, j). nestedWithin (n - 1) j) ms"
| "nestedWithin n j \<longleftrightarrow> True"

definition maxNestingDepth :: int where
  "maxNestingDepth = 10000"

text \<open>\<open>json.Unmarshal\<close> wants one document and nothing after it; a \<open>Decoder\<close> reads the first one.\<close>

definition json_parse :: "string \<Rightarrow> json option" where
  "json_parse s = (case pval (json_fuel s) s of
       None \<Rightarrow> None
     | Some (j, r) \<Rightarrow> if skip_ws r = [] \<and> nestedWithin maxNestingDepth j then Some j else None)"

definition json_decode_first :: "string \<Rightarrow> json option" where
  "json_decode_first s = (case pval (json_fuel s) s of
       None \<Rightarrow> None
     | Some (j, r) \<Rightarrow> if nestedWithin maxNestingDepth j then Some j else None)"

section \<open>Decoding into a struct\<close>

text \<open>
  A member of an object goes to the field whose name it matches up to ASCII case; the last
  match wins, \<open>null\<close> leaves a scalar as it is, a value of the wrong type is an error.
\<close>

definition lower_char :: "char \<Rightarrow> char" where
  "lower_char c =
     (let n = (of_char c :: nat) in if 65 \<le> n \<and> n \<le> 90 then char_of (n + 32) else c)"

definition fold_name :: "string \<Rightarrow> string" where
  "fold_name = map lower_char"

definition mismatch :: "string \<Rightarrow> error" where
  "mismatch name = Errorf ''json: cannot unmarshal value into Go struct field'' [name]"

fun decode_field :: "(json \<Rightarrow> 'a option) \<Rightarrow> string \<Rightarrow> (string \<times> json) list \<Rightarrow> 'a \<Rightarrow> 'a res" where
  "decode_field f name [] v = Inr v"
| "decode_field f name ((k, j) # ms) v =
     (if fold_name k = fold_name name \<and> j \<noteq> JNull then
        (case f j of
           None \<Rightarrow> Inl (mismatch name)
         | Some v' \<Rightarrow> decode_field f name ms v')
      else decode_field f name ms v)"

fun as_bool :: "json \<Rightarrow> bool option" where
  "as_bool (JBool b) = Some b"
| "as_bool _ = None"

fun as_string :: "json \<Rightarrow> string option" where
  "as_string (JStr s) = Some s"
| "as_string _ = None"

text \<open>The members a document offers to a struct: \<open>null\<close> offers none.\<close>

fun members :: "json \<Rightarrow> (string \<times> json) list res" where
  "members (JObj ms) = Inr ms"
| "members JNull = Inr []"
| "members _ = Inl (Errorf ''json: cannot unmarshal value into Go value of struct type'' [])"

definition Unmarshal :: "((string \<times> json) list \<Rightarrow> 'a res) \<Rightarrow> string \<Rightarrow> 'a res" where
  "Unmarshal dec raw =
     (case json_parse raw of
        None \<Rightarrow> Inl (Errorf ''invalid JSON'' [])
      | Some j \<Rightarrow> bindR (members j) dec)"

text \<open>
  \<open>pkg/util/json.StrictUnmarshal\<close>: a \<open>Decoder\<close> reads the first document of the buffer and ignores
  what follows; \<open>dec\<close> is the struct's decoding, told to refuse unknown fields.
\<close>

definition StrictUnmarshal :: "(bool \<Rightarrow> (string \<times> json) list \<Rightarrow> 'a res) \<Rightarrow> string \<Rightarrow> 'a res" where
  "StrictUnmarshal dec buf =
     (case json_decode_first buf of
        None \<Rightarrow> Inl (Errorf ''invalid JSON'' [])
      | Some j \<Rightarrow> bindR (members j) (dec True))"

text \<open>The members of the objects under a name, for a struct inside a struct.\<close>

fun nested :: "string \<Rightarrow> (string \<times> json) list \<Rightarrow> (string \<times> json) list res" where
  "nested name [] = Inr []"
| "nested name ((k, j) # ms) =
     (if fold_name k = fold_name name
      then bindR (members j) (\<lambda>m. bindR (nested name ms) (\<lambda>n. Inr (m @ n)))
      else nested name ms)"

text \<open>A slice of strings, in which \<open>null\<close> is the empty string, and an unsigned integer.\<close>

fun as_strings :: "json \<Rightarrow> string list option" where
  "as_strings (JArr js) =
     (if list_all (\<lambda>j. j = JNull \<or> as_string j \<noteq> None) js
      then Some (map (\<lambda>j. case as_string j of None \<Rightarrow> [] | Some s \<Rightarrow> s) js) else None)"
| "as_strings _ = None"

fun as_uint :: "json \<Rightarrow> nat option" where
  "as_uint (JNum n) = (case read_nat n of None \<Rightarrow> None | Some k \<Rightarrow> if k < 2 ^ 64 then Some k else None)"
| "as_uint _ = None"

section \<open>Reading what was written\<close>

text \<open>The parser gives back every document without numbers that \<open>json_print\<close> wrote.\<close>


lemma hex_val_digit [simp]: "hex_val (hex_digit m) = Some (m mod 16)"
proof -
  have "\<forall>k < 16. hex_val (''0123456789abcdef'' ! k) = Some k" by code_simp
  then show ?thesis by (simp add: hex_digit_def)
qed

lemma hex4_digits:
  assumes "n < 65536"
  shows "hex4 (hex_digit (n div 4096 mod 16)) (hex_digit (n div 256 mod 16)) (hex_digit (n div 16 mod 16))
    (hex_digit (n mod 16)) = Some n"
proof -
  have "n div 4096 mod 16 = n div 4096" using assms by (simp add: less_mult_imp_div_less)
  moreover have "4096 * (n div 4096) + 256 * (n div 256 mod 16) + 16 * (n div 16 mod 16) + n mod 16 = n"
  proof -
    have "n div 4096 = n div 256 div 16" "n div 256 = n div 16 div 16" by (simp_all flip: div_mult2_eq)
    then have "16 * (n div 4096) + n div 256 mod 16 = n div 256"
      "16 * (n div 256) + n div 16 mod 16 = n div 16" "16 * (n div 16) + n mod 16 = n" by simp_all
    then show ?thesis by linarith
  qed
  ultimately show ?thesis by (simp add: hex4_def)
qed

lemma pstr_u:
  assumes "hex4 a b c d = Some n" "\<not> high_surrogate n" "\<not> low_surrogate n"
  shows "pstr (CHR 0x5C # CHR ''u'' # a # b # c # d # t) = map_option (apfst (append (utf8 n))) (pstr t)"
proof -
  have ne: "(CHR 0x5C :: char) \<noteq> CHR 0x22" by simp
  show ?thesis
    unfolding pstr.simps(2) [of "CHR 0x5C"]
    by (simp add: assms ne del: pstr.simps split: list.split)
qed

lemma pstr_u_escape:
  assumes "n < 65536" "\<not> high_surrogate n" "\<not> low_surrogate n"
  shows "pstr (u_escape n @ t) = map_option (apfst (append (utf8 n))) (pstr t)"
  unfolding u_escape_def append_Cons append_Nil by (rule pstr_u [OF hex4_digits [OF assms(1)] assms(2,3)])

lemma utf8_small: "n < 128 \<Longrightarrow> utf8 n = [char_of n]"
  by (simp add: utf8_def)

lemma Cons_append: "(@) [c] = (#) c"
  by (rule ext) simp

lemma pstr_plain:
  "c \<noteq> CHR 0x22 \<Longrightarrow> c \<noteq> CHR 0x5C \<Longrightarrow> \<not> (of_char c :: nat) < 32 \<Longrightarrow>
   pstr (c # t) = map_option (apfst (Cons c)) (pstr t)"
  unfolding pstr.simps(2) [of c] by (simp del: pstr.simps)

lemma pstr_simple:
  assumes "simple_escape e = Some x"
  shows "pstr (CHR 0x5C # e # t) = map_option (apfst (Cons x)) (pstr t)"
proof -
  have "e \<noteq> CHR ''u''" using assms by (rule contrapos_pn) (simp add: simple_escape_def)
  with assms show ?thesis
    unfolding pstr.simps(2) [of "CHR 0x5C"] by (simp del: pstr.simps)
qed

lemma esc_char_cases:
  obtains (simple) e where "esc_char c = [CHR 0x5C, e]" "simple_escape e = Some c"
  | (unicode) "esc_char c = u_escape (of_char c)" "(of_char c :: nat) < 128"
  | (plain) "esc_char c = [c]" "c \<noteq> CHR 0x22" "c \<noteq> CHR 0x5C" "\<not> (of_char c :: nat) < 32"
proof -
  have esc: "(\<exists>e. esc_char c = [CHR 0x5C, e] \<and> simple_escape e = Some c)"
    if "c \<in> {CHR 0x22, CHR 0x5C, CHR 0x08, CHR 0x0C, CHR 0x0A, CHR 0x0D, CHR 0x09}"
    using that by (elim insertE emptyE) (simp_all add: esc_char_def simple_escape_def)
  show thesis
  proof (cases "c \<in> {CHR 0x22, CHR 0x5C, CHR 0x08, CHR 0x0C, CHR 0x0A, CHR 0x0D, CHR 0x09}")
    case True
    with esc simple show ?thesis by blast
  next
    case rest: False
    show ?thesis
    proof (cases "(of_char c :: nat) < 32 \<or> c \<in> {CHR ''<'', CHR ''>'', CHR ''&''}")
      case True
      then have "(of_char c :: nat) < 128" by auto
      moreover have "esc_char c = u_escape (of_char c)" using rest True by (simp add: esc_char_def)
      ultimately show ?thesis by (rule unicode [rotated])
    next
      case False
      then have "esc_char c = [c]" using rest by (simp add: esc_char_def)
      then show ?thesis by (rule plain) (use rest False in simp_all)
    qed
  qed
qed

lemma pstr_esc_char: "pstr (esc_char c @ t) = map_option (apfst (Cons c)) (pstr t)"
proof (cases c rule: esc_char_cases)
  case (simple e)
  then show ?thesis by (simp add: pstr_simple del: pstr.simps)
next
  case unicode
  have "pstr (u_escape (of_char c) @ t) = map_option (apfst (append (utf8 (of_char c)))) (pstr t)"
    by (rule pstr_u_escape) (use unicode in \<open>simp_all add: high_surrogate_def low_surrogate_def\<close>)
  with unicode show ?thesis by (simp add: utf8_small Cons_append)
next
  case plain
  then show ?thesis by (simp add: pstr_plain del: pstr.simps)
qed

lemma apfst_apfst: "map_option (apfst f) (map_option (apfst g) x) = map_option (apfst (\<lambda>z. f (g z))) x"
  by (cases x) auto

lemma apfst_id: "map_option (apfst (\<lambda>z. z)) x = x"
  by (cases x) auto

lemma utf8_separators:
  "utf8 8232 = [CHR 0xE2, CHR 0x80, CHR 0xA8]" "utf8 8233 = [CHR 0xE2, CHR 0x80, CHR 0xA9]"
  by (simp_all add: utf8_def char_of_def bit_0)

lemma pstr_json_escape: "pstr (json_escape s @ t) = map_option (apfst (\<lambda>z. s @ z)) (pstr t)"
proof (induction s rule: json_escape.induct)
  case (2 a b c s)
  note IH = this
  consider "a = CHR 0xE2 \<and> b = CHR 0x80 \<and> c = CHR 0xA8" | "a = CHR 0xE2 \<and> b = CHR 0x80 \<and> c = CHR 0xA9"
    | "\<not> (a = CHR 0xE2 \<and> b = CHR 0x80 \<and> c = CHR 0xA8)" "\<not> (a = CHR 0xE2 \<and> b = CHR 0x80 \<and> c = CHR 0xA9)" by blast
  then show ?case
  proof cases
    case 1
    with IH(1) [OF 1] show ?thesis
      by (simp add: pstr_u_escape high_surrogate_def low_surrogate_def apfst_apfst utf8_separators del: pstr.simps)
  next
    case 2
    with IH(2) show ?thesis
      by (simp add: pstr_u_escape high_surrogate_def low_surrogate_def apfst_apfst utf8_separators del: pstr.simps)
  next
    case 3
    then have "json_escape (a # b # c # s) = esc_char a @ json_escape (b # c # s)"
      by (simp only: json_escape.simps if_False)
    with IH(3) [OF 3] show ?thesis by (simp add: pstr_esc_char apfst_apfst del: pstr.simps json_escape.simps)
  qed
qed (simp_all add: pstr_esc_char apfst_apfst apfst_id Cons_append del: pstr.simps)

lemma pstr_quote: "pstr (json_escape s @ CHR 0x22 # t) = Some (s, t)"
  by (simp add: pstr_json_escape)

fun num_free :: "json \<Rightarrow> bool" where
  "num_free (JNum n) = False"
| "num_free (JArr js) = list_all num_free js"
| "num_free (JObj ms) = list_all (\<lambda>(k, j). num_free j) ms"
| "num_free _ = True"

lemma skip_ws_Cons [simp]: "\<not> is_ws c \<Longrightarrow> skip_ws (c # s) = c # s"
  by (simp add: skip_ws_def)

lemma json_print_head:
  assumes "num_free j"
  obtains c r where "json_print j = c # r" "\<not> is_ws c" "c \<notin> {CHR ''}'', CHR '']''}"
proof (cases j)
  case (JBool b)
  then show ?thesis using that by (cases b) (auto simp: FormatBool_def is_ws_def)
qed (use assms that in \<open>auto simp: json_quote_def is_ws_def\<close>)

lemma Join_head: "length x \<le> length (Join sep (x # xs))"
  by (cases xs) auto

lemma parr_print:
  assumes "\<And>j n t. j \<in> set js \<Longrightarrow> length (json_print j) \<le> n \<Longrightarrow> pval n (json_print j @ t) = Some (j, t)"
    and "js \<noteq> []" "length (Join '','' (map json_print js)) < n"
  shows "parr n (Join '','' (map json_print js) @ CHR '']'' # t) = Some (js, t)"
  using assms
proof (induction js arbitrary: n)
  case (Cons j js)
  obtain m where n: "n = Suc m" using Cons.prems by (cases n) auto
  show ?case
  proof (cases js)
    case Nil
    with Cons.prems n show ?thesis by (simp add: is_ws_def)
  next
    case (Cons k ks)
    have v: "pval m (json_print j @ r) = Some (j, r)" for r
      by (rule Cons.prems) (use Cons.prems n Cons in auto)
    moreover have "parr m (Join '','' (map json_print js) @ CHR '']'' # t) = Some (js, t)"
      by (rule Cons.IH) (use Cons.prems n Cons in auto)
    ultimately show ?thesis using n Cons by (simp add: is_ws_def)
  qed
qed simp

lemma pmem_print:
  assumes "\<And>k j n t. (k, j) \<in> set ms \<Longrightarrow> length (json_print j) \<le> n \<Longrightarrow> pval n (json_print j @ t) = Some (j, t)"
    and "ms \<noteq> []" "length (Join '','' (map (\<lambda>(k, j). json_quote k @ '':'' @ json_print j) ms)) < n"
  shows "pmem n (Join '','' (map (\<lambda>(k, j). json_quote k @ '':'' @ json_print j) ms) @ CHR ''}'' # t) = Some (ms, t)"
  using assms
proof (induction ms arbitrary: n)
  case (Cons m ms)
  obtain k j where m: "m = (k, j)" by (cases m)
  obtain f where n: "n = Suc f" using Cons.prems by (cases n) auto
  have v: "pval f (json_print j @ r) = Some (j, r)" for r
    by (rule Cons.prems(1) [of k])
      (use Cons.prems(3) n m
         Join_head [of "json_quote k @ CHR '':'' # json_print j" "'',''"
           "map (\<lambda>(k, j). json_quote k @ CHR '':'' # json_print j) ms"] in auto)
  show ?case
  proof (cases ms)
    case Nil
    with v m n show ?thesis by (simp add: is_ws_def json_quote_def pstr_quote)
  next
    case tail: (Cons q qs)
    have "pmem f (Join '','' (map (\<lambda>(k, j). json_quote k @ '':'' @ json_print j) ms) @ CHR ''}'' # t) = Some (ms, t)"
      by (rule Cons.IH) (use Cons.prems n tail m in auto)
    with v m n tail show ?thesis by (simp add: is_ws_def json_quote_def pstr_quote)
  qed
qed simp

lemma pval_print:
  "num_free j \<Longrightarrow> length (json_print j) \<le> n \<Longrightarrow> pval n (json_print j @ t) = Some (j, t)"
proof (induction j arbitrary: n t)
  case JNull
  then show ?case by (cases n) (auto simp: is_ws_def)
next
  case (JBool b)
  then show ?case by (cases n; cases b) (auto simp: is_ws_def FormatBool_def)
next
  case (JNum x)
  then show ?case by simp
next
  case (JStr s)
  then show ?case by (cases n) (auto simp: is_ws_def json_quote_def pstr_quote)
next
  case (JArr js)
  obtain m where n: "n = Suc m" using JArr.prems by (cases n) auto
  show ?case
  proof (cases js)
    case Nil
    with n show ?thesis by (simp add: is_ws_def)
  next
    case (Cons k ks)
    have "num_free k" using JArr.prems Cons by simp
    then obtain c r where c: "json_print k = c # r" "\<not> is_ws c" "c \<notin> {CHR ''}'', CHR '']''}"
      by (rule json_print_head)
    then have "\<exists>r'. Join '','' (map json_print js) @ CHR '']'' # t = c # r'"
      using Cons by (cases ks) auto
    moreover have "parr m (Join '','' (map json_print js) @ CHR '']'' # t) = Some (js, t)"
      by (rule parr_print) (use JArr n Cons in \<open>auto simp: list_all_iff\<close>)
    ultimately show ?thesis using c n by (auto simp: is_ws_def [of "CHR ''[''"] simp del: parr.simps)
  qed
next
  case (JObj ms)
  obtain m where n: "n = Suc m" using JObj.prems by (cases n) auto
  show ?case
  proof (cases ms)
    case Nil
    with n show ?thesis by (simp add: is_ws_def)
  next
    case (Cons k ks)
    let ?b = "Join '','' (map (\<lambda>(k, j). json_quote k @ '':'' @ json_print j) ms) @ CHR ''}'' # t"
    have "\<exists>r. ?b = CHR 0x22 # r"
      using Cons by (cases ks) (auto simp: json_quote_def split: prod.splits)
    moreover have "pval i (json_print j @ u) = Some (j, u)"
      if "(k, j) \<in> set ms" "length (json_print j) \<le> i" for k j i u
      using JObj.IH [of "(k, j)" j i u] JObj.prems(1) that by (auto simp: list_all_iff)
    then have "pmem m ?b = Some (ms, t)"
      by (rule pmem_print) (use JObj.prems n Cons in auto)
    ultimately show ?thesis using n
      by (auto simp: is_ws_def [of "CHR ''{''"] is_ws_def [of "CHR 0x22"] simp del: pmem.simps)
  qed
qed

lemma json_parse_print: "num_free j \<Longrightarrow> nestedWithin maxNestingDepth j \<Longrightarrow> json_parse (json_print j) = Some j"
  using pval_print [of j "json_fuel (json_print j)" "[]"]
  by (simp add: json_parse_def json_fuel_def skip_ws_def)

text \<open>Documents without inner arrays and objects are not deep.\<close>

fun flat :: "json \<Rightarrow> bool" where
  "flat (JArr js) = False"
| "flat (JObj ms) = False"
| "flat j = True"

lemma flat_nested [simp]: "flat j \<Longrightarrow> nestedWithin n j"
  by (cases j) simp_all

lemma nested_flat: "list_all (\<lambda>(k, j). flat j) ms \<Longrightarrow> nestedWithin maxNestingDepth (JObj ms)"
  by (auto simp: maxNestingDepth_def list_all_iff)

lemma Unmarshal_print: "num_free (JObj ms) \<Longrightarrow> list_all (\<lambda>(k, j). flat j) ms \<Longrightarrow> Unmarshal dec (json_print (JObj ms)) = dec ms"
  by (simp only: Unmarshal_def json_parse_print nested_flat option.case members.simps bindR_simps)

lemma json_decode_first_print: "num_free j \<Longrightarrow> nestedWithin maxNestingDepth j \<Longrightarrow> json_decode_first (json_print j) = Some j"
  using pval_print [of j "json_fuel (json_print j)" "[]"]
  by (simp add: json_decode_first_def json_fuel_def)

lemma StrictUnmarshal_print:
  "num_free (JObj ms) \<Longrightarrow> list_all (\<lambda>(k, j). flat j) ms \<Longrightarrow> StrictUnmarshal dec (json_print (JObj ms)) = dec True ms"
  by (simp only: StrictUnmarshal_def json_decode_first_print nested_flat option.case members.simps bindR_simps)

end
