(* ===== verification/MachineController.thy ===== *)
theory MachineController
  imports Types GoJson
begin

text \<open>
  What the repository takes from the machine-controller SDK, code that is not under \<open>src/\<close>: its
  constants, the decoding of a \<open>providerconfig.Config\<close>, and the resolver of configuration
  variables. All of it is a parameter: the record \<open>sdk\<close> and the record \<open>resolver\<close>, whose functions
  give the values that the environment and the referenced secrets have when they are asked.
\<close>

text \<open>
  The network settings are only handed to the templates and to two methods of the SDK, so their
  JSON stands for them.
\<close>

type_synonym NetworkConfig = json

record ProviderConfig =
  pc_SSHPublicKeys :: "string list"
  pc_CloudProvider :: string
  pc_CloudProviderSpec :: RawExtension
  pc_OperatingSystem :: string
  pc_OperatingSystemSpec :: RawExtension
  pc_Network :: "NetworkConfig option"
  pc_OverwriteCloudConfig :: "string option"

record sdk =
  RevisionAnnotation :: string
  KubeletConfigAnnotationPrefixV1 :: string
  KubeReservedKubeletConfig :: string
  SystemReservedKubeletConfig :: string
  EvictionHardKubeletConfig :: string
  MaxPodsKubeletConfig :: string
  ContainerLogMaxSizeKubeletConfig :: string
  ContainerLogMaxFilesKubeletConfig :: string
  ImageGCHighThresholdPercentKey :: string
  ImageGCLowThresholdPercentKey :: string
  ImageMinimumGCAgeKey :: string
  ImageMaximumGCAgeKey :: string
  BootstrapCloudConfig :: string
  MachineDeploymentRevision :: string
  CloudInitSettingsNamespace :: string
  CloudConfigSecretName :: "string \<Rightarrow> string \<Rightarrow> string \<Rightarrow> string"
  pc_decode :: "bool \<Rightarrow> (string \<times> json) list \<Rightarrow> ProviderConfig res"
  sdk_StrictUnmarshal :: "string \<Rightarrow> ProviderConfig res"
  GetIPFamily :: "NetworkConfig option \<Rightarrow> string"
  IsStaticIPConfig :: "NetworkConfig option \<Rightarrow> bool"

text \<open>
  A \<open>ConfigVarString\<close> is a literal value or a reference; \<open>cv_Ref\<close> keeps the references' JSON. A
  \<open>ConfigVarBool\<close> is only ever handed to the resolver.
\<close>

record ConfigVar =
  cv_Value :: string
  cv_Ref :: "json option"

definition emptyVar :: ConfigVar where
  "emptyVar = \<lparr>cv_Value = [], cv_Ref = None\<rparr>"

record resolver =
  decodeVar :: "json \<Rightarrow> ConfigVar option"
  GetStringValue :: "ConfigVar \<Rightarrow> string res"
  GetStringValueOrEnv :: "ConfigVar \<Rightarrow> string \<Rightarrow> string res"
  GetBoolValue :: "ConfigVar \<Rightarrow> bool res"
  GetBoolValueOrEnv :: "ConfigVar \<Rightarrow> string \<Rightarrow> bool res"
  Getenv :: "string \<Rightarrow> string"

text \<open>A field of a provider's \<open>RawConfig\<close>.\<close>

definition rawVar :: "resolver \<Rightarrow> string \<Rightarrow> (string \<times> json) list \<Rightarrow> ConfigVar res" where
  "rawVar R name ms = decode_field (decodeVar R) name ms emptyVar"

section \<open>An instance for examples\<close>

text \<open>
  An SDK for the examples: the published constants, a decoder that reads the operating system,
  the provider and the SSH keys, and a resolver of literal values.
\<close>

definition demo_decode :: "bool \<Rightarrow> (string \<times> json) list \<Rightarrow> ProviderConfig res" where
  "demo_decode strict ms =
     bindR (decode_field as_strings ''sshPublicKeys'' ms []) (\<lambda>keys.
     bindR (decode_field as_string ''cloudProvider'' ms []) (\<lambda>cp.
     bindR (decode_field as_string ''operatingSystem'' ms []) (\<lambda>os.
       Inr \<lparr>pc_SSHPublicKeys = keys, pc_CloudProvider = cp, pc_CloudProviderSpec = Some ''{}'',
         pc_OperatingSystem = os, pc_OperatingSystemSpec = None, pc_Network = None,
         pc_OverwriteCloudConfig = None\<rparr>)))"

definition demo_sdk :: sdk where
  "demo_sdk = \<lparr>
     RevisionAnnotation = ''machinedeployment.clusters.k8s.io/revision'',
     KubeletConfigAnnotationPrefixV1 = ''v1.kubelet-config.machine-controller.kubermatic.io'',
     KubeReservedKubeletConfig = ''KubeReserved'', SystemReservedKubeletConfig = ''SystemReserved'',
     EvictionHardKubeletConfig = ''EvictionHard'', MaxPodsKubeletConfig = ''MaxPods'',
     ContainerLogMaxSizeKubeletConfig = ''ContainerLogMaxSize'',
     ContainerLogMaxFilesKubeletConfig = ''ContainerLogMaxFiles'',
     ImageGCHighThresholdPercentKey = ''ImageGCHighThresholdPercent'',
     ImageGCLowThresholdPercentKey = ''ImageGCLowThresholdPercent'',
     ImageMinimumGCAgeKey = ''ImageMinimumGCAge'', ImageMaximumGCAgeKey = ''ImageMaximumGCAge'',
     BootstrapCloudConfig = ''bootstrap'', MachineDeploymentRevision = ''k8c.io/machine-deployment-revision'',
     CloudInitSettingsNamespace = ''cloud-init-settings'',
     CloudConfigSecretName = (\<lambda>n ns t. n @ ''-'' @ ns @ ''-'' @ t @ ''-config''),
     pc_decode = demo_decode, sdk_StrictUnmarshal = StrictUnmarshal demo_decode,
     GetIPFamily = (\<lambda>_. ''IPv4''), IsStaticIPConfig = (\<lambda>_. False)\<rparr>"

definition demo_resolver :: resolver where
  "demo_resolver = \<lparr>
     decodeVar = (\<lambda>j. map_option (\<lambda>s. \<lparr>cv_Value = s, cv_Ref = None\<rparr>) (as_string j)),
     GetStringValue = (\<lambda>v. Inr (cv_Value v)),
     GetStringValueOrEnv = (\<lambda>v env. if cv_Value v = [] then Inr (''env-'' @ env) else Inr (cv_Value v)),
     GetBoolValue = (\<lambda>v. Inr (cv_Value v = ''true'')),
     GetBoolValueOrEnv = (\<lambda>v env. Inr (cv_Value v = ''true'')),
     Getenv = (\<lambda>_. [])\<rparr>"

text \<open>A MachineDeployment for the examples, of a provider and an operating system.\<close>

definition demo_raw :: "string \<Rightarrow> string \<Rightarrow> string" where
  "demo_raw provider os = json_print (JObj [(''cloudProvider'', JStr provider), (''operatingSystem'', JStr os)])"

definition demo_pc :: "string \<Rightarrow> string \<Rightarrow> ProviderConfig" where
  "demo_pc provider os = \<lparr>pc_SSHPublicKeys = [], pc_CloudProvider = provider, pc_CloudProviderSpec = Some ''{}'',
     pc_OperatingSystem = os, pc_OperatingSystemSpec = None, pc_Network = None, pc_OverwriteCloudConfig = None\<rparr>"

definition demo_md :: "string \<Rightarrow> string \<Rightarrow> MachineDeployment" where
  "demo_md provider os = \<lparr>md_meta = emptyMeta\<lparr>meta_Name := ''md'', meta_Namespace := ''kube-system'',
       meta_Annotations := [(''k8c.io/operating-system-profile'', ''osp'')]\<rparr>,
     md_Finalizers = [], md_DeletionTimestamp = None,
     md_ProviderSpecValue = Some (Some (demo_raw provider os)), md_Kubelet = ''1.30.0''\<rparr>"

lemma demo_decode_pc:
  "demo_decode b [(''cloudProvider'', JStr provider), (''operatingSystem'', JStr os)] = Inr (demo_pc provider os)"
  by (simp add: demo_decode_def demo_pc_def fold_name_def lower_char_def)

lemma demo_unmarshal:
  "sdk_StrictUnmarshal demo_sdk (demo_raw provider os) = Inr (demo_pc provider os)"
  "Unmarshal (pc_decode demo_sdk b) (demo_raw provider os) = Inr (demo_pc provider os)"
  "StrictUnmarshal (pc_decode demo_sdk) (demo_raw provider os) = Inr (demo_pc provider os)"
  unfolding demo_raw_def demo_sdk_def sdk.simps
  by (simp_all only: StrictUnmarshal_print Unmarshal_print demo_decode_pc num_free.simps flat.simps list.pred_inject
      case_prod_conv simp_thms)

end
