(* ===== verification/ProviderConfigs.thy ===== *)
theory ProviderConfigs
  imports MachineController
begin

text \<open>
  \<open>pkg/providerconfig\<close>: the operating system's own settings, decoded from the
  \<open>OperatingSystemSpec\<close> of a provider configuration, and the Red Hat subscription they give. A
  missing specification is defaulted to the JSON of an empty configuration.
\<close>

record DistConfig =
  DistUpgradeOnBoot :: bool

record FlatcarConfig =
  DisableAutoUpdate :: bool
  DisableLocksmithD :: bool
  DisableUpdateEngine :: bool
  FlatcarProvisioningUtility :: string

record RhelConfig =
  rhel_DistUpgradeOnBoot :: bool
  RHELSubscriptionManagerUser :: string
  RHELSubscriptionManagerPassword :: string
  RHSMOfflineToken :: string
  AttachSubscription :: bool
  RHELUseSatelliteServer :: bool
  RHELSatelliteServer :: string
  RHELOrganizationName :: string
  RHELActivationKey :: string

definition emptyFlatcar :: FlatcarConfig where
  "emptyFlatcar = \<lparr>DisableAutoUpdate = False, DisableLocksmithD = False, DisableUpdateEngine = False,
     FlatcarProvisioningUtility = []\<rparr>"

definition emptyRhel :: RhelConfig where
  "emptyRhel = \<lparr>rhel_DistUpgradeOnBoot = False, RHELSubscriptionManagerUser = [],
     RHELSubscriptionManagerPassword = [], RHSMOfflineToken = [], AttachSubscription = False,
     RHELUseSatelliteServer = False, RHELSatelliteServer = [], RHELOrganizationName = [], RHELActivationKey = []\<rparr>"

definition decodeDist :: "(string \<times> json) list \<Rightarrow> DistConfig res" where
  "decodeDist ms = bindR (decode_field as_bool ''distUpgradeOnBoot'' ms False) (\<lambda>b. Inr \<lparr>DistUpgradeOnBoot = b\<rparr>)"

definition emptyDistJSON :: string where
  "emptyDistJSON = json_print (JObj [(''distUpgradeOnBoot'', JBool False)])"

definition orDefault :: "string \<Rightarrow> RawExtension \<Rightarrow> string" where
  "orDefault d raw = (case raw of None \<Rightarrow> d | Some s \<Rightarrow> s)"

text \<open>The package itself and the packages of the distributions that have only this setting.\<close>

definition DefaultConfig :: "RawExtension \<Rightarrow> RawExtension" where
  "DefaultConfig spec = (if spec = None then Some emptyDistJSON else spec)"

definition LoadConfig :: "RawExtension \<Rightarrow> DistConfig res" where
  "LoadConfig r = Unmarshal decodeDist (orDefault [] (DefaultConfig r))"

definition amzn2_LoadConfig :: "RawExtension \<Rightarrow> DistConfig res" where
  "amzn2_LoadConfig r = Unmarshal decodeDist (orDefault emptyDistJSON r)"

definition rockylinux_LoadConfig :: "RawExtension \<Rightarrow> DistConfig res" where
  "rockylinux_LoadConfig r = Unmarshal decodeDist (orDefault emptyDistJSON r)"

definition ubuntu_LoadConfig :: "RawExtension \<Rightarrow> DistConfig res" where
  "ubuntu_LoadConfig r = Unmarshal decodeDist (orDefault emptyDistJSON r)"

text \<open>Flatcar.\<close>

definition decodeFlatcar :: "(string \<times> json) list \<Rightarrow> FlatcarConfig res" where
  "decodeFlatcar ms =
     bindR (decode_field as_bool ''disableAutoUpdate'' ms False) (\<lambda>a.
     bindR (decode_field as_bool ''disableLocksmithD'' ms False) (\<lambda>l.
     bindR (decode_field as_bool ''disableUpdateEngine'' ms False) (\<lambda>e.
     bindR (decode_field as_string ''provisioningUtility'' ms []) (\<lambda>p.
       Inr \<lparr>DisableAutoUpdate = a, DisableLocksmithD = l, DisableUpdateEngine = e,
         FlatcarProvisioningUtility = p\<rparr>))))"

definition emptyFlatcarJSON :: string where
  "emptyFlatcarJSON = json_print (JObj [(''disableAutoUpdate'', JBool False),
     (''disableLocksmithD'', JBool False), (''disableUpdateEngine'', JBool False)])"

definition flatcar_LoadConfig :: "RawExtension \<Rightarrow> FlatcarConfig res" where
  "flatcar_LoadConfig r = Unmarshal decodeFlatcar (orDefault emptyFlatcarJSON r)"

text \<open>Red Hat.\<close>

definition decodeRhel :: "(string \<times> json) list \<Rightarrow> RhelConfig res" where
  "decodeRhel ms =
     bindR (decode_field as_bool ''distUpgradeOnBoot'' ms False) (\<lambda>d.
     bindR (decode_field as_string ''rhelSubscriptionManagerUser'' ms []) (\<lambda>u.
     bindR (decode_field as_string ''rhelSubscriptionManagerPassword'' ms []) (\<lambda>p.
     bindR (decode_field as_string ''rhsmOfflineToken'' ms []) (\<lambda>t.
     bindR (decode_field as_bool ''attachSubscription'' ms False) (\<lambda>a.
     bindR (decode_field as_bool ''rhelUseSatelliteServer'' ms False) (\<lambda>us.
     bindR (decode_field as_string ''rhelSatelliteServer'' ms []) (\<lambda>s.
     bindR (decode_field as_string ''rhelOrganizationName'' ms []) (\<lambda>org.
     bindR (decode_field as_string ''rhelActivationKey'' ms []) (\<lambda>k.
       Inr \<lparr>rhel_DistUpgradeOnBoot = d, RHELSubscriptionManagerUser = u, RHELSubscriptionManagerPassword = p,
         RHSMOfflineToken = t, AttachSubscription = a, RHELUseSatelliteServer = us, RHELSatelliteServer = s,
         RHELOrganizationName = org, RHELActivationKey = k\<rparr>)))))))))"

definition emptyRhelJSON :: string where
  "emptyRhelJSON = json_print (JObj [(''distUpgradeOnBoot'', JBool False), (''attachSubscription'', JBool False),
     (''rhelUseSatelliteServer'', JBool False), (''rhelSatelliteServer'', JStr []),
     (''rhelOrganizationName'', JStr []), (''rhelActivationKey'', JStr [])])"

definition rhel_LoadConfig :: "RawExtension \<Rightarrow> RhelConfig res" where
  "rhel_LoadConfig r = Unmarshal decodeRhel (orDefault emptyRhelJSON r)"

definition RHSubscription :: "RhelConfig \<Rightarrow> strmap" where
  "RHSubscription c =
     (if RHELUseSatelliteServer c
      then [(''org'', RHELOrganizationName c), (''activation-key'', RHELActivationKey c),
            (''server-hostname'', RHELSatelliteServer c),
            (''rhsm-baseurl'', ''https://'' @ RHELSatelliteServer c @ ''/pulp/repos'')]
      else [(''username'', RHELSubscriptionManagerUser c), (''password'', RHELSubscriptionManagerPassword c),
            (''auto-attach'', FormatBool (AttachSubscription c))])"

section \<open>Properties\<close>

lemmas load_simps = LoadConfig_def DefaultConfig_def amzn2_LoadConfig_def rockylinux_LoadConfig_def
  ubuntu_LoadConfig_def flatcar_LoadConfig_def rhel_LoadConfig_def orDefault_def

lemma default_json:
  "Unmarshal decodeDist emptyDistJSON = Inr \<lparr>DistUpgradeOnBoot = False\<rparr>"
  "Unmarshal decodeFlatcar emptyFlatcarJSON = Inr emptyFlatcar"
  "Unmarshal decodeRhel emptyRhelJSON = Inr emptyRhel"
  unfolding emptyDistJSON_def emptyFlatcarJSON_def emptyRhelJSON_def
  by (subst Unmarshal_print;
      simp add: decodeDist_def decodeFlatcar_def decodeRhel_def emptyFlatcar_def emptyRhel_def
        fold_name_def lower_char_def)+

text \<open>A missing operating system specification decodes to the empty configuration: the JSON that
  \<open>DefaultConfig\<close> writes is read back as it was.\<close>

theorem default_config_roundtrip:
  "LoadConfig None = Inr \<lparr>DistUpgradeOnBoot = False\<rparr>
   \<and> amzn2_LoadConfig None = Inr \<lparr>DistUpgradeOnBoot = False\<rparr>
   \<and> rockylinux_LoadConfig None = Inr \<lparr>DistUpgradeOnBoot = False\<rparr>
   \<and> ubuntu_LoadConfig None = Inr \<lparr>DistUpgradeOnBoot = False\<rparr>
   \<and> flatcar_LoadConfig None = Inr emptyFlatcar
   \<and> rhel_LoadConfig None = Inr emptyRhel"
  by (simp add: default_json load_simps)

end
