(* ===== verification/Generator.thy ===== *)
theory Generator
  imports ProviderConfigs
begin

text \<open>
  \<open>pkg/generator\<close>: from an operating system configuration to the user data of a machine. The
  files and units of the configuration are put into the form the templates use, the template of
  the provisioning utility is executed, and the result is either a cloud-init document or goes
  through the transpiler of container linux configurations.

  The two templates are Go templates without any data of their own, so executing them is written
  out as the text they produce, with the white space their trim markers leave.
\<close>

section \<open>Service names and the template function runCMDs\<close>

definition GetServiceName :: "string \<Rightarrow> string" where
  "GetServiceName path =
     (let fileName = last (SplitC CHR ''/'' path) in
      if last (SplitAfterC CHR ''.'' fileName) = ''service'' then fileName else [])"

record fileSpec =
  fs_Path :: string
  fs_Content :: string
  fs_Encoding :: string
  fs_Permissions :: string

record dropInSpec =
  ds_Name :: string
  ds_Content :: string

record unitSpec =
  us_Name :: string
  us_Enable :: bool
  us_Mask :: bool
  us_Content :: string
  us_DropIns :: "dropInSpec list"

definition runCMDs :: "fileSpec list \<Rightarrow> string list" where
  "runCMDs fs = [GetServiceName (fs_Path f). f \<leftarrow> fs, GetServiceName (fs_Path f) \<noteq> []]"

section \<open>The provisioning utility\<close>

text \<open>Decoding \<open>md.Spec.Template.Spec.ProviderSpec.Value.Raw\<close>, whose pointer may be nil.\<close>

definition decodeProviderConfig :: "sdk \<Rightarrow> MachineDeployment \<Rightarrow> ProviderConfig res" where
  "decodeProviderConfig S md =
     (case md_ProviderSpecValue md of
        None \<Rightarrow> Inl (Panic ''nil pointer: ProviderSpec.Value'')
      | Some raw \<Rightarrow> wrapR ''failed to decode provider configs: %w'' [] (sdk_StrictUnmarshal S (orDefault [] raw)))"

definition GetProvisioningUtility :: "sdk \<Rightarrow> OperatingSystem \<Rightarrow> MachineDeployment \<Rightarrow> ProvisioningUtility res" where
  "GetProvisioningUtility S osName md =
     (if osName = OperatingSystemFlatcar then
        bindR (decodeProviderConfig S md) (\<lambda>pc.
        bindR (flatcar_LoadConfig (pc_OperatingSystemSpec pc)) (\<lambda>c.
          Inr (if FlatcarProvisioningUtility c = [] then ProvisioningUtilityIgnition
               else FlatcarProvisioningUtility c)))
      else Inr ProvisioningUtilityCloudInit)"

section \<open>What the templates are given\<close>

definition base64Encoding :: string where
  "base64Encoding = ''b64''"

text \<open>Permissions are printed in decimal; three digits get the octal prefix.\<close>

definition permissionsText :: "int32 \<Rightarrow> string" where
  "permissionsText p = (let s = show_int (sint p) in if length s = 3 then ''0'' @ s else s)"

definition fileSpec_of :: "ProvisioningUtility \<Rightarrow> File \<Rightarrow> fileSpec res" where
  "fileSpec_of provisioner f =
     (case file_Inline f of
        None \<Rightarrow> Inl (Panic ''nil pointer: File.Content.Inline'')
      | Some inl \<Rightarrow> Inr
          \<lparr>fs_Path = file_Path f,
           fs_Content = (if inl_Encoding inl = base64Encoding \<and> provisioner = ProvisioningUtilityCloudInit
                         then b64_encode (inl_Data inl) else inl_Data inl),
           fs_Encoding = inl_Encoding inl,
           fs_Permissions = permissionsText (file_Permissions f)\<rparr>)"

definition orElse :: "'a \<Rightarrow> 'a option \<Rightarrow> 'a" where
  "orElse d x = (case x of None \<Rightarrow> d | Some v \<Rightarrow> v)"

definition unitSpec_of :: "Unit \<Rightarrow> unitSpec" where
  "unitSpec_of u =
     \<lparr>us_Name = unit_Name u, us_Enable = orElse False (unit_Enable u), us_Mask = orElse False (unit_Mask u),
      us_Content = orElse [] (unit_Content u),
      us_DropIns = map (\<lambda>d. \<lparr>ds_Name = dropin_Name d, ds_Content = dropin_Content d\<rparr>) (unit_DropIns u)\<rparr>"

text \<open>
  \<open>deduplicateSSHKeys\<close>: the loop with its set of keys already seen, here a list.
\<close>

fun dedupLoop :: "string list \<Rightarrow> string list \<Rightarrow> string list \<Rightarrow> string list" where
  "dedupLoop [] seen result = result"
| "dedupLoop (key # ks) seen result =
     (if TrimSpace key = [] then dedupLoop ks seen result
      else if TrimSpace key \<in> set seen then dedupLoop ks seen result
      else dedupLoop ks (TrimSpace key # seen) (result @ [TrimSpace key]))"

definition deduplicateSSHKeys :: "string list \<Rightarrow> string list" where
  "deduplicateSSHKeys ks = dedupLoop ks [] []"

record userData =
  ud_Files :: "fileSpec list"
  ud_Units :: "unitSpec list"
  ud_UserSSHKeys :: "string list"
  ud_CloudInitModules :: "CloudInitModule option"
  ud_CloudProviderName :: string
  ud_ConfigurationType :: string
  ud_OSConfig :: DistConfig

section \<open>The cloud-init template\<close>

text \<open>
  \<open>unlines\<close> ends every line with a line break. \<open>machine\<close> is the text that stands for the machine's
  name: the placeholder \<open><MACHINE_NAME>\<close>, or for the edge provider the name of the MachineDeployment
  (a DNS subdomain, so nothing in it is template syntax).
\<close>

definition unlines :: "string list \<Rightarrow> string" where
  "unlines ls = concat (map (\<lambda>l. l @ nl) ls)"

definition placeholder :: string where
  "placeholder = ''<MACHINE_NAME>''"

definition cloudInitFile :: "fileSpec \<Rightarrow> string" where
  "cloudInitFile f =
     nl @ ''- path: '' @ [CHR 0x27] @ fs_Path f @ [CHR 0x27] @ nl
     @ ''  permissions: '' @ [CHR 0x27] @ fs_Permissions f @ [CHR 0x27]
     @ (if fs_Encoding f = [] then [] else nl @ ''  encoding: '' @ [CHR 0x27] @ fs_Encoding f @ [CHR 0x27])
     @ nl @ ''  content: |-'' @ nl @ indent 4 (fs_Content f) @ nl"

definition dropInText :: "nat \<Rightarrow> bool \<Rightarrow> dropInSpec \<Rightarrow> string" where
  "dropInText ind quoted d =
     nl @ ''      - name: '' @ (if quoted then [CHR 0x22] @ ds_Name d @ [CHR 0x22] else ds_Name d) @ nl
     @ (if quoted then ''        content: |'' else ''        contents: |'') @ nl @ indent ind (ds_Content d)"

definition cloudInitUnit :: "unitSpec \<Rightarrow> string" where
  "cloudInitUnit u =
     nl @ ''  - name: '' @ [CHR 0x22] @ us_Name u @ [CHR 0x22] @ nl
     @ ''    enable: '' @ FormatBool (us_Enable u) @ nl @ ''    '' @ (if us_Enable u then ''command: start'' else [])
     @ nl @ ''    mask: '' @ FormatBool (us_Mask u) @ nl
     @ (if us_Content u = [] then [] else nl @ ''    content: |'' @ nl @ indent 6 (us_Content u)) @ nl
     @ (if us_DropIns u = [] then []
        else nl @ ''    drop_ins:'' @ concat (map (dropInText 10 True) (us_DropIns u)))"

definition mapLines :: "string \<Rightarrow> strmap \<Rightarrow> string" where
  "mapLines pad m = concat (map (\<lambda>k. nl @ pad @ k @ '': '' @ mget m k) (sorted_keys m))"

definition cloudInitModulesText :: "CloudInitModule \<Rightarrow> string" where
  "cloudInitModulesText m =
     (if cim_BootCMD m = [] then []
      else nl @ ''bootcmd:'' @ concat (map (\<lambda>c. nl @ ''- '' @ c) (cim_BootCMD m)) @ nl)
     @ (if cim_RunCMD m = [] then []
        else nl @ ''runcmd:'' @ concat (map (\<lambda>c. nl @ ''- '' @ c) (cim_RunCMD m)) @ nl)
     @ (if cim_RHSubscription m = [] then []
        else nl @ ''rh_subscription:'' @ mapLines ''    '' (cim_RHSubscription m) @ nl)
     @ (if cim_YumRepos m = [] then []
        else nl @ ''yum_repos:''
          @ concat (map (\<lambda>k. nl @ ''    '' @ k @ '':''
                            @ mapLines ''       '' (orElse [] (map_of (cim_YumRepos m) k)))
                        (sorted_keys (cim_YumRepos m))) @ nl)
     @ (if cim_YumRepoDir m = [] then [] else nl @ ''yum_repo_dir: '' @ cim_YumRepoDir m)"

text \<open>The hostname is part of the bootstrap configuration only, and never set on AWS.\<close>

definition setsHostname :: "userData \<Rightarrow> bool" where
  "setsHostname d \<longleftrightarrow> ud_ConfigurationType d = ''bootstrap'' \<and> ud_CloudProviderName d \<noteq> ''aws''"

definition cloudInitTemplate :: "string \<Rightarrow> userData \<Rightarrow> string" where
  "cloudInitTemplate machine d =
     ''#cloud-config''
     @ (if setsHostname d then nl @ ''hostname: '' @ machine else [])
     @ nl @ nl
     @ (if DistUpgradeOnBoot (ud_OSConfig d)
        then unlines [''package_upgrade: true'', ''package_reboot_if_required: true''] else [])
     @ unlines [''ssh_pwauth: false'', [], ''ssh_authorized_keys:'']
     @ concat (map (\<lambda>k. ''- '' @ [CHR 0x27] @ k @ [CHR 0x27] @ nl) (ud_UserSSHKeys d))
     @ ''write_files:'' @ concat (map cloudInitFile (ud_Files d))
     @ (if setsHostname d
        then nl @ unlines [''- path: /etc/machine-name'',
               ''  permissions: '' @ [CHR 0x27] @ ''0600'' @ [CHR 0x27],
               ''  content: |-'', ''        '' @ machine]
        else [])
     @ (if ud_Units d = [] then [] else ''coreos:'' @ nl @ ''  units:'' @ concat (map cloudInitUnit (ud_Units d)))
     @ (case ud_CloudInitModules d of None \<Rightarrow> [] | Some m \<Rightarrow> cloudInitModulesText m)"

section \<open>The ignition template\<close>

definition ignitionFile :: "fileSpec \<Rightarrow> string" where
  "ignitionFile f =
     nl @ ''  - path: '' @ [CHR 0x27] @ fs_Path f @ [CHR 0x27] @ nl
     @ ''    mode: '' @ fs_Permissions f @ nl
     @ ''    filesystem: root'' @ nl @ ''    contents:'' @ nl @ ''        inline: |'' @ nl
     @ indent 10 (fs_Content f)"

definition ignitionUnit :: "unitSpec \<Rightarrow> string" where
  "ignitionUnit u =
     nl @ ''  - name: '' @ us_Name u @ nl @ ''    enabled: '' @ FormatBool (us_Enable u) @ nl
     @ ''    mask: '' @ FormatBool (us_Mask u) @ nl
     @ (if us_Content u = [] then [] else nl @ ''    contents: |'' @ nl @ indent 6 (us_Content u)) @ nl
     @ (if us_DropIns u = [] then []
        else nl @ ''    dropins:'' @ concat (map (dropInText 10 False) (us_DropIns u)))"

definition ignitionTemplate :: "userData \<Rightarrow> string" where
  "ignitionTemplate d =
     ''passwd:''
     @ (if ud_UserSSHKeys d = [] then []
        else nl @ ''  users:'' @ nl @ ''    - name: core'' @ nl @ ''      ssh_authorized_keys:'' @ nl @ ''        ''
          @ concat (map (\<lambda>k. ''- '' @ k @ nl @ ''        '') (ud_UserSSHKeys d)))
     @ nl @ ''storage:'' @ nl @ ''  files:''
     @ (if ud_ConfigurationType d = ''bootstrap''
        then (if ud_CloudProviderName d \<noteq> ''aws''
              then nl @ unlines [''  - path: /etc/machine-name'', ''    mode: 0600'', ''    filesystem: root'',
                     ''    contents:'', ''        inline: '' @ [CHR 0x27] @ placeholder @ [CHR 0x27]]
              else []) @ nl
        else [])
     @ concat (map ignitionFile (ud_Files d))
     @ nl @ ''systemd:'' @ nl @ ''  units:'' @ concat (map ignitionUnit (ud_Units d)) @ nl"

text \<open>\<open>getUserDataTemplate\<close> and the execution of the template it returns.\<close>

definition getUserDataTemplate :: "ProvisioningUtility \<Rightarrow> string \<Rightarrow> string \<Rightarrow> userData \<Rightarrow> string" where
  "getUserDataTemplate p mdName cloudProvider =
     (if p = ProvisioningUtilityIgnition then ignitionTemplate
      else if cloudProvider = ''edge'' then cloudInitTemplate mdName
      else cloudInitTemplate placeholder)"

section \<open>Ignition\<close>

text \<open>
  The container linux configuration transpiler and the JSON form of its results, which are not
  under \<open>src/\<close>. \<open>'c\<close> stands for its documents: the parsed configuration with its syntax tree, and
  the ignition configuration.
\<close>

record ct_report =
  rep_IsFatal :: bool
  rep_Entries :: "string list"
  rep_String :: string

record 'c transpiler =
  ct_Parse :: "string \<Rightarrow> 'c \<times> ct_report"
  ct_Convert :: "'c \<Rightarrow> 'c \<times> ct_report"
  ct_Marshal :: "'c \<Rightarrow> string res"

definition toIgnition :: "'c transpiler \<Rightarrow> string \<Rightarrow> string res" where
  "toIgnition T s =
     (let (cfg, report) = ct_Parse T s in
      if rep_IsFatal report
      then Inl (Errorf ''failed to validate coreos cloud config: %s'' [rep_String report])
      else
        let (ignCfg, report') = ct_Convert T cfg in
        if rep_Entries report' \<noteq> []
        then Inl (Errorf ''failed to convert container linux config to ignition: %s'' [rep_String report'])
        else wrapR ''failed to marshal ignition config: %w'' [] (ct_Marshal T ignCfg))"

section \<open>Generate\<close>

definition userData_of ::
    "OSCConfig \<Rightarrow> string \<Rightarrow> string \<Rightarrow> fileSpec list \<Rightarrow> DistConfig \<Rightarrow> userData" where
  "userData_of config cloudProvider secretType files osConfig =
     \<lparr>ud_Files = files, ud_Units = map unitSpec_of (oscc_Units config),
      ud_UserSSHKeys = deduplicateSSHKeys (oscc_UserSSHKeys config),
      ud_CloudInitModules = oscc_CloudInitModules config, ud_CloudProviderName = cloudProvider,
      ud_ConfigurationType = secretType, ud_OSConfig = osConfig\<rparr>"

definition Generate ::
    "sdk \<Rightarrow> 'c transpiler \<Rightarrow> OSCConfig \<Rightarrow> ProvisioningUtility \<Rightarrow> OperatingSystem \<Rightarrow> CloudProvider
     \<Rightarrow> MachineDeployment \<Rightarrow> string \<Rightarrow> string res" where
  "Generate S T config provisioningUtility operatingSystem cloudProvider md secretType =
     bindR (wrapR ''failed to determine provisioning utility: %w'' []
              (GetProvisioningUtility S operatingSystem md)) (\<lambda>provisioner.
     if provisioningUtility \<noteq> [] \<and> provisioner \<noteq> provisioningUtility
     then Inl (Errorf ''specified provisioning utility %q is not supported by the OperatingSystemConfig''
                 [provisioningUtility])
     else
     bindR (mapR (fileSpec_of provisioner) (oscc_Files config)) (\<lambda>files.
     bindR (decodeProviderConfig S md) (\<lambda>pc.
     bindR (LoadConfig (pc_OperatingSystemSpec pc)) (\<lambda>osConfig.
     let out = getUserDataTemplate provisioner (md_Name md) cloudProvider
                 (userData_of config cloudProvider secretType files osConfig) in
     if provisioner = ProvisioningUtilityCloudInit then Inr out else toIgnition T out))))"

section \<open>What the generator guarantees\<close>

lemma dedupLoop_nub:
  "dedupLoop ks seen result =
   result @ filter (\<lambda>k. k \<notin> set seen) (nub (filter (\<lambda>k. k \<noteq> []) (map TrimSpace ks)))"
  by (induction ks seen result rule: dedupLoop.induct) (auto simp: conj_commute intro!: filter_cong)

text \<open>C35. The keys of a machine are the trimmed, non-empty keys in the order in which each is first
  seen, without duplicates; cleaning a clean list changes nothing.\<close>

theorem ssh_keys_deduplicated:
  "deduplicateSSHKeys ks = nub (filter (\<lambda>k. k \<noteq> []) (map TrimSpace ks))
   \<and> distinct (deduplicateSSHKeys ks)
   \<and> set (deduplicateSSHKeys ks) = TrimSpace ` set ks - {[]}
   \<and> deduplicateSSHKeys (deduplicateSSHKeys ks) = deduplicateSSHKeys ks"
proof -
  have eq: "deduplicateSSHKeys l = nub (filter (\<lambda>k. k \<noteq> []) (map TrimSpace l))" for l
    by (simp add: deduplicateSSHKeys_def dedupLoop_nub)
  let ?r = "nub (filter (\<lambda>k. k \<noteq> []) (map TrimSpace ks))"
  have clean: "map TrimSpace ?r = ?r" "filter (\<lambda>k. k \<noteq> []) ?r = ?r"
    by (auto intro!: map_idI filter_True)
  show ?thesis unfolding eq clean by (auto simp: nub_distinct)
qed

lemma in_concat_map: "x \<in> set xs \<Longrightarrow> \<exists>pre post. concat (map f xs) = pre @ f x @ post"
proof -
  assume "x \<in> set xs"
  then obtain ys zs where "xs = ys @ x # zs" by (auto simp: in_set_conv_decomp)
  then have "concat (map f xs) = concat (map f ys) @ f x @ concat (map f zs)" by simp
  then show ?thesis by blast
qed

lemma files_in_template: "f \<in> set (ud_Files d) \<Longrightarrow> \<exists>pre post. cloudInitTemplate machine d = pre @ cloudInitFile f @ post"
proof -
  assume "f \<in> set (ud_Files d)"
  then obtain pre post where "concat (map cloudInitFile (ud_Files d)) = pre @ cloudInitFile f @ post"
    using in_concat_map by metis
  moreover have "\<exists>a b. cloudInitTemplate machine d = a @ concat (map cloudInitFile (ud_Files d)) @ b"
    unfolding cloudInitTemplate_def append_assoc [symmetric] by (metis append.assoc)
  ultimately show ?thesis by (metis append.assoc)
qed

text \<open>The lines of a file's entry before its content.\<close>

definition fileHeader :: "File \<Rightarrow> string \<Rightarrow> string" where
  "fileHeader f encoding = nl @ ''- path: '' @ [CHR 0x27] @ file_Path f @ [CHR 0x27] @ nl
     @ ''  permissions: '' @ [CHR 0x27] @ permissionsText (file_Permissions f) @ [CHR 0x27]
     @ (if encoding = [] then [] else nl @ ''  encoding: '' @ [CHR 0x27] @ encoding @ [CHR 0x27])
     @ nl @ ''  content: |-'' @ nl"

text \<open>C36. Each file of a configuration is in the cloud-init document that is generated from it: there is an entry
  with its path, its permissions and its encoding, followed by its content, of which every line is indented by four
  spaces, more than the keys of the entry are, so that no content can end its block; without the indentation the lines are
  those of the file's data, or, if its encoding is \<open>b64\<close>, of a text that decodes to them. (What a YAML reader makes of the
  block, such as stripping line breaks at its end, is not part of the claim.)\<close>

theorem file_content_written:
  assumes run: "Generate S T config utility os provider md kd = Inr doc"
    and util: "GetProvisioningUtility S os md = Inr ProvisioningUtilityCloudInit"
    and f: "f \<in> set (oscc_Files config)" "file_Inline f = Some inl"
  shows "\<exists>pre block post. doc = pre @ fileHeader f (inl_Encoding inl) @ block @ nl @ post
    \<and> (\<forall>l \<in> set (SplitC CHR 0x0A block). take 4 l = ''    '')
    \<and> (\<exists>content. map (drop 4) (SplitC CHR 0x0A block) = SplitC CHR 0x0A content
        \<and> (if inl_Encoding inl = base64Encoding then b64_decode content = Some (inl_Data inl) else content = inl_Data inl))"
proof -
  obtain files osConfig where files: "mapR (fileSpec_of ProvisioningUtilityCloudInit) (oscc_Files config) = Inr files"
    and doc: "doc = getUserDataTemplate ProvisioningUtilityCloudInit (md_Name md) provider
      (userData_of config provider kd files osConfig)"
    using run util by (auto simp: Generate_def Let_def res_simps split: if_splits)
  obtain fs where fs: "fs \<in> set files" "fileSpec_of ProvisioningUtilityCloudInit f = Inr fs"
    using files f(1) by (auto simp: mapR_Inr list_all2_conv_all_nth in_set_conv_nth) (metis nth_mem)
  have parts: "fs_Path fs = file_Path f" "fs_Permissions fs = permissionsText (file_Permissions f)" "fs_Encoding fs = inl_Encoding inl"
    "fs_Content fs = (if inl_Encoding inl = base64Encoding then b64_encode (inl_Data inl) else inl_Data inl)"
    using fs(2) f(2) by (auto simp: fileSpec_of_def)
  have "\<exists>machine. doc = cloudInitTemplate machine (userData_of config provider kd files osConfig)"
    using doc by (auto simp: getUserDataTemplate_def ProvisioningUtilityCloudInit_def ProvisioningUtilityIgnition_def)
  moreover have "fs \<in> set (ud_Files (userData_of config provider kd files osConfig))" using fs(1) by (simp add: userData_of_def)
  ultimately obtain pre post where "doc = pre @ cloudInitFile fs @ post" using files_in_template by metis
  moreover have "cloudInitFile fs = fileHeader f (inl_Encoding inl) @ indent 4 (fs_Content fs) @ nl"
    by (simp add: cloudInitFile_def fileHeader_def parts(1-3))
  ultimately have "doc = pre @ fileHeader f (inl_Encoding inl) @ indent 4 (fs_Content fs) @ nl @ post" by simp
  moreover have "\<forall>l \<in> set (SplitC CHR 0x0A (indent 4 (fs_Content fs))). take 4 l = ''    ''"
    by (auto simp: SplitC_indent numeral_eq_Suc)
  moreover have "map (drop 4) (SplitC CHR 0x0A (indent 4 (fs_Content fs))) = SplitC CHR 0x0A (fs_Content fs)"
    by (simp add: SplitC_indent o_def)
  moreover have "if inl_Encoding inl = base64Encoding then b64_decode (fs_Content fs) = Some (inl_Data inl)
      else fs_Content fs = inl_Data inl"
    by (simp add: parts(4) b64_decode_encode)
  ultimately show ?thesis by blast
qed

lemma mapR_isOk: "isOk (mapR f xs) \<longleftrightarrow> (\<forall>x \<in> set xs. isOk (f x))"
  by (induction xs) (auto simp: isOk_iff res_simps)

lemma Generate_isOk:
  assumes "operatingSystem \<noteq> OperatingSystemFlatcar"
  shows "isOk (Generate S T config utility operatingSystem cloudProvider md secretType) \<longleftrightarrow>
    utility \<in> {[], ProvisioningUtilityCloudInit}
    \<and> (\<forall>f \<in> set (oscc_Files config). file_Inline f \<noteq> None)
    \<and> (\<exists>pc. decodeProviderConfig S md = Inr pc \<and> isOk (LoadConfig (pc_OperatingSystemSpec pc)))"
proof -
  have files: "isOk (mapR (fileSpec_of ProvisioningUtilityCloudInit) (oscc_Files config))
      \<longleftrightarrow> (\<forall>f \<in> set (oscc_Files config). file_Inline f \<noteq> None)"
    by (auto simp: mapR_isOk fileSpec_of_def split: option.splits)
  show ?thesis
    unfolding Generate_def GetProvisioningUtility_def files [symmetric]
    using assms by (auto simp: Let_def isOk_iff res_simps)
qed

text \<open>C37. On every operating system but Flatcar, generation succeeds exactly when the configuration
  asks for cloud-init or for nothing, no file lacks its content, and the machine's provider
  configuration and operating system settings decode.\<close>

theorem generate_succeeds_iff:
  assumes "operatingSystem \<noteq> OperatingSystemFlatcar"
  shows "isOk (Generate S T config utility operatingSystem cloudProvider md secretType) \<longleftrightarrow>
    utility \<in> {[], ProvisioningUtilityCloudInit}
    \<and> (\<forall>f \<in> set (oscc_Files config). file_Inline f \<noteq> None)
    \<and> (\<exists>pc. decodeProviderConfig S md = Inr pc \<and> isOk (LoadConfig (pc_OperatingSystemSpec pc)))"
  by (rule Generate_isOk [OF assms])

text \<open>A Flatcar machine whose settings do not choose a utility is provisioned with ignition,
  and no configuration that asks for cloud-init can be generated for it. The controller writes
  cloud-init into every configuration whose profile leaves the utility open.\<close>

theorem flatcar_defaults_to_ignition:
  assumes "decodeProviderConfig S md = Inr pc" "flatcar_LoadConfig (pc_OperatingSystemSpec pc) = Inr c"
    "FlatcarProvisioningUtility c = []"
  shows "GetProvisioningUtility S OperatingSystemFlatcar md = Inr ProvisioningUtilityIgnition
    \<and> Generate S T config ProvisioningUtilityCloudInit OperatingSystemFlatcar cloudProvider md secretType
      = Inl (Errorf ''specified provisioning utility %q is not supported by the OperatingSystemConfig''
               [ProvisioningUtilityCloudInit])"
  using assms
  by (simp add: Generate_def GetProvisioningUtility_def ProvisioningUtilityCloudInit_def
      ProvisioningUtilityIgnition_def)

text \<open>C38. Without files and outside the bootstrap configuration, the units of a machine are glued to
  the key \<open>write_files\<close>: the document has a key \<open>write_files:coreos\<close> and no units.\<close>

theorem units_without_files:
  assumes "ud_Files d = []" "ud_Units d \<noteq> []" "\<not> setsHostname d"
  shows "\<exists>pre post. cloudInitTemplate machine d = pre @ ''write_files:coreos:'' @ post"
proof (intro exI)
  show "cloudInitTemplate machine d =
      (''#cloud-config'' @ nl @ nl
       @ (if DistUpgradeOnBoot (ud_OSConfig d)
          then unlines [''package_upgrade: true'', ''package_reboot_if_required: true''] else [])
       @ unlines [''ssh_pwauth: false'', [], ''ssh_authorized_keys:'']
       @ concat (map (\<lambda>k. ''- '' @ [CHR 0x27] @ k @ [CHR 0x27] @ nl) (ud_UserSSHKeys d)))
      @ ''write_files:coreos:''
      @ (nl @ ''  units:'' @ concat (map cloudInitUnit (ud_Units d))
         @ (case ud_CloudInitModules d of None \<Rightarrow> [] | Some m \<Rightarrow> cloudInitModulesText m))"
    using assms by (simp add: cloudInitTemplate_def)
qed

section \<open>Witnesses\<close>

definition demo_file :: File where
  "demo_file = \<lparr>file_Path = ''/etc/x'', file_Permissions = 644,
     file_Inline = Some \<lparr>inl_Encoding = base64Encoding, inl_Data = ''a'' @ nl @ ''b''\<rparr>\<rparr>"

lemma demo_provider_config: "decodeProviderConfig demo_sdk (demo_md provider os) = Inr (demo_pc provider os)"
  by (simp add: decodeProviderConfig_def demo_md_def orDefault_def demo_unmarshal)

definition demo_config :: OSCConfig where
  "demo_config = \<lparr>oscc_Units = [], oscc_Files = [demo_file], oscc_UserSSHKeys = ['' key '', ''key''],
     oscc_CloudInitModules = None\<rparr>"

text \<open>A transpiler that accepts everything and changes nothing.\<close>

definition demo_transpiler :: "string transpiler" where
  "demo_transpiler = \<lparr>ct_Parse = (\<lambda>s. (s, \<lparr>rep_IsFatal = False, rep_Entries = [], rep_String = []\<rparr>)),
     ct_Convert = (\<lambda>c. (c, \<lparr>rep_IsFatal = False, rep_Entries = [], rep_String = []\<rparr>)), ct_Marshal = Inr\<rparr>"

theorem generate_succeeds_iff_witness:
  "isOk (Generate demo_sdk demo_transpiler demo_config ProvisioningUtilityCloudInit OperatingSystemUbuntu
     ''hetzner'' (demo_md ''hetzner'' ''ubuntu'') ''provisioning'')
   \<and> \<not> isOk (Generate demo_sdk demo_transpiler demo_config ProvisioningUtilityIgnition OperatingSystemUbuntu
     ''hetzner'' (demo_md ''hetzner'' ''ubuntu'') ''provisioning'')"
proof -
  have "OperatingSystemUbuntu \<noteq> OperatingSystemFlatcar"
    by (simp add: OperatingSystemUbuntu_def OperatingSystemFlatcar_def)
  note iff = generate_succeeds_iff [OF this]
  have "isOk (LoadConfig (pc_OperatingSystemSpec (demo_pc ''hetzner'' ''ubuntu'')))"
    by (simp add: demo_pc_def load_simps default_json)
  then show ?thesis
    unfolding iff demo_provider_config
    by (simp add: demo_config_def demo_file_def ProvisioningUtilityIgnition_def ProvisioningUtilityCloudInit_def)
qed

theorem file_content_written_witness:
  "\<exists>doc pre block post content. Generate demo_sdk demo_transpiler demo_config ProvisioningUtilityCloudInit OperatingSystemUbuntu
      ''hetzner'' (demo_md ''hetzner'' ''ubuntu'') ''provisioning'' = Inr doc
    \<and> doc = pre @ fileHeader demo_file base64Encoding @ block @ nl @ post
    \<and> map (drop 4) (SplitC CHR 0x0A block) = SplitC CHR 0x0A content \<and> b64_decode content = Some (''a'' @ nl @ ''b'')"
proof -
  have os: "OperatingSystemUbuntu \<noteq> OperatingSystemFlatcar"
    by (simp add: OperatingSystemUbuntu_def OperatingSystemFlatcar_def)
  have "isOk (LoadConfig (pc_OperatingSystemSpec (demo_pc ''hetzner'' ''ubuntu'')))"
    by (simp add: demo_pc_def load_simps default_json)
  then obtain doc where run: "Generate demo_sdk demo_transpiler demo_config ProvisioningUtilityCloudInit OperatingSystemUbuntu
      ''hetzner'' (demo_md ''hetzner'' ''ubuntu'') ''provisioning'' = Inr doc"
    using Generate_isOk [OF os, of demo_sdk demo_transpiler demo_config ProvisioningUtilityCloudInit "''hetzner''"
        "demo_md ''hetzner'' ''ubuntu''" "''provisioning''"] demo_provider_config
    by (auto simp: demo_config_def demo_file_def isOk_iff)
  have "GetProvisioningUtility demo_sdk OperatingSystemUbuntu (demo_md ''hetzner'' ''ubuntu'') = Inr ProvisioningUtilityCloudInit"
    using os by (simp add: GetProvisioningUtility_def)
  from file_content_written [OF run this, of demo_file "\<lparr>inl_Encoding = base64Encoding, inl_Data = ''a'' @ nl @ ''b''\<rparr>"] run
  show ?thesis by (auto simp: demo_config_def demo_file_def)
qed

theorem flatcar_defaults_to_ignition_witness:
  "GetProvisioningUtility demo_sdk OperatingSystemFlatcar (demo_md ''aws'' ''flatcar'') = Inr ProvisioningUtilityIgnition
   \<and> \<not> isOk (Generate demo_sdk demo_transpiler demo_config ProvisioningUtilityCloudInit OperatingSystemFlatcar
     ''aws'' (demo_md ''aws'' ''flatcar'') ''bootstrap'')"
proof -
  have "flatcar_LoadConfig (pc_OperatingSystemSpec (demo_pc ''aws'' ''flatcar'')) = Inr emptyFlatcar"
    by (simp add: demo_pc_def load_simps default_json)
  from flatcar_defaults_to_ignition [OF demo_provider_config this, of demo_transpiler demo_config "''aws''" "''bootstrap''"]
  show ?thesis by (simp add: emptyFlatcar_def)
qed

definition demo_unit :: unitSpec where
  "demo_unit = \<lparr>us_Name = ''kubelet.service'', us_Enable = True, us_Mask = False, us_Content = [], us_DropIns = []\<rparr>"

theorem units_without_files_witness:
  "\<exists>pre post. cloudInitTemplate placeholder
      \<lparr>ud_Files = [], ud_Units = [demo_unit], ud_UserSSHKeys = [], ud_CloudInitModules = None,
       ud_CloudProviderName = ''aws'', ud_ConfigurationType = ''provisioning'', ud_OSConfig = \<lparr>DistUpgradeOnBoot = False\<rparr>\<rparr>
    = pre @ ''write_files:coreos:'' @ post"
  by (rule units_without_files) (simp_all add: setsHostname_def)

end
