(* ===== verification/GoNet.thy ===== *)
theory GoNet
  imports GoStrings
begin

text \<open>
  The part of Go's \<open>net\<close> package that the repository uses: \<open>ParseIP\<close>, \<open>IP.String\<close> and
  \<open>JoinHostPort\<close>. An address is its sixteen bytes, an IPv4 address being mapped into IPv6
  (\<open>::ffff:a.b.c.d\<close>). The main lemma is that an IPv4 address parses back from its text.
\<close>

type_synonym IP = "nat list"

definition v4_prefix :: IP where
  "v4_prefix = replicate 10 0 @ [255, 255]"

section \<open>Parsing\<close>

definition v4_field :: "string \<Rightarrow> nat option" where
  "v4_field s =
     (if length s > 1 \<and> hd s = CHR ''0'' then None
      else case read_nat s of None \<Rightarrow> None | Some n \<Rightarrow> if n > 255 then None else Some n)"

definition parse_v4 :: "string \<Rightarrow> nat list option" where
  "parse_v4 s =
     (let fs = map v4_field (SplitC (CHR ''.'') s)
      in if length fs \<noteq> 4 \<or> None \<in> set fs then None else Some (map the fs))"

definition is_hex :: "char \<Rightarrow> bool" where
  "is_hex c \<longleftrightarrow> hex_val c \<noteq> None"

definition read_hex :: "string \<Rightarrow> nat" where
  "read_hex s = foldl (\<lambda>n c. 16 * n + the (hex_val c)) 0 s"

text \<open>
  The loop of \<open>parseIPv6\<close>: \<open>acc\<close> holds the bytes read so far and \<open>ell\<close> the position of the
  ellipsis. \<open>None\<close> is a syntax error; the loop ends after sixteen bytes or at the end of the text.
\<close>

function v6_fields :: "nat list \<Rightarrow> nat option \<Rightarrow> string \<Rightarrow> (nat list \<times> nat option \<times> string) option" where
  "v6_fields acc ell s =
     (if length acc \<ge> 16 then Some (acc, ell, s)
      else
        let h = takeWhile is_hex s; r = dropWhile is_hex s in
        if h = [] \<or> length h > 4 then None
        else if r \<noteq> [] \<and> hd r = CHR ''.'' then
          (if (ell = None \<and> length acc \<noteq> 12) \<or> length acc + 4 > 16 then None
           else case parse_v4 s of None \<Rightarrow> None | Some bs \<Rightarrow> Some (acc @ bs, ell, []))
        else
          let acc' = acc @ [read_hex h div 256, read_hex h mod 256] in
          if r = [] then Some (acc', ell, [])
          else if hd r \<noteq> CHR '':'' \<or> tl r = [] then None
          else if hd (tl r) = CHR '':'' then
            (if ell \<noteq> None then None
             else if tl (tl r) = [] then Some (acc', Some (length acc'), [])
             else v6_fields acc' (Some (length acc')) (tl (tl r)))
          else v6_fields acc' ell (tl r))"
  by pat_completeness auto
termination
  by (relation "measure (\<lambda>(acc, _). 16 - length acc)") auto

declare v6_fields.simps [simp del]

definition parse_v6 :: "string \<Rightarrow> IP option" where
  "parse_v6 s =
     (let lead = (take 2 s = ''::'') in
      if s = ''::'' then Some (replicate 16 0)
      else case v6_fields [] (if lead then Some 0 else None) (if lead then drop 2 s else s) of
        None \<Rightarrow> None
      | Some (acc, ell, rest) \<Rightarrow>
          if rest \<noteq> [] then None
          else case ell of
            None \<Rightarrow> if length acc < 16 then None else Some acc
          | Some e \<Rightarrow>
              if length acc < 16 then Some (take e acc @ replicate (16 - length acc) 0 @ drop e acc)
              else None)"

text \<open>\<open>net.ParseIP\<close>: an address with a zone is not an IP.\<close>

definition ParseIP :: "string \<Rightarrow> IP option" where
  "ParseIP s =
     (case filter (\<lambda>c. c \<in> set ''.:%'') s of
        [] \<Rightarrow> None
      | c # _ \<Rightarrow>
          if c = CHR ''.'' then map_option (\<lambda>bs. v4_prefix @ bs) (parse_v4 s)
          else if c = CHR '':'' \<and> CHR ''%'' \<notin> set s then parse_v6 s
          else None)"

section \<open>Printing\<close>

fun show_hex :: "nat \<Rightarrow> string" where
  "show_hex n = (if n < 16 then [hex_digit n] else show_hex (n div 16) @ [hex_digit n])"

declare show_hex.simps [simp del]

fun groups_of :: "nat list \<Rightarrow> nat list" where
  "groups_of (a # b # r) = (256 * a + b) # groups_of r"
| "groups_of _ = []"

definition zero_run :: "nat list \<Rightarrow> nat \<Rightarrow> nat" where
  "zero_run gs i = length (takeWhile (\<lambda>g. g = 0) (drop i gs))"

text \<open>The first longest run of at least two zero groups: its start and length.\<close>

definition longest_run :: "nat list \<Rightarrow> nat \<times> nat" where
  "longest_run gs = foldl (\<lambda>(st, l) i. if zero_run gs i \<ge> 2 \<and> zero_run gs i > l then (i, zero_run gs i) else (st, l))
     (length gs, 0) [0..<length gs]"

definition show_v6 :: "nat list \<Rightarrow> string" where
  "show_v6 bs =
     (let gs = groups_of bs; (st, l) = longest_run gs; hexes = (\<lambda>xs. Join '':'' (map show_hex xs))
      in if l = 0 then hexes gs else hexes (take st gs) @ ''::'' @ hexes (drop (st + l) gs))"

definition IPString :: "IP \<Rightarrow> string" where
  "IPString ip =
     (if take 12 ip = v4_prefix then Join ''.'' (map show_nat (drop 12 ip)) else show_v6 ip)"

definition JoinHostPort :: "string \<Rightarrow> string \<Rightarrow> string" where
  "JoinHostPort host port =
     (if CHR '':'' \<in> set host then ''['' @ host @ '']:'' @ port else host @ '':'' @ port)"

section \<open>IPv4 round trip\<close>

lemma show_nat_no_sep: "filter (\<lambda>c. c \<in> set ''.:%'') (show_nat n) = []"
proof -
  have "c \<notin> set ''.:%''" if "is_digit c" for c using that by (auto simp: is_digit_def)
  with show_nat_digits [of n] show ?thesis by (auto simp: list_all_iff filter_empty_conv)
qed

lemma show_nat_no_dot: "CHR ''.'' \<notin> set (show_nat n)"
  using show_nat_no_sep [of n] by (auto simp: filter_empty_conv)

lemma hd_show_nat: "length (show_nat n) > 1 \<Longrightarrow> hd (show_nat n) \<noteq> CHR ''0''"
proof (induction n rule: show_nat.induct)
  case (1 n)
  show ?case
  proof (cases "n < 10")
    case True
    with 1(2) show ?thesis by (subst (asm) show_nat.simps) simp
  next
    case False
    have s: "show_nat n = show_nat (n div 10) @ [digit_char (n mod 10)]"
      using False by (subst show_nat.simps) simp
    show ?thesis
    proof (cases "n div 10 < 10")
      case True
      have "of_char (digit_char (n div 10)) = 48 + n div 10" using True by simp
      moreover have "n div 10 \<noteq> 0" using False by (simp add: div_greater_zero_iff)
      ultimately have "digit_char (n div 10) \<noteq> CHR ''0''" by auto
      with True show ?thesis unfolding s by (subst show_nat.simps) simp
    next
      case False2: False
      have "length (show_nat (n div 10)) > 1"
        using False2 by (subst show_nat.simps) simp
      then show ?thesis using 1(1) [OF False] unfolding s by simp
    qed
  qed
qed

lemma v4_field_show: "n < 256 \<Longrightarrow> v4_field (show_nat n) = Some n"
  using hd_show_nat [of n] by (auto simp: v4_field_def)

lemma ParseIP_IPString_v4:
  assumes "length bs = 4" "\<forall>b \<in> set bs. b < 256"
  shows "ParseIP (IPString (v4_prefix @ bs)) = Some (v4_prefix @ bs)"
proof -
  define s where "s = Join ''.'' (map show_nat bs)"
  have split: "SplitC (CHR ''.'') s = map show_nat bs"
    unfolding s_def using assms(1) by (intro SplitC_Join) (auto simp: show_nat_no_dot)
  have "parse_v4 s = Some bs"
    unfolding parse_v4_def split using assms by (auto simp: Let_def o_def v4_field_show intro!: map_idI)
  moreover have "\<exists>r. filter (\<lambda>c. c \<in> set ''.:%'') s = CHR ''.'' # r"
  proof -
    obtain a r where "bs = a # r" "r \<noteq> []" using assms(1) by (cases bs; cases "tl bs") auto
    then have "filter (\<lambda>c. c \<in> set ''.:%'') s
        = filter (\<lambda>c. c \<in> set ''.:%'') (CHR ''.'' # Join ''.'' (map show_nat r))"
      unfolding s_def by (simp add: Join_Cons show_nat_no_sep [simplified])
    then show ?thesis by simp
  qed
  ultimately show ?thesis
    by (auto simp: ParseIP_def IPString_def s_def v4_prefix_def)
qed

end
