(* ===== verification/GoURL.thy ===== *)
theory GoURL
  imports GoNet
begin

text \<open>
  The part of Go's \<open>net/url\<close> package that the repository uses: \<open>Parse\<close> and \<open>String\<close> of a URL,
  \<open>QueryEscape\<close>, \<open>QueryUnescape\<close>, \<open>ParseQuery\<close> and \<open>Values.Encode\<close>. The main lemmas: escaping is undone
  by unescaping, and an encoded query parses back.
\<close>

section \<open>Percent encoding\<close>

datatype encoding =
    EncodePath | EncodeUserPassword | EncodeQueryComponent | EncodeFragment | EncodeHost | EncodeZone

definition is_letter :: "char \<Rightarrow> bool" where
  "is_letter c \<longleftrightarrow> (let n = (of_char c :: nat) in 97 \<le> n \<and> n \<le> 122 \<or> 65 \<le> n \<and> n \<le> 90)"

definition is_alnum :: "char \<Rightarrow> bool" where
  "is_alnum c \<longleftrightarrow> is_letter c \<or> is_digit c"

definition shouldEscape :: "encoding \<Rightarrow> char \<Rightarrow> bool" where
  "shouldEscape mode c \<longleftrightarrow>
     (if is_alnum c then False
      else if mode \<in> {EncodeHost, EncodeZone} \<and> c \<in> set ''!$&()*+,;=:[]<>'' \<union> {CHR 0x22, CHR 0x27} then False
      else if c \<in> set ''-_.~'' then False
      else if c \<in> set ''$&+,/:;=?@'' then
        (case mode of
           EncodePath \<Rightarrow> c = CHR ''?''
         | EncodeUserPassword \<Rightarrow> c \<in> set ''@/?:''
         | EncodeQueryComponent \<Rightarrow> True
         | EncodeFragment \<Rightarrow> False
         | EncodeHost \<Rightarrow> True
         | EncodeZone \<Rightarrow> True)
      else if mode = EncodeFragment \<and> c \<in> set ''!()*'' then False
      else True)"

definition upper_hex :: "nat \<Rightarrow> char" where
  "upper_hex n = ''0123456789ABCDEF'' ! (n mod 16)"

fun escape :: "encoding \<Rightarrow> string \<Rightarrow> string" where
  "escape mode [] = []"
| "escape mode (c # s) =
     (if c = CHR '' '' \<and> mode = EncodeQueryComponent then CHR ''+'' # escape mode s
      else if shouldEscape mode c
      then CHR ''%'' # upper_hex (of_char c div 16) # upper_hex (of_char c) # escape mode s
      else c # escape mode s)"

text \<open>
  A percent sign needs two hexadecimal digits. In a host only non-ASCII bytes may be escaped
  (\<open>%25\<close> apart), in its zone also the bytes a host may contain and the space, and the ASCII bytes
  that must be escaped are refused.
\<close>

fun unescape :: "encoding \<Rightarrow> string \<Rightarrow> string res" where
  "unescape mode [] = Inr []"
| "unescape mode (c # s) =
     (if c = CHR ''%'' then
        (case s of
           a # b # r \<Rightarrow>
             (case (hex_val a, hex_val b) of
                (Some h, Some l) \<Rightarrow>
                  if mode = EncodeHost \<and> h < 8 \<and> [c, a, b] \<noteq> ''%25''
                  then Inl (Errorf ''invalid URL escape %q'' [[c, a, b]])
                  else if mode = EncodeZone \<and> [c, a, b] \<noteq> ''%25'' \<and> 16 * h + l \<noteq> 32
                    \<and> shouldEscape EncodeHost (char_of (16 * h + l))
                  then Inl (Errorf ''invalid URL escape %q'' [[c, a, b]])
                  else bindR (unescape mode r) (\<lambda>t. Inr (char_of (16 * h + l) # t))
              | _ \<Rightarrow> Inl (Errorf ''invalid URL escape %q'' [[c, a, b]]))
         | _ \<Rightarrow> Inl (Errorf ''invalid URL escape %q'' [c # s]))
      else if c = CHR ''+'' then
        bindR (unescape mode s) (\<lambda>t. Inr ((if mode = EncodeQueryComponent then CHR '' '' else c) # t))
      else if mode \<in> {EncodeHost, EncodeZone} \<and> (of_char c :: nat) < 128 \<and> shouldEscape mode c
      then Inl (Errorf ''invalid character %q in host name'' [[c]])
      else bindR (unescape mode s) (\<lambda>t. Inr (c # t)))"

definition QueryEscape :: "string \<Rightarrow> string" where
  "QueryEscape = escape EncodeQueryComponent"

definition QueryUnescape :: "string \<Rightarrow> string res" where
  "QueryUnescape = unescape EncodeQueryComponent"

lemma hex_val_upper_hex [simp]: "hex_val (upper_hex n) = Some (n mod 16)"
proof -
  have "\<forall>m < 16. hex_val (''0123456789ABCDEF'' ! m) = Some m" by code_simp
  then show ?thesis by (simp add: upper_hex_def)
qed

lemma percent_escaped [simp]: "shouldEscape EncodeQueryComponent (CHR ''%'')"
    "shouldEscape EncodeQueryComponent (CHR ''+'')"
  by code_simp+

lemma QueryUnescape_QueryEscape: "QueryUnescape (QueryEscape s) = Inr s"
proof -
  have "char_of (16 * (of_char c div 16 mod 16) + of_char c mod 16 :: nat) = c" for c
  proof -
    have "(of_char c :: nat) < 256" by (rule nat_of_char_less_256)
    then have "of_char c div 16 mod 16 = (of_char c div 16 :: nat)" by (simp add: less_mult_imp_div_less)
    then show ?thesis by simp
  qed
  then have "unescape EncodeQueryComponent (escape EncodeQueryComponent s) = Inr s"
    by (induction s) auto
  then show ?thesis by (simp add: QueryEscape_def QueryUnescape_def)
qed

section \<open>Queries\<close>

text \<open>\<open>strings.Cut\<close> at a character.\<close>

definition Cut :: "char \<Rightarrow> string \<Rightarrow> string \<times> string" where
  "Cut c s = (takeWhile (\<lambda>x. x \<noteq> c) s, drop 1 (dropWhile (\<lambda>x. x \<noteq> c) s))"

text \<open>\<open>url.Values\<close>: the values of each key, in the order of the query.\<close>

type_synonym Values = "(string \<times> string list) list"

definition addValue :: "string \<Rightarrow> string \<Rightarrow> Values \<Rightarrow> Values" where
  "addValue k v m = mput k ((case map_of m k of None \<Rightarrow> [] | Some vs \<Rightarrow> vs) @ [v]) m"

text \<open>One \<open>key=value\<close> pair: \<open>None\<close> for an empty one, an error for a malformed one.\<close>

definition queryPair :: "string \<Rightarrow> (string \<times> string) option res" where
  "queryPair p =
     (if CHR '';'' \<in> set p then Inl (Errorf ''invalid semicolon separator in query'' [])
      else if p = [] then Inr None
      else case Cut (CHR ''='') p of (k, v) \<Rightarrow>
        bindR (QueryUnescape k) (\<lambda>k'. bindR (QueryUnescape v) (\<lambda>v'. Inr (Some (k', v')))))"

text \<open>\<open>parseQuery\<close> goes on after an error: the values it could read, and the first error.\<close>

fun parseQuery :: "string list \<Rightarrow> Values \<Rightarrow> error option \<Rightarrow> Values \<times> error option" where
  "parseQuery [] m e = (m, e)"
| "parseQuery (p # ps) m e = (case queryPair p of
     Inl err \<Rightarrow> parseQuery ps m (case e of None \<Rightarrow> Some err | Some _ \<Rightarrow> e)
   | Inr None \<Rightarrow> parseQuery ps m e
   | Inr (Some (k, v)) \<Rightarrow> parseQuery ps (addValue k v m) e)"

definition ParseQuery :: "string \<Rightarrow> Values res" where
  "ParseQuery q = (case parseQuery (SplitC (CHR ''&'') q) [] None of
     (m, None) \<Rightarrow> Inr m | (m, Some e) \<Rightarrow> Inl e)"

text \<open>\<open>u.Query()\<close> drops the malformed pairs.\<close>

definition Query :: "string \<Rightarrow> Values" where
  "Query q = fst (parseQuery (SplitC (CHR ''&'') q) [] None)"

definition Values_Get :: "Values \<Rightarrow> string \<Rightarrow> string" where
  "Values_Get m k = (case map_of m k of Some (v # _) \<Rightarrow> v | _ \<Rightarrow> [])"

definition Values_Has :: "Values \<Rightarrow> string \<Rightarrow> bool" where
  "Values_Has m k \<longleftrightarrow> map_of m k \<noteq> None"

definition Values_Encode :: "Values \<Rightarrow> string" where
  "Values_Encode m = Join ''&'' (concat (map (\<lambda>k.
     map (\<lambda>v. QueryEscape k @ ''='' @ QueryEscape v) (case map_of m k of None \<Rightarrow> [] | Some vs \<Rightarrow> vs))
     (sorted_keys m)))"

section \<open>URLs\<close>

record URL =
  url_Scheme :: string
  url_Opaque :: string
  url_User :: "(string \<times> string option) option"
  url_Host :: string
  url_Path :: string
  url_RawPath :: string
  url_OmitHost :: bool
  url_ForceQuery :: bool
  url_RawQuery :: string
  url_Fragment :: string
  url_RawFragment :: string

definition emptyURL :: URL where
  "emptyURL = \<lparr>url_Scheme = [], url_Opaque = [], url_User = None, url_Host = [], url_Path = [],
     url_RawPath = [], url_OmitHost = False, url_ForceQuery = False, url_RawQuery = [],
     url_Fragment = [], url_RawFragment = []\<rparr>"

definition to_lower :: "char \<Rightarrow> char" where
  "to_lower c = (let n = (of_char c :: nat) in if 65 \<le> n \<and> n \<le> 90 then char_of (n + 32) else c)"

definition getScheme :: "string \<Rightarrow> (string \<times> string) res" where
  "getScheme s =
     (let pre = takeWhile (\<lambda>c. is_alnum c \<or> c \<in> set ''+-.'') s; r = drop (length pre) s
      in if s = [] then Inr ([], s)
         else if hd s = CHR '':'' then Inl (Errorf ''missing protocol scheme'' [])
         else if r = [] \<or> hd r \<noteq> CHR '':'' \<or> \<not> is_letter (hd s) then Inr ([], s)
         else Inr (pre, tl r))"

definition last_index :: "char \<Rightarrow> string \<Rightarrow> nat option" where
  "last_index c s = (if c \<in> set s then Some (length s - 1 - length (takeWhile (\<lambda>x. x \<noteq> c) (rev s))) else None)"

definition validOptionalPort :: "string \<Rightarrow> bool" where
  "validOptionalPort p \<longleftrightarrow> p = [] \<or> hd p = CHR '':'' \<and> list_all is_digit (tl p)"

definition validUserinfo :: "string \<Rightarrow> bool" where
  "validUserinfo s \<longleftrightarrow> list_all (\<lambda>c. is_alnum c \<or> c \<in> set ''-._:~!$&()*+,;=%@'' \<union> {CHR 0x27}) s"

text \<open>The position of the first \<open>%25\<close>, which starts the zone of an address in brackets.\<close>

fun zone_index :: "string \<Rightarrow> nat option" where
  "zone_index [] = None"
| "zone_index (c # s) = (if take 3 (c # s) = ''%25'' then Some 0 else map_option Suc (zone_index s))"

definition parseHost :: "string \<Rightarrow> string res" where
  "parseHost host =
     (if host \<noteq> [] \<and> hd host = CHR ''['' then
        (case last_index (CHR '']'') host of
           None \<Rightarrow> Inl (Errorf ''missing ']' in host'' [])
         | Some i \<Rightarrow>
             if \<not> validOptionalPort (drop (i + 1) host)
             then Inl (Errorf ''invalid port %q after host'' [drop (i + 1) host])
             else (case zone_index (take i host) of
                None \<Rightarrow> unescape EncodeHost host
              | Some z \<Rightarrow>
                  bindR (unescape EncodeHost (take z host)) (\<lambda>h1.
                  bindR (unescape EncodeZone (drop z (take i host))) (\<lambda>h2.
                  bindR (unescape EncodeHost (drop i host)) (\<lambda>h3. Inr (h1 @ h2 @ h3))))))
      else (case last_index (CHR '':'') host of
          Some i \<Rightarrow>
            if \<not> validOptionalPort (drop i host) then Inl (Errorf ''invalid port %q after host'' [drop i host])
            else unescape EncodeHost host
        | None \<Rightarrow> unescape EncodeHost host))"

definition parseAuthority :: "string \<Rightarrow> ((string \<times> string option) option \<times> string) res" where
  "parseAuthority a = (case last_index (CHR ''@'') a of
     None \<Rightarrow> bindR (parseHost a) (\<lambda>h. Inr (None, h))
   | Some i \<Rightarrow> bindR (parseHost (drop (i + 1) a)) (\<lambda>h.
       let ui = take i a in
       if \<not> validUserinfo ui then Inl (Errorf ''net/url: invalid userinfo'' [])
       else if CHR '':'' \<notin> set ui
       then bindR (unescape EncodeUserPassword ui) (\<lambda>u. Inr (Some (u, None), h))
       else case Cut (CHR '':'') ui of (u, p) \<Rightarrow>
         bindR (unescape EncodeUserPassword u) (\<lambda>u'.
         bindR (unescape EncodeUserPassword p) (\<lambda>p'. Inr (Some (u', Some p'), h)))))"

definition setPath :: "string \<Rightarrow> URL \<Rightarrow> URL res" where
  "setPath p u = bindR (unescape EncodePath p) (\<lambda>path.
     Inr (u\<lparr>url_Path := path, url_RawPath := (if p = escape EncodePath path then [] else p)\<rparr>))"

definition setFragment :: "string \<Rightarrow> URL \<Rightarrow> URL res" where
  "setFragment f u = bindR (unescape EncodeFragment f) (\<lambda>frag.
     Inr (u\<lparr>url_Fragment := frag, url_RawFragment := (if f = escape EncodeFragment frag then [] else f)\<rparr>))"

definition is_ctl :: "char \<Rightarrow> bool" where
  "is_ctl c \<longleftrightarrow> (of_char c :: nat) < 32 \<or> (of_char c :: nat) = 127"

definition cutQuery :: "string \<Rightarrow> string \<times> bool \<times> string" where
  "cutQuery rest =
     (if rest \<noteq> [] \<and> last rest = CHR ''?'' \<and> count_list rest (CHR ''?'') = 1 then (butlast rest, True, [])
      else case Cut (CHR ''?'') rest of (a, b) \<Rightarrow> (a, False, b))"

definition parseURL :: "string \<Rightarrow> URL res" where
  "parseURL raw =
     (if list_ex is_ctl raw then Inl (Errorf ''net/url: invalid control character in URL'' [])
      else if raw = ''*'' then Inr (emptyURL\<lparr>url_Path := ''*''\<rparr>)
      else bindR (getScheme raw) (\<lambda>(scheme, rest0).
        case cutQuery rest0 of (rest, force, q) \<Rightarrow>
        let u = emptyURL\<lparr>url_Scheme := map to_lower scheme, url_ForceQuery := force, url_RawQuery := q\<rparr> in
        if \<not> HasPrefix rest ''/'' \<and> scheme \<noteq> [] then Inr (u\<lparr>url_Opaque := rest\<rparr>)
        else if \<not> HasPrefix rest ''/'' \<and> CHR '':'' \<in> set (fst (Cut (CHR ''/'') rest))
        then Inl (Errorf ''first path segment in URL cannot contain colon'' [])
        else if (scheme \<noteq> [] \<or> \<not> HasPrefix rest ''///'') \<and> HasPrefix rest ''//'' then
          (let a = drop 2 rest; auth = takeWhile (\<lambda>c. c \<noteq> CHR ''/'') a; path = drop (length auth) a in
           bindR (parseAuthority auth) (\<lambda>(user, host). setPath path (u\<lparr>url_User := user, url_Host := host\<rparr>)))
        else setPath rest (u\<lparr>url_OmitHost := (scheme \<noteq> [] \<and> HasPrefix rest ''/'')\<rparr>)))"

definition url_Parse :: "string \<Rightarrow> URL res" where
  "url_Parse raw = (case Cut (CHR ''#'') raw of (u, frag) \<Rightarrow>
     wrapR ''parse %q: %w'' [raw] (bindR (parseURL u) (\<lambda>url.
       if frag = [] then Inr url else setFragment frag url)))"

text \<open>\<open>u.String()\<close>.\<close>

definition validEncoded :: "encoding \<Rightarrow> string \<Rightarrow> bool" where
  "validEncoded mode s \<longleftrightarrow>
     list_all (\<lambda>c. c \<in> set ''!$&()*+,;=:@[]%'' \<union> {CHR 0x27} \<or> \<not> shouldEscape mode c) s"

definition escaped :: "encoding \<Rightarrow> string \<Rightarrow> string \<Rightarrow> string" where
  "escaped mode raw plain =
     (if raw \<noteq> [] \<and> validEncoded mode raw \<and> unescape mode raw = Inr plain then raw
      else if mode = EncodePath \<and> plain = ''*'' then ''*''
      else escape mode plain)"

definition Userinfo_String :: "string \<times> string option \<Rightarrow> string" where
  "Userinfo_String ui = (case ui of (u, p) \<Rightarrow>
     escape EncodeUserPassword u @ (case p of None \<Rightarrow> [] | Some p \<Rightarrow> '':'' @ escape EncodeUserPassword p))"

definition url_String :: "URL \<Rightarrow> string" where
  "url_String u =
     (let scheme = (if url_Scheme u \<noteq> [] then url_Scheme u @ '':'' else []);
          authority =
            (if (url_Scheme u \<noteq> [] \<or> url_Host u \<noteq> [] \<or> url_User u \<noteq> None)
                \<and> \<not> (url_OmitHost u \<and> url_Host u = [] \<and> url_User u = None)
             then (if url_Host u \<noteq> [] \<or> url_Path u \<noteq> [] \<or> url_User u \<noteq> None then ''//'' else [])
               @ (case url_User u of None \<Rightarrow> [] | Some ui \<Rightarrow> Userinfo_String ui @ ''@'')
               @ escape EncodeHost (url_Host u)
             else []);
          path = escaped EncodePath (url_RawPath u) (url_Path u);
          slash = (if path \<noteq> [] \<and> hd path \<noteq> CHR ''/'' \<and> url_Host u \<noteq> [] then ''/'' else []);
          dot = (if scheme @ authority @ slash = [] \<and> CHR '':'' \<in> set (fst (Cut (CHR ''/'') path)) then ''./'' else [])
      in scheme
         @ (if url_Opaque u \<noteq> [] then url_Opaque u else authority @ slash @ dot @ path)
         @ (if url_ForceQuery u \<or> url_RawQuery u \<noteq> [] then ''?'' @ url_RawQuery u else [])
         @ (if url_Fragment u \<noteq> [] then ''#'' @ escaped EncodeFragment (url_RawFragment u) (url_Fragment u) else []))"

text \<open>\<open>u.Hostname()\<close> and \<open>u.Port()\<close>.\<close>

definition splitHostPort :: "string \<Rightarrow> string \<times> string" where
  "splitHostPort hp =
     (let (h, p) = (case last_index (CHR '':'') hp of
          Some i \<Rightarrow> if validOptionalPort (drop i hp) then (take i hp, drop (i + 1) hp) else (hp, [])
        | None \<Rightarrow> (hp, []))
      in (if HasPrefix h ''['' \<and> HasSuffix h '']'' then butlast (tl h) else h, p))"

definition url_Hostname :: "URL \<Rightarrow> string" where
  "url_Hostname u = fst (splitHostPort (url_Host u))"

definition url_Port :: "URL \<Rightarrow> string" where
  "url_Port u = snd (splitHostPort (url_Host u))"

end
