(* ===== verification/Providers.thy ===== *)
theory Providers
  imports MachineController GoURL
begin

text \<open>
  \<open>pkg/cloudprovider\<close> and \<open>pkg/util/ini\<close>: the cloud configuration of the in-tree cloud providers,
  from the \<open>CloudProviderSpec\<close> of a MachineDeployment to the text the kubelet reads. The version
  library \<open>semver\<close> and the YAML encoder are parameters (\<open>verlib\<close>). The templates are functions that
  write what \<open>text/template\<close> writes for them.
\<close>

record verlib =
  semver_NewVersion :: "string \<Rightarrow> string res"
  semver_Check :: "string \<Rightarrow> string \<Rightarrow> bool"
  semverCompare :: "string \<Rightarrow> string \<Rightarrow> bool res"
  yaml_KubevirtConfig :: "string \<Rightarrow> string \<Rightarrow> string res"

section \<open>INI values\<close>

text \<open>\<open>ini.Escape\<close>: backslashes and double quotes are escaped, and the value is quoted.\<close>

definition ini_escape_char :: "char \<Rightarrow> string" where
  "ini_escape_char c =
     (if c = CHR 0x5C then [CHR 0x5C, CHR 0x5C] else if c = CHR 0x22 then [CHR 0x5C, CHR 0x22] else [c])"

definition ini_Escape :: "string \<Rightarrow> string" where
  "ini_Escape s = [CHR 0x22] @ concat (map ini_escape_char s) @ [CHR 0x22]"

definition specMissing :: error where
  "specMissing = Errorf ''CloudProviderSpec in the MachineDeployment cannot be empty'' []"

text \<open>\<open>getConfig\<close> of every provider starts with the raw specification.\<close>

definition withSpec :: "ProviderConfig \<Rightarrow> ((string \<times> json) list \<Rightarrow> 'a res) \<Rightarrow> 'a res" where
  "withSpec pc f = (case pc_CloudProviderSpec pc of
     None \<Rightarrow> Inl specMissing
   | Some raw \<Rightarrow> bindR (wrapR ''failed to unmarshal CloudProviderSpec: %w'' [] (Unmarshal Inr raw)) f)"

text \<open>
  The raw configuration is decoded before any variable is resolved: a wrong field is reported
  first. \<open>rawVars\<close> decodes the fields of the names given.
\<close>

definition rawVars :: "resolver \<Rightarrow> string list \<Rightarrow> (string \<times> json) list \<Rightarrow> ConfigVar list res" where
  "rawVars R names ms = mapR (\<lambda>n. rawVar R n ms) names"

definition var :: "string list \<Rightarrow> ConfigVar list \<Rightarrow> string \<Rightarrow> ConfigVar" where
  "var names vs n = (case map_of (zip names vs) n of None \<Rightarrow> emptyVar | Some v \<Rightarrow> v)"

definition finish :: "'c res \<Rightarrow> ('c \<Rightarrow> string res) \<Rightarrow> string res" where
  "finish c toString =
     bindR (wrapR ''failed to parse config: %w'' [] c) (\<lambda>cc.
       wrapR ''failed to convert cloud-config to string: %w'' [] (toString cc))"

section \<open>AWS\<close>

record AWSOpts =
  aws_Zone :: string
  aws_VPC :: string
  aws_SubnetID :: string

definition aws_fields :: "string list" where
  "aws_fields = [''availabilityZone'', ''vpcId'', ''subnetId'']"

definition aws_getConfig :: "resolver \<Rightarrow> ProviderConfig \<Rightarrow> AWSOpts res" where
  "aws_getConfig R pc = withSpec pc (\<lambda>ms. bindR (rawVars R aws_fields ms) (\<lambda>vs.
     let v = var aws_fields vs in
     bindR (GetStringValue R (v ''availabilityZone'')) (\<lambda>zone.
     bindR (GetStringValue R (v ''vpcId'')) (\<lambda>vpc.
     bindR (GetStringValue R (v ''subnetId'')) (\<lambda>subnet.
       Inr \<lparr>aws_Zone = zone, aws_VPC = vpc, aws_SubnetID = subnet\<rparr>)))))"

definition aws_ToString :: "AWSOpts \<Rightarrow> string" where
  "aws_ToString c = ''[global]'' @ nl
     @ ''Zone='' @ ini_Escape (aws_Zone c) @ nl
     @ ''VPC='' @ ini_Escape (aws_VPC c) @ nl
     @ ''SubnetID='' @ ini_Escape (aws_SubnetID c) @ nl"

definition aws_GetCloudConfig :: "resolver \<Rightarrow> ProviderConfig \<Rightarrow> string res" where
  "aws_GetCloudConfig R pc = finish (aws_getConfig R pc) (Inr \<circ> aws_ToString)"

section \<open>Azure\<close>

record AzureConfig =
  az_Cloud :: string
  az_TenantID :: string
  az_SubscriptionID :: string
  az_AADClientID :: string
  az_AADClientSecret :: string
  az_ResourceGroup :: string
  az_Location :: string
  az_VNetName :: string
  az_SubnetName :: string
  az_RouteTableName :: string
  az_SecurityGroupName :: string
  az_PrimaryAvailabilitySetName :: string
  az_VnetResourceGroup :: string
  az_UseInstanceMetadata :: bool
  az_LoadBalancerSku :: string

definition azure_fields :: "string list" where
  "azure_fields = [''subscriptionID'', ''tenantID'', ''clientID'', ''clientSecret'', ''location'', ''resourceGroup'',
     ''vnetResourceGroup'', ''vnetName'', ''subnetName'', ''loadBalancerSku'', ''routeTableName'',
     ''availabilitySet'', ''securityGroupName'']"

definition field_err :: "string \<Rightarrow> 'a res \<Rightarrow> 'a res" where
  "field_err name r = wrapR ''failed to get the value of %q field, error = %w'' [name] r"

text \<open>The availability set is used if it is named and not switched off.\<close>

definition primarySet :: "bool option \<Rightarrow> string \<Rightarrow> string" where
  "primarySet assign avset =
     (if assign = None \<and> avset \<noteq> [] \<or> assign = Some True \<and> avset \<noteq> [] then avset else [])"

definition azure_getConfig :: "resolver \<Rightarrow> ProviderConfig \<Rightarrow> AzureConfig res" where
  "azure_getConfig R pc = withSpec pc (\<lambda>ms.
     bindR (rawVars R azure_fields ms) (\<lambda>vs.
     bindR (decode_field (map_option Some \<circ> as_bool) ''assignAvailabilitySet'' ms None) (\<lambda>assign.
     let v = var azure_fields vs in
     bindR (field_err ''tenantID'' (GetStringValueOrEnv R (v ''tenantID'') ''AZURE_TENANT_ID'')) (\<lambda>tenant.
     bindR (field_err ''subscriptionID'' (GetStringValueOrEnv R (v ''subscriptionID'') ''AZURE_SUBSCRIPTION_ID'')) (\<lambda>sub.
     bindR (field_err ''clientID'' (GetStringValueOrEnv R (v ''clientID'') ''AZURE_CLIENT_ID'')) (\<lambda>client.
     bindR (field_err ''clientSecret'' (GetStringValueOrEnv R (v ''clientSecret'') ''AZURE_CLIENT_SECRET'')) (\<lambda>secret.
     bindR (field_err ''resourceGroup'' (GetStringValue R (v ''resourceGroup''))) (\<lambda>rg.
     bindR (field_err ''location'' (GetStringValue R (v ''location''))) (\<lambda>loc.
     bindR (field_err ''vnetName'' (GetStringValue R (v ''vnetName''))) (\<lambda>vnet.
     bindR (field_err ''subnetName'' (GetStringValue R (v ''subnetName''))) (\<lambda>subnet.
     bindR (field_err ''routeTableName'' (GetStringValue R (v ''routeTableName''))) (\<lambda>route.
     bindR (field_err ''securityGroupName'' (GetStringValue R (v ''securityGroupName''))) (\<lambda>sg.
     bindR (field_err ''vnetResourceGroup'' (GetStringValue R (v ''vnetResourceGroup''))) (\<lambda>vrg.
     bindR (field_err ''loadBalancerSku'' (GetStringValue R (v ''loadBalancerSku''))) (\<lambda>sku.
     bindR (field_err ''availabilitySet'' (GetStringValue R (v ''availabilitySet''))) (\<lambda>avset.
       Inr \<lparr>az_Cloud = ''AZUREPUBLICCLOUD'', az_TenantID = tenant, az_SubscriptionID = sub,
         az_AADClientID = client, az_AADClientSecret = secret, az_ResourceGroup = rg, az_Location = loc,
         az_VNetName = vnet, az_SubnetName = subnet, az_RouteTableName = route, az_SecurityGroupName = sg,
         az_PrimaryAvailabilitySetName = primarySet assign avset, az_VnetResourceGroup = vrg,
         az_UseInstanceMetadata = True, az_LoadBalancerSku = sku\<rparr>))))))))))))))))"

definition azure_ToString :: "AzureConfig \<Rightarrow> string" where
  "azure_ToString c = json_print (JObj [
     (''cloud'', JStr (az_Cloud c)), (''tenantId'', JStr (az_TenantID c)),
     (''subscriptionId'', JStr (az_SubscriptionID c)), (''aadClientId'', JStr (az_AADClientID c)),
     (''aadClientSecret'', JStr (az_AADClientSecret c)), (''resourceGroup'', JStr (az_ResourceGroup c)),
     (''location'', JStr (az_Location c)), (''vnetName'', JStr (az_VNetName c)),
     (''subnetName'', JStr (az_SubnetName c)), (''routeTableName'', JStr (az_RouteTableName c)),
     (''securityGroupName'', JStr (az_SecurityGroupName c)),
     (''primaryAvailabilitySetName'', JStr (az_PrimaryAvailabilitySetName c)),
     (''vnetResourceGroup'', JStr (az_VnetResourceGroup c)),
     (''useInstanceMetadata'', JBool (az_UseInstanceMetadata c)),
     (''loadBalancerSku'', JStr (az_LoadBalancerSku c))])"

definition azure_GetCloudConfig :: "resolver \<Rightarrow> ProviderConfig \<Rightarrow> string res" where
  "azure_GetCloudConfig R pc = finish (azure_getConfig R pc) (Inr \<circ> azure_ToString)"

section \<open>Google\<close>

record GCEOpts =
  gce_ProjectID :: string
  gce_LocalZone :: string
  gce_NetworkName :: string
  gce_SubnetworkName :: string
  gce_MultiZone :: bool
  gce_Regional :: bool
  gce_NodeTags :: "string list"

definition gce_fields :: "string list" where
  "gce_fields = [''serviceAccount'', ''zone'', ''network'', ''subnetwork'', ''multizone'', ''regional'']"

text \<open>A service account is the base64 encoding of a JSON object of strings.\<close>

definition decodeStringMap :: "(string \<times> json) list \<Rightarrow> strmap res" where
  "decodeStringMap ms = bindR (mapR (\<lambda>(k, j). if j = JNull then Inr (k, []) else case as_string j of
       None \<Rightarrow> Inl (mismatch k) | Some s \<Rightarrow> Inr (k, s)) ms) (\<lambda>kvs. Inr (fold (\<lambda>(k, v). mput k v) kvs []))"

definition gce_getProjectID :: "resolver \<Rightarrow> ConfigVar \<Rightarrow> string res" where
  "gce_getProjectID R account =
     bindR (wrapR ''cannot retrieve service account: %w'' [] (GetStringValueOrEnv R account ''GOOGLE_SERVICE_ACCOUNT'')) (\<lambda>serviceAccount.
     case b64_decode serviceAccount of
       None \<Rightarrow> Inl (Errorf ''failed to decode base64 service account: %w'' [])
     | Some sa \<Rightarrow> bindR (wrapR ''failed unmarshalling service account: %w'' [] (Unmarshal decodeStringMap sa))
         (\<lambda>sam. Inr (mget sam ''project_id'')))"

definition gce_getConfig :: "resolver \<Rightarrow> ProviderConfig \<Rightarrow> GCEOpts res" where
  "gce_getConfig R pc = withSpec pc (\<lambda>ms.
     bindR (rawVars R gce_fields ms) (\<lambda>vs.
     bindR (decode_field as_strings ''tags'' ms []) (\<lambda>tags.
     let v = var gce_fields vs in
     bindR (gce_getProjectID R (v ''serviceAccount'')) (\<lambda>_.
     bindR (wrapR ''cannot retrieve zone: %w'' [] (GetStringValue R (v ''zone''))) (\<lambda>zone.
     bindR (wrapR ''failed to retrieve multizone: %w'' [] (GetBoolValue R (v ''multizone''))) (\<lambda>multi.
     bindR (wrapR ''failed to retrieve regional: %w'' [] (GetBoolValue R (v ''regional''))) (\<lambda>regional.
     bindR (wrapR ''cannot retrieve network: %w'' [] (GetStringValue R (v ''network''))) (\<lambda>network.
     bindR (wrapR ''cannot retrieve subnetwork: %w'' [] (GetStringValue R (v ''subnetwork''))) (\<lambda>subnet.
     bindR (gce_getProjectID R (v ''serviceAccount'')) (\<lambda>project.
       Inr \<lparr>gce_ProjectID = project, gce_LocalZone = zone, gce_NetworkName = network,
         gce_SubnetworkName = subnet, gce_MultiZone = multi, gce_Regional = regional,
         gce_NodeTags = tags\<rparr>))))))))))"

definition gce_ToString :: "GCEOpts \<Rightarrow> string" where
  "gce_ToString c = ''[global]'' @ nl
     @ ''project-id = '' @ ini_Escape (gce_ProjectID c) @ nl
     @ ''local-zone = '' @ ini_Escape (gce_LocalZone c) @ nl
     @ ''network-name = '' @ ini_Escape (gce_NetworkName c) @ nl
     @ ''subnetwork-name = '' @ ini_Escape (gce_SubnetworkName c) @ nl
     @ ''multizone = '' @ FormatBool (gce_MultiZone c) @ nl
     @ ''regional = '' @ FormatBool (gce_Regional c) @ nl
     @ concat (map (\<lambda>t. ''node-tags = '' @ ini_Escape t @ nl) (gce_NodeTags c))"

definition gce_GetCloudConfig :: "resolver \<Rightarrow> ProviderConfig \<Rightarrow> string res" where
  "gce_GetCloudConfig R pc = finish (gce_getConfig R pc) (Inr \<circ> gce_ToString)"

section \<open>KubeVirt\<close>

record KubevirtOpts =
  kv_Kubeconfig :: string
  kv_Namespace :: string

definition kubevirt_getNamespace :: "resolver \<Rightarrow> string" where
  "kubevirt_getNamespace R =
     (let ns = Getenv R ''POD_NAMESPACE'' in if ns = [] then ''kube-system'' else ns)"

definition b64_lenient :: "string \<Rightarrow> string" where
  "b64_lenient s = (case b64_decode s of None \<Rightarrow> s | Some v \<Rightarrow> v)"

definition kubevirt_kubeconfig :: "resolver \<Rightarrow> ConfigVar \<Rightarrow> string res" where
  "kubevirt_kubeconfig R v =
     (if cv_Value v \<noteq> [] then
        (case b64_decode (cv_Value v) of
           None \<Rightarrow> Inl (Errorf (''failed to decode base64 encoded kubeconfig. Expected value is a base64 ''
             @ ''encoded Kubeconfig in JSON or YAML format: %w'') [])
         | Some k \<Rightarrow> Inr k)
      else bindR (wrapR ''failed to get value of %q field: %w'' [''kubeconfig'']
          (GetStringValueOrEnv R v ''KUBEVIRT_KUBECONFIG'')) (\<lambda>k. Inr (b64_lenient k)))"

definition kubevirt_getConfig :: "resolver \<Rightarrow> ProviderConfig \<Rightarrow> KubevirtOpts res" where
  "kubevirt_getConfig R pc = withSpec pc (\<lambda>ms.
     bindR (nested ''auth'' ms) (\<lambda>auth. bindR (rawVar R ''kubeconfig'' auth) (\<lambda>v.
     bindR (kubevirt_kubeconfig R v) (\<lambda>k.
       Inr \<lparr>kv_Kubeconfig = k, kv_Namespace = kubevirt_getNamespace R\<rparr>))))"

definition kubevirt_GetCloudConfig :: "verlib \<Rightarrow> resolver \<Rightarrow> ProviderConfig \<Rightarrow> string res" where
  "kubevirt_GetCloudConfig V R pc = finish (kubevirt_getConfig R pc)
     (\<lambda>c. yaml_KubevirtConfig V (kv_Kubeconfig c) (kv_Namespace c))"

section \<open>OpenStack\<close>

record OpenstackOpts =
  os_AuthURL :: string
  os_Username :: string
  os_Password :: string
  os_ApplicationCredentialID :: string
  os_ApplicationCredentialSecret :: string
  os_ProjectName :: string
  os_ProjectID :: string
  os_DomainName :: string
  os_Region :: string

record OpenstackConfig =
  osc_Global :: OpenstackOpts
  osc_ManageSecurityGroups :: bool
  osc_BSVersion :: string
  osc_TrustDevicePath :: bool
  osc_IgnoreVolumeAZ :: bool
  osc_NodeVolumeAttachLimit :: nat
  osc_Version :: string

definition openstack_fields :: "string list" where
  "openstack_fields = [''identityEndpoint'', ''username'', ''password'', ''applicationCredentialID'',
     ''applicationCredentialSecret'', ''domainName'', ''projectName'', ''projectID'', ''tenantName'', ''tenantID'',
     ''tokenId'', ''region'', ''trustDevicePath'']"

text \<open>An error is not always fatal: the resolver's result counts as the empty string then.\<close>

definition orEmpty :: "string res \<Rightarrow> string" where
  "orEmpty r = (case r of Inl e \<Rightarrow> [] | Inr s \<Rightarrow> s)"

definition orFallback :: "string res \<Rightarrow> string res \<Rightarrow> string res" where
  "orFallback r r' = (case r of Inr s \<Rightarrow> if length s > 0 then Inr s else r' | Inl e \<Rightarrow> r')"

definition openstack_getConfigAuth :: "resolver \<Rightarrow> (string \<Rightarrow> ConfigVar) \<Rightarrow> OpenstackOpts \<Rightarrow> OpenstackOpts res" where
  "openstack_getConfigAuth R v opts =
     bindR (field_err ''applicationCredentialID''
         (GetStringValueOrEnv R (v ''applicationCredentialID'') ''OS_APPLICATION_CREDENTIAL_ID'')) (\<lambda>appID.
     if appID \<noteq> [] then
       bindR (field_err ''applicationCredentialSecret''
           (GetStringValueOrEnv R (v ''applicationCredentialSecret'') ''OS_APPLICATION_CREDENTIAL_SECRET'')) (\<lambda>secret.
         Inr (opts\<lparr>os_ApplicationCredentialID := appID, os_ApplicationCredentialSecret := secret\<rparr>))
     else
       bindR (field_err ''username'' (GetStringValueOrEnv R (v ''username'') ''OS_USER_NAME'')) (\<lambda>user.
       bindR (field_err ''password'' (GetStringValueOrEnv R (v ''password'') ''OS_PASSWORD'')) (\<lambda>pass.
       bindR (field_err ''projectName'' (orFallback (GetStringValueOrEnv R (v ''projectName'') ''OS_PROJECT_NAME'')
           (GetStringValueOrEnv R (v ''tenantName'') ''OS_TENANT_NAME''))) (\<lambda>pname.
       bindR (field_err ''projectID'' (orFallback (GetStringValueOrEnv R (v ''projectID'') ''OS_PROJECT_ID'')
           (GetStringValueOrEnv R (v ''tenantID'') ''OS_TENANT_ID''))) (\<lambda>pid.
         Inr (opts\<lparr>os_ApplicationCredentialID := appID, os_Username := user, os_Password := pass,
           os_ProjectName := pname, os_ProjectID := pid\<rparr>))))))"

definition openstack_getConfig :: "resolver \<Rightarrow> ProviderConfig \<Rightarrow> string \<Rightarrow> OpenstackConfig res" where
  "openstack_getConfig R pc kubeletVersion = withSpec pc (\<lambda>ms.
     bindR (rawVars R openstack_fields ms) (\<lambda>vs.
     bindR (decode_field (map_option Some \<circ> as_uint) ''nodeVolumeAttachLimit'' ms None) (\<lambda>limit.
     let v = var openstack_fields vs;
         region = orEmpty (GetStringValueOrEnv R (v ''region'') ''OS_REGION_NAME'');
         domain = orEmpty (GetStringValueOrEnv R (v ''domainName'') ''OS_DOMAIN_NAME'') in
     bindR (field_err ''identityEndpoint'' (GetStringValueOrEnv R (v ''identityEndpoint'') ''OS_AUTH_URL'')) (\<lambda>url.
     bindR (GetBoolValue R (v ''trustDevicePath'')) (\<lambda>trust.
     bindR (openstack_getConfigAuth R v \<lparr>os_AuthURL = url, os_Username = [], os_Password = [],
         os_ApplicationCredentialID = [], os_ApplicationCredentialSecret = [], os_ProjectName = [],
         os_ProjectID = [], os_DomainName = domain, os_Region = region\<rparr>) (\<lambda>opts.
       Inr \<lparr>osc_Global = opts, osc_ManageSecurityGroups = True, osc_BSVersion = ''auto'',
         osc_TrustDevicePath = trust, osc_IgnoreVolumeAZ = True,
         osc_NodeVolumeAttachLimit = (case limit of None \<Rightarrow> 0 | Some n \<Rightarrow> n),
         osc_Version = kubeletVersion\<rparr>))))))"

text \<open>The template stops at the first \<open>semverCompare\<close> that fails.\<close>

definition openstack_ToString :: "verlib \<Rightarrow> OpenstackConfig \<Rightarrow> string res" where
  "openstack_ToString V c =
     (let g = osc_Global c in
      bindR (semverCompare V ''~1.9.10 || ~1.10.6 || ~1.11.1 || >=1.12.*'' (osc_Version c)) (\<lambda>lb.
      bindR (semverCompare V ''>=1.9'' (osc_Version c)) (\<lambda>bs. Inr (
        ''[Global]'' @ nl @ ''auth-url    = '' @ ini_Escape (os_AuthURL g)
        @ (if os_ApplicationCredentialID g \<noteq> [] then
             nl @ ''application-credential-id     = '' @ ini_Escape (os_ApplicationCredentialID g)
             @ nl @ ''application-credential-secret = '' @ ini_Escape (os_ApplicationCredentialSecret g)
           else
             nl @ ''username    = '' @ ini_Escape (os_Username g)
             @ nl @ ''password    = '' @ ini_Escape (os_Password g)
             @ nl @ ''tenant-name = '' @ ini_Escape (os_ProjectName g)
             @ nl @ ''tenant-id   = '' @ ini_Escape (os_ProjectID g)
             @ nl @ ''domain-name = '' @ ini_Escape (os_DomainName g))
        @ nl @ ''region      = '' @ ini_Escape (os_Region g) @ nl
        @ nl @ ''[LoadBalancer]''
        @ (if lb then nl @ ''manage-security-groups = '' @ FormatBool (osc_ManageSecurityGroups c) else [])
        @ nl @ nl @ ''[BlockStorage]''
        @ (if bs then nl @ ''ignore-volume-az  = '' @ FormatBool (osc_IgnoreVolumeAZ c) else [])
        @ nl @ ''trust-device-path = '' @ FormatBool (osc_TrustDevicePath c)
        @ nl @ ''bs-version        = '' @ ini_Escape (if osc_BSVersion c = [] then ''auto'' else osc_BSVersion c)
        @ (if osc_NodeVolumeAttachLimit c \<noteq> 0
           then nl @ ''node-volume-attach-limit = '' @ show_nat (osc_NodeVolumeAttachLimit c) else [])
        @ nl))))"

definition openstack_GetCloudConfig :: "verlib \<Rightarrow> resolver \<Rightarrow> ProviderConfig \<Rightarrow> string \<Rightarrow> string res" where
  "openstack_GetCloudConfig V R pc kubeletVersion =
     finish (openstack_getConfig R pc kubeletVersion) (openstack_ToString V)"

section \<open>vSphere\<close>

record VCenter =
  vc_User :: string
  vc_Password :: string
  vc_Port :: string
  vc_Datacenters :: string
  vc_IPFamily :: string

record VsphereConfig =
  vs_User :: string
  vs_Password :: string
  vs_InsecureFlag :: bool
  vs_VCenterPort :: string
  vs_ClusterID :: string
  vs_IPFamily :: string
  vs_SCSIControllerType :: string
  vs_VCenterIP :: string
  vs_Datacenter :: string
  vs_Folder :: string
  vs_DefaultDatastore :: string
  vs_VirtualCenter :: "(string \<times> VCenter) list"

definition vsphere_fields :: "string list" where
  "vsphere_fields = [''templateVMName'', ''vmNetName'', ''username'', ''password'', ''vsphereURL'', ''datacenter'',
     ''cluster'', ''folder'', ''datastoreCluster'', ''datastore'', ''allowInsecure'']"

definition vsphere_getURL :: "resolver \<Rightarrow> ConfigVar \<Rightarrow> URL res" where
  "vsphere_getURL R v =
     bindR (GetStringValueOrEnv R v ''VSPHERE_ADDRESS'') (\<lambda>u.
       let u' = (if HasPrefix u ''https://'' then u else ''https://'' @ u) in
       wrapR ''failed to parse %q as url: %w'' [u'] (url_Parse u'))"

definition vsphere_getConfig :: "resolver \<Rightarrow> ProviderConfig \<Rightarrow> VsphereConfig res" where
  "vsphere_getConfig R pc = withSpec pc (\<lambda>ms.
     bindR (rawVars R vsphere_fields ms) (\<lambda>vs.
     let v = var vsphere_fields vs in
     bindR (vsphere_getURL R (v ''vsphereURL'')) (\<lambda>url.
     bindR (GetStringValueOrEnv R (v ''username'') ''VSPHERE_USERNAME'') (\<lambda>user.
     bindR (GetStringValueOrEnv R (v ''password'') ''VSPHERE_PASSWORD'') (\<lambda>pass.
     bindR (GetBoolValueOrEnv R (v ''allowInsecure'') ''VSPHERE_ALLOW_INSECURE'') (\<lambda>insecure.
     bindR (GetStringValue R (v ''cluster'')) (\<lambda>clusterID.
     bindR (GetStringValue R (v ''datacenter'')) (\<lambda>dc.
     bindR (GetStringValue R (v ''folder'')) (\<lambda>folder.
     bindR (GetStringValue R (v ''datastore'')) (\<lambda>ds.
     bindR (GetStringValue R (v ''datastoreCluster'')) (\<lambda>dsc.
       Inr \<lparr>vs_User = user, vs_Password = pass, vs_InsecureFlag = insecure, vs_VCenterPort = url_Port url,
         vs_ClusterID = clusterID, vs_IPFamily = [], vs_SCSIControllerType = ''pvscsi'',
         vs_VCenterIP = url_Hostname url, vs_Datacenter = dc,
         vs_Folder = (if folder = [] then ''/'' @ dc @ ''/vm'' else folder),
         vs_DefaultDatastore = (if length ds = 0 then dsc else ds),
         vs_VirtualCenter = [(url_Hostname url, \<lparr>vc_User = user, vc_Password = pass, vc_Port = url_Port url,
           vc_Datacenters = dc, vc_IPFamily = []\<rparr>)]\<rparr>)))))))))))"

definition vsphere_section :: "string \<times> VCenter \<Rightarrow> string" where
  "vsphere_section nv = (case nv of (name, vc) \<Rightarrow>
     nl @ ''[VirtualCenter '' @ ini_Escape name @ '']''
     @ nl @ ''user = '' @ ini_Escape (vc_User vc)
     @ nl @ ''password = '' @ ini_Escape (vc_Password vc)
     @ nl @ ''port = '' @ vc_Port vc
     @ nl @ ''datacenters = '' @ ini_Escape (vc_Datacenters vc)
     @ (if vc_IPFamily vc \<noteq> [] then nl @ ''ip-family = '' @ ini_Escape (vc_IPFamily vc) else [])
     @ nl)"

definition vsphere_ToString :: "VsphereConfig \<Rightarrow> string" where
  "vsphere_ToString c =
     ''[Global]'' @ nl @ ''user              = '' @ ini_Escape (vs_User c)
     @ nl @ ''password          = '' @ ini_Escape (vs_Password c)
     @ nl @ ''port              = '' @ ini_Escape (vs_VCenterPort c)
     @ nl @ ''insecure-flag     = '' @ FormatBool (vs_InsecureFlag c)
     @ (if vs_IPFamily c \<noteq> [] then nl @ ''ip-family         = '' @ ini_Escape (vs_IPFamily c) else [])
     @ nl @ nl @ ''[Disk]'' @ nl @ ''scsicontrollertype = '' @ ini_Escape (vs_SCSIControllerType c)
     @ nl @ nl @ ''[Workspace]'' @ nl @ ''server            = '' @ ini_Escape (vs_VCenterIP c)
     @ nl @ ''datacenter        = '' @ ini_Escape (vs_Datacenter c)
     @ nl @ ''folder            = '' @ ini_Escape (vs_Folder c)
     @ nl @ ''default-datastore = '' @ ini_Escape (vs_DefaultDatastore c) @ nl @ nl
     @ concat (map (\<lambda>n. case map_of (vs_VirtualCenter c) n of None \<Rightarrow> [] | Some vc \<Rightarrow> vsphere_section (n, vc))
         (sorted_keys (vs_VirtualCenter c)))
     @ nl"

definition vsphere_GetCloudConfig :: "resolver \<Rightarrow> ProviderConfig \<Rightarrow> string res" where
  "vsphere_GetCloudConfig R pc = finish (vsphere_getConfig R pc) (Inr \<circ> vsphere_ToString)"

section \<open>The choice of the provider\<close>

definition noConfigProviders :: "string list" where
  "noConfigProviders = [''alibaba'', ''anexia'', ''digitalocean'', ''hetzner'', ''linode'', ''scaleway'',
     ''nutanix'', ''vmware-cloud-director'', ''opennebula'', ''edge'', ''baremetal'']"

definition GetCloudConfig :: "verlib \<Rightarrow> resolver \<Rightarrow> bool \<Rightarrow> ProviderConfig \<Rightarrow> string \<Rightarrow> string res" where
  "GetCloudConfig V R external pc kubeletVersion =
     (if external then Inr []
      else bindR (wrapR ''failed to parse kubelet version: %w'' [] (semver_NewVersion V kubeletVersion)) (\<lambda>_.
        if semver_Check V ''>= 1.29'' kubeletVersion then Inr []
        else let p = pc_CloudProvider pc in
          if p = ''aws'' then aws_GetCloudConfig R pc
          else if p = ''azure'' then azure_GetCloudConfig R pc
          else if p = ''gce'' then gce_GetCloudConfig R pc
          else if p = ''kubevirt'' then kubevirt_GetCloudConfig V R pc
          else if p = ''openstack'' then openstack_GetCloudConfig V R pc kubeletVersion
          else if p = ''vsphere'' then vsphere_GetCloudConfig R pc
          else if p \<in> set noConfigProviders then Inr []
          else Inl (Errorf ''unknown cloud provider'' [])))"

text \<open>Is there an in-tree provider in use, and is the external one.\<close>

definition KubeletCloudProviderConfig :: "string \<Rightarrow> bool \<Rightarrow> bool \<times> bool" where
  "KubeletCloudProviderConfig p external =
     (if p \<in> {''aws'', ''azure'', ''gce'', ''vsphere''} then (\<not> external, external) else (False, external))"

section \<open>Examples\<close>

text \<open>Version functions for examples: every version parses; one, from 1.29 on, and one before.\<close>

definition demo_verlib :: verlib where
  "demo_verlib = \<lparr>semver_NewVersion = Inr, semver_Check = (\<lambda>c v. True), semverCompare = (\<lambda>c v. Inr True),
     yaml_KubevirtConfig = (\<lambda>k n. Inr k)\<rparr>"

definition demo_oldlib :: verlib where
  "demo_oldlib = demo_verlib\<lparr>semver_Check := (\<lambda>c v. False)\<rparr>"

text \<open>A machine on AWS whose specification has the availability zone only.\<close>

definition demo_aws :: "string \<Rightarrow> string \<Rightarrow> ProviderConfig" where
  "demo_aws space zone = (demo_pc ''aws'' ''ubuntu'')\<lparr>pc_CloudProviderSpec := Some (''{'' @ space @ [CHR 0x22]
     @ ''availabilityZone'' @ [CHR 0x22] @ '':'' @ [CHR 0x22] @ zone @ [CHR 0x22] @ ''}'')\<rparr>"

lemma demo_aws_text:
  "GetCloudConfig demo_oldlib demo_resolver False (demo_aws [] ''a'') ''1.28.0''
    = Inr (aws_ToString \<lparr>aws_Zone = ''a'', aws_VPC = [], aws_SubnetID = []\<rparr>)"
  "GetCloudConfig demo_oldlib demo_resolver False (demo_aws '' '' ''a'') ''1.28.0''
    = Inr (aws_ToString \<lparr>aws_Zone = ''a'', aws_VPC = [], aws_SubnetID = []\<rparr>)"
  by code_simp+

section \<open>Properties\<close>

text \<open>An escaped value is read off the text that starts with it in one way only.\<close>

lemma ini_body_prefix:
  "concat (map ini_escape_char s) @ CHR 0x22 # u = concat (map ini_escape_char t) @ CHR 0x22 # v \<longleftrightarrow> s = t \<and> u = v"
proof (induction s arbitrary: t)
  case Nil
  show ?case by (cases t) (auto simp: ini_escape_char_def)
next
  case (Cons c s)
  then show ?case by (cases t) (auto simp: ini_escape_char_def)
qed

lemma ini_Escape_prefix: "ini_Escape s @ u = ini_Escape t @ v \<longleftrightarrow> s = t \<and> u = v"
  by (simp add: ini_Escape_def ini_body_prefix)

lemma FormatBool_prefix: "FormatBool a @ u = FormatBool b @ v \<longleftrightarrow> a = b \<and> u = v"
  by (cases a; cases b) (simp_all add: FormatBool_def)

lemma ini_Escape_inj: "ini_Escape s = ini_Escape t \<longleftrightarrow> s = t"
  using ini_Escape_prefix [of s "[]" t "[]"] by simp

lemmas text_prefix = ini_Escape_prefix FormatBool_prefix ini_Escape_inj

lemma finish_Inr: "finish r f = Inr t \<longleftrightarrow> (\<exists>c. r = Inr c \<and> f c = Inr t)"
  by (auto simp: finish_def res_simps)

lemma aws_text: "aws_ToString c = aws_ToString c' \<longleftrightarrow> c = c'"
  by (cases c; cases c') (auto simp: aws_ToString_def text_prefix)

lemma tag_lines: "concat (map (\<lambda>t. ''node-tags = '' @ ini_Escape t @ nl) ts) = concat (map (\<lambda>t. ''node-tags = '' @ ini_Escape t @ nl) us)
    \<longleftrightarrow> ts = us"
proof (induction ts arbitrary: us)
  case Nil
  show ?case by (cases us) simp_all
next
  case (Cons t ts)
  then show ?case by (cases us) (simp_all add: text_prefix)
qed

lemma gce_text: "gce_ToString c = gce_ToString c' \<longleftrightarrow> c = c'"
  by (cases c; cases c') (auto simp: gce_ToString_def text_prefix tag_lines [simplified])

lemma vsphere_shape:
  "vsphere_getConfig R pc = Inr c \<Longrightarrow> vs_IPFamily c = [] \<and> vs_VirtualCenter c = [(vs_VCenterIP c,
     \<lparr>vc_User = vs_User c, vc_Password = vs_Password c, vc_Port = vs_VCenterPort c, vc_Datacenters = vs_Datacenter c,
      vc_IPFamily = []\<rparr>)]"
  by (auto simp: vsphere_getConfig_def withSpec_def Let_def res_simps split: option.splits)

lemma vsphere_text:
  assumes "vsphere_getConfig R pc = Inr c" "vsphere_getConfig R' pc' = Inr c'" "vsphere_ToString c = vsphere_ToString c'"
  shows "c'\<lparr>vs_ClusterID := vs_ClusterID c\<rparr> = c"
  using vsphere_shape [OF assms(1)] vsphere_shape [OF assms(2)] assms(3)
  by (cases c; cases c') (auto simp: vsphere_ToString_def text_prefix)

text \<open>The credentials that the configuration of OpenStack carries.\<close>

definition openstack_credentials :: "OpenstackConfig \<Rightarrow> string list" where
  "openstack_credentials c = (let g = osc_Global c in
     if os_ApplicationCredentialID g \<noteq> [] then [os_ApplicationCredentialID g, os_ApplicationCredentialSecret g]
     else [os_Username g, os_Password g, os_ProjectName g, os_ProjectID g, os_DomainName g])"

definition openstack_head :: "OpenstackConfig \<Rightarrow> string" where
  "openstack_head c = (let g = osc_Global c in
     ''[Global]'' @ nl @ ''auth-url    = '' @ ini_Escape (os_AuthURL g)
     @ (if os_ApplicationCredentialID g \<noteq> [] then
          nl @ ''application-credential-id     = '' @ ini_Escape (os_ApplicationCredentialID g)
          @ nl @ ''application-credential-secret = '' @ ini_Escape (os_ApplicationCredentialSecret g)
        else
          nl @ ''username    = '' @ ini_Escape (os_Username g)
          @ nl @ ''password    = '' @ ini_Escape (os_Password g)
          @ nl @ ''tenant-name = '' @ ini_Escape (os_ProjectName g)
          @ nl @ ''tenant-id   = '' @ ini_Escape (os_ProjectID g)
          @ nl @ ''domain-name = '' @ ini_Escape (os_DomainName g))
     @ nl @ ''region      = '' @ ini_Escape (os_Region g))"

lemma openstack_starts:
  assumes "openstack_ToString V c = Inr t"
  shows "\<exists>u. t = openstack_head c @ u"
proof -
  obtain lb bs where "t = openstack_head c @ nl
        @ nl @ ''[LoadBalancer]''
        @ (if lb then nl @ ''manage-security-groups = '' @ FormatBool (osc_ManageSecurityGroups c) else [])
        @ nl @ nl @ ''[BlockStorage]''
        @ (if bs then nl @ ''ignore-volume-az  = '' @ FormatBool (osc_IgnoreVolumeAZ c) else [])
        @ nl @ ''trust-device-path = '' @ FormatBool (osc_TrustDevicePath c)
        @ nl @ ''bs-version        = '' @ ini_Escape (if osc_BSVersion c = [] then ''auto'' else osc_BSVersion c)
        @ (if osc_NodeVolumeAttachLimit c \<noteq> 0
           then nl @ ''node-volume-attach-limit = '' @ show_nat (osc_NodeVolumeAttachLimit c) else [])
        @ nl"
    using assms unfolding openstack_ToString_def openstack_head_def Let_def bindR_Inr sum.inject append_assoc by blast
  then show ?thesis by (rule exI)
qed

lemma openstack_heads:
  "openstack_head c @ u = openstack_head c' @ u' \<Longrightarrow> os_AuthURL (osc_Global c) = os_AuthURL (osc_Global c')
    \<and> os_Region (osc_Global c) = os_Region (osc_Global c') \<and> openstack_credentials c = openstack_credentials c'"
  by (auto simp: openstack_head_def openstack_credentials_def Let_def text_prefix split: if_splits)

lemma openstack_text:
  assumes "openstack_ToString V c = Inr t" "openstack_ToString V c' = Inr t"
  shows "os_AuthURL (osc_Global c) = os_AuthURL (osc_Global c') \<and> os_Region (osc_Global c) = os_Region (osc_Global c')
    \<and> openstack_credentials c = openstack_credentials c'"
  using openstack_starts [OF assms(1)] openstack_starts [OF assms(2)] openstack_heads by metis

text \<open>C33. The text of a cloud configuration tells what it was made from: two machines of one in-tree provider, before Kubernetes
  1.29, get the same text only if the values their specifications resolve to are the same, whatever quotes, backslashes
  and line breaks are in them (for vSphere but for the cluster's name, which is not written; for OpenStack its
  address, region and the credentials in use). So no value can pass for another one, or for a line of its own.\<close>

theorem cloud_config_unambiguous:
  assumes "GetCloudConfig V R False pc v = Inr t" and "GetCloudConfig V R' False pc' v' = Inr t"
    and "\<not> semver_Check V ''>= 1.29'' v" and "\<not> semver_Check V ''>= 1.29'' v'" and "pc_CloudProvider pc' = pc_CloudProvider pc"
  shows "(pc_CloudProvider pc = ''aws'' \<longrightarrow> (\<exists>c. aws_getConfig R pc = Inr c \<and> aws_getConfig R' pc' = Inr c))
    \<and> (pc_CloudProvider pc = ''gce'' \<longrightarrow> (\<exists>c. gce_getConfig R pc = Inr c \<and> gce_getConfig R' pc' = Inr c))
    \<and> (pc_CloudProvider pc = ''vsphere'' \<longrightarrow> (\<exists>c c'. vsphere_getConfig R pc = Inr c \<and> vsphere_getConfig R' pc' = Inr c'
        \<and> c'\<lparr>vs_ClusterID := vs_ClusterID c\<rparr> = c))
    \<and> (pc_CloudProvider pc = ''openstack'' \<longrightarrow> (\<exists>c c'. openstack_getConfig R pc v = Inr c \<and> openstack_getConfig R' pc' v' = Inr c'
        \<and> os_AuthURL (osc_Global c) = os_AuthURL (osc_Global c') \<and> os_Region (osc_Global c) = os_Region (osc_Global c')
        \<and> openstack_credentials c = openstack_credentials c'))"
proof (intro conjI impI)
  assume "pc_CloudProvider pc = ''aws''"
  then show "\<exists>c. aws_getConfig R pc = Inr c \<and> aws_getConfig R' pc' = Inr c"
    using assms by (auto simp: GetCloudConfig_def res_simps aws_GetCloudConfig_def finish_Inr aws_text)
next
  assume "pc_CloudProvider pc = ''gce''"
  then show "\<exists>c. gce_getConfig R pc = Inr c \<and> gce_getConfig R' pc' = Inr c"
    using assms by (auto simp: GetCloudConfig_def res_simps gce_GetCloudConfig_def finish_Inr gce_text)
next
  assume "pc_CloudProvider pc = ''vsphere''"
  then obtain c c' where "vsphere_getConfig R pc = Inr c" "vsphere_getConfig R' pc' = Inr c'" "vsphere_ToString c = vsphere_ToString c'"
    using assms by (auto simp: GetCloudConfig_def res_simps vsphere_GetCloudConfig_def finish_Inr)
  with vsphere_text [OF this] show "\<exists>c c'. vsphere_getConfig R pc = Inr c \<and> vsphere_getConfig R' pc' = Inr c'
      \<and> c'\<lparr>vs_ClusterID := vs_ClusterID c\<rparr> = c" by blast
next
  assume "pc_CloudProvider pc = ''openstack''"
  then obtain c c' where "openstack_getConfig R pc v = Inr c" "openstack_getConfig R' pc' v' = Inr c'"
      "openstack_ToString V c = Inr t" "openstack_ToString V c' = Inr t"
    using assms by (auto simp: GetCloudConfig_def res_simps openstack_GetCloudConfig_def finish_Inr)
  with openstack_text [OF this(3,4)] show "\<exists>c c'. openstack_getConfig R pc v = Inr c \<and> openstack_getConfig R' pc' v' = Inr c'
      \<and> os_AuthURL (osc_Global c) = os_AuthURL (osc_Global c') \<and> os_Region (osc_Global c) = os_Region (osc_Global c')
      \<and> openstack_credentials c = openstack_credentials c'" by blast
qed

theorem cloud_config_unambiguous_witness:
  "\<exists>c. aws_getConfig demo_resolver (demo_aws [] ''a'') = Inr c \<and> aws_getConfig demo_resolver (demo_aws '' '' ''a'') = Inr c"
  using cloud_config_unambiguous [OF demo_aws_text]
  by (simp add: demo_oldlib_def demo_aws_def demo_pc_def)

text \<open>The providers' texts.\<close>

lemma texts_nonempty: "aws_ToString a \<noteq> []" "azure_ToString z \<noteq> []" "gce_ToString g \<noteq> []" "vsphere_ToString w \<noteq> []"
  "openstack_ToString V c \<noteq> Inr []"
  by (simp_all add: aws_ToString_def azure_ToString_def gce_ToString_def vsphere_ToString_def openstack_ToString_def Let_def res_simps)



end
