(* ===== verification/KubeAPI.thy ===== *)
theory KubeAPI
  imports Types
begin

text \<open>
  The Kubernetes API as the controllers use it (\<open>ctrlruntimeclient.Client\<close>), code that is not
  in the repository: a record of operations over an unknown world \<open>'w\<close>, passed to every
  definition that uses it. The locale \<open>kube_api\<close> states what the controllers rely on: an answer tells the truth
  about the store, a successful call has its effect and no other, a failed one has either no effect
  or the effect it would have had (a lost answer). At the end, \<open>store\<close> is a server with a
  schedule of faults that satisfies the interface; the witnesses run on it.

  This is the documented behaviour of an API server that is read without a cache, and an assumption where
  the program reads through one: a manager's own client, which \<open>main\<close> uses for the management cluster, and for the
  worker cluster unless that has a kubeconfig of its own, answers \<open>Get\<close> and \<open>List\<close> from informers. A read that fails, as it
  does before an informer has synced, is covered, as any call may fail; a read that succeeds with an object, or a
  \<open>NotFound\<close>, of some time ago is not. What is shown of such a client holds of the calls in which
  its cache has caught up with the objects they read.
\<close>

section \<open>Objects and keys\<close>

datatype kind = KOSC | KOSP | KMD | KSecret | KConfigMap | KServiceAccount | KEndpointSlice

datatype kobj =
    OSC OperatingSystemConfig
  | OSP OperatingSystemProfile
  | MD MachineDeployment
  | SEC Secret
  | CM ConfigMap
  | SA ServiceAccount
  | EPS EndpointSlice

text \<open>
  The cluster that a client talks to: the management cluster or the worker cluster. They may be the same. Which of the
  program's clients is used where is the matter of the start-up (theory \<open>Startup\<close>).
\<close>

datatype cluster = Management | Worker

datatype objkey = Key (k_cluster: cluster) (k_kind: kind) (k_ns: string) (k_name: string)

fun kind_of :: "kobj \<Rightarrow> kind" where
  "kind_of (OSC x) = KOSC"
| "kind_of (OSP x) = KOSP"
| "kind_of (MD x) = KMD"
| "kind_of (SEC x) = KSecret"
| "kind_of (CM x) = KConfigMap"
| "kind_of (SA x) = KServiceAccount"
| "kind_of (EPS x) = KEndpointSlice"

fun meta_of :: "kobj \<Rightarrow> ObjectMeta" where
  "meta_of (OSC x) = osc_meta x"
| "meta_of (OSP x) = osp_meta x"
| "meta_of (MD x) = md_meta x"
| "meta_of (SEC x) = secret_meta x"
| "meta_of (CM x) = cm_meta x"
| "meta_of (SA x) = sa_meta x"
| "meta_of (EPS x) = eps_meta x"

definition key_of :: "cluster \<Rightarrow> kobj \<Rightarrow> objkey" where
  "key_of c x = Key c (kind_of x) (meta_Namespace (meta_of x)) (meta_Name (meta_of x))"

text \<open>
  Finalizers are modelled on MachineDeployments only, the one kind the repository puts them on:
  updating one that is being deleted so that no finalizer is left removes it, and deleting one
  that has finalizers only marks it.
\<close>

fun stored_update :: "kobj \<Rightarrow> kobj option" where
  "stored_update (MD md) =
     (if md_DeletionTimestamp md \<noteq> None \<and> md_Finalizers md = [] then None else Some (MD md))"
| "stored_update x = Some x"

fun stored_delete :: "int \<Rightarrow> kobj \<Rightarrow> kobj option" where
  "stored_delete now (MD md) =
     (if md_Finalizers md = [] then None
      else Some (MD (md\<lparr>md_DeletionTimestamp :=
        Some (case md_DeletionTimestamp md of None \<Rightarrow> now | Some t \<Rightarrow> t)\<rparr>)))"
| "stored_delete now x = None"

section \<open>The interface\<close>

record 'w kube_ops =
  get_obj :: "objkey \<Rightarrow> ('w, kobj) M"
  list_obj :: "cluster \<Rightarrow> kind \<Rightarrow> string \<Rightarrow> string \<times> string \<Rightarrow> ('w, kobj list) M"
  create_obj :: "cluster \<Rightarrow> kobj \<Rightarrow> ('w, unit) M"
  update_obj :: "cluster \<Rightarrow> kobj \<Rightarrow> ('w, unit) M"
  delete_obj :: "objkey \<Rightarrow> ('w, unit) M"
  rand_String :: "nat \<Rightarrow> ('w, string) M"
  time_Now :: "('w, int) M"

text \<open>
  Time is a number of nanoseconds. A call that ends in an error may still have had its effect, unless
  the server itself refused it with \<open>NotFound\<close> or \<open>AlreadyExists\<close>.
\<close>

locale kube_api =
  fixes A :: "'w kube_ops"
    and objs :: "'w \<Rightarrow> objkey \<Rightarrow> kobj option"
  assumes typed: "objs w k = Some x \<Longrightarrow> key_of (k_cluster k) x = k"
    and get_frame: "get_obj A k w = (r, w') \<Longrightarrow> objs w' = objs w"
    and get_ok: "get_obj A k w = (Inr x, w') \<Longrightarrow> objs w k = Some x"
    and get_missing: "get_obj A k w = (Inl e, w') \<Longrightarrow> IsNotFound e \<Longrightarrow> objs w k = None"
    and list_frame: "list_obj A c kd ns l w = (rs, w') \<Longrightarrow> objs w' = objs w"
    and list_ok: "list_obj A c kd ns l w = (Inr xs, w') \<Longrightarrow>
      distinct xs \<and> set xs = {x. \<exists>n. objs w (Key c kd ns n) = Some x
        \<and> map_of (meta_Labels (meta_of x)) (fst l) = Some (snd l)}"
    and create_ok: "create_obj A c x w = (Inr u, w') \<Longrightarrow>
      objs w (key_of c x) = None \<and> objs w' = (objs w)(key_of c x \<mapsto> x)"
    and create_err: "create_obj A c x w = (Inl e, w') \<Longrightarrow>
      objs w' = objs w \<or> objs w (key_of c x) = None \<and> objs w' = (objs w)(key_of c x \<mapsto> x)"
    and update_ok: "update_obj A c x w = (Inr u, w') \<Longrightarrow>
      objs w (key_of c x) \<noteq> None \<and> objs w' = (objs w)(key_of c x := stored_update x)"
    and update_err: "update_obj A c x w = (Inl e, w') \<Longrightarrow>
      objs w' = objs w
      \<or> objs w (key_of c x) \<noteq> None \<and> objs w' = (objs w)(key_of c x := stored_update x)"
    and delete_ok: "delete_obj A k w = (Inr u, w') \<Longrightarrow>
      \<exists>x t. objs w k = Some x \<and> objs w' = (objs w)(k := stored_delete t x)"
    and delete_missing: "delete_obj A k w = (Inl e, w') \<Longrightarrow> IsNotFound e \<Longrightarrow>
      objs w k = None \<and> objs w' = objs w"
    and delete_err: "delete_obj A k w = (Inl e, w') \<Longrightarrow>
      objs w' = objs w \<or> (\<exists>x t. objs w k = Some x \<and> objs w' = (objs w)(k := stored_delete t x))"
    and rand_frame: "rand_String A n w = (rr, w') \<Longrightarrow> objs w' = objs w"
    and now_frame: "time_Now A w = (rt, w') \<Longrightarrow> objs w' = objs w"
begin

lemma wp_get [wp_intros]:
  assumes "\<And>e w'. objs w' = objs w \<Longrightarrow> (IsNotFound e \<Longrightarrow> objs w k = None) \<Longrightarrow> Q (Inl e) w'"
    and "\<And>x w'. objs w' = objs w \<Longrightarrow> objs w k = Some x \<Longrightarrow> Q (Inr x) w'"
  shows "wp (get_obj A k) Q w"
proof (rule wpI)
  fix r w'
  assume run: "get_obj A k w = (r, w')"
  then show "Q r w'"
    using get_frame [OF run] by (cases r) (auto intro!: assms dest: get_ok get_missing)
qed

lemma wp_list [wp_intros]:
  assumes "\<And>e w'. objs w' = objs w \<Longrightarrow> Q (Inl e) w'"
    and "\<And>xs w'. objs w' = objs w \<Longrightarrow> distinct xs \<Longrightarrow>
      set xs = {x. \<exists>n. objs w (Key c kd ns n) = Some x
        \<and> map_of (meta_Labels (meta_of x)) (fst l) = Some (snd l)} \<Longrightarrow> Q (Inr xs) w'"
  shows "wp (list_obj A c kd ns l) Q w"
proof (rule wpI)
  fix r w'
  assume run: "list_obj A c kd ns l w = (r, w')"
  show "Q r w'"
  proof (cases r)
    case (Inl e)
    then show ?thesis using assms(1) list_frame [OF run] by simp
  next
    case (Inr xs)
    with run have "list_obj A c kd ns l w = (Inr xs, w')" by simp
    from list_ok [OF this] list_frame [OF this] Inr show ?thesis using assms(2) by blast
  qed
qed

lemma wp_create [wp_intros]:
  assumes "\<And>u w'. objs w (key_of c x) = None \<Longrightarrow> objs w' = (objs w)(key_of c x \<mapsto> x) \<Longrightarrow> Q (Inr u) w'"
    and "\<And>e w'. objs w' = objs w
      \<or> objs w (key_of c x) = None \<and> objs w' = (objs w)(key_of c x \<mapsto> x) \<Longrightarrow> Q (Inl e) w'"
  shows "wp (create_obj A c x) Q w"
proof (rule wpI)
  fix r w'
  assume run: "create_obj A c x w = (r, w')"
  show "Q r w'"
  proof (cases r)
    case (Inl e)
    with run have "create_obj A c x w = (Inl e, w')" by simp
    then show ?thesis using assms(2) create_err Inl by blast
  next
    case (Inr u)
    with run have "create_obj A c x w = (Inr u, w')" by simp
    then show ?thesis using assms(1) create_ok Inr by blast
  qed
qed

lemma wp_update [wp_intros]:
  assumes "\<And>u w'. objs w (key_of c x) \<noteq> None \<Longrightarrow>
      objs w' = (objs w)(key_of c x := stored_update x) \<Longrightarrow> Q (Inr u) w'"
    and "\<And>e w'. objs w' = objs w
      \<or> objs w (key_of c x) \<noteq> None \<and> objs w' = (objs w)(key_of c x := stored_update x) \<Longrightarrow> Q (Inl e) w'"
  shows "wp (update_obj A c x) Q w"
proof (rule wpI)
  fix r w'
  assume run: "update_obj A c x w = (r, w')"
  show "Q r w'"
  proof (cases r)
    case (Inl e)
    with run have "update_obj A c x w = (Inl e, w')" by simp
    then show ?thesis using assms(2) update_err Inl by blast
  next
    case (Inr u)
    with run have "update_obj A c x w = (Inr u, w')" by simp
    then show ?thesis using assms(1) update_ok Inr by blast
  qed
qed

text \<open>Deleting an object of a kind without finalizers: after success or \<open>NotFound\<close> it is gone.\<close>

lemma wp_delete [wp_intros]:
  assumes plain: "k_kind k \<noteq> KMD"
    and "\<And>u w'. objs w' = (objs w)(k := None) \<Longrightarrow> objs w k \<noteq> None \<Longrightarrow> Q (Inr u) w'"
    and "\<And>e w'. IsNotFound e \<Longrightarrow> objs w k = None \<Longrightarrow> objs w' = objs w \<Longrightarrow> Q (Inl e) w'"
    and "\<And>e w'. \<not> IsNotFound e \<Longrightarrow> objs w' = objs w \<or> objs w' = (objs w)(k := None) \<Longrightarrow> Q (Inl e) w'"
  shows "wp (delete_obj A k) Q w"
proof (rule wpI)
  fix r w'
  assume run: "delete_obj A k w = (r, w')"
  have gone: "stored_delete t x = None" if "objs w k = Some x" for x t
    using typed [OF that] plain by (cases x) (auto simp: key_of_def dest: arg_cong [where f = k_kind])
  show "Q r w'"
  proof (cases r)
    case (Inl e)
    with run have err: "delete_obj A k w = (Inl e, w')" by simp
    show ?thesis
    proof (cases "IsNotFound e")
      case True
      then show ?thesis using assms(3) delete_missing [OF err] Inl by simp
    next
      case False
      then show ?thesis using assms(4) delete_err [OF err] gone Inl by auto
    qed
  next
    case (Inr u)
    with run obtain x t where "objs w k = Some x" "objs w' = (objs w)(k := stored_delete t x)"
      using delete_ok by blast
    then show ?thesis using assms(2) gone Inr by simp
  qed
qed

lemma wp_rand [wp_intros]:
  assumes "\<And>e w'. objs w' = objs w \<Longrightarrow> Q (Inl e) w'"
    and "\<And>x w'. objs w' = objs w \<Longrightarrow> Q (Inr x) w'"
  shows "wp (rand_String A n) Q w"
proof (rule wpI)
  fix r w'
  assume "rand_String A n w = (r, w')"
  then show "Q r w'" using assms rand_frame by (cases r) blast+
qed

lemma wp_now [wp_intros]:
  assumes "\<And>e w'. objs w' = objs w \<Longrightarrow> Q (Inl e) w'"
    and "\<And>x w'. objs w' = objs w \<Longrightarrow> Q (Inr x) w'"
  shows "wp (time_Now A) Q w"
proof (rule wpI)
  fix r w'
  assume "time_Now A w = (r, w')"
  then show "Q r w'" using assms now_frame by (cases r) blast+
qed

end

section \<open>Typed calls\<close>

text \<open>
  The Go client decodes an object into the type the caller passes. An object of another kind
  never comes back for a key (law \<open>typed\<close>), so the error branch below is not reached.
\<close>

fun as_OSC :: "kobj \<Rightarrow> OperatingSystemConfig option" where
  "as_OSC (OSC x) = Some x" | "as_OSC _ = None"

fun as_OSP :: "kobj \<Rightarrow> OperatingSystemProfile option" where
  "as_OSP (OSP x) = Some x" | "as_OSP _ = None"

fun as_MD :: "kobj \<Rightarrow> MachineDeployment option" where
  "as_MD (MD x) = Some x" | "as_MD _ = None"

fun as_SEC :: "kobj \<Rightarrow> Secret option" where
  "as_SEC (SEC x) = Some x" | "as_SEC _ = None"

fun as_CM :: "kobj \<Rightarrow> ConfigMap option" where
  "as_CM (CM x) = Some x" | "as_CM _ = None"

fun as_SA :: "kobj \<Rightarrow> ServiceAccount option" where
  "as_SA (SA x) = Some x" | "as_SA _ = None"

fun as_EPS :: "kobj \<Rightarrow> EndpointSlice option" where
  "as_EPS (EPS x) = Some x" | "as_EPS _ = None"

definition get_as :: "'w kube_ops \<Rightarrow> (kobj \<Rightarrow> 'a option) \<Rightarrow> objkey \<Rightarrow> ('w, 'a) M" where
  "get_as A proj k = bindE (get_obj A k) (\<lambda>x. case proj x of
     Some y \<Rightarrow> ret y | None \<Rightarrow> throw (Failure ''cannot decode the object''))"

definition list_as :: "'w kube_ops \<Rightarrow> (kobj \<Rightarrow> 'a option) \<Rightarrow> cluster \<Rightarrow> kind \<Rightarrow> string \<Rightarrow> string \<times> string
    \<Rightarrow> ('w, 'a list) M" where
  "list_as A proj c kd ns l = bindE (list_obj A c kd ns l) (\<lambda>xs. ret (List.map_filter proj xs))"

lemma as_simps [simp]:
  "as_OSC x = Some osc \<longleftrightarrow> x = OSC osc"
  "as_OSP x = Some osp \<longleftrightarrow> x = OSP osp"
  "as_MD x = Some md \<longleftrightarrow> x = MD md"
  "as_SEC x = Some s \<longleftrightarrow> x = SEC s"
  "as_CM x = Some cm \<longleftrightarrow> x = CM cm"
  "as_SA x = Some sa \<longleftrightarrow> x = SA sa"
  "as_EPS x = Some eps \<longleftrightarrow> x = EPS eps"
  by (cases x; auto)+

context kube_api
begin

lemma at_key: "(\<exists>n. objs w (Key c kd ns n) = Some x) \<longleftrightarrow>
    objs w (key_of c x) = Some x \<and> kind_of x = kd \<and> meta_Namespace (meta_of x) = ns"
proof
  assume "\<exists>n. objs w (Key c kd ns n) = Some x"
  then obtain n where n: "objs w (Key c kd ns n) = Some x" ..
  from typed [OF n] have "key_of c x = Key c kd ns n" by simp
  with n show "objs w (key_of c x) = Some x \<and> kind_of x = kd \<and> meta_Namespace (meta_of x) = ns"
    by (auto simp: key_of_def)
qed (auto simp: key_of_def)

lemma wp_get_as [wp_intros]:
  assumes "\<And>e w'. objs w' = objs w \<Longrightarrow> (IsNotFound e \<Longrightarrow> objs w k = None) \<Longrightarrow> Q (Inl e) w'"
    and "\<And>y x w'. objs w' = objs w \<Longrightarrow> objs w k = Some x \<Longrightarrow> proj x = Some y \<Longrightarrow> Q (Inr y) w'"
  shows "wp (get_as A proj k) Q w"
  unfolding get_as_def by (intro wp_intros) (auto intro: assms)

lemma wp_list_as [wp_intros]:
  assumes "\<And>e w'. objs w' = objs w \<Longrightarrow> Q (Inl e) w'"
    and "\<And>ys w'. objs w' = objs w \<Longrightarrow>
      (\<And>y. y \<in> set ys \<longleftrightarrow> (\<exists>n x. objs w (Key c kd ns n) = Some x \<and> proj x = Some y
        \<and> map_of (meta_Labels (meta_of x)) (fst l) = Some (snd l))) \<Longrightarrow> Q (Inr ys) w'"
  shows "wp (list_as A proj c kd ns l) Q w"
  unfolding list_as_def
proof (intro wp_intros)
  fix xs w'
  assume "objs w' = objs w" and set: "set xs = {x. \<exists>n. objs w (Key c kd ns n) = Some x
    \<and> map_of (meta_Labels (meta_of x)) (fst l) = Some (snd l)}"
  moreover have "y \<in> set (List.map_filter proj xs) \<longleftrightarrow> (\<exists>x \<in> set xs. proj x = Some y)" for y
    by (force simp: map_filter_def)
  then have "y \<in> set (List.map_filter proj xs) \<longleftrightarrow> (\<exists>n x. objs w (Key c kd ns n) = Some x
      \<and> proj x = Some y \<and> map_of (meta_Labels (meta_of x)) (fst l) = Some (snd l))" for y
    unfolding set by blast
  ultimately show "Q (Inr (List.map_filter proj xs)) w'" by (intro assms(2))
qed (rule assms)

end

section \<open>Frames\<close>

text \<open>\<open>frame objs K\<close>: the objects whose keys are not in \<open>K\<close> are left as they are.\<close>

definition frame :: "('w \<Rightarrow> objkey \<Rightarrow> kobj option) \<Rightarrow> (objkey \<Rightarrow> bool) \<Rightarrow> 'w \<Rightarrow> 'w \<Rightarrow> bool" where
  "frame objs K w w' \<longleftrightarrow> (\<forall>k. \<not> K k \<longrightarrow> objs w' k = objs w k)"

lemma preorder_frame [keeps_intros]: "preorder (frame objs K)"
  by (simp add: preorder_def frame_def)

lemma frame_weaken: "frame objs K w w' \<Longrightarrow> (\<And>k. K k \<Longrightarrow> K' k) \<Longrightarrow> frame objs K' w w'"
  by (auto simp: frame_def)

context kube_api
begin

lemma frame_get [keeps_intros]: "keeps (frame objs K) (get_obj A k)"
  by (auto simp: keeps_def frame_def intro!: wp_get)

lemma frame_list [keeps_intros]: "keeps (frame objs K) (list_obj A c kd ns l)"
  by (auto simp: keeps_def frame_def intro!: wp_list)

lemma frame_get_as [keeps_intros]: "keeps (frame objs K) (get_as A proj k)"
  by (auto simp: keeps_def frame_def intro!: wp_get_as)

lemma frame_list_as [keeps_intros]: "keeps (frame objs K) (list_as A proj c kd ns l)"
  by (auto simp: keeps_def frame_def intro!: wp_list_as)

lemma frame_create [keeps_intros]: "K (key_of c x) \<Longrightarrow> keeps (frame objs K) (create_obj A c x)"
  unfolding keeps_def by (intro allI wp_create) (auto simp: frame_def)

lemma frame_update [keeps_intros]: "K (key_of c x) \<Longrightarrow> keeps (frame objs K) (update_obj A c x)"
  unfolding keeps_def by (intro allI wp_update) (auto simp: frame_def)

lemma frame_delete [keeps_intros]:
  "K k \<Longrightarrow> k_kind k \<noteq> KMD \<Longrightarrow> keeps (frame objs K) (delete_obj A k)"
  unfolding keeps_def by (intro allI wp_delete) (auto simp: frame_def)

lemma frame_rand [keeps_intros]: "keeps (frame objs K) (rand_String A n)"
  by (auto simp: keeps_def frame_def intro!: wp_rand)

lemma frame_now [keeps_intros]: "keeps (frame objs K) (time_Now A)"
  by (auto simp: keeps_def frame_def intro!: wp_now)

end

section \<open>Time\<close>

text \<open>The clock does not run backwards, neither between calls nor during one.\<close>

locale kube_clock = kube_api +
  fixes clk :: "'a \<Rightarrow> int"
  assumes clk_list: "list_obj A c kd ns l w = (rs, w') \<Longrightarrow> clk w \<le> clk w'"
    and clk_rand: "rand_String A n w = (rr, w') \<Longrightarrow> clk w \<le> clk w'"
    and clk_now: "time_Now A w = (rt, w') \<Longrightarrow> clk w \<le> clk w' \<and> (\<forall>t. rt = Inr t \<longrightarrow> clk w \<le> t \<and> t \<le> clk w')"
    and clk_create: "create_obj A c x w = (ru, w') \<Longrightarrow> clk w \<le> clk w'"
    and clk_update: "update_obj A c x w = (ru, w') \<Longrightarrow> clk w \<le> clk w'"
begin

lemma clk_list_as: "list_as A proj c kd ns l w = (r, w') \<Longrightarrow> clk w \<le> clk w'"
  by (auto simp: list_as_def bindE_def ret_def split: prod.splits sum.splits dest: clk_list)

lemma wp_create_clk:
  assumes "\<And>u w'. objs w (key_of c x) = None \<Longrightarrow> objs w' = (objs w)(key_of c x \<mapsto> x) \<Longrightarrow>
      clk w \<le> clk w' \<Longrightarrow> Q (Inr u) w'"
    and "\<And>e w'. Q (Inl e) w'"
  shows "wp (create_obj A c x) Q w"
proof (rule wpI)
  fix r w'
  assume run: "create_obj A c x w = (r, w')"
  with assms clk_create [OF run] show "Q r w'" by (cases r) (auto dest: create_ok)
qed

lemma wp_update_clk:
  assumes "\<And>u w'. objs w' = (objs w)(key_of c x := stored_update x) \<Longrightarrow> clk w \<le> clk w' \<Longrightarrow> Q (Inr u) w'"
    and "\<And>e w'. Q (Inl e) w'"
  shows "wp (update_obj A c x) Q w"
proof (rule wpI)
  fix r w'
  assume run: "update_obj A c x w = (r, w')"
  with assms clk_update [OF run] show "Q r w'" by (cases r) (auto dest: update_ok)
qed

lemma wp_rand_clk:
  assumes "\<And>e w'. Q (Inl e) w'"
    and "\<And>x w'. objs w' = objs w \<Longrightarrow> clk w \<le> clk w' \<Longrightarrow> Q (Inr x) w'"
  shows "wp (rand_String A n) Q w"
proof (rule wpI)
  fix r w'
  assume run: "rand_String A n w = (r, w')"
  with assms clk_rand [OF run] rand_frame [OF run] show "Q r w'" by (cases r) auto
qed

lemma wp_now_clk:
  assumes "\<And>e w'. objs w' = objs w \<Longrightarrow> clk w \<le> clk w' \<Longrightarrow> Q (Inl e) w'"
    and "\<And>t w'. objs w' = objs w \<Longrightarrow> clk w \<le> t \<Longrightarrow> t \<le> clk w' \<Longrightarrow> Q (Inr t) w'"
  shows "wp (time_Now A) Q w"
proof (rule wpI)
  fix r w'
  assume "time_Now A w = (r, w')"
  then show "Q r w'" using assms now_frame clk_now by (cases r) blast+
qed

end

section \<open>A server with faults\<close>

text \<open>
  The server the witnesses run on: its objects by cluster, a schedule of faults (one entry per
  call, none left means no fault), a counter for the random strings, and a clock that advances by
  one nanosecond per reading. A fault fails a call before its effect or loses the answer after it.
\<close>

datatype fault = NoFault | FailBefore | FailAfter

record store =
  s_objs :: "(cluster \<times> kobj) list"
  s_faults :: "fault list"
  s_rand :: nat
  s_clock :: int

definition find_obj :: "objkey \<Rightarrow> (cluster \<times> kobj) list \<Rightarrow> kobj option" where
  "find_obj k os = map_of (map (\<lambda>(c, x). (key_of c x, x)) os) k"

definition remove_obj :: "objkey \<Rightarrow> (cluster \<times> kobj) list \<Rightarrow> (cluster \<times> kobj) list" where
  "remove_obj k os = filter (\<lambda>(c, x). key_of c x \<noteq> k) os"

definition put_obj :: "cluster \<Rightarrow> objkey \<Rightarrow> kobj option \<Rightarrow> (cluster \<times> kobj) list \<Rightarrow> (cluster \<times> kobj) list" where
  "put_obj c k x os = (case x of None \<Rightarrow> remove_obj k os | Some y \<Rightarrow> (c, y) # remove_obj k os)"

definition store_objs :: "store \<Rightarrow> objkey \<Rightarrow> kobj option" where
  "store_objs w k = find_obj k (s_objs w)"

definition empty_store :: store where
  "empty_store = \<lparr>s_objs = [], s_faults = [], s_rand = 0, s_clock = 0\<rparr>"

definition next_fault :: "store \<Rightarrow> fault" where
  "next_fault w = (case s_faults w of [] \<Rightarrow> NoFault | f # _ \<Rightarrow> f)"

definition consume :: "store \<Rightarrow> store" where
  "consume w = w\<lparr>s_faults := tl (s_faults w)\<rparr>"

text \<open>\<open>faulty chk eff\<close>: a call that the server refuses with \<open>chk\<close>'s error or else executes.\<close>

definition faulty :: "(store \<Rightarrow> 'a res) \<Rightarrow> (store \<Rightarrow> store) \<Rightarrow> (store, 'a) M" where
  "faulty chk eff = (\<lambda>w. let w' = consume w in
     case next_fault w of
       FailBefore \<Rightarrow> (Inl (Failure ''connection refused''), w')
     | NoFault \<Rightarrow> (case chk w' of Inl e \<Rightarrow> (Inl e, w') | Inr x \<Rightarrow> (Inr x, eff w'))
     | FailAfter \<Rightarrow> (Inl (Failure ''timeout''), case chk w' of Inl e \<Rightarrow> w' | Inr x \<Rightarrow> eff w'))"

definition store_ops :: "store kube_ops" where
  "store_ops = \<lparr>
     get_obj = (\<lambda>k. faulty (\<lambda>w. case find_obj k (s_objs w) of None \<Rightarrow> Inl NotFound | Some x \<Rightarrow> Inr x) id),
     list_obj = (\<lambda>c kd ns l. faulty (\<lambda>w. Inr (remdups (map snd (filter (\<lambda>(c', x).
         find_obj (key_of c x) (s_objs w) = Some x \<and> c' = c \<and> kind_of x = kd \<and> meta_Namespace (meta_of x) = ns
         \<and> map_of (meta_Labels (meta_of x)) (fst l) = Some (snd l)) (s_objs w))))) id),
     create_obj = (\<lambda>c x. faulty
         (\<lambda>w. if find_obj (key_of c x) (s_objs w) = None then Inr () else Inl AlreadyExists)
         (\<lambda>w. w\<lparr>s_objs := put_obj c (key_of c x) (Some x) (s_objs w)\<rparr>)),
     update_obj = (\<lambda>c x. faulty
         (\<lambda>w. if find_obj (key_of c x) (s_objs w) = None then Inl NotFound else Inr ())
         (\<lambda>w. w\<lparr>s_objs := put_obj c (key_of c x) (stored_update x) (s_objs w)\<rparr>)),
     delete_obj = (\<lambda>k. faulty
         (\<lambda>w. if find_obj k (s_objs w) = None then Inl NotFound else Inr ())
         (\<lambda>w. w\<lparr>s_objs := put_obj (k_cluster k) k
            (Option.bind (find_obj k (s_objs w)) (stored_delete (s_clock w))) (s_objs w)\<rparr>)),
     rand_String = (\<lambda>n w. (Inr (replicate n (digit_char (s_rand w mod 10))), w\<lparr>s_rand := s_rand w + 1\<rparr>)),
     time_Now = (\<lambda>w. (Inr (s_clock w), w\<lparr>s_clock := s_clock w + 1\<rparr>))\<rparr>"

lemma find_remove [simp]: "find_obj k (remove_obj k' os) = (if k = k' then None else find_obj k os)"
  by (induction os) (auto simp: find_obj_def remove_obj_def)

lemma find_Cons: "find_obj k ((c, x) # os) = (if key_of c x = k then Some x else find_obj k os)"
  by (simp add: find_obj_def)

lemma find_put:
  "(\<And>y. x = Some y \<Longrightarrow> key_of c y = k) \<Longrightarrow> find_obj k' (put_obj c k x os) = ((\<lambda>j. find_obj j os)(k := x)) k'"
  by (auto simp: put_obj_def find_Cons split: option.split)

lemma find_typed: "find_obj k os = Some x \<Longrightarrow> key_of (k_cluster k) x = k"
  by (induction os) (auto simp: find_obj_def key_of_def split: if_splits)

lemma find_mem: "find_obj (Key c kd ns n) os = Some x \<Longrightarrow> (c, x) \<in> set os"
  by (induction os) (auto simp: find_obj_def key_of_def split: if_splits)

lemma key_stored_update: "stored_update x = Some y \<Longrightarrow> key_of c y = key_of c x"
  by (cases x) (auto simp: key_of_def split: if_splits)

lemma key_stored_delete: "stored_delete t x = Some y \<Longrightarrow> key_of c y = key_of c x"
  by (cases x) (auto simp: key_of_def split: if_splits)

lemma s_objs_consume [simp]: "s_objs (consume w) = s_objs w" "s_clock (consume w) = s_clock w"
  by (simp_all add: consume_def)

lemma faulty_Inr: "faulty chk eff w = (Inr x, w') \<Longrightarrow> chk (consume w) = Inr x \<and> w' = eff (consume w)"
  by (auto simp: faulty_def Let_def split: fault.splits sum.splits)

lemma faulty_Inl: "faulty chk eff w = (Inl e, w') \<Longrightarrow>
    w' = consume w \<or> (\<exists>x. chk (consume w) = Inr x \<and> w' = eff (consume w))"
  by (auto simp: faulty_def Let_def split: fault.splits sum.splits)

lemma faulty_NotFound: "faulty chk eff w = (Inl e, w') \<Longrightarrow> IsNotFound e \<Longrightarrow>
    chk (consume w) = Inl e \<and> w' = consume w"
  by (auto simp: faulty_def Let_def split: fault.splits sum.splits)

lemma store_objs_consume [simp]: "store_objs (consume w) = store_objs w"
  by (simp add: store_objs_def fun_eq_iff)

lemma store_objs_put:
  assumes "\<And>y. x = Some y \<Longrightarrow> key_of c y = k"
  shows "store_objs (w\<lparr>s_objs := put_obj c k x os\<rparr>) = (\<lambda>j. find_obj j os)(k := x)"
  by (simp add: store_objs_def fun_eq_iff find_put [OF assms])

lemma store_objs_put_Some:
  "store_objs (w\<lparr>s_objs := put_obj c (key_of c x) (Some x) os\<rparr>) = (\<lambda>j. find_obj j os)(key_of c x \<mapsto> x)"
  by (rule store_objs_put) simp

lemma store_objs_put_update:
  "store_objs (w\<lparr>s_objs := put_obj c (key_of c x) (stored_update x) os\<rparr>)
    = (\<lambda>j. find_obj j os)(key_of c x := stored_update x)"
  by (rule store_objs_put) (rule key_stored_update)

lemma store_objs_eta: "store_objs w = (\<lambda>j. find_obj j (s_objs w))"
  by (simp add: store_objs_def fun_eq_iff)

lemma store_delete_effect:
  assumes "find_obj k os = Some x"
  shows "store_objs (w\<lparr>s_objs := put_obj (k_cluster k) k (stored_delete t x) os\<rparr>)
    = (\<lambda>j. find_obj j os)(k := stored_delete t x)"
  by (rule store_objs_put) (use find_typed [OF assms] in \<open>simp add: key_stored_delete\<close>)

lemma store_list:
  "set (map snd (filter (\<lambda>(c', x). find_obj (key_of c x) os = Some x \<and> c' = c \<and> kind_of x = kd
      \<and> meta_Namespace (meta_of x) = ns \<and> P x) os))
    = {x. \<exists>n. find_obj (Key c kd ns n) os = Some x \<and> P x}" (is "?L = ?R")
proof
  show "?L \<subseteq> ?R" by (auto simp: key_of_def)
  show "?R \<subseteq> ?L"
  proof
    fix x
    assume "x \<in> ?R"
    then obtain n where n: "find_obj (Key c kd ns n) os = Some x" and P: "P x" by blast
    have "key_of c x = Key c kd ns n" "(c, x) \<in> set os"
      using find_typed [OF n] find_mem [OF n] by simp_all
    with n P show "x \<in> ?L" by (auto simp: key_of_def image_iff intro!: bexI [of _ "(c, x)"])
  qed
qed

interpretation st: kube_api store_ops store_objs
proof
  fix w w' :: store and k :: objkey and x :: kobj and e :: error and u :: unit
    and c :: cluster and kd :: kind and ns :: string and l :: "string \<times> string"
    and r :: "kobj res" and rs :: "kobj list res" and xs :: "kobj list" and n :: nat
    and rr :: "string res" and rt :: "int res"
  show "store_objs w k = Some x \<Longrightarrow> key_of (k_cluster k) x = k"
    by (simp add: store_objs_def find_typed)
  show "get_obj store_ops k w = (r, w') \<Longrightarrow> store_objs w' = store_objs w"
    by (cases r) (auto simp: store_ops_def dest: faulty_Inr faulty_Inl)
  show "get_obj store_ops k w = (Inr x, w') \<Longrightarrow> store_objs w k = Some x"
    by (auto simp: store_ops_def store_objs_def dest!: faulty_Inr split: option.splits)
  show "get_obj store_ops k w = (Inl e, w') \<Longrightarrow> IsNotFound e \<Longrightarrow> store_objs w k = None"
    by (auto simp: store_ops_def store_objs_def dest!: faulty_NotFound split: option.splits)
  show "list_obj store_ops c kd ns l w = (rs, w') \<Longrightarrow> store_objs w' = store_objs w"
    by (cases rs) (auto simp: store_ops_def dest: faulty_Inr faulty_Inl)
  show "list_obj store_ops c kd ns l w = (Inr xs, w') \<Longrightarrow>
      distinct xs \<and> set xs = {x. \<exists>n. store_objs w (Key c kd ns n) = Some x
        \<and> map_of (meta_Labels (meta_of x)) (fst l) = Some (snd l)}"
    by (auto simp: store_ops_def store_objs_def store_list simp del: set_map set_filter dest!: faulty_Inr)
  show "create_obj store_ops c x w = (Inr u, w') \<Longrightarrow>
      store_objs w (key_of c x) = None \<and> store_objs w' = (store_objs w)(key_of c x \<mapsto> x)"
    by (auto simp: store_ops_def store_objs_put_Some store_objs_eta [of w] dest!: faulty_Inr split: if_splits)
  show "create_obj store_ops c x w = (Inl e, w') \<Longrightarrow> store_objs w' = store_objs w
      \<or> store_objs w (key_of c x) = None \<and> store_objs w' = (store_objs w)(key_of c x \<mapsto> x)"
    by (auto simp: store_ops_def store_objs_put_Some store_objs_eta [of w] dest!: faulty_Inl split: if_splits)
  show "update_obj store_ops c x w = (Inr u, w') \<Longrightarrow> store_objs w (key_of c x) \<noteq> None
      \<and> store_objs w' = (store_objs w)(key_of c x := stored_update x)"
    by (auto simp: store_ops_def store_objs_put_update store_objs_eta [of w]
        dest!: faulty_Inr split: if_splits)
  show "update_obj store_ops c x w = (Inl e, w') \<Longrightarrow> store_objs w' = store_objs w
      \<or> store_objs w (key_of c x) \<noteq> None \<and> store_objs w' = (store_objs w)(key_of c x := stored_update x)"
    by (auto simp: store_ops_def store_objs_put_update store_objs_eta [of w]
        dest!: faulty_Inl split: if_splits)
  show "delete_obj store_ops k w = (Inr u, w') \<Longrightarrow>
      \<exists>x t. store_objs w k = Some x \<and> store_objs w' = (store_objs w)(k := stored_delete t x)"
    by (auto simp: store_ops_def store_delete_effect store_objs_eta [of w] dest!: faulty_Inr split: if_splits) blast
  show "delete_obj store_ops k w = (Inl e, w') \<Longrightarrow> IsNotFound e \<Longrightarrow>
      store_objs w k = None \<and> store_objs w' = store_objs w"
    by (auto simp: store_ops_def store_objs_eta [of w] dest!: faulty_NotFound split: if_splits)
  show "delete_obj store_ops k w = (Inl e, w') \<Longrightarrow> store_objs w' = store_objs w
      \<or> (\<exists>x t. store_objs w k = Some x \<and> store_objs w' = (store_objs w)(k := stored_delete t x))"
    by (auto simp: store_ops_def store_delete_effect store_objs_eta [of w] dest!: faulty_Inl split: if_splits) blast
  show "rand_String store_ops n w = (rr, w') \<Longrightarrow> store_objs w' = store_objs w"
    by (auto simp: store_ops_def store_objs_eta)
  show "time_Now store_ops w = (rt, w') \<Longrightarrow> store_objs w' = store_objs w"
    by (auto simp: store_ops_def store_objs_eta)
qed

lemma faulty_clock:
  assumes "\<And>w. s_clock (eff w) = s_clock w"
  shows "faulty chk eff w = (r, w') \<Longrightarrow> s_clock w' = s_clock w"
  by (auto simp: faulty_def Let_def assms split: fault.splits sum.splits)

interpretation stc: kube_clock store_ops store_objs s_clock
proof
  fix c :: cluster and kd :: kind and ns :: string and l :: "string \<times> string" and n :: nat and x :: kobj
    and w w' :: store and rs :: "kobj list res" and rr :: "string res" and rt :: "int res" and ru :: "unit res"
  show "list_obj store_ops c kd ns l w = (rs, w') \<Longrightarrow> s_clock w \<le> s_clock w'"
    by (auto simp: store_ops_def dest!: faulty_clock [rotated])
  show "rand_String store_ops n w = (rr, w') \<Longrightarrow> s_clock w \<le> s_clock w'"
    by (auto simp: store_ops_def)
  show "time_Now store_ops w = (rt, w') \<Longrightarrow>
      s_clock w \<le> s_clock w' \<and> (\<forall>t. rt = Inr t \<longrightarrow> s_clock w \<le> t \<and> t \<le> s_clock w')"
    by (auto simp: store_ops_def)
  show "create_obj store_ops c x w = (ru, w') \<Longrightarrow> s_clock w \<le> s_clock w'"
    by (auto simp: store_ops_def dest!: faulty_clock [rotated])
  show "update_obj store_ops c x w = (ru, w') \<Longrightarrow> s_clock w \<le> s_clock w'"
    by (auto simp: store_ops_def dest!: faulty_clock [rotated])
qed

end
