(* ===== verification/ContainerRuntime.thy ===== *)
theory ContainerRuntime
  imports KubeAPI GoURL GoJson
begin

text \<open>
  \<open>pkg/containerruntime\<close>: the container runtime options of the command line, the containerd
  configuration they give, its registry host files, and the registry credentials read from a
  secret. The TOML encoder is a parameter (\<open>toml\<close>).
\<close>

section \<open>Data\<close>

record AuthConfig =
  ac_Username :: string
  ac_Password :: string
  ac_Auth :: string
  ac_IdentityToken :: string

type_synonym mirrors = "(string \<times> string list) list"

text \<open>\<open>containerruntime.Config\<close>. Its field \<open>Containerd\<close> is only ever an empty engine.\<close>

record CRConfig =
  cr_InsecureRegistries :: "string list"
  cr_RegistryMirrors :: mirrors
  cr_RegistryCredentials :: "(string \<times> AuthConfig) list"
  cr_SandboxImage :: string
  cr_ContainerLogMaxFiles :: string
  cr_ContainerLogMaxSize :: string
  cr_ContainerdVersion :: string
  cr_DeviceOwnership :: bool

record Containerd =
  eng_insecureRegistries :: "string list"
  eng_registryMirrors :: mirrors
  eng_sandboxImage :: string
  eng_registryCredentials :: "(string \<times> AuthConfig) list"
  eng_version :: string
  eng_deviceOwnership :: bool

definition Engine :: "CRConfig \<Rightarrow> Containerd" where
  "Engine cfg =
     \<lparr>eng_insecureRegistries = cr_InsecureRegistries cfg,
      eng_registryMirrors = cr_RegistryMirrors cfg,
      eng_sandboxImage = cr_SandboxImage cfg,
      eng_registryCredentials = cr_RegistryCredentials cfg,
      eng_version = cr_ContainerdVersion cfg,
      eng_deviceOwnership = cr_DeviceOwnership cfg\<rparr>"

text \<open>The documents handed to the TOML encoder.\<close>

record CRIImagesPlugin =
  cip_DiscardUnpackedLayers :: bool
  cip_PinnedSandbox :: "string option"
  cip_ConfigPath :: string
  cip_Configs :: "(string \<times> AuthConfig) list"

record CRIRuntimePlugin =
  crp_Runtimes :: "(string \<times> (string \<times> bool)) list"
  crp_DeviceOwnership :: bool
  crp_BinDirs :: "string list"
  crp_ConfDir :: string

record ConfigManifest =
  cm_Version :: nat
  cm_MetricsAddress :: string
  cm_Images :: "string \<times> CRIImagesPlugin"
  cm_Runtime :: "string \<times> CRIRuntimePlugin"

record HostEntry =
  he_Capabilities :: "string list"
  he_SkipVerify :: bool
  he_OverridePath :: bool

record HostsToml =
  ht_Server :: string
  ht_Host :: "(string \<times> HostEntry) list"

record toml =
  toml_Config :: "ConfigManifest \<Rightarrow> string res"
  toml_Hosts :: "HostsToml \<Rightarrow> string res"

section \<open>The engine\<close>

definition ConfigFileName :: "Containerd \<Rightarrow> string" where
  "ConfigFileName eng = ''/etc/containerd/config.toml''"

definition AuthConfig_of :: "Containerd \<Rightarrow> string res" where
  "AuthConfig_of eng = Inr []"

definition AuthConfigFileName :: "Containerd \<Rightarrow> string" where
  "AuthConfigFileName eng = []"

definition KubeletFlags :: "Containerd \<Rightarrow> string list" where
  "KubeletFlags eng = [''--container-runtime-endpoint=unix:///run/containerd/containerd.sock'']"

text \<open>The credentials' keys may be URLs; only the host of one is kept.\<close>

definition credentialHost :: "string \<Rightarrow> string" where
  "credentialHost registry = (case url_Parse registry of
     Inr u \<Rightarrow> if url_Host u \<noteq> [] then url_Host u else registry
   | Inl e \<Rightarrow> registry)"

definition credentialConfigs :: "(string \<times> AuthConfig) list \<Rightarrow> (string \<times> AuthConfig) list" where
  "credentialConfigs creds = fold (\<lambda>(registry, auth). mput (credentialHost registry) auth) creds []"

definition configManifest :: "Containerd \<Rightarrow> ConfigManifest" where
  "configManifest eng =
     \<lparr>cm_Version = 3, cm_MetricsAddress = ''127.0.0.1:1338'',
      cm_Images = (''io.containerd.cri.v1.images'',
        \<lparr>cip_DiscardUnpackedLayers = False,
         cip_PinnedSandbox = (if eng_sandboxImage eng \<noteq> [] then Some (eng_sandboxImage eng) else None),
         cip_ConfigPath = ''/etc/containerd/certs.d'',
         cip_Configs = credentialConfigs (eng_registryCredentials eng)\<rparr>),
      cm_Runtime = (''io.containerd.cri.v1.runtime'',
        \<lparr>crp_Runtimes = [(''runc'', (''io.containerd.runc.v2'', True))],
         crp_DeviceOwnership = eng_deviceOwnership eng,
         crp_BinDirs = [''/opt/cni/bin''], crp_ConfDir = ''/etc/cni/net.d''\<rparr>)\<rparr>"

definition Config_of :: "toml \<Rightarrow> Containerd \<Rightarrow> string res" where
  "Config_of T eng = toml_Config T (configManifest eng)"

section \<open>Registry host files\<close>

record registryEndpoint =
  re_url :: string
  re_overridePath :: bool

record registryHostConfig =
  rhc_endpoints :: "registryEndpoint list"
  rhc_insecure :: bool

definition registryHost :: "string \<Rightarrow> string" where
  "registryHost registry = takeWhile (\<lambda>c. c \<noteq> CHR ''/'') registry"

definition stripKubermaticParam :: "string \<Rightarrow> string" where
  "stripKubermaticParam mirrorURL = (case url_Parse mirrorURL of
     Inl e \<Rightarrow> mirrorURL
   | Inr u \<Rightarrow>
       if \<not> Values_Has (Query (url_RawQuery u)) ''kubermatic'' then mirrorURL
       else url_String (u\<lparr>url_RawQuery := Values_Encode (mdel ''kubermatic'' (Query (url_RawQuery u)))\<rparr>))"

text \<open>The \<open>override_path\<close> setting inside the \<open>kubermatic\<close> parameter of a mirror's URL.\<close>

definition mirrorOverridePath :: "string \<Rightarrow> bool" where
  "mirrorOverridePath mirrorURL = (case url_Parse mirrorURL of
     Inl e \<Rightarrow> False
   | Inr u \<Rightarrow>
       if \<not> Values_Has (Query (url_RawQuery u)) ''kubermatic'' then False
       else (case QueryUnescape (Values_Get (Query (url_RawQuery u)) ''kubermatic'') of
         Inl e \<Rightarrow> False
       | Inr params \<Rightarrow> (case ParseQuery params of
           Inl e \<Rightarrow> False
         | Inr vs \<Rightarrow> (case ParseBool (Values_Get vs ''override_path'') of Inl e \<Rightarrow> False | Inr b \<Rightarrow> b))))"

definition mirrorEndpoint :: "string \<Rightarrow> registryEndpoint" where
  "mirrorEndpoint mirrorURL =
     \<lparr>re_url = stripKubermaticParam mirrorURL, re_overridePath = mirrorOverridePath mirrorURL\<rparr>"

type_synonym hostConfigs = "(string \<times> registryHostConfig) list"

definition addMirrors :: "string \<times> string list \<Rightarrow> hostConfigs \<Rightarrow> hostConfigs" where
  "addMirrors rm cs = (case rm of (registry, urls) \<Rightarrow>
     mput registry \<lparr>rhc_endpoints = map mirrorEndpoint urls,
       rhc_insecure = (case map_of cs registry of None \<Rightarrow> False | Some c \<Rightarrow> rhc_insecure c)\<rparr> cs)"

definition addInsecure :: "string \<Rightarrow> hostConfigs \<Rightarrow> hostConfigs" where
  "addInsecure registry cs =
     mput registry \<lparr>rhc_endpoints = (case map_of cs registry of None \<Rightarrow> [] | Some c \<Rightarrow> rhc_endpoints c),
       rhc_insecure = True\<rparr> cs"

definition buildRegistryHostConfigs :: "Containerd \<Rightarrow> hostConfigs" where
  "buildRegistryHostConfigs eng =
     fold addInsecure (eng_insecureRegistries eng)
       (fold addMirrors (eng_registryMirrors eng)
         [(''docker.io'', \<lparr>rhc_endpoints = [\<lparr>re_url = ''https://registry-1.docker.io'', re_overridePath = False\<rparr>],
            rhc_insecure = False\<rparr>)])"

text \<open>The directory under \<open>certs.d\<close> and the server of a registry.\<close>

definition registryDirServer :: "string \<Rightarrow> string \<times> string" where
  "registryDirServer registry =
     (let dir = registryHost registry in
      if dir = ''docker.io'' then (dir, ''https://registry-1.docker.io'')
      else if dir = ''*'' \<or> dir = ''_default'' then (''_default'', [])
      else (dir, registry))"

definition hostsToml :: "string \<Rightarrow> registryHostConfig \<Rightarrow> HostsToml" where
  "hostsToml serverURL c =
     (let entry = (\<lambda>ov. \<lparr>he_Capabilities = [''pull'', ''resolve''], he_SkipVerify = rhc_insecure c, he_OverridePath = ov\<rparr>);
          mirrors = fold (\<lambda>e. mput (re_url e) (entry (re_overridePath e))) (rhc_endpoints c) []
      in \<lparr>ht_Server = serverURL,
          ht_Host = (if rhc_endpoints c = [] \<and> rhc_insecure c then mput serverURL (entry False) mirrors else mirrors)\<rparr>)"

definition hostsPath :: "string \<Rightarrow> string" where
  "hostsPath dir = ''/etc/containerd/certs.d/'' @ dir @ ''/hosts.toml''"

definition skipRegistry :: "registryHostConfig \<Rightarrow> bool" where
  "skipRegistry c \<longleftrightarrow> rhc_endpoints c = [] \<and> \<not> rhc_insecure c"

text \<open>The file of one registry: its path and its text.\<close>

definition hostsFile :: "toml \<Rightarrow> string \<Rightarrow> registryHostConfig \<Rightarrow> (string \<times> string) res" where
  "hostsFile T registry c = (case registryDirServer registry of (dir, server) \<Rightarrow>
     bindR (wrapR ''encoding hosts.toml for %s: %w'' [registry] (toml_Hosts T (hostsToml server c)))
       (\<lambda>txt. Inr (hostsPath dir, ReplaceAll (''[host]'' @ [CHR 0x0A]) [] txt)))"

fun hostFiles :: "toml \<Rightarrow> hostConfigs \<Rightarrow> string list \<Rightarrow> strmap \<Rightarrow> strmap res" where
  "hostFiles T cs [] acc = Inr acc"
| "hostFiles T cs (name # names) acc = (case map_of cs name of
     None \<Rightarrow> hostFiles T cs names acc
   | Some c \<Rightarrow>
       if skipRegistry c then hostFiles T cs names acc
       else bindR (hostsFile T name c) (\<lambda>(path, txt). hostFiles T cs names (mput path txt acc)))"

definition RegistryHostConfigs :: "toml \<Rightarrow> Containerd \<Rightarrow> strmap res" where
  "RegistryHostConfigs T eng =
     (let cs = buildRegistryHostConfigs eng in hostFiles T cs (sorted_keys cs) [])"

section \<open>The command line\<close>

record Opts =
  op_ContainerRuntime :: string
  op_ContainerdVersion :: string
  op_InsecureRegistries :: string
  op_RegistryMirrors :: string
  op_RegistryCredentialsSecret :: string
  op_PauseImage :: string
  op_ContainerdRegistryMirrors :: mirrors
  op_DeviceOwnership :: bool

definition mirror_name_char :: "char \<Rightarrow> bool" where
  "mirror_name_char c \<longleftrightarrow> is_alnum c \<or> c \<in> set ''.-''"

text \<open>\<open>^([a-zA-Z0-9\.-]+)=(.*)\<close>: a registry's name and its mirror.\<close>

definition matchMirror :: "string \<Rightarrow> (string \<times> string) option" where
  "matchMirror s =
     (let n = takeWhile mirror_name_char s; r = dropWhile mirror_name_char s
      in if n \<noteq> [] \<and> r \<noteq> [] \<and> hd r = CHR ''='' then Some (n, takeWhile (\<lambda>c. c \<noteq> CHR 0x0A) (tl r)) else None)"

definition parseMirror :: "string \<Rightarrow> string \<times> string" where
  "parseMirror s = (case matchMirror s of
     Some (n, m) \<Rightarrow> (n, if HasPrefix m ''http'' then m else ''https://'' @ m)
   | None \<Rightarrow> (''docker.io'', if HasPrefix s ''http'' then s else ''https://'' @ s))"

definition addMirror :: "string \<Rightarrow> string \<Rightarrow> mirrors \<Rightarrow> mirrors" where
  "addMirror registry url m = mput registry ((case map_of m registry of None \<Rightarrow> [] | Some us \<Rightarrow> us) @ [url]) m"

fun collectMirrors :: "string list \<Rightarrow> mirrors \<Rightarrow> mirrors res" where
  "collectMirrors [] m = Inr m"
| "collectMirrors (p # ps) m =
     (let t = TrimSpace p in
      if t = [] then collectMirrors ps m
      else case parseMirror t of (registry, url) \<Rightarrow>
        bindR (wrapR ''incorrect mirror provided: %w'' [] (url_Parse url))
          (\<lambda>_. collectMirrors ps (addMirror registry url m)))"

definition insecureList :: "string \<Rightarrow> string list" where
  "insecureList s = filter (\<lambda>r. r \<noteq> []) (map TrimSpace (SplitC (CHR '','') s))"

text \<open>The functional options of a configuration; \<open>get\<close> applies them to an empty one.\<close>

type_synonym Opt = "CRConfig \<Rightarrow> CRConfig"

definition withInsecureRegistries :: "string list \<Rightarrow> Opt" where
  "withInsecureRegistries registries cfg = cfg\<lparr>cr_InsecureRegistries := registries\<rparr>"

definition withRegistryMirrors :: "mirrors \<Rightarrow> Opt" where
  "withRegistryMirrors mirrors cfg = cfg\<lparr>cr_RegistryMirrors := mirrors\<rparr>"

definition withSandboxImage :: "string \<Rightarrow> Opt" where
  "withSandboxImage img cfg = cfg\<lparr>cr_SandboxImage := img\<rparr>"

definition withContainerdVersion :: "string \<Rightarrow> Opt" where
  "withContainerdVersion version cfg = cfg\<lparr>cr_ContainerdVersion := version\<rparr>"

definition withDeviceOwnershipFromSecurityContext :: "bool \<Rightarrow> Opt" where
  "withDeviceOwnershipFromSecurityContext b cfg = cfg\<lparr>cr_DeviceOwnership := b\<rparr>"

definition getConfig_of :: "string \<Rightarrow> Opt list \<Rightarrow> CRConfig" where
  "getConfig_of containerRuntime opts =
     fold (\<lambda>opt cfg. opt cfg) opts
       \<lparr>cr_InsecureRegistries = [], cr_RegistryMirrors = [], cr_RegistryCredentials = [], cr_SandboxImage = [],
        cr_ContainerLogMaxFiles = [], cr_ContainerLogMaxSize = [], cr_ContainerdVersion = [], cr_DeviceOwnership = False\<rparr>"

definition Config_String :: "CRConfig \<Rightarrow> string" where
  "Config_String cfg = ''containerd''"

definition BuildConfig :: "Opts \<Rightarrow> CRConfig res" where
  "BuildConfig opts =
     bindR (collectMirrors (SplitC (CHR '','') (op_RegistryMirrors opts)) (op_ContainerdRegistryMirrors opts))
       (\<lambda>mirrors.
          if op_RegistryCredentialsSecret opts \<noteq> []
             \<and> length (SplitC (CHR ''/'') (op_RegistryCredentialsSecret opts)) \<noteq> 2
          then Inl (Errorf (''-node-registry-credentials-secret is in incorrect format %q, should be in ''
                   @ [CHR 0x27] @ ''namespace/secretname'' @ [CHR 0x27]) [op_RegistryCredentialsSecret opts])
          else Inr (getConfig_of (op_ContainerRuntime opts)
                 [withInsecureRegistries (insecureList (op_InsecureRegistries opts)),
                  withRegistryMirrors mirrors,
                  withSandboxImage (op_PauseImage opts),
                  withContainerdVersion (op_ContainerdVersion opts),
                  withDeviceOwnershipFromSecurityContext (op_DeviceOwnership opts)]))"

lemmas option_defs = getConfig_of_def withInsecureRegistries_def withRegistryMirrors_def withSandboxImage_def
  withContainerdVersion_def withDeviceOwnershipFromSecurityContext_def

text \<open>The flag \<open>-node-containerd-registry-mirrors\<close>, which may be given many times.\<close>

definition flag_Set :: "string \<Rightarrow> mirrors \<Rightarrow> mirrors res" where
  "flag_Set val fl = (case SplitN2 (CHR ''='') val of
     [key, value] \<Rightarrow> Inr (addMirror key value fl)
   | _ \<Rightarrow> Inl (Errorf ''should have exactly 1 ='' []))"

definition flag_String :: "mirrors \<Rightarrow> string" where
  "flag_String fl = ''['' @ Join '' '' (concat (map (\<lambda>n.
     map (\<lambda>m. n @ ''='' @ m) (case map_of fl n of None \<Rightarrow> [] | Some ms \<Rightarrow> ms)) (sorted_keys fl))) @ '']''"

section \<open>Registry credentials\<close>

definition emptyAuth :: AuthConfig where
  "emptyAuth = \<lparr>ac_Username = [], ac_Password = [], ac_Auth = [], ac_IdentityToken = []\<rparr>"

definition decodeAuth :: "(string \<times> json) list \<Rightarrow> AuthConfig res" where
  "decodeAuth ms =
     bindR (decode_field as_string ''username'' ms []) (\<lambda>u.
     bindR (decode_field as_string ''password'' ms []) (\<lambda>p.
     bindR (decode_field as_string ''auth'' ms []) (\<lambda>a.
     bindR (decode_field as_string ''identitytoken'' ms []) (\<lambda>t.
       Inr \<lparr>ac_Username = u, ac_Password = p, ac_Auth = a, ac_IdentityToken = t\<rparr>))))"

definition as_auths :: "json \<Rightarrow> (string \<times> AuthConfig) list option" where
  "as_auths j = (case j of
     JObj ms \<Rightarrow> (case mapR (\<lambda>(k, v). bindR (members v) (\<lambda>m. bindR (decodeAuth m) (\<lambda>a. Inr (k, a)))) ms of
         Inl e \<Rightarrow> None
       | Inr kvs \<Rightarrow> Some (fold (\<lambda>(k, a). mput k a) kvs []))
   | _ \<Rightarrow> None)"

definition decodeSecretAuths :: "Secret \<Rightarrow> (string \<times> AuthConfig) list res" where
  "decodeSecretAuths s =
     wrapR ''failed to unmarshal registry credentials: %w'' []
       (if secret_Type s = ''kubernetes.io/dockerconfigjson''
        then Unmarshal (\<lambda>ms. decode_field as_auths ''auths'' ms []) (mget (secret_Data s) ''.dockerconfigjson'')
        else bindR (mapR (\<lambda>(k, d). bindR (Unmarshal decodeAuth d) (\<lambda>a. Inr (k, a))) (secret_Data s))
          (\<lambda>kvs. Inr (fold (\<lambda>(k, a). mput k a) kvs [])))"

definition GetContainerdAuthConfig ::
    "'w kube_ops \<Rightarrow> cluster \<Rightarrow> string \<Rightarrow> ('w, (string \<times> AuthConfig) list) M" where
  "GetContainerdAuthConfig A c ref = (case SplitN2 (CHR ''/'') ref of
     [ns, n] \<Rightarrow> bindE (wrapE ''failed to retrieve registry credentials secret object: %w'' []
         (get_as A as_SEC (Key c KSecret ns n))) (\<lambda>s. lift (decodeSecretAuths s))
   | _ \<Rightarrow> ret [])"

section \<open>Lemmas\<close>

definition defaultEndpoint :: registryEndpoint where
  "defaultEndpoint = \<lparr>re_url = ''https://registry-1.docker.io'', re_overridePath = False\<rparr>"

text \<open>
  The reference for \<open>buildRegistryHostConfigs\<close>: a registry is configured if it is \<open>docker.io\<close>, has
  mirrors or is insecure; its mirrors replace the default one of \<open>docker.io\<close>.
\<close>

definition hostConfigSpec :: "Containerd \<Rightarrow> string \<Rightarrow> registryHostConfig option" where
  "hostConfigSpec eng r =
     (let ms = map_of (eng_registryMirrors eng) r; ins = (r \<in> set (eng_insecureRegistries eng)) in
      if r = ''docker.io'' \<or> ms \<noteq> None \<or> ins
      then Some \<lparr>rhc_endpoints = (case ms of Some urls \<Rightarrow> map mirrorEndpoint urls
                   | None \<Rightarrow> if r = ''docker.io'' then [defaultEndpoint] else []),
             rhc_insecure = ins\<rparr>
      else None)"

lemma addMirrors_pair [simp]: "addMirrors (n, urls) cs = mput n \<lparr>rhc_endpoints = map mirrorEndpoint urls,
    rhc_insecure = (case map_of cs n of None \<Rightarrow> False | Some c \<Rightarrow> rhc_insecure c)\<rparr> cs"
  by (simp add: addMirrors_def)

lemma fold_addMirrors:
  "distinct (keys ms) \<Longrightarrow> map_of (fold addMirrors ms cs) r =
    (case map_of ms r of
       Some urls \<Rightarrow> Some \<lparr>rhc_endpoints = map mirrorEndpoint urls,
         rhc_insecure = (case map_of cs r of None \<Rightarrow> False | Some c \<Rightarrow> rhc_insecure c)\<rparr>
     | None \<Rightarrow> map_of cs r)"
proof (induction ms arbitrary: cs)
  case (Cons m ms)
  obtain n urls where m: "m = (n, urls)" by (cases m)
  have "n \<notin> set (keys ms)" "distinct (keys ms)" using Cons.prems by (simp_all add: m keys_def)
  moreover from this(1) have "map_of ms n = None" by (simp add: set_keys domIff)
  ultimately show ?case by (auto simp: Cons.IH m split: option.split)
qed simp

lemma fold_addInsecure:
  "map_of (fold addInsecure rs cs) r =
    (if r \<in> set rs
     then Some \<lparr>rhc_endpoints = (case map_of cs r of None \<Rightarrow> [] | Some c \<Rightarrow> rhc_endpoints c), rhc_insecure = True\<rparr>
     else map_of cs r)"
  by (induction rs arbitrary: cs) (auto simp: addInsecure_def split: option.splits)

lemma buildRegistryHostConfigs_spec:
  assumes "distinct (keys (eng_registryMirrors eng))"
  shows "map_of (buildRegistryHostConfigs eng) r = hostConfigSpec eng r"
  using assms
  by (auto simp: buildRegistryHostConfigs_def hostConfigSpec_def fold_addInsecure fold_addMirrors
      defaultEndpoint_def Let_def split: option.split)

lemma distinct_fold_mput: "distinct (keys acc) \<Longrightarrow> distinct (keys (fold (\<lambda>x. mput (f x) (g x)) xs acc))"
  by (induction xs arbitrary: acc) simp_all

lemma distinct_build: "distinct (keys (buildRegistryHostConfigs eng))"
proof -
  have a: "distinct (keys cs) \<Longrightarrow> distinct (keys (fold addMirrors ms cs))" for ms cs
    by (induction ms arbitrary: cs) (simp_all add: addMirrors_def split: prod.split)
  have b: "distinct (keys cs) \<Longrightarrow> distinct (keys (fold addInsecure rs cs))" for rs cs
    by (induction rs arbitrary: cs) (simp_all add: addInsecure_def)
  show ?thesis unfolding buildRegistryHostConfigs_def by (intro a b) (simp add: keys_def)
qed

lemma hostFiles_cong:
  "(\<And>n. n \<in> set names \<Longrightarrow> map_of cs n = map_of cs' n) \<Longrightarrow> hostFiles T cs names acc = hostFiles T cs' names acc"
proof (induction names arbitrary: acc)
  case (Cons n names)
  have "(\<lambda>(path, txt). hostFiles T cs names (mput path txt acc))
      = (\<lambda>(path, txt). hostFiles T cs' names (mput path txt acc))"
    using Cons by (auto simp: fun_eq_iff)
  with Cons show ?case by (simp split: option.split)
qed simp

lemma hostConfigSpec_cong:
  "map_of (eng_registryMirrors eng) = map_of (eng_registryMirrors eng') \<Longrightarrow>
   set (eng_insecureRegistries eng) = set (eng_insecureRegistries eng') \<Longrightarrow> hostConfigSpec eng = hostConfigSpec eng'"
  by (simp add: hostConfigSpec_def fun_eq_iff)

text \<open>The result does not depend on the order in which the maps are ranged over.\<close>

lemma RegistryHostConfigs_order:
  assumes d: "distinct (keys (eng_registryMirrors eng))" "distinct (keys (eng_registryMirrors eng'))"
    and m: "map_of (eng_registryMirrors eng) = map_of (eng_registryMirrors eng')"
    and i: "set (eng_insecureRegistries eng) = set (eng_insecureRegistries eng')"
  shows "RegistryHostConfigs T eng = RegistryHostConfigs T eng'"
proof -
  have eq: "map_of (buildRegistryHostConfigs eng) = map_of (buildRegistryHostConfigs eng')"
    using hostConfigSpec_cong [OF m i] by (simp add: fun_eq_iff buildRegistryHostConfigs_spec d)
  have "sorted_keys (buildRegistryHostConfigs eng) = sorted_keys (buildRegistryHostConfigs eng')"
    by (rule sorted_keys_cong) (simp_all add: distinct_build eq)
  with eq show ?thesis by (simp add: RegistryHostConfigs_def Let_def hostFiles_cong [of _ "buildRegistryHostConfigs eng"
        "buildRegistryHostConfigs eng'"])
qed

text \<open>
  The files: in the directory of a registry that has a mirror or is insecure there is the file of the
  last such registry by name.
\<close>

definition hostDir :: "string \<Rightarrow> string" where
  "hostDir r = fst (registryDirServer r)"

definition writesFile :: "hostConfigs \<Rightarrow> string \<Rightarrow> bool" where
  "writesFile cs r \<longleftrightarrow> (case map_of cs r of None \<Rightarrow> False | Some c \<Rightarrow> \<not> skipRegistry c)"

lemma hostsFile_path: "hostsFile T r c = Inr (p, txt) \<Longrightarrow> p = hostsPath (hostDir r)"
  by (auto simp: hostsFile_def hostDir_def res_simps split: prod.splits)

lemma hostFiles_other:
  "hostFiles T cs names acc = Inr fs \<Longrightarrow> (\<And>r. r \<in> set names \<Longrightarrow> writesFile cs r \<Longrightarrow> hostsPath (hostDir r) \<noteq> p)
    \<Longrightarrow> map_of fs p = map_of acc p"
proof (induction names arbitrary: acc)
  case (Cons n names)
  show ?case
  proof (cases "writesFile cs n")
    case True
    then obtain c path cont where "map_of cs n = Some c" "hostsFile T n c = Inr (path, cont)"
      "hostFiles T cs names (mput path cont acc) = Inr fs"
      using Cons.prems(1) by (auto simp: writesFile_def res_simps split: option.splits)
    with Cons.IH [of "mput path cont acc"] Cons.prems(2) True show ?thesis
      by (auto dest: hostsFile_path)
  next
    case False
    with Cons show ?thesis by (auto simp: writesFile_def split: option.splits)
  qed
qed simp

text \<open>Of several registries with one directory the last one has its file.\<close>

lemma hostFiles_last:
  assumes "hostFiles T cs names acc = Inr fs" and "sorted names" "distinct names"
    and "r \<in> set names" "writesFile cs r" "hostDir r = dir"
    and "\<forall>r' \<in> set names. writesFile cs r' \<and> hostDir r' = dir \<longrightarrow> r' \<le> r"
  shows "\<exists>c t. map_of cs r = Some c \<and> hostsFile T r c = Inr (hostsPath dir, t) \<and> map_of fs (hostsPath dir) = Some t"
  using assms
proof (induction names arbitrary: acc)
  case (Cons n names)
  show ?case
  proof (cases "r = n")
    case True
    then obtain c path cont where f: "map_of cs r = Some c" "hostsFile T r c = Inr (path, cont)"
      "hostFiles T cs names (mput path cont acc) = Inr fs"
      using Cons.prems(1,5) by (auto simp: res_simps writesFile_def split: option.splits)
    have "hostsPath (hostDir m) \<noteq> hostsPath dir" if "m \<in> set names" "writesFile cs m" for m
    proof
      assume "hostsPath (hostDir m) = hostsPath dir"
      then have "hostDir m = dir" by (simp add: hostsPath_def)
      with that Cons.prems(7) have "m \<le> r" by simp
      moreover have "r \<le> m" "m \<noteq> r" using Cons.prems(2,3) that(1) True by auto
      ultimately show False by simp
    qed
    with hostFiles_other [OF f(3)] f(1,2) Cons.prems(6) show ?thesis by (auto dest: hostsFile_path)
  next
    case False
    then have "r \<in> set names" using Cons.prems(4) by simp
    with Cons show ?thesis by (auto simp: res_simps split: option.splits if_splits)
  qed
qed simp

section \<open>Properties\<close>

text \<open>
  What the files have to say, in terms of the settings alone. The mirrors of a registry are those
  configured for it; \<open>docker.io\<close> has its own server as its mirror if it has no other. A registry has a
  file if it has a mirror or is insecure.
\<close>

definition registryMirrors :: "Containerd \<Rightarrow> string \<Rightarrow> string list" where
  "registryMirrors eng r = (case map_of (eng_registryMirrors eng) r of
     Some urls \<Rightarrow> urls
   | None \<Rightarrow> if r = ''docker.io'' then [''https://registry-1.docker.io''] else [])"

definition hasFile :: "Containerd \<Rightarrow> string \<Rightarrow> bool" where
  "hasFile eng r \<longleftrightarrow> registryMirrors eng r \<noteq> [] \<or> r \<in> set (eng_insecureRegistries eng)"

definition registryServer :: "string \<Rightarrow> string" where
  "registryServer r =
     (if takeWhile (\<lambda>c. c \<noteq> CHR ''/'') r = ''docker.io'' then ''https://registry-1.docker.io''
      else if takeWhile (\<lambda>c. c \<noteq> CHR ''/'') r \<in> {''*'', ''_default''} then []
      else r)"

text \<open>
  The document of a registry: its server, and one entry per mirror under the mirror's address without
  the marker parameter (of two with one address the later counts), which skips the verification
  exactly for an insecure registry; an insecure registry without mirrors has itself as the only host.
\<close>

definition hostsDocument :: "Containerd \<Rightarrow> string \<Rightarrow> HostsToml \<Rightarrow> bool" where
  "hostsDocument eng r doc \<longleftrightarrow>
     ht_Server doc = registryServer r
   \<and> distinct (keys (ht_Host doc))
   \<and> map_of (ht_Host doc) =
       (if registryMirrors eng r = []
        then [registryServer r \<mapsto> \<lparr>he_Capabilities = [''pull'', ''resolve''], he_SkipVerify = True, he_OverridePath = False\<rparr>]
        else map_of (rev (map (\<lambda>m. (stripKubermaticParam m,
          \<lparr>he_Capabilities = [''pull'', ''resolve''], he_SkipVerify = (r \<in> set (eng_insecureRegistries eng)),
           he_OverridePath = mirrorOverridePath m\<rparr>)) (registryMirrors eng r))))"

lemma strip_default: "stripKubermaticParam ''https://registry-1.docker.io'' = ''https://registry-1.docker.io''"
  "mirrorOverridePath ''https://registry-1.docker.io'' = False"
  by code_simp+

lemma hostConfigSpec_mirrors:
  "hostConfigSpec eng r = Some c \<Longrightarrow> rhc_endpoints c = map mirrorEndpoint (registryMirrors eng r)
     \<and> rhc_insecure c = (r \<in> set (eng_insecureRegistries eng))"
  by (auto simp: hostConfigSpec_def registryMirrors_def Let_def mirrorEndpoint_def defaultEndpoint_def
      strip_default split: option.splits if_splits)

lemma hasFile_iff: "hasFile eng r \<longleftrightarrow> (\<exists>c. hostConfigSpec eng r = Some c \<and> \<not> skipRegistry c)"
proof (cases "hostConfigSpec eng r")
  case None
  then show ?thesis by (auto simp: hostConfigSpec_def hasFile_def registryMirrors_def Let_def split: if_splits)
qed (auto simp: hasFile_def skipRegistry_def dest: hostConfigSpec_mirrors)

lemma map_of_fold_mput: "map_of (fold (\<lambda>x. mput (f x) (g x)) xs acc) = map_of (rev (map (\<lambda>x. (f x, g x)) xs) @ acc)"
  by (induction xs arbitrary: acc) (auto simp: fun_eq_iff map_add_def split: option.splits)

lemma distinct_hosts: "distinct (keys (fold (\<lambda>x. mput (f x) (g x)) xs []))" "distinct (keys (mput u v []))"
  by (rule distinct_fold_mput, simp add: keys_def) (simp add: keys_def mput_def)

lemma hostsToml_document:
  assumes "hostConfigSpec eng r = Some c" "\<not> skipRegistry c"
  shows "hostsDocument eng r (hostsToml (snd (registryDirServer r)) c)"
proof -
  have "snd (registryDirServer r) = registryServer r"
    by (simp add: registryDirServer_def registryHost_def registryServer_def Let_def)
  with hostConfigSpec_mirrors [OF assms(1)] assms(2) show ?thesis
    by (auto simp: hostsDocument_def hostsToml_def Let_def skipRegistry_def map_of_fold_mput distinct_hosts
        mirrorEndpoint_def o_def fun_eq_iff)
qed

text \<open>C29. The registry host files. There is a file in the directory of a registry exactly if a
  registry of that directory has a mirror or is insecure; and it is the encoding of the document of
  the last registry by name that shares the directory, with that registry's own mirrors.\<close>

theorem registry_host_files:
  assumes d: "distinct (keys (eng_registryMirrors eng))" and run: "RegistryHostConfigs T eng = Inr fs"
  shows "(map_of fs p \<noteq> None \<longleftrightarrow> (\<exists>r. hasFile eng r \<and> hostsPath (hostDir r) = p))
    \<and> (\<forall>r. hasFile eng r \<and> (\<forall>r'. hasFile eng r' \<and> hostDir r' = hostDir r \<longrightarrow> r' \<le> r) \<longrightarrow>
         (\<exists>doc txt. hostsDocument eng r doc \<and> toml_Hosts T doc = Inr txt
            \<and> map_of fs (hostsPath (hostDir r)) = Some (ReplaceAll (''[host]'' @ [CHR 0x0A]) [] txt)))"
proof -
  let ?cs = "buildRegistryHostConfigs eng"
  have cs: "map_of ?cs = hostConfigSpec eng" using buildRegistryHostConfigs_spec [OF d] by (simp add: fun_eq_iff)
  have w: "writesFile ?cs r \<longleftrightarrow> hasFile eng r" for r
    by (simp add: writesFile_def hasFile_iff cs split: option.split)
  have names: "r \<in> set (sorted_keys ?cs)" if "hasFile eng r" for r
    using that by (auto simp: hasFile_iff sorted_keys_def set_keys cs)
  have h: "hostFiles T ?cs (sorted_keys ?cs) [] = Inr fs" using run by (simp add: RegistryHostConfigs_def Let_def)
  have last: "\<exists>doc txt. hostsDocument eng r doc \<and> toml_Hosts T doc = Inr txt
      \<and> map_of fs (hostsPath (hostDir r)) = Some (ReplaceAll (''[host]'' @ [CHR 0x0A]) [] txt)"
    if r: "hasFile eng r" "\<forall>r'. hasFile eng r' \<and> hostDir r' = hostDir r \<longrightarrow> r' \<le> r" for r
  proof -
    obtain c t where c: "hostConfigSpec eng r = Some c" "hostsFile T r c = Inr (hostsPath (hostDir r), t)"
      "map_of fs (hostsPath (hostDir r)) = Some t"
      using hostFiles_last [OF h _ distinct_sorted_keys [OF distinct_build] names [OF r(1)], of "hostDir r"] r
      by (auto simp: w cs sorted_keys_def)
    then have "\<not> skipRegistry c" using r(1) by (auto simp: hasFile_iff)
    with hostsToml_document [OF c(1)] c(2,3) show ?thesis
      by (cases "registryDirServer r") (auto simp: hostsFile_def res_simps)
  qed
  have "map_of fs p \<noteq> None" if r: "hasFile eng r" "hostsPath (hostDir r) = p" for r
  proof -
    let ?R = "{r'. hasFile eng r' \<and> hostDir r' = hostDir r}"
    have "finite ?R" by (rule finite_subset [of _ "set (sorted_keys ?cs)"]) (use names in blast, rule finite_set)
    moreover have "r \<in> ?R" using r(1) by simp
    ultimately have "Max ?R \<in> ?R" "\<forall>r' \<in> ?R. r' \<le> Max ?R" using Max_in [of ?R] by (blast, simp)
    with last [of "Max ?R"] r(2) show ?thesis by auto
  qed
  moreover have "\<exists>r. hasFile eng r \<and> hostsPath (hostDir r) = p" if "map_of fs p \<noteq> None"
    using hostFiles_other [OF h, of p] that by (auto simp: w)
  ultimately show ?thesis using last by blast
qed

text \<open>A TOML encoder for examples, which shows the server and the mirrors.\<close>

definition demo_toml :: toml where
  "demo_toml = \<lparr>toml_Config = (\<lambda>m. Inr []),
     toml_Hosts = (\<lambda>h. Inr (''server='' @ ht_Server h @ concat (map (\<lambda>(u, e). '' host='' @ u) (ht_Host h))))\<rparr>"

definition demo_engine :: "mirrors \<Rightarrow> string list \<Rightarrow> Containerd" where
  "demo_engine ms ins = \<lparr>eng_insecureRegistries = ins, eng_registryMirrors = ms, eng_sandboxImage = [],
     eng_registryCredentials = [], eng_version = [], eng_deviceOwnership = False\<rparr>"

lemma only_key: "distinct xs \<Longrightarrow> set xs = {a} \<Longrightarrow> xs = [a]"
proof (cases xs)
  case (Cons y ys)
  assume "distinct xs" "set xs = {a}"
  with Cons have "y = a" "a \<notin> set ys" "set ys \<subseteq> {a}" by auto
  then show ?thesis by (cases ys) (auto simp: Cons)
qed simp

theorem registry_host_files_witness:
  "\<exists>fs. RegistryHostConfigs demo_toml (demo_engine [(''quay.io'', [''https://m.tld''])] []) = Inr fs
     \<and> map_of fs ''/etc/containerd/certs.d/quay.io/hosts.toml'' = Some ''server=quay.io host=https://m.tld''"
proof -
  let ?e = "demo_engine [(''quay.io'', [''https://m.tld''])] []"
  have "isOk (RegistryHostConfigs demo_toml ?e)" by code_simp
  then obtain fs where fs: "RegistryHostConfigs demo_toml ?e = Inr fs" by (auto simp: isOk_iff)
  have f: "hasFile ?e r \<longleftrightarrow> r = ''quay.io'' \<or> r = ''docker.io''" for r
    by (auto simp: hasFile_def registryMirrors_def demo_engine_def)
  have dirs: "hostDir ''quay.io'' = ''quay.io''" "hostDir ''docker.io'' = ''docker.io''" by code_simp+
  have dist: "distinct (keys (eng_registryMirrors ?e))" by (simp add: demo_engine_def keys_def)
  have "\<exists>doc d. hostsDocument ?e ''quay.io'' doc \<and> toml_Hosts demo_toml doc = Inr d
      \<and> map_of fs (hostsPath (hostDir ''quay.io'')) = Some (ReplaceAll (''[host]'' @ [CHR 0x0A]) [] d)"
  proof (rule registry_host_files [OF dist fs, THEN conjunct2, THEN spec, THEN mp], intro conjI allI impI)
    show "hasFile ?e ''quay.io''" by (simp add: f)
    show "r \<le> ''quay.io''" if "hasFile ?e r \<and> hostDir r = hostDir ''quay.io''" for r
      using that dirs by (simp only: f) force
  qed
  then obtain doc d where doc: "hostsDocument ?e ''quay.io'' doc" "toml_Hosts demo_toml doc = Inr d"
    and fs': "map_of fs (hostsPath (hostDir ''quay.io'')) = Some (ReplaceAll (''[host]'' @ [CHR 0x0A]) [] d)"
    by blast
  have strip: "stripKubermaticParam ''https://m.tld'' = ''https://m.tld''"
    "registryServer ''quay.io'' = ''quay.io''" by code_simp+
  have "ht_Server doc = ''quay.io''"
    and m: "distinct (keys (ht_Host doc))" "dom (map_of (ht_Host doc)) = {''https://m.tld''}"
    using doc(1) strip by (simp_all add: hostsDocument_def registryMirrors_def demo_engine_def)
  moreover obtain e where "ht_Host doc = [(''https://m.tld'', e)]"
  proof -
    have "keys (ht_Host doc) = [''https://m.tld'']" by (rule only_key [OF m(1)]) (simp only: set_keys m(2))
    then show ?thesis using that by (cases "ht_Host doc") (auto simp: keys_def)
  qed
  ultimately have "d = ''server=quay.io host=https://m.tld''"
    using doc(2) by (simp add: demo_toml_def)
  then have "ReplaceAll (''[host]'' @ [CHR 0x0A]) [] d = ''server=quay.io host=https://m.tld''"
    by simp code_simp
  moreover have "hostsPath (hostDir ''quay.io'') = ''/etc/containerd/certs.d/quay.io/hosts.toml''" by code_simp
  ultimately show ?thesis using fs fs' by simp
qed

text \<open>C30. The registry host files do not depend on the order in which Go ranges over the mirrors' map
  or in which the insecure registries are listed.\<close>

theorem registry_host_files_order:
  assumes "distinct (keys (eng_registryMirrors eng))" "distinct (keys (eng_registryMirrors eng'))"
    and "map_of (eng_registryMirrors eng) = map_of (eng_registryMirrors eng')"
    and "set (eng_insecureRegistries eng) = set (eng_insecureRegistries eng')"
  shows "RegistryHostConfigs T eng = RegistryHostConfigs T eng'"
  using assms by (rule RegistryHostConfigs_order)

theorem registry_host_files_order_witness:
  "RegistryHostConfigs demo_toml (demo_engine [(''a.io'', [''https://x'']), (''b.io'', [''https://y''])] [''r1'', ''r2''])
   = RegistryHostConfigs demo_toml (demo_engine [(''b.io'', [''https://y'']), (''a.io'', [''https://x''])] [''r2'', ''r1'', ''r2''])"
  by (rule registry_host_files_order) (auto simp: demo_engine_def keys_def fun_eq_iff)

definition mirrors_of :: "mirrors \<Rightarrow> string \<Rightarrow> string list" where
  "mirrors_of fl k = (case map_of fl k of None \<Rightarrow> [] | Some us \<Rightarrow> us)"

lemma mirrors_of_addMirror: "mirrors_of (addMirror r u m) k = mirrors_of m k @ (if k = r then [u] else [])"
  by (simp add: mirrors_of_def addMirror_def)

definition flag_Sets :: "string list \<Rightarrow> mirrors \<Rightarrow> mirrors res" where
  "flag_Sets vals fl = foldl (\<lambda>r v. bindR r (flag_Set v)) (Inr fl) vals"

lemma SplitN2_Cut: "SplitN2 c s = (if c \<in> set s then [fst (Cut c s), snd (Cut c s)] else [s])"
proof (cases "c \<in> set s")
  case True
  then obtain a b where ab: "s = a @ c # b" "c \<notin> set a" by (meson split_list_first)
  then have "Cut c s = (a, b)" by (auto simp: Cut_def takeWhile_append dropWhile_append)
  moreover have "SplitN2 c s = [a, b]" using ab by (simp add: SplitN2_pair)
  ultimately show ?thesis using True by simp
next
  case False
  then have "length (SplitN2 c s) = 1" by (simp add: SplitN2_length)
  then show ?thesis using False
    by (auto simp: SplitN2_def length_Suc_conv split: if_splits)
qed

lemma flag_Set_eq:
  "flag_Set v fl = (if CHR ''='' \<in> set v then Inr (addMirror (fst (Cut (CHR ''='') v)) (snd (Cut (CHR ''='') v)) fl)
     else Inl (Errorf ''should have exactly 1 ='' []))"
  by (simp add: flag_Set_def SplitN2_Cut)

lemma foldl_bindR_Inl: "foldl (\<lambda>r v. bindR r (g v)) (Inl e) vs = Inl e"
  by (induction vs) simp_all

text \<open>Repeating the mirrors flag collects, for each registry, its mirrors in the order given, and
  fails exactly if a value has no equals sign.\<close>

theorem mirror_flags_collect:
  "(case flag_Sets vals fl of
      Inl e \<Rightarrow> \<exists>v \<in> set vals. CHR ''='' \<notin> set v
    | Inr fl' \<Rightarrow> (\<forall>v \<in> set vals. CHR ''='' \<in> set v)
        \<and> (\<forall>k. mirrors_of fl' k = mirrors_of fl k
            @ map snd (filter (\<lambda>p. fst p = k) (map (Cut (CHR ''='')) vals))))"
proof (induction vals arbitrary: fl)
  case (Cons v vals)
  show ?case
  proof (cases "CHR ''='' \<in> set v")
    case True
    then show ?thesis
      using Cons.IH [of "addMirror (fst (Cut (CHR ''='') v)) (snd (Cut (CHR ''='') v)) fl"]
      by (auto simp: flag_Sets_def flag_Set_eq mirrors_of_addMirror split: sum.splits)
  qed (simp add: flag_Sets_def flag_Set_eq foldl_bindR_Inl)
qed (simp add: flag_Sets_def)

lemma collectMirrors_spec:
  "collectMirrors ps m = Inr m' \<Longrightarrow>
    list_all (\<lambda>p. isOk (url_Parse (snd p))) (map parseMirror (filter (\<lambda>t. t \<noteq> []) (map TrimSpace ps)))
    \<and> mirrors_of m' k = mirrors_of m k
      @ map snd (filter (\<lambda>p. fst p = k) (map parseMirror (filter (\<lambda>t. t \<noteq> []) (map TrimSpace ps))))"
proof (induction ps arbitrary: m)
  case (Cons p ps)
  then show ?case
    by (cases "parseMirror (TrimSpace p)")
      (auto simp: res_simps Let_def mirrors_of_addMirror isOk_iff split: if_splits)
qed simp

lemma parseMirror_http: "HasPrefix (snd (parseMirror s)) ''http''"
  by (auto simp: parseMirror_def HasPrefix_def split: option.split)

text \<open>C31. \<open>BuildConfig\<close>: after the mirrors of the repeated flag come those of the comma-separated one,
  trimmed, blank entries dropped, each an \<open>http\<close> URL that parses; the insecure registries are the
  entries of their flag, trimmed, in order, blank ones dropped; a credentials reference has exactly
  one slash; the sandbox image, the version and the device ownership are those of their flags.\<close>

theorem build_config_spec:
  assumes "BuildConfig opts = Inr cfg"
  shows "mirrors_of (cr_RegistryMirrors cfg) k = mirrors_of (op_ContainerdRegistryMirrors opts) k
      @ map snd (filter (\<lambda>p. fst p = k) (map parseMirror (filter (\<lambda>t. t \<noteq> [])
          (map TrimSpace (SplitC (CHR '','') (op_RegistryMirrors opts))))))
    \<and> list_all (\<lambda>p. HasPrefix (snd p) ''http'' \<and> isOk (url_Parse (snd p))) (map parseMirror (filter (\<lambda>t. t \<noteq> [])
          (map TrimSpace (SplitC (CHR '','') (op_RegistryMirrors opts)))))
    \<and> cr_InsecureRegistries cfg
        = filter (\<lambda>r. r \<noteq> []) (map TrimSpace (SplitC (CHR '','') (op_InsecureRegistries opts)))
    \<and> (op_RegistryCredentialsSecret opts = [] \<or> count_list (op_RegistryCredentialsSecret opts) (CHR ''/'') = 1)
    \<and> cr_SandboxImage cfg = op_PauseImage opts
    \<and> cr_ContainerdVersion cfg = op_ContainerdVersion opts
    \<and> cr_DeviceOwnership cfg = op_DeviceOwnership opts"
proof -
  obtain m where m: "collectMirrors (SplitC (CHR '','') (op_RegistryMirrors opts)) (op_ContainerdRegistryMirrors opts) = Inr m"
    and cfg: "cr_RegistryMirrors cfg = m" "cr_InsecureRegistries cfg = insecureList (op_InsecureRegistries opts)"
      "cr_SandboxImage cfg = op_PauseImage opts" "cr_ContainerdVersion cfg = op_ContainerdVersion opts"
      "cr_DeviceOwnership cfg = op_DeviceOwnership opts"
      "op_RegistryCredentialsSecret opts = [] \<or> length (SplitC (CHR ''/'') (op_RegistryCredentialsSecret opts)) = 2"
    using assms by (auto simp: BuildConfig_def option_defs res_simps split: if_splits)
  with collectMirrors_spec [OF m, of k] show ?thesis
    by (auto simp: list_all_iff parseMirror_http length_SplitC insecureList_def)
qed

definition demo_opts :: Opts where
  "demo_opts = \<lparr>op_ContainerRuntime = ''containerd'', op_ContainerdVersion = [],
     op_InsecureRegistries = '' a.io, ,b.io '', op_RegistryMirrors = ''quay.io=m.tld, http://x'',
     op_RegistryCredentialsSecret = ''ns/creds'', op_PauseImage = ''pause:3'',
     op_ContainerdRegistryMirrors = [(''quay.io'', [''https://first''])], op_DeviceOwnership = False\<rparr>"

theorem build_config_spec_witness:
  "\<exists>cfg. BuildConfig demo_opts = Inr cfg \<and> cr_SandboxImage cfg = ''pause:3''
     \<and> mirrors_of (cr_RegistryMirrors cfg) ''quay.io'' = [''https://first'', ''https://m.tld'']"
proof -
  have "isOk (BuildConfig demo_opts)" by code_simp
  then obtain cfg where cfg: "BuildConfig demo_opts = Inr cfg" by (auto simp: isOk_iff)
  have "mirrors_of (op_ContainerdRegistryMirrors demo_opts) ''quay.io''
      @ map snd (filter (\<lambda>p. fst p = ''quay.io'') (map parseMirror (filter (\<lambda>t. t \<noteq> [])
          (map TrimSpace (SplitC (CHR '','') (op_RegistryMirrors demo_opts))))))
      = [''https://first'', ''https://m.tld'']" by code_simp
  with build_config_spec [OF cfg, of "''quay.io''"] cfg show ?thesis by (simp add: demo_opts_def)
qed



text \<open>A mirror given for a registry with a port is not recognised as such: it is added, silently, as
  a mirror of \<open>docker.io\<close> under a mangled address.\<close>

theorem registry_port_mirror:
  "collectMirrors [''reg.local:5000=http://m.tld''] [] = Inr [(''docker.io'', [''https://reg.local:5000=http://m.tld''])]"
  by code_simp

theorem mirror_flags_collect_witness:
  "\<exists>fl. flag_Sets [''a.io=https://x'', ''b.io=https://z'', ''a.io=https://y''] [] = Inr fl
     \<and> mirrors_of fl ''a.io'' = [''https://x'', ''https://y'']"
proof -
  let ?vals = "[''a.io=https://x'', ''b.io=https://z'', ''a.io=https://y'']"
  have "isOk (flag_Sets ?vals [])" by code_simp
  then obtain fl where fl: "flag_Sets ?vals [] = Inr fl" by (auto simp: isOk_iff)
  have "mirrors_of [] ''a.io'' @ map snd (filter (\<lambda>p. fst p = ''a.io'') (map (Cut (CHR ''='')) ?vals))
      = [''https://x'', ''https://y'']" by code_simp
  moreover have "mirrors_of fl ''a.io''
      = mirrors_of [] ''a.io'' @ map snd (filter (\<lambda>p. fst p = ''a.io'') (map (Cut (CHR ''='')) ?vals))"
    using mirror_flags_collect [of ?vals "[]", unfolded fl sum.case] by (rule conjunct2 [THEN spec])
  ultimately have "mirrors_of fl ''a.io'' = [''https://x'', ''https://y'']" by (rule trans [rotated])
  with fl show ?thesis by blast
qed

end
