(* ===== verification/ClusterInfo.thy ===== *)
theory ClusterInfo
  imports KubeAPI GoNet
begin

text \<open>
  \<open>pkg/clusterinfo\<close>: the kubeconfig that describes the user cluster, from the \<open>cluster-info\<close>
  ConfigMap or else from the endpoint slices of the \<open>kubernetes\<close> service. \<open>client_go\<close> holds the
  functions of \<open>k8s.io/client-go\<close> and \<open>k8s.io/apimachinery\<close> that this package and \<open>pkg/bootstrap\<close>
  call: reading and writing kubeconfigs, and the check of a label selector's value.
\<close>

record client_go =
  clientcmd_Load :: "string \<Rightarrow> Kubeconfig res"
  clientcmd_Write :: "Kubeconfig \<Rightarrow> string res"
  labels_NewRequirement :: "string \<Rightarrow> string \<Rightarrow> unit res"

record KubeconfigProvider =
  kp_caCert :: string
  kp_client :: cluster

definition getKubeconfigFromConfigMap ::
    "client_go \<Rightarrow> 'w kube_ops \<Rightarrow> KubeconfigProvider \<Rightarrow> ('w, Kubeconfig) M" where
  "getKubeconfigFromConfigMap G A p =
     bindE (get_as A as_CM (Key (kp_client p) KConfigMap ''kube-public'' ''cluster-info'')) (\<lambda>cm.
       case map_of (cm_Data cm) ''kubeconfig'' of
         None \<Rightarrow> throw (Errorf ''no kubeconfig found in cluster-info configmap'' [])
       | Some d \<Rightarrow> lift (clientcmd_Load G d))"

fun getSecurePortFromSlice :: "EndpointPort list \<Rightarrow> int32 option" where
  "getSecurePortFromSlice [] = None"
| "getSecurePortFromSlice (p # ps) =
     (if ep_Name p = Some ''https'' \<and> ep_Port p \<noteq> None then ep_Port p else getSecurePortFromSlice ps)"

text \<open>The inner loop: the URL of the first ready endpoint whose first address parses.\<close>

fun endpointURL :: "int32 \<Rightarrow> Endpoint list \<Rightarrow> string option" where
  "endpointURL port [] = None"
| "endpointURL port (e # es) =
     (if ep_Ready e \<noteq> Some True then endpointURL port es
      else case ep_Addresses e of
        [] \<Rightarrow> endpointURL port es
      | a # _ \<Rightarrow> (case ParseIP a of
          None \<Rightarrow> endpointURL port es
        | Some ip \<Rightarrow> Some (''https://'' @ JoinHostPort (IPString ip) (show_int (sint port)))))"

fun sliceURL :: "EndpointSlice list \<Rightarrow> string option" where
  "sliceURL [] = None"
| "sliceURL (s # ss) =
     (case getSecurePortFromSlice (eps_Ports s) of
        None \<Rightarrow> sliceURL ss
      | Some port \<Rightarrow> (case endpointURL port (eps_Endpoints s) of
          None \<Rightarrow> sliceURL ss
        | Some url \<Rightarrow> Some url))"

definition buildKubeconfigFromEndpointSlice ::
    "'w kube_ops \<Rightarrow> KubeconfigProvider \<Rightarrow> ('w, Kubeconfig) M" where
  "buildKubeconfigFromEndpointSlice A p =
     bindE (wrapE ''failed to list endpointslices: %w'' []
         (list_as A as_EPS (kp_client p) KEndpointSlice ''default'' (''kubernetes.io/service-name'', ''kubernetes'')))
       (\<lambda>slices.
          if slices = [] then throw (Errorf ''no endpointslices found for kubernetes service'' [])
          else case sliceURL slices of
            None \<Rightarrow> throw (Errorf ''no ready endpoint found in kubernetes endpointslices'' [])
          | Some url \<Rightarrow> ret \<lparr>kc_Clusters = [([], Some \<lparr>cl_Server = url, cl_CertificateAuthorityData = kp_caCert p\<rparr>)],
              kc_AuthInfos = [], kc_Contexts = [], kc_CurrentContext = []\<rparr>)"

definition GetKubeconfig ::
    "client_go \<Rightarrow> 'w kube_ops \<Rightarrow> KubeconfigProvider \<Rightarrow> ('w, Kubeconfig) M" where
  "GetKubeconfig G A p = tryE (getKubeconfigFromConfigMap G A p) (\<lambda>r. case r of
     Inr cm \<Rightarrow> ret cm
   | Inl e \<Rightarrow> buildKubeconfigFromEndpointSlice A p)"

section \<open>Lemmas\<close>

lemma getSecurePortFromSlice_Some: "getSecurePortFromSlice ps = Some port \<Longrightarrow>
    \<exists>p \<in> set ps. ep_Name p = Some ''https'' \<and> ep_Port p = Some port"
  by (induction ps) (auto split: if_splits)

lemma getSecurePortFromSlice_None: "getSecurePortFromSlice ps = None \<longleftrightarrow>
    (\<forall>p \<in> set ps. ep_Name p = Some ''https'' \<longrightarrow> ep_Port p = None)"
  by (induction ps) auto

lemma endpointURL_Some: "endpointURL port es = Some url \<Longrightarrow>
    \<exists>e \<in> set es. \<exists>a as ip. ep_Ready e = Some True \<and> ep_Addresses e = a # as \<and> ParseIP a = Some ip
      \<and> url = ''https://'' @ JoinHostPort (IPString ip) (show_int (sint port))"
  by (induction es) (auto split: if_splits list.splits option.splits)

lemma sliceURL_Some: "sliceURL ss = Some url \<Longrightarrow>
    \<exists>s \<in> set ss. \<exists>port. getSecurePortFromSlice (eps_Ports s) = Some port
      \<and> endpointURL port (eps_Endpoints s) = Some url"
  by (induction ss) (auto split: option.splits)

lemma sliceURL_None: "sliceURL ss = None \<longleftrightarrow>
    (\<forall>s \<in> set ss. \<forall>port. getSecurePortFromSlice (eps_Ports s) = Some port \<longrightarrow>
      endpointURL port (eps_Endpoints s) = None)"
  by (induction ss) (auto split: option.splits)

context kube_api
begin

text \<open>Fetching the kubeconfig reads only.\<close>

lemma wp_GetKubeconfig_frame:
  assumes "\<And>r w'. objs w' = objs w \<Longrightarrow> Q r w'"
  shows "wp (GetKubeconfig G A p) Q w"
proof -
  have build: "wp (buildKubeconfigFromEndpointSlice A p) Q w'" if "objs w' = objs w" for w'
    unfolding buildKubeconfigFromEndpointSlice_def wp_simps
    by (rule wp_list_as) (auto simp: wp_simps that assms split: sum.splits option.splits)
  show ?thesis
    unfolding GetKubeconfig_def getKubeconfigFromConfigMap_def wp_simps
    by (rule wp_get_as) (auto simp: wp_simps assms intro!: build split: sum.splits option.splits)
qed

end

end
