(* ===== verification/GoTime.thy ===== *)
theory GoTime
  imports GoStrings
begin

text \<open>
  The part of Go's \<open>time\<close> package that the repository uses: instants as nanoseconds since the
  Unix epoch, \<open>Format\<close> and \<open>Parse\<close> with the layout \<open>time.RFC3339\<close>, and \<open>ParseDuration\<close>. Formatting
  truncates to whole seconds; \<open>tz\<close> is the offset of the process's time zone in minutes. The main
  lemma is the round trip \<open>ParseRFC3339_Format\<close>.
\<close>

section \<open>Dates of the proleptic Gregorian calendar\<close>

text \<open>
  Days are counted from 0000-03-01, so that a leap day ends its year; a year is split off a
  400-year era, a century, a four-year cycle and a year in turn.
\<close>

definition epoch_shift :: int where
  "epoch_shift = 719468"

definition year_day :: "int \<Rightarrow> int \<times> int" where
  "year_day doe =
     (let c = min (doe div 36524) 3; r = doe - 36524 * c;
          q = r div 1461; r2 = r - 1461 * q;
          y = min (r2 div 365) 3
      in (100 * c + 4 * q + y, r2 - 365 * y))"

definition civil_of_days :: "int \<Rightarrow> int \<times> int \<times> int" where
  "civil_of_days z =
     (let era = (z + epoch_shift) div 146097; (yoe, doy) = year_day ((z + epoch_shift) mod 146097);
          mp = (5 * doy + 2) div 153; d = doy - (153 * mp + 2) div 5 + 1;
          m = (if mp < 10 then mp + 3 else mp - 9)
      in (400 * era + yoe + (if m \<le> 2 then 1 else 0), m, d))"

definition days_of_civil :: "int \<Rightarrow> int \<Rightarrow> int \<Rightarrow> int" where
  "days_of_civil y m d =
     (let y' = (if m \<le> 2 then y - 1 else y); era = y' div 400; yoe = y' mod 400;
          mp = (if m > 2 then m - 3 else m + 9); doy = (153 * mp + 2) div 5 + d - 1
      in 146097 * era + 365 * yoe + yoe div 4 - yoe div 100 + doy - epoch_shift)"

lemma year_day_bounds:
  assumes "0 \<le> doe" "doe < 146097" "year_day doe = (yoe, doy)"
  shows "0 \<le> yoe \<and> yoe < 400 \<and> 0 \<le> doy \<and> doy \<le> 365
    \<and> doe = 365 * yoe + yoe div 4 - yoe div 100 + doy"
proof -
  define c where "c = min (doe div 36524) 3"
  define r where "r = doe - 36524 * c"
  define q where "q = r div 1461"
  define r2 where "r2 = r - 1461 * q"
  define y where "y = min (r2 div 365) 3"
  have c: "0 \<le> c" "c \<le> 3" using assms(1) by (auto simp: c_def)
  have r: "0 \<le> r" "r \<le> 36524" using assms(1,2) unfolding r_def c_def by linarith+
  have q: "0 \<le> q" "q \<le> 24" using r unfolding q_def by linarith+
  have r2: "0 \<le> r2" "r2 \<le> 1460" unfolding r2_def q_def by (simp_all add: minus_mult_div_eq_mod)
  have y: "0 \<le> y" "y \<le> 3" using r2 by (auto simp: y_def)
  have d: "0 \<le> r2 - 365 * y" "r2 - 365 * y \<le> 365" using r2 unfolding y_def by linarith+
  have yoe: "yoe = 100 * c + 4 * q + y" and doy: "doy = r2 - 365 * y"
    using assms(3) by (simp_all add: year_day_def Let_def flip: c_def r_def q_def r2_def y_def)
  have "yoe div 4 = 25 * c + q" using y unfolding yoe by linarith
  moreover have "yoe div 100 = c" using y q unfolding yoe by linarith
  moreover have "doe = 36524 * c + 1461 * q + r2" by (simp add: r_def r2_def)
  ultimately show ?thesis
    using c q y d yoe doy by linarith
qed

lemma days_civil: "civil_of_days z = (y, m, d) \<Longrightarrow> days_of_civil y m d = z"
proof -
  assume a: "civil_of_days z = (y, m, d)"
  define s where "s = z + epoch_shift"
  obtain yoe doy where yd: "year_day (s mod 146097) = (yoe, doy)" by fastforce
  have b: "0 \<le> yoe" "yoe < 400" "0 \<le> doy" "doy \<le> 365"
    "s mod 146097 = 365 * yoe + yoe div 4 - yoe div 100 + doy"
    using year_day_bounds [OF _ _ yd] by simp_all
  define mp where "mp = (5 * doy + 2) div 153"
  have mp: "0 \<le> mp" "mp \<le> 11" using b unfolding mp_def by linarith+
  have m: "m = (if mp < 10 then mp + 3 else mp - 9)" and d: "d = doy - (153 * mp + 2) div 5 + 1"
    and y: "y = 400 * (s div 146097) + yoe + (if m \<le> 2 then 1 else 0)"
    using a yd by (simp_all add: civil_of_days_def Let_def mp_def flip: s_def split: if_splits)
  have mp': "(if m > 2 then m - 3 else m + 9) = mp" using m mp by auto
  have y': "(if m \<le> 2 then y - 1 else y) = 400 * (s div 146097) + yoe" using y by auto
  have era: "(400 * (s div 146097) + yoe) div 400 = s div 146097"
    "(400 * (s div 146097) + yoe) mod 400 = yoe" using b by auto
  have doy: "(153 * mp + 2) div 5 + d - 1 = doy" using d by simp
  have "days_of_civil y m d = 146097 * (s div 146097) + s mod 146097 - epoch_shift"
    unfolding days_of_civil_def Let_def mp' y' era doy b(5) by (simp only: ac_simps add_diff_eq diff_add_eq)
  then show ?thesis by (simp add: s_def)
qed

lemma civil_bounds:
  assumes "civil_of_days z = (y, m, d)"
  shows "1 \<le> m \<and> m \<le> 12 \<and> 1 \<le> d \<and> d \<le> 31"
proof -
  define s where "s = z + epoch_shift"
  obtain yoe doy where yd: "year_day (s mod 146097) = (yoe, doy)" by fastforce
  have b: "0 \<le> doy" "doy \<le> 365" using year_day_bounds [OF _ _ yd] by simp_all
  define mp where "mp = (5 * doy + 2) div 153"
  have m: "m = (if mp < 10 then mp + 3 else mp - 9)" and d: "d = doy - (153 * mp + 2) div 5 + 1"
    using assms yd by (simp_all add: civil_of_days_def Let_def mp_def flip: s_def split: if_splits)
  have "0 \<le> mp" "mp \<le> 11" "1 \<le> d" "d \<le> 31" using b unfolding d mp_def by linarith+
  with m show ?thesis by auto
qed

section \<open>RFC 3339\<close>

definition pad :: "nat \<Rightarrow> nat \<Rightarrow> string" where
  "pad w n = replicate (w - length (show_nat n)) (CHR ''0'') @ show_nat n"

definition zone_suffix :: "int \<Rightarrow> string" where
  "zone_suffix tz =
     (if tz = 0 then ''Z''
      else (if tz < 0 then ''-'' else ''+'') @ pad 2 (nat \<bar>tz\<bar> div 60) @ '':'' @ pad 2 (nat \<bar>tz\<bar> mod 60))"

text \<open>\<open>t.Format(time.RFC3339)\<close>.\<close>

definition FormatRFC3339 :: "int \<Rightarrow> int \<Rightarrow> string" where
  "FormatRFC3339 tz t =
     (let s = t div 1000000000 + 60 * tz; sod = nat (s mod 86400)
      in case civil_of_days (s div 86400) of (y, m, d) \<Rightarrow>
         (if y < 0 then ''-'' else '''') @ pad 4 (nat \<bar>y\<bar>) @ ''-'' @ pad 2 (nat m) @ ''-'' @ pad 2 (nat d)
         @ ''T'' @ pad 2 (sod div 3600) @ '':'' @ pad 2 (sod div 60 mod 60) @ '':'' @ pad 2 (sod mod 60)
         @ zone_suffix tz)"

text \<open>\<open>getnum\<close> with a fixed width: \<open>w\<close> decimal digits.\<close>

definition getnum :: "nat \<Rightarrow> string \<Rightarrow> (nat \<times> string) option" where
  "getnum w s =
     (if length s < w then None else map_option (\<lambda>n. (n, drop w s)) (read_nat (take w s)))"

definition expect :: "char \<Rightarrow> string \<Rightarrow> string option" where
  "expect c s = (case s of [] \<Rightarrow> None | x # r \<Rightarrow> if x = c then Some r else None)"

text \<open>The layout's hour may be written with one digit.\<close>

definition gethour :: "string \<Rightarrow> (nat \<times> string) option" where
  "gethour s = (case getnum 2 s of Some p \<Rightarrow> Some p | None \<Rightarrow> getnum 1 s)"

text \<open>A fraction of a second: at most nine digits count.\<close>

definition getfraction :: "string \<Rightarrow> nat \<times> string" where
  "getfraction s = (case s of
     c # d # r \<Rightarrow>
       if c \<in> set ''.,'' \<and> is_digit d
       then let ds = takeWhile is_digit (d # r)
            in (the (read_nat (take 9 (ds @ replicate 9 (CHR ''0'')))), dropWhile is_digit (d # r))
       else (0, s)
   | _ \<Rightarrow> (0, s))"

definition getzone :: "string \<Rightarrow> int option" where
  "getzone s = (if s = ''Z'' then Some 0 else case s of [] \<Rightarrow> None | sg # r \<Rightarrow>
     if sg \<notin> set ''+-'' then None
     else Option.bind (getnum 2 r) (\<lambda>(h, r). Option.bind (expect (CHR '':'') r) (\<lambda>r.
       Option.bind (getnum 2 r) (\<lambda>(m, r).
         if h > 24 \<or> m > 60 \<or> r \<noteq> [] then None
         else Some ((if sg = CHR ''-'' then -1 else 1) * int (60 * h + m))))))"

text \<open>
  \<open>time.Parse(time.RFC3339, s)\<close>. A day that the month does not have is out of range: the date is
  not the one its day number stands for.
\<close>

definition instant :: "nat \<Rightarrow> nat \<Rightarrow> nat \<Rightarrow> nat \<Rightarrow> nat \<Rightarrow> nat \<Rightarrow> nat \<Rightarrow> int \<Rightarrow> int option" where
  "instant y m d hh mi sec ns tz =
     (let z = days_of_civil (int y) (int m) (int d) in
      if civil_of_days z \<noteq> (int y, int m, int d) \<or> hh > 23 \<or> mi > 59 \<or> sec > 59 then None
      else Some ((86400 * z + int (3600 * hh + 60 * mi + sec) - 60 * tz) * 1000000000 + int ns))"

definition parse_rfc3339 :: "string \<Rightarrow> int option" where
  "parse_rfc3339 s =
     Option.bind (getnum 4 s) (\<lambda>(y, s). Option.bind (expect (CHR ''-'') s) (\<lambda>s.
     Option.bind (getnum 2 s) (\<lambda>(m, s). Option.bind (expect (CHR ''-'') s) (\<lambda>s.
     Option.bind (getnum 2 s) (\<lambda>(d, s). Option.bind (expect (CHR ''T'') s) (\<lambda>s.
     Option.bind (gethour s) (\<lambda>(hh, s). Option.bind (expect (CHR '':'') s) (\<lambda>s.
     Option.bind (getnum 2 s) (\<lambda>(mi, s). Option.bind (expect (CHR '':'') s) (\<lambda>s.
     Option.bind (getnum 2 s) (\<lambda>(sec, s). case getfraction s of (ns, s) \<Rightarrow>
     Option.bind (getzone s) (\<lambda>tz. instant y m d hh mi sec ns tz))))))))))))"

definition ParseRFC3339 :: "string \<Rightarrow> int res" where
  "ParseRFC3339 s = (case parse_rfc3339 s of
     None \<Rightarrow> Inl (Errorf ''parsing time %q as %q: cannot parse'' [s, ''2006-01-02T15:04:05Z07:00''])
   | Some t \<Rightarrow> Inr t)"

lemma length_show_nat_le: "n < 10 ^ w \<Longrightarrow> 0 < w \<Longrightarrow> length (show_nat n) \<le> w"
proof (induction w arbitrary: n)
  case (Suc w)
  show ?case
  proof (cases "n < 10")
    case True
    then show ?thesis by (subst show_nat.simps) simp
  next
    case False
    with Suc.prems have "n div 10 < 10 ^ w" "0 < w"
      by (cases w; simp add: less_mult_imp_div_less mult.commute)+
    from Suc.IH [OF this] False show ?thesis by (subst show_nat.simps) simp
  qed
qed simp

lemma length_pad: "n < 10 ^ w \<Longrightarrow> 0 < w \<Longrightarrow> length (pad w n) = w"
  using length_show_nat_le [of n w] by (simp add: pad_def)

lemma read_pad: "read_nat (pad w n) = Some n"
proof -
  have "foldl (\<lambda>n c. 10 * n + digit_val c) 0 (replicate k (CHR ''0'')) = 0" for k
    by (induction k) (simp_all add: digit_val_def)
  moreover have "list_all is_digit (replicate k (CHR ''0''))" for k
    by (induction k) (simp_all add: is_digit_def)
  moreover have "list_all is_digit (show_nat n)"
    "foldl (\<lambda>n c. 10 * n + digit_val c) 0 (show_nat n) = n"
    using read_show_nat [of n] by (auto simp: read_nat_def split: if_splits)
  ultimately show ?thesis by (simp add: read_nat_def pad_def)
qed

lemma getnum_pad: "n < 10 ^ w \<Longrightarrow> 0 < w \<Longrightarrow> getnum w (pad w n @ s) = Some (n, s)"
  by (simp add: getnum_def length_pad read_pad)

lemma getnum_pad2 [simp]: "n < 100 \<Longrightarrow> getnum 2 (pad 2 n @ s) = Some (n, s)"
  by (rule getnum_pad) simp_all

lemma getnum_pad4 [simp]: "n < 10000 \<Longrightarrow> getnum 4 (pad 4 n @ s) = Some (n, s)"
  by (rule getnum_pad) simp_all

lemma expect_Cons [simp]: "expect c (c # s) = Some s"
  by (simp add: expect_def)

lemma getzone_suffix: "\<bar>tz\<bar> < 1440 \<Longrightarrow> getzone (zone_suffix tz) = Some tz"
proof (cases "tz = 0")
  case False
  assume tz: "\<bar>tz\<bar> < 1440"
  define a where "a = nat \<bar>tz\<bar>"
  have a: "a < 1440" "0 < a" using tz False by (auto simp: a_def)
  have h: "a div 60 < 24" using a by (simp add: less_mult_imp_div_less)
  have "getnum 2 (pad 2 (a div 60) @ '':'' @ pad 2 (a mod 60)) = Some (a div 60, '':'' @ pad 2 (a mod 60))"
    by (rule getnum_pad) (use h in simp_all)
  moreover have "getnum 2 (pad 2 (a mod 60)) = Some (a mod 60, [])"
    using getnum_pad2 [of "a mod 60" "[]"] by (simp add: less_trans [OF mod_less_divisor])
  moreover have "a mod 60 < 60" by simp
  ultimately have "getzone ([c] @ pad 2 (a div 60) @ '':'' @ pad 2 (a mod 60))
      = Some ((if c = CHR ''-'' then -1 else 1) * int a)" if "c \<in> set ''+-''" for c
    using h that by (simp add: getzone_def not_less)
  from this [of "CHR ''-''"] this [of "CHR ''+''"] show ?thesis
    using False by (auto simp: zone_suffix_def a_def)
qed (simp add: zone_suffix_def getzone_def)

lemma getfraction_zone [simp]: "getfraction (zone_suffix tz) = (0, zone_suffix tz)"
  by (auto simp: zone_suffix_def getfraction_def split: list.split)

text \<open>
  Parsing a formatted instant gives it back, truncated to the second, in any zone less than a day
  from UTC and for the years that four digits can write.
\<close>

lemma parse_rfc3339_Format:
  assumes tz: "\<bar>tz\<bar> < 1440"
    and civil: "civil_of_days ((t div 1000000000 + 60 * tz) div 86400) = (y, m, d)"
    and y: "0 \<le> y" "y < 10000"
  shows "parse_rfc3339 (FormatRFC3339 tz t) = Some (t div 1000000000 * 1000000000)"
proof -
  define s where "s = t div 1000000000 + 60 * tz"
  define sod where "sod = nat (s mod 86400)"
  have sod: "sod < 86400" "int sod = s mod 86400" by (auto simp: sod_def nat_less_iff)
  have hms: "sod div 3600 < 24" "sod div 60 mod 60 < 60" "sod mod 60 < 60"
    using sod(1) by (simp_all add: less_mult_imp_div_less)
  have ms: "\<not> 59 < k mod 60" for k :: nat using mod_less_divisor [of 60 k] by linarith
  have sum: "3600 * (sod div 3600) + 60 * (sod div 60 mod 60) + sod mod 60 = sod"
  proof -
    have "sod div 3600 = sod div 60 div 60" by (simp flip: div_mult2_eq)
    then have "60 * (sod div 3600) + sod div 60 mod 60 = sod div 60" by simp
    moreover have "60 * (sod div 60) + sod mod 60 = sod" by simp
    ultimately show ?thesis by linarith
  qed
  have md: "1 \<le> m" "m \<le> 12" "1 \<le> d" "d \<le> 31" using civil_bounds [OF civil] by simp_all
  have days: "days_of_civil y m d = s div 86400"
    using days_civil [OF civil] by (simp add: s_def)
  have "instant (nat y) (nat m) (nat d) (sod div 3600) (sod div 60 mod 60) (sod mod 60) 0 tz
      = Some ((86400 * (s div 86400) + int sod - 60 * tz) * 1000000000)"
    using civil md y hms by (simp add: ms instant_def days s_def [symmetric] sum Let_def flip: of_nat_mult of_nat_add)
  also have "86400 * (s div 86400) + int sod - 60 * tz = t div 1000000000"
    unfolding sod(2) by (simp add: s_def)
  finally have inst: "instant (nat y) (nat m) (nat d) (sod div 3600) (sod div 60 mod 60) (sod mod 60) 0 tz
      = Some (t div 1000000000 * 1000000000)" .
  have hour: "gethour (pad 2 (sod div 3600) @ r) = Some (sod div 3600, r)" for r
    using hms by (simp add: gethour_def)
  have fmt: "FormatRFC3339 tz t = pad 4 (nat y) @ CHR ''-'' # pad 2 (nat m) @ CHR ''-'' # pad 2 (nat d)
      @ CHR ''T'' # pad 2 (sod div 3600) @ CHR '':'' # pad 2 (sod div 60 mod 60) @ CHR '':''
      # pad 2 (sod mod 60) @ zone_suffix tz"
    using y civil by (simp add: FormatRFC3339_def Let_def s_def sod_def)
  show ?thesis
    unfolding parse_rfc3339_def fmt
    using y md hms by (simp add: hour getzone_suffix [OF tz] inst)
qed

lemma civil_year_range:
  assumes "0 \<le> z" "z < 2400000" "civil_of_days z = (y, m, d)"
  shows "0 \<le> y \<and> y < 10000"
proof -
  define s where "s = z + epoch_shift"
  obtain yoe doy where yd: "year_day (s mod 146097) = (yoe, doy)" by fastforce
  have b: "0 \<le> yoe" "yoe < 400" using year_day_bounds [OF _ _ yd] by simp_all
  have y: "400 * (s div 146097) + yoe \<le> y" "y \<le> 400 * (s div 146097) + yoe + 1"
    using assms(3) yd by (auto simp: civil_of_days_def Let_def simp flip: s_def split: if_splits)
  have "0 \<le> s" "s < 146097 * 22" using assms(1,2) by (auto simp: s_def epoch_shift_def)
  then have "0 \<le> s div 146097" "s div 146097 \<le> 21" by linarith+
  with b y show ?thesis by linarith
qed

text \<open>The instants from 2 January 1970 to the year 5138, in nanoseconds.\<close>

definition sane_time :: "int \<Rightarrow> bool" where
  "sane_time t \<longleftrightarrow> 10 ^ 14 \<le> t \<and> t < 10 ^ 20"

lemma ParseRFC3339_Format:
  assumes "\<bar>tz\<bar> < 1440" "sane_time t"
  shows "ParseRFC3339 (FormatRFC3339 tz t) = Inr (t div 1000000000 * 1000000000)"
proof -
  define s where "s = t div 1000000000 + 60 * tz"
  have "100000 \<le> t div 1000000000" "t div 1000000000 < 10 ^ 11"
    using assms(2) by (auto simp: sane_time_def)
  then have "0 \<le> s" "s < 86400 * 2400000" using assms(1) unfolding s_def by auto
  then have z: "0 \<le> s div 86400" "s div 86400 < 2400000" by auto
  obtain y m d where c: "civil_of_days (s div 86400) = (y, m, d)" by (cases "civil_of_days (s div 86400)")
  with civil_year_range [OF z c] assms(1) show ?thesis
    by (simp add: ParseRFC3339_def s_def parse_rfc3339_Format)
qed

section \<open>Durations\<close>

text \<open>
  \<open>time.ParseDuration\<close>: a sign and a sequence of decimal numbers with units, in nanoseconds. The
  fraction of a number is exact here, where Go multiplies it in \<open>float64\<close>. \<open>\<mu>s\<close> is written with
  either of two code points, \<open>C2 B5\<close> or \<open>CE BC\<close> in UTF-8.
\<close>

definition unit_map :: "string \<Rightarrow> nat option" where
  "unit_map u =
     (if u = ''ns'' then Some 1
      else if u = ''us'' \<or> u = [CHR 0xC2, CHR 0xB5, CHR ''s''] \<or> u = [CHR 0xCE, CHR 0xBC, CHR ''s''] then Some 1000
      else if u = ''ms'' then Some 1000000
      else if u = ''s'' then Some 1000000000
      else if u = ''m'' then Some 60000000000
      else if u = ''h'' then Some 3600000000000
      else None)"

definition num_char :: "char \<Rightarrow> bool" where
  "num_char c \<longleftrightarrow> c = CHR ''.'' \<or> is_digit c"

definition digits_val :: "string \<Rightarrow> nat" where
  "digits_val ds = (case read_nat ds of None \<Rightarrow> 0 | Some n \<Rightarrow> n)"

text \<open>One number with its unit: its nanoseconds and the rest of the text.\<close>

definition duration_item :: "string \<Rightarrow> (nat \<times> string) option" where
  "duration_item s =
     (let pre = takeWhile is_digit s; s1 = dropWhile is_digit s;
          dot = (s1 \<noteq> [] \<and> hd s1 = CHR ''.''); s2 = (if dot then tl s1 else s1);
          post = (if dot then takeWhile is_digit s2 else []); s3 = (if dot then dropWhile is_digit s2 else s2);
          u = takeWhile (\<lambda>c. \<not> num_char c) s3; s4 = dropWhile (\<lambda>c. \<not> num_char c) s3
      in if digits_val pre > 2 ^ 63 \<or> (pre = [] \<and> post = []) \<or> u = [] then None
         else case unit_map u of
           None \<Rightarrow> None
         | Some un \<Rightarrow>
             (let v = digits_val pre * un + (digits_val post * un) div 10 ^ length post in
              if digits_val pre > 2 ^ 63 div un \<or> v > 2 ^ 63 then None else Some (v, s4)))"

lemma duration_item_shorter: "duration_item s = Some (v, r) \<Longrightarrow> length r < length s"
proof -
  assume a: "duration_item s = Some (v, r)"
  define s1 where "s1 = dropWhile is_digit s"
  define s2 where "s2 = (if s1 \<noteq> [] \<and> hd s1 = CHR ''.'' then tl s1 else s1)"
  define s3 where "s3 = (if s1 \<noteq> [] \<and> hd s1 = CHR ''.'' then dropWhile is_digit s2 else s2)"
  have r: "r = dropWhile (\<lambda>c. \<not> num_char c) s3" and u: "takeWhile (\<lambda>c. \<not> num_char c) s3 \<noteq> []"
    using a by (auto simp: duration_item_def Let_def s1_def s2_def s3_def split: if_splits option.splits)
  have "length (takeWhile (\<lambda>c. \<not> num_char c) s3) + length r = length s3"
    unfolding r by (metis length_append takeWhile_dropWhile_id)
  with u have "length r < length s3" by (cases "takeWhile (\<lambda>c. \<not> num_char c) s3") simp_all
  also have "length s3 \<le> length s2" by (simp add: s3_def length_dropWhile_le)
  also have "length s2 \<le> length s1" by (simp add: s2_def)
  also have "length s1 \<le> length s" by (simp add: s1_def length_dropWhile_le)
  finally show ?thesis .
qed

function duration_items :: "nat \<Rightarrow> string \<Rightarrow> nat option" where
  "duration_items d s =
     (if s = [] then Some d
      else case duration_item s of
        None \<Rightarrow> None
      | Some (v, r) \<Rightarrow> if d + v > 2 ^ 63 then None else duration_items (d + v) r)"
  by pat_completeness auto
termination by (relation "measure (\<lambda>(d, s). length s)") (auto dest: duration_item_shorter)

declare duration_items.simps [simp del]

definition ParseDuration :: "string \<Rightarrow> int res" where
  "ParseDuration orig =
     (let neg = (orig \<noteq> [] \<and> hd orig = CHR ''-'');
          s = (if orig \<noteq> [] \<and> hd orig \<in> set ''-+'' then tl orig else orig);
          err = Inl (Errorf ''time: invalid duration %q'' [orig])
      in if s = ''0'' then Inr 0
         else if s = [] then err
         else case duration_items 0 s of
           None \<Rightarrow> err
         | Some d \<Rightarrow> if neg then Inr (- int d) else if d > 2 ^ 63 - 1 then err else Inr (int d))"

lemma duration_items_bound: "duration_items d s = Some n \<Longrightarrow> d \<le> 2 ^ 63 \<Longrightarrow> n \<le> 2 ^ 63"
proof (induction d s rule: duration_items.induct)
  case (1 d s)
  have "(if s = [] then Some d else case duration_item s of None \<Rightarrow> None
      | Some (v, r) \<Rightarrow> if d + v > 2 ^ 63 then None else duration_items (d + v) r) = Some n"
    using 1(2) by (subst (asm) duration_items.simps)
  with 1(1,3) show ?case
    by (fastforce simp: not_less split: if_splits option.splits prod.splits)
qed

text \<open>The result is an \<open>int64\<close>.\<close>

lemma ParseDuration_range: "ParseDuration s = Inr d \<Longrightarrow> - (2 ^ 63) \<le> d \<and> d < 2 ^ 63"
  by (auto simp: ParseDuration_def Let_def split: if_splits option.splits dest!: duration_items_bound)

end
