(* ===== verification/Bootstrap.thy ===== *)
theory Bootstrap
  imports ClusterInfo GoTime
begin

text \<open>
  \<open>pkg/bootstrap\<close>: the bootstrap token of a MachineDeployment, the kubeconfig that carries it, and
  the secret the kubeconfig is stored in. \<open>pkg/util/kubeconfig\<close> is the call of
  \<open>clientcmd_Write\<close>. Time is in nanoseconds.
\<close>

record 'w Bootstrap =
  b_ServiceAccount :: "(string \<times> string) option"
  b_overrideServer :: string
  b_GetKubeconfig :: "('w, Kubeconfig) M"
  b_client :: cluster

definition CloudInitNamespace :: string where
  "CloudInitNamespace = ''cloud-init-settings''"

definition machineDeploymentNameLabelKey :: string where
  "machineDeploymentNameLabelKey = ''machinedeployment.k8s.io/name''"

definition contextIdentifier :: string where
  "contextIdentifier = ''c''"

definition hour :: int where
  "hour = 3600 * 1000000000"

definition minute :: int where
  "minute = 60 * 1000000000"

text \<open>\<open>kubeconfig.StringifyKubeconfig\<close>.\<close>

definition StringifyKubeconfig :: "client_go \<Rightarrow> Kubeconfig \<Rightarrow> string res" where
  "StringifyKubeconfig G c = wrapR ''error writing kubeconfig: %w'' [] (clientcmd_Write G c)"

definition ExtractAPIServerToken :: "'w kube_ops \<Rightarrow> cluster \<Rightarrow> ('w, string) M" where
  "ExtractAPIServerToken A c =
     bindE (wrapE ''failed to get %s secrets in namespace %s: %w'' [''cloud-init-getter-token'', CloudInitNamespace]
         (get_as A as_SEC (Key c KSecret CloudInitNamespace ''cloud-init-getter-token'')))
       (\<lambda>secret. case map_of (secret_Data secret) ''token'' of
          Some t \<Rightarrow> ret t
        | None \<Rightarrow> throw (Errorf ''failed to fetch api server token'' []))"

section \<open>The kubeconfig\<close>

text \<open>The last key of the \<open>range\<close> loop over the clusters, or the empty string.\<close>

definition clusterContextName :: "Kubeconfig \<Rightarrow> string" where
  "clusterContextName c = (if kc_Clusters c = [] then [] else fst (last (kc_Clusters c)))"

definition setServer :: "string \<Rightarrow> Cluster option \<Rightarrow> Cluster option res" where
  "setServer url c = (case c of
     None \<Rightarrow> Inl (Panic ''invalid memory address or nil pointer dereference'')
   | Some cl \<Rightarrow> Inr (Some (cl\<lparr>cl_Server := url\<rparr>)))"

definition outKubeconfig :: "string \<Rightarrow> string \<Rightarrow> Kubeconfig \<Rightarrow> Kubeconfig res" where
  "outKubeconfig override token info =
     (let name = clusterContextName info;
          cluster = (case map_of (kc_Clusters info) name of None \<Rightarrow> None | Some c \<Rightarrow> c);
          clusters = mput contextIdentifier cluster (mdel name (kc_Clusters info))
      in bindR (if override = [] then Inr clusters
                else mapR (\<lambda>(k, c). bindR (setServer override c) (\<lambda>c'. Inr (k, c'))) clusters)
           (\<lambda>clusters'. Inr \<lparr>kc_Clusters = clusters',
              kc_AuthInfos = [(contextIdentifier, token)],
              kc_Contexts = [(contextIdentifier, (contextIdentifier, contextIdentifier))],
              kc_CurrentContext = contextIdentifier\<rparr>))"

definition generateKubeconfig :: "'w Bootstrap \<Rightarrow> string \<Rightarrow> ('w, Kubeconfig) M" where
  "generateKubeconfig b token =
     bindE (b_GetKubeconfig b) (\<lambda>info. lift (outKubeconfig (b_overrideServer b) token info))"

section \<open>The token\<close>

text \<open>
  \<open>getAsUnstructured\<close> fetches the object and decodes it again: \<open>get_as\<close> with its error wrapped.
\<close>

definition getAsUnstructured :: "'w kube_ops \<Rightarrow> (kobj \<Rightarrow> 'a option) \<Rightarrow> objkey \<Rightarrow> ('w, 'a) M" where
  "getAsUnstructured A proj k = wrapE ''failed to get object: %w'' [] (get_as A proj k)"

fun firstTokenSecret :: "'w kube_ops \<Rightarrow> cluster \<Rightarrow> string \<Rightarrow> string list \<Rightarrow> ('w, string) M" where
  "firstTokenSecret A c ns [] = throw (Errorf ''no serviceAccountSecret found'' [])"
| "firstTokenSecret A c ns (n # names) =
     bindE (wrapE ''failed to get serviceAccountSecret: %w'' [] (getAsUnstructured A as_SEC (Key c KSecret ns n)))
       (\<lambda>s. if secret_Type s \<noteq> ''kubernetes.io/service-account-token'' then firstTokenSecret A c ns names
            else ret (mget (secret_Data s) ''token''))"

definition getTokenFromServiceAccount ::
    "'w kube_ops \<Rightarrow> 'w Bootstrap \<Rightarrow> string \<times> string \<Rightarrow> ('w, string) M" where
  "getTokenFromServiceAccount A b nn = (case nn of (ns, n) \<Rightarrow>
     bindE (wrapE ''failed to get serviceAccount %q: %w'' [ns @ ''/'' @ n]
         (getAsUnstructured A as_SA (Key (b_client b) KServiceAccount ns n)))
       (\<lambda>sa. firstTokenSecret A (b_client b) (meta_Namespace (sa_meta sa)) (sa_Secrets sa)))"

text \<open>\<open>fmt.Sprintf(tokenFormatter, id, secret)\<close> of a token secret.\<close>

definition tokenOf :: "Secret \<Rightarrow> string" where
  "tokenOf s = mget (secret_Data s) ''token-id'' @ ''.'' @ mget (secret_Data s) ''token-secret''"

definition expiry :: "'w kube_ops \<Rightarrow> int \<Rightarrow> ('w, string) M" where
  "expiry A tz = bindE (time_Now A) (\<lambda>now. ret (FormatRFC3339 tz (now + hour)))"

definition updateSecretExpirationAndGetToken ::
    "'w kube_ops \<Rightarrow> int \<Rightarrow> 'w Bootstrap \<Rightarrow> Secret \<Rightarrow> ('w, string) M" where
  "updateSecretExpirationAndGetToken A tz b s =
     bindE (lift (ParseRFC3339 (mget (secret_Data s) ''expiration''))) (\<lambda>expirationTime.
     bindE (time_Now A) (\<lambda>now.
       if expirationTime - now < 30 * minute
       then bindE (expiry A tz) (\<lambda>e.
            bindE (wrapE ''failed to update secret: %w'' []
                (update_obj A (b_client b) (SEC (s\<lparr>secret_Data := mput ''expiration'' e (secret_Data s)\<rparr>))))
              (\<lambda>_. ret (tokenOf s)))
       else ret (tokenOf s)))"

definition getSecretIfExists ::
    "client_go \<Rightarrow> 'w kube_ops \<Rightarrow> 'w Bootstrap \<Rightarrow> string \<Rightarrow> ('w, Secret option) M" where
  "getSecretIfExists G A b name =
     bindE (lift (labels_NewRequirement G machineDeploymentNameLabelKey name)) (\<lambda>_.
     bindE (list_as A as_SEC (b_client b) KSecret ''kube-system'' (machineDeploymentNameLabelKey, name)) (\<lambda>secrets.
       case secrets of
         [] \<Rightarrow> ret None
       | [s] \<Rightarrow> ret (Some s)
       | _ \<Rightarrow> throw (Errorf ''expected to find exactly one secret for the given machine name =%s but found %d''
                [name, show_nat (length secrets)])))"

definition newTokenSecret :: "string \<Rightarrow> string \<Rightarrow> string \<Rightarrow> string \<Rightarrow> Secret" where
  "newTokenSecret name tokenID tokenSecret expiration =
     \<lparr>secret_meta = emptyMeta\<lparr>meta_Name := ''bootstrap-token-'' @ tokenID, meta_Namespace := ''kube-system'',
          meta_Labels := [(machineDeploymentNameLabelKey, name)]\<rparr>,
      secret_Type = ''bootstrap.kubernetes.io/token'',
      secret_Data = [(''description'', ''bootstrap token for '' @ name), (''token-id'', tokenID),
        (''token-secret'', tokenSecret), (''expiration'', expiration),
        (''usage-bootstrap-authentication'', ''true''), (''usage-bootstrap-signing'', ''true''),
        (''auth-extra-groups'', ''system:bootstrappers:machine-controller:default-node-token'')],
      secret_Immutable = None\<rparr>"

text \<open>The token, and whether it existed before.\<close>

definition createBootstrapToken ::
    "client_go \<Rightarrow> 'w kube_ops \<Rightarrow> int \<Rightarrow> 'w Bootstrap \<Rightarrow> string \<Rightarrow> ('w, string \<times> bool) M" where
  "createBootstrapToken G A tz b name =
     bindE (getSecretIfExists G A b name) (\<lambda>existing. case existing of
       Some s \<Rightarrow> bindE (wrapE ''failed to update bootstrap token: %w'' [] (updateSecretExpirationAndGetToken A tz b s))
         (\<lambda>token. ret (token, True))
     | None \<Rightarrow>
         bindE (rand_String A 6) (\<lambda>tokenID.
         bindE (rand_String A 16) (\<lambda>tokenSecret.
         bindE (expiry A tz) (\<lambda>e.
         bindE (wrapE ''failed to create bootstrap token secret: %w'' []
             (create_obj A (b_client b) (SEC (newTokenSecret name tokenID tokenSecret e))))
           (\<lambda>_. ret (tokenID @ ''.'' @ tokenSecret, False))))))"

section \<open>CreateBootstrapKubeconfig\<close>

definition bootstrapConfigName :: "string \<Rightarrow> string" where
  "bootstrapConfigName name = name @ ''-kubelet-bootstrap-config''"

definition bootstrapConfigSecret :: "string \<Rightarrow> string \<Rightarrow> Secret" where
  "bootstrapConfigSecret name configString =
     \<lparr>secret_meta = emptyMeta\<lparr>meta_Name := bootstrapConfigName name, meta_Namespace := CloudInitNamespace\<rparr>,
      secret_Type = [], secret_Data = [(''kubeconfig'', configString)], secret_Immutable = None\<rparr>"

definition storeBootstrapConfig ::
    "'w kube_ops \<Rightarrow> 'w Bootstrap \<Rightarrow> string \<Rightarrow> string \<Rightarrow> bool \<Rightarrow> ('w, unit) M" where
  "storeBootstrapConfig A b name configString updated =
     tryE (get_as A as_SEC (Key (b_client b) KSecret CloudInitNamespace (bootstrapConfigName name))) (\<lambda>r. case r of
       Inl e \<Rightarrow> if IsNotFound e then create_obj A (b_client b) (SEC (bootstrapConfigSecret name configString))
                else throw e
     | Inr s \<Rightarrow> if updated then ret ()
                else update_obj A (b_client b) (SEC (s\<lparr>secret_Data := [(''kubeconfig'', configString)]\<rparr>)))"

definition bootstrapToken ::
    "client_go \<Rightarrow> 'w kube_ops \<Rightarrow> int \<Rightarrow> 'w Bootstrap \<Rightarrow> string \<Rightarrow> ('w, string \<times> bool) M" where
  "bootstrapToken G A tz b name = (case b_ServiceAccount b of
     Some (ns, n) \<Rightarrow> bindE (wrapE ''failed to get token from ServiceAccount %s/%s: %w'' [ns, n]
         (getTokenFromServiceAccount A b (ns, n))) (\<lambda>token. ret (token, False))
   | None \<Rightarrow> wrapE ''failed to create bootstrap token: %w'' [] (createBootstrapToken G A tz b name))"

definition CreateBootstrapKubeconfig ::
    "client_go \<Rightarrow> 'w kube_ops \<Rightarrow> int \<Rightarrow> 'w Bootstrap \<Rightarrow> string \<Rightarrow> ('w, Kubeconfig \<times> string) M" where
  "CreateBootstrapKubeconfig G A tz b name =
     bindE (bootstrapToken G A tz b name) (\<lambda>(token, updated).
     bindE (generateKubeconfig b token) (\<lambda>outConfig.
     bindE (lift (StringifyKubeconfig G outConfig)) (\<lambda>configString.
     bindE (storeBootstrapConfig A b name configString updated) (\<lambda>_.
       ret (outConfig, bootstrapConfigName name)))))"

section \<open>What the token operations do\<close>

text \<open>A token secret of a MachineDeployment key: a secret of \<open>kube-system\<close> with its label.\<close>

definition token_at :: "(objkey \<Rightarrow> kobj option) \<Rightarrow> cluster \<Rightarrow> string \<Rightarrow> Secret \<Rightarrow> bool" where
  "token_at os c name s \<longleftrightarrow>
     os (key_of c (SEC s)) = Some (SEC s) \<and> meta_Namespace (secret_meta s) = ''kube-system''
     \<and> map_of (meta_Labels (secret_meta s)) machineDeploymentNameLabelKey = Some name"

text \<open>The keys the package writes: token secrets, which are secrets of \<open>kube-system\<close>, and the kubeconfig secret.\<close>

definition system_secret :: "cluster \<Rightarrow> objkey \<Rightarrow> bool" where
  "system_secret c k \<longleftrightarrow> k_cluster k = c \<and> k_kind k = KSecret \<and> k_ns k = ''kube-system''"

definition config_key :: "cluster \<Rightarrow> string \<Rightarrow> objkey" where
  "config_key c name = Key c KSecret CloudInitNamespace (bootstrapConfigName name)"

definition boot_key :: "cluster \<Rightarrow> string \<Rightarrow> objkey \<Rightarrow> bool" where
  "boot_key c name k \<longleftrightarrow> system_secret c k \<or> k = config_key c name"

text \<open>The secret \<open>updateSecretExpirationAndGetToken\<close> writes.\<close>

definition renewed :: "string \<Rightarrow> Secret \<Rightarrow> Secret" where
  "renewed e s = s\<lparr>secret_Data := mput ''expiration'' e (secret_Data s)\<rparr>"

lemma key_renewed [simp]: "key_of c (SEC (renewed e s)) = key_of c (SEC s)"
  by (simp add: key_of_def renewed_def)

lemma tokenOf_renewed [simp]: "tokenOf (renewed e s) = tokenOf s"
  by (simp add: tokenOf_def renewed_def)

lemma meta_renewed [simp]: "secret_meta (renewed e s) = secret_meta s"
  by (simp add: renewed_def)

lemma tokenOf_new [simp]: "tokenOf (newTokenSecret name i sec e) = i @ ''.'' @ sec"
  by (simp add: tokenOf_def newTokenSecret_def mget_def)

lemma token_at_new:
  "meta_Namespace (secret_meta (newTokenSecret name i sec e)) = ''kube-system''"
  "map_of (meta_Labels (secret_meta (newTokenSecret name i sec e))) machineDeploymentNameLabelKey = Some name"
  by (simp_all add: newTokenSecret_def)

lemma system_secret_SEC: "meta_Namespace (secret_meta s) = ''kube-system'' \<Longrightarrow> system_secret c (key_of c (SEC s))"
  by (simp add: system_secret_def key_of_def)

text \<open>
  Of the secrets of \<open>kube-system\<close> the package changes only the tokens of its own key: it makes a new one,
  or it writes a later expiration into one that carries the key's label.
\<close>

definition own_token :: "string \<Rightarrow> objkey \<Rightarrow> kobj option \<Rightarrow> kobj option \<Rightarrow> bool" where
  "own_token name k v v' \<longleftrightarrow>
     v' = v
   \<or> v = None \<and> (\<exists>i sec e. k_name k = ''bootstrap-token-'' @ i \<and> v' = Some (SEC (newTokenSecret name i sec e)))
   \<or> (\<exists>s e. v = Some (SEC s) \<and> map_of (meta_Labels (secret_meta s)) machineDeploymentNameLabelKey = Some name
        \<and> v' = Some (SEC (renewed e s)))"

definition tokens_only :: "cluster \<Rightarrow> string \<Rightarrow> (objkey \<Rightarrow> kobj option) \<Rightarrow> (objkey \<Rightarrow> kobj option) \<Rightarrow> bool" where
  "tokens_only c name os os' \<longleftrightarrow> (\<forall>k. system_secret c k \<longrightarrow> own_token name k (os k) (os' k))"

lemma renewed_renewed [simp]: "renewed e (renewed e' s) = renewed e s"
  by (simp add: renewed_def mput_def update_last)

lemma renewed_new [simp]: "renewed e (newTokenSecret name i sec e') = newTokenSecret name i sec e"
  by (simp add: renewed_def newTokenSecret_def mput_def)

lemma own_token_refl [simp]: "own_token name k v v"
  by (simp add: own_token_def)

lemma own_token_new: "k_name k = ''bootstrap-token-'' @ i \<Longrightarrow> own_token name k None (Some (SEC (newTokenSecret name i sec e)))"
  unfolding own_token_def by blast

lemma own_token_renew: "map_of (meta_Labels (secret_meta s)) machineDeploymentNameLabelKey = Some name
    \<Longrightarrow> own_token name k (Some (SEC s)) (Some (SEC (renewed e s)))"
  unfolding own_token_def by blast

lemma own_token_SEC: "own_token name k (Some (SEC s)) v \<longleftrightarrow> v = Some (SEC s)
    \<or> map_of (meta_Labels (secret_meta s)) machineDeploymentNameLabelKey = Some name \<and> (\<exists>e. v = Some (SEC (renewed e s)))"
  by (auto simp: own_token_def)

lemma own_token_trans:
  assumes "own_token name k u v" and vw: "own_token name k v w"
  shows "own_token name k u w"
  using assms(1) unfolding own_token_def [of name k u v]
proof (elim disjE exE conjE)
  assume "v = u"
  with vw show ?thesis by simp
next
  fix i sec e
  assume "u = None" "k_name k = ''bootstrap-token-'' @ i" "v = Some (SEC (newTokenSecret name i sec e))"
  with vw show ?thesis by (auto simp only: own_token_SEC renewed_new intro: own_token_new)
next
  fix s e
  assume "u = Some (SEC s)" "map_of (meta_Labels (secret_meta s)) machineDeploymentNameLabelKey = Some name"
    "v = Some (SEC (renewed e s))"
  with vw show ?thesis by (auto simp only: own_token_SEC renewed_renewed)
qed

lemma tokens_only_refl [simp]: "tokens_only c name os os"
  by (simp add: tokens_only_def)

lemma tokens_only_trans: "tokens_only c name os os' \<Longrightarrow> tokens_only c name os' os'' \<Longrightarrow> tokens_only c name os os''"
  unfolding tokens_only_def using own_token_trans by blast

lemma tokens_only_frame: "(\<And>k. system_secret c k \<Longrightarrow> os' k = os k) \<Longrightarrow> tokens_only c name os os'"
  by (simp add: tokens_only_def)

lemma tokens_only_renew:
  "token_at os c name s \<Longrightarrow> os' = os(key_of c (SEC s) \<mapsto> SEC (renewed e s)) \<Longrightarrow> tokens_only c name os os'"
  by (simp add: tokens_only_def token_at_def own_token_renew)

lemma name_of_new: "k_name (key_of c (SEC (newTokenSecret name i sec e))) = ''bootstrap-token-'' @ i"
  by (simp add: key_of_def newTokenSecret_def)

lemma tokens_only_new:
  "os (key_of c (SEC (newTokenSecret name i sec e))) = None
    \<Longrightarrow> os' = os(key_of c (SEC (newTokenSecret name i sec e)) \<mapsto> SEC (newTokenSecret name i sec e))
    \<Longrightarrow> tokens_only c name os os'"
  using own_token_new [of "key_of c (SEC (newTokenSecret name i sec e))" i name sec e]
  by (simp add: tokens_only_def name_of_new)

lemma config_not_token: "\<not> system_secret c (config_key c name)"
  by (simp add: system_secret_def config_key_def CloudInitNamespace_def)

context kube_api
begin

lemma wp_getSecretIfExists [wp_intros]:
  assumes "\<And>e w'. objs w' = objs w \<Longrightarrow> Q (Inl e) w'"
    and "\<And>w'. objs w' = objs w \<Longrightarrow> (\<And>s. \<not> token_at (objs w) (b_client b) name s) \<Longrightarrow> Q (Inr None) w'"
    and "\<And>s w'. objs w' = objs w \<Longrightarrow> (\<And>x. token_at (objs w) (b_client b) name x \<longleftrightarrow> x = s) \<Longrightarrow>
      Q (Inr (Some s)) w'"
  shows "wp (getSecretIfExists G A b name) Q w"
proof -
  have tok: "token_at (objs w) (b_client b) name s \<longleftrightarrow>
      (\<exists>n x. objs w (Key (b_client b) KSecret ''kube-system'' n) = Some x \<and> as_SEC x = Some s
        \<and> map_of (meta_Labels (meta_of x)) machineDeploymentNameLabelKey = Some name)" for s
    using at_key [of w "b_client b" KSecret "''kube-system''" "SEC s"] by (auto simp: token_at_def)
  show ?thesis
    unfolding getSecretIfExists_def
    by (intro wp_intros) (auto simp del: as_simps simp flip: tok intro: assms)
qed

end

text \<open>Writing a labelled secret over the only one, or as the first one, leaves exactly one.\<close>

lemma token_at_put:
  assumes "\<And>x. token_at os c name x \<Longrightarrow> key_of c (SEC x) = key_of c (SEC s)"
    and "meta_Namespace (secret_meta s) = ''kube-system''"
    and "map_of (meta_Labels (secret_meta s)) machineDeploymentNameLabelKey = Some name"
  shows "token_at (os(key_of c (SEC s) \<mapsto> SEC s)) c name x \<longleftrightarrow> x = s"
  using assms by (auto simp: token_at_def)

text \<open>
  What a token call promises: only token secrets of the name change, and after success the returned token is
  the one of the only secret labelled with the name; \<open>old\<close> tells that it was there before.
\<close>

definition token_post :: "('w \<Rightarrow> objkey \<Rightarrow> kobj option) \<Rightarrow> cluster \<Rightarrow> string \<Rightarrow> 'w
    \<Rightarrow> (string \<times> bool) res \<Rightarrow> 'w \<Rightarrow> bool" where
  "token_post objs c name w r w' \<longleftrightarrow> frame objs (system_secret c) w w' \<and> tokens_only c name (objs w) (objs w') \<and>
     (\<forall>tok old. r = Inr (tok, old) \<longrightarrow>
        (\<exists>s. tokenOf s = tok \<and> (\<forall>x. token_at (objs w') c name x \<longleftrightarrow> x = s))
        \<and> old = (\<exists>x. token_at (objs w) c name x))"

context kube_api
begin

lemma wp_expiry [wp_intros]:
  "(\<And>e w'. objs w' = objs w \<Longrightarrow> Q (Inl e) w') \<Longrightarrow> (\<And>x w'. objs w' = objs w \<Longrightarrow> Q (Inr x) w')
    \<Longrightarrow> wp (expiry A tz) Q w"
  unfolding expiry_def by (intro wp_intros) auto

lemma wp_updateSecretExpiration [wp_intros]:
  assumes tok: "meta_Namespace (secret_meta s) = ''kube-system''"
    and err: "\<And>e w'. objs w' = objs w \<or> (\<exists>e. objs w' = (objs w)(key_of (b_client b) (SEC s) \<mapsto> SEC (renewed e s)))
      \<Longrightarrow> Q (Inl e) w'"
    and keep: "\<And>w'. objs w' = objs w \<Longrightarrow> Q (Inr (tokenOf s)) w'"
    and renew: "\<And>e w'. objs w' = (objs w)(key_of (b_client b) (SEC s) \<mapsto> SEC (renewed e s)) \<Longrightarrow>
      Q (Inr (tokenOf s)) w'"
  shows "wp (updateSecretExpirationAndGetToken A tz b s) Q w"
  unfolding updateSecretExpirationAndGetToken_def renewed_def [symmetric]
  by (intro wp_intros) (auto intro: err keep renew)

end

definition readonly :: "('w \<Rightarrow> objkey \<Rightarrow> kobj option) \<Rightarrow> ('w, 'a) M \<Rightarrow> bool" where
  "readonly objs m \<longleftrightarrow> keeps (\<lambda>w w'. objs w' = objs w) m"

lemma frame_refl [simp]: "frame objs K w w"
  by (simp add: frame_def)

lemma frame_eq: "objs w' = objs w \<Longrightarrow> frame objs K w w'"
  by (simp add: frame_def)

lemma frame_upd: "objs w' = (objs w)(k := v) \<Longrightarrow> K k \<Longrightarrow> frame objs K w w'"
  by (auto simp: frame_def)

lemma frame_trans: "frame objs K u v \<Longrightarrow> frame objs K v w \<Longrightarrow> frame objs K u w"
  by (simp add: frame_def)

lemma token_at_frame_config:
  "(\<And>k. system_secret c k \<Longrightarrow> os' k = os k) \<Longrightarrow> token_at os' c name s = token_at os c name s"
  using system_secret_SEC [of s c] by (auto simp: token_at_def)

lemma only_token_ns:
  "(\<And>x. token_at os c name x \<longleftrightarrow> x = s) \<Longrightarrow> meta_Namespace (secret_meta s) = ''kube-system''"
  by (auto simp: token_at_def)

context kube_api
begin

lemma wp_createBootstrapToken:
  "wp (createBootstrapToken G A tz b name) (token_post objs (b_client b) name w) w"
proof -
  let ?c = "b_client b"
  have only: "token_at (objs w) ?c name s" if "\<And>x. token_at (objs w) ?c name x \<longleftrightarrow> x = s" for s
    using that by simp
  have kept: "frame objs (system_secret ?c) w w' \<and> tokens_only ?c name (objs w) (objs w')"
    if s: "token_at (objs w) ?c name s"
      and w': "objs w' = objs w \<or> (\<exists>e. objs w' = (objs w)(key_of ?c (SEC s) \<mapsto> SEC (renewed e s)))" for s w'
  proof -
    have "system_secret ?c (key_of ?c (SEC s))" using s by (simp add: token_at_def system_secret_SEC)
    with w' show ?thesis using tokens_only_renew [OF s] by (auto intro: frame_upd simp: frame_eq)
  qed
  have renew: "token_post objs ?c name w (Inr (tokenOf s, True)) w'"
    if only: "\<And>x. token_at (objs w) ?c name x \<longleftrightarrow> x = s"
      and w': "objs w' = objs w \<or> (\<exists>e. objs w' = (objs w)(key_of ?c (SEC s) \<mapsto> SEC (renewed e s)))" for s w'
  proof -
    have s: "meta_Namespace (secret_meta s) = ''kube-system''"
      "map_of (meta_Labels (secret_meta s)) machineDeploymentNameLabelKey = Some name"
      using only [of s] by (simp_all add: token_at_def)
    have "\<exists>s'. tokenOf s' = tokenOf s \<and> (\<forall>x. token_at (objs w') ?c name x \<longleftrightarrow> x = s')"
      using w'
    proof
      assume "\<exists>e. objs w' = (objs w)(key_of ?c (SEC s) \<mapsto> SEC (renewed e s))"
      then obtain e where e: "objs w' = (objs w)(key_of ?c (SEC (renewed e s)) \<mapsto> SEC (renewed e s))" by auto
      have "token_at (objs w') ?c name x \<longleftrightarrow> x = renewed e s" for x
        unfolding e by (rule token_at_put) (simp_all add: only s)
      then show ?thesis by (intro exI [of _ "renewed e s"]) simp
    qed (use only in auto)
    with kept [OF _ w'] only show ?thesis by (auto simp: token_post_def)
  qed
  have made: "frame objs (system_secret ?c) w w' \<and> tokens_only ?c name (objs w) (objs w')"
    if "objs w (key_of ?c (SEC (newTokenSecret name i sec e))) = None"
      and "objs w' = (objs w)(key_of ?c (SEC (newTokenSecret name i sec e)) \<mapsto> SEC (newTokenSecret name i sec e))"
    for i sec e w'
    using that by (auto intro!: frame_upd tokens_only_new simp: system_secret_SEC token_at_new)
  have new: "token_post objs ?c name w (Inr (i @ CHR ''.'' # sec, False)) w'"
    if none: "\<And>x. \<not> token_at (objs w) ?c name x"
      and free: "objs w (key_of ?c (SEC (newTokenSecret name i sec e))) = None"
      and w': "objs w' = (objs w)(key_of ?c (SEC (newTokenSecret name i sec e)) \<mapsto> SEC (newTokenSecret name i sec e))"
    for i sec e w'
  proof -
    have "token_at (objs w') ?c name x \<longleftrightarrow> x = newTokenSecret name i sec e" for x
      unfolding w' by (rule token_at_put) (simp_all add: none token_at_new)
    with made [OF free w'] none show ?thesis
      by (auto simp: token_post_def intro!: exI [of _ "newTokenSecret name i sec e"])
  qed
  have same: "objs w' = objs w \<Longrightarrow> token_post objs ?c name w (Inl e) w'" for e w'
    by (simp add: token_post_def frame_eq)
  have err: "frame objs (system_secret ?c) w w' \<and> tokens_only ?c name (objs w) (objs w')
      \<Longrightarrow> token_post objs ?c name w (Inl e) w'" for e w'
    by (simp add: token_post_def)
  show ?thesis
    unfolding createBootstrapToken_def
    apply (intro wp_intros; (simp; fail)?)
    subgoal by (rule same) simp
    subgoal by (rule same) simp
    subgoal by (rule same) simp
    subgoal by (rule same) simp
    subgoal by (simp, rule new) auto
    subgoal for w1 e1 w2 e2 w3 e3 w4 e4 w5 using made [of _ _ _ w5] by (auto intro: same err)
    subgoal by (rule only_token_ns) auto
    subgoal by (rule err, rule kept, rule only) auto
    subgoal by (rule renew) auto
    subgoal by (rule renew) auto
    done
qed

end

section \<open>What CreateBootstrapKubeconfig does\<close>

text \<open>
  The contract of a call for the key \<open>name\<close>: nothing but the name's token secrets and its kubeconfig secret
  changes. After success the kubeconfig secret exists; the returned kubeconfig carries the token
  of the only secret labelled with the name (unless a service account provides it); and the
  secret holds exactly this kubeconfig if the token is new, comes from a service account, or the
  secret was missing before the call.
\<close>

definition boot_post :: "client_go \<Rightarrow> ('w \<Rightarrow> objkey \<Rightarrow> kobj option) \<Rightarrow> 'w Bootstrap \<Rightarrow> string \<Rightarrow> 'w
    \<Rightarrow> (Kubeconfig \<times> string) res \<Rightarrow> 'w \<Rightarrow> bool" where
  "boot_post G objs b name w r w' \<longleftrightarrow> frame objs (boot_key (b_client b) name) w w' \<and>
     tokens_only (b_client b) name (objs w) (objs w') \<and>
     (\<forall>cfg n. r = Inr (cfg, n) \<longrightarrow>
        n = bootstrapConfigName name
        \<and> (\<exists>t. objs w' (config_key (b_client b) name) = Some (SEC t))
        \<and> (b_ServiceAccount b = None \<longrightarrow>
            (\<exists>s. kc_AuthInfos cfg = [(contextIdentifier, tokenOf s)]
              \<and> (\<forall>x. token_at (objs w') (b_client b) name x \<longleftrightarrow> x = s)))
        \<and> (b_ServiceAccount b \<noteq> None \<or> (\<forall>x. \<not> token_at (objs w) (b_client b) name x)
            \<or> objs w (config_key (b_client b) name) = None \<longrightarrow>
            (\<exists>t cs. objs w' (config_key (b_client b) name) = Some (SEC t)
              \<and> clientcmd_Write G cfg = Inr cs \<and> secret_Data t = [(''kubeconfig'', cs)])))"

lemma AuthInfos_outKubeconfig:
  "outKubeconfig ov token info = Inr cfg \<Longrightarrow> kc_AuthInfos cfg = [(contextIdentifier, token)]"
  by (auto simp: outKubeconfig_def Let_def res_simps)

lemma key_config_secret: "key_of c (SEC (bootstrapConfigSecret name cs)) = config_key c name"
  by (simp add: key_of_def bootstrapConfigSecret_def config_key_def emptyMeta_def)

lemma token_at_config_upd:
  "token_at (os(config_key c name' := v)) c name s = token_at os c name s"
  by (rule token_at_frame_config) (use config_not_token in auto)

context kube_api
begin

lemma wp_storeBootstrapConfig [wp_intros]:
  assumes err: "\<And>e w'. frame objs (\<lambda>k. k = config_key (b_client b) name) w w' \<Longrightarrow> Q (Inl e) w'"
    and kept: "\<And>s w'. objs w' = objs w \<Longrightarrow> objs w (config_key (b_client b) name) = Some (SEC s) \<Longrightarrow>
      updated \<Longrightarrow> Q (Inr ()) w'"
    and stored: "\<And>s w'. objs w' = (objs w)(config_key (b_client b) name \<mapsto> SEC s) \<Longrightarrow>
      secret_Data s = [(''kubeconfig'', cs)] \<Longrightarrow> updated \<longrightarrow> objs w (config_key (b_client b) name) = None \<Longrightarrow>
      Q (Inr ()) w'"
  shows "wp (storeBootstrapConfig A b name cs updated) Q w"
proof -
  have key: "key_of (b_client b) (SEC (s\<lparr>secret_Data := d\<rparr>)) = config_key (b_client b) name"
    if "objs w (config_key (b_client b) name) = Some (SEC s)" for s d
    using typed [OF that] by (simp add: config_key_def key_of_def)
  have new: "objs w' = (objs w)(config_key (b_client b) name \<mapsto> SEC (bootstrapConfigSecret name cs)) \<Longrightarrow>
      objs w (config_key (b_client b) name) = None \<Longrightarrow> Q (Inr u) w'" for w' u
    using stored [of w' "bootstrapConfigSecret name cs"] by (simp add: bootstrapConfigSecret_def)
  have upd: "objs w' = (objs w)(config_key (b_client b) name
      \<mapsto> SEC (s\<lparr>secret_Data := [(''kubeconfig'', cs)]\<rparr>)) \<Longrightarrow> \<not> updated \<Longrightarrow> Q (Inr u) w'" for s w' u
    using stored [of w' "s\<lparr>secret_Data := [(''kubeconfig'', cs)]\<rparr>"] by simp
  show ?thesis
    unfolding storeBootstrapConfig_def config_key_def [symmetric]
    by (intro wp_intros) (auto simp: key_config_secret key frame_def intro: err kept new upd)
qed

lemma wp_getTokenFromServiceAccount:
  assumes "\<And>e w'. objs w' = objs w \<Longrightarrow> Q (Inl e) w'" and "\<And>t w'. objs w' = objs w \<Longrightarrow> Q (Inr t) w'"
  shows "wp (getTokenFromServiceAccount A b nn) Q w"
proof -
  have first: "wp (firstTokenSecret A c ns names) Q w1" if "objs w1 = objs w" for w1 c ns names
    using that
  proof (induction names arbitrary: w1)
    case (Cons n names)
    then show ?case unfolding firstTokenSecret.simps getAsUnstructured_def
      by (intro wp_intros) (auto intro: assms Cons.IH)
  qed (auto intro!: wp_intros assms)
  show ?thesis unfolding getTokenFromServiceAccount_def getAsUnstructured_def
    by (intro wp_intros) (auto intro: assms first)
qed

lemma wp_bootstrapToken:
  "wp (bootstrapToken G A tz b name) (\<lambda>r w'. if b_ServiceAccount b = None
      then token_post objs (b_client b) name w r w'
      else objs w' = objs w \<and> (\<forall>tok old. r = Inr (tok, old) \<longrightarrow> \<not> old)) w"
proof (cases "b_ServiceAccount b")
  case None
  show ?thesis
    unfolding bootstrapToken_def None wp_simps option.case
    by (rule wp_mono [OF wp_createBootstrapToken]) (auto simp: token_post_def wrapR_def split: sum.splits)
next
  case (Some nn)
  then show ?thesis
    unfolding bootstrapToken_def
    by (cases nn) (auto intro!: wp_intros wp_getTokenFromServiceAccount)
qed

lemma wp_CreateBootstrapKubeconfig:
  assumes ro: "readonly objs (b_GetKubeconfig b)"
  shows "wp (CreateBootstrapKubeconfig G A tz b name) (boot_post G objs b name w) w"
proof -
  let ?c = "b_client b"
  let ?tok = "\<lambda>r w'. if b_ServiceAccount b = None then token_post objs ?c name w r w'
      else objs w' = objs w \<and> (\<forall>tok old. r = Inr (tok, old) \<longrightarrow> \<not> old)"
  have tok_frame: "frame objs (boot_key ?c name) w w'" if "?tok r w'" for r w'
    using that by (auto simp: token_post_def boot_key_def frame_def split: if_splits)
  have tok_only: "tokens_only ?c name (objs w) (objs w')" if "?tok r w'" for r w'
    using that by (auto simp: token_post_def split: if_splits)
  have config_only: "tokens_only ?c name (objs w1) (objs w2)" if "frame objs (\<lambda>k. k = config_key ?c name) w1 w2" for w1 w2
  proof (rule tokens_only_frame)
    fix k
    assume "system_secret ?c k"
    then have "k \<noteq> config_key ?c name" using config_not_token by blast
    with that show "objs w2 k = objs w1 k" by (simp add: frame_def)
  qed
  have gen: "wp (b_GetKubeconfig b) Q w'"
    if "\<And>e w2. objs w2 = objs w' \<Longrightarrow> Q (Inl e) w2" "\<And>x w2. objs w2 = objs w' \<Longrightarrow> Q (Inr x) w2" for Q w'
  proof (rule wp_mono [OF keeps_wp [OF ro [unfolded readonly_def]]])
    fix r w2
    assume "objs w2 = objs w'"
    then show "Q r w2" using that by (cases r) auto
  qed
  show ?thesis
    unfolding CreateBootstrapKubeconfig_def wp_bindE [of "bootstrapToken G A tz b name"]
  proof (rule wp_mono [OF wp_bootstrapToken])
    fix r w1
    assume post: "?tok r w1"
    have F: "frame objs (boot_key ?c name) w w1" using tok_frame [OF post] .
    have cfg: "objs w1 (config_key ?c name) = objs w (config_key ?c name)"
      using post config_not_token [of ?c name] by (auto simp: token_post_def frame_def split: if_splits)
    have err: "boot_post G objs b name w (Inl e) w2" if "frame objs (\<lambda>k. k = config_key ?c name) w1 w2" for e w2
      using F that tokens_only_trans [OF tok_only [OF post] config_only [OF that]]
      by (auto simp: boot_post_def frame_def boot_key_def)
    show "case r of Inl e \<Rightarrow> boot_post G objs b name w (Inl e) w1
      | Inr x \<Rightarrow> wp (case x of (token, updated) \<Rightarrow>
          bindE (generateKubeconfig b token) (\<lambda>outConfig.
          bindE (lift (StringifyKubeconfig G outConfig)) (\<lambda>configString.
          bindE (storeBootstrapConfig A b name configString updated) (\<lambda>_.
            ret (outConfig, bootstrapConfigName name))))) (boot_post G objs b name w) w1"
    proof (cases r)
      case (Inr x)
      obtain token old where x: "x = (token, old)" by (cases x)
      have ok: "boot_post G objs b name w (Inr (out, bootstrapConfigName name)) w3"
        if out: "outKubeconfig (b_overrideServer b) token info = Inr out"
          and fr: "frame objs (\<lambda>k. k = config_key ?c name) w1 w3"
          and ex: "objs w3 (config_key ?c name) = Some (SEC t)"
          and st: "old \<and> objs w1 (config_key ?c name) \<noteq> None
            \<or> (\<exists>cs. clientcmd_Write G out = Inr cs \<and> secret_Data t = [(''kubeconfig'', cs)])"
        for out info t w3
      proof -
        have tk: "token_at (objs w3) ?c name s = token_at (objs w1) ?c name s" for s
        proof (rule token_at_frame_config)
          fix k
          assume "system_secret ?c k"
          then have "k \<noteq> config_key ?c name" using config_not_token by blast
          with fr show "objs w3 k = objs w1 k" by (simp add: frame_def)
        qed
        have "frame objs (boot_key ?c name) w w3" using F fr by (auto simp: frame_def boot_key_def)
        with post st ex cfg AuthInfos_outKubeconfig [OF out] tokens_only_trans [OF tok_only [OF post] config_only [OF fr]]
        show ?thesis
          by (auto simp: boot_post_def token_post_def Inr x tk split: if_splits)
      qed
      show ?thesis
        unfolding Inr x generateKubeconfig_def StringifyKubeconfig_def
        by (intro wp_intros gen) (auto simp: res_simps frame_def intro!: err intro: ok)
    qed (use F tok_only [OF post] in \<open>simp add: boot_post_def\<close>)
  qed
qed

end

section \<open>How long a token is valid\<close>

definition expires :: "Secret \<Rightarrow> int res" where
  "expires s = ParseRFC3339 (mget (secret_Data s) ''expiration'')"

lemma expires_renewed: "expires (renewed e s) = ParseRFC3339 e"
  by (simp add: expires_def renewed_def)

lemma expires_new: "expires (newTokenSecret name i sec e) = ParseRFC3339 e"
  by (simp add: expires_def newTokenSecret_def mget_def)

lemma ParseRFC3339_hour:
  assumes "\<bar>tz\<bar> < 1440" "10 ^ 14 \<le> t" "t + hour < 10 ^ 20"
  shows "\<exists>e. ParseRFC3339 (FormatRFC3339 tz (t + hour)) = Inr e \<and> t + 30 * minute \<le> e"
proof -
  have "sane_time (t + hour)" using assms by (simp add: sane_time_def hour_def)
  from ParseRFC3339_Format [OF assms(1) this] show ?thesis
    using assms by (auto simp: hour_def minute_def)
qed

context kube_clock
begin

lemma clk_getSecretIfExists: "keeps (\<lambda>w w'. clk w \<le> clk w') (getSecretIfExists G A b name)"
proof -
  have "keeps (\<lambda>w w'. clk w \<le> clk w') (list_as A proj c kd ns l)" for proj :: "kobj \<Rightarrow> Secret option" and c kd ns l
    by (auto simp: keeps_def wp_run dest: clk_list_as)
  moreover have "preorder (\<lambda>w w'. clk w \<le> clk w')" by (auto simp: preorder_def)
  ultimately show ?thesis
    unfolding getSecretIfExists_def by (intro keeps_intros)
qed

lemma wp_getSecretIfExists_clk:
  assumes "\<And>e w'. Q (Inl e) w'"
    and "\<And>w'. clk w \<le> clk w' \<Longrightarrow> Q (Inr None) w'"
    and "\<And>s w'. clk w \<le> clk w' \<Longrightarrow> token_at (objs w') (b_client b) name s \<Longrightarrow> Q (Inr (Some s)) w'"
  shows "wp (getSecretIfExists G A b name) Q w"
proof -
  have "wp (getSecretIfExists G A b name)
      (\<lambda>r w'. \<forall>s. r = Inr (Some s) \<longrightarrow> token_at (objs w') (b_client b) name s) w"
    by (rule wp_getSecretIfExists) auto
  from wp_conj [OF this keeps_wp [OF clk_getSecretIfExists]] show ?thesis
  proof (rule wp_mono)
    fix r :: "Secret option res" and w'
    assume "(\<forall>s. r = Inr (Some s) \<longrightarrow> token_at (objs w') (b_client b) name s) \<and> clk w \<le> clk w'"
    then show "Q r w'"
      using assms by (cases r; cases "projr r") auto
  qed
qed

lemma wp_expiry_clk:
  assumes "\<And>e w'. Q (Inl e) w'"
    and "\<And>t w'. objs w' = objs w \<Longrightarrow> clk w \<le> t \<Longrightarrow> t \<le> clk w' \<Longrightarrow> Q (Inr (FormatRFC3339 tz (t + hour))) w'"
  shows "wp (expiry A tz) Q w"
  unfolding expiry_def by (intro wp_bindI wp_now_clk wp_retI case_InlI case_InrI assms)

text \<open>The token that a successful call returns is valid for 30 minutes from the call's start.\<close>

lemma wp_createBootstrapToken_valid:
  assumes tz: "\<bar>tz\<bar> < 1440" and start: "10 ^ 14 \<le> clk w"
  shows "wp (createBootstrapToken G A tz b name) (\<lambda>r w'.
      \<forall>tok old. r = Inr (tok, old) \<longrightarrow> clk w' + hour < 10 ^ 20 \<longrightarrow>
        (\<exists>s e. token_at (objs w') (b_client b) name s \<and> tokenOf s = tok
          \<and> expires s = Inr e \<and> clk w + 30 * minute \<le> e)) w" (is "wp _ ?Q w")
proof -
  let ?c = "b_client b"
  have stored: "?Q (Inr (tokenOf s, old)) w'"
    if w': "objs w' = os(key_of ?c (SEC s) \<mapsto> SEC s)"
      and s: "meta_Namespace (secret_meta s) = ''kube-system''"
        "map_of (meta_Labels (secret_meta s)) machineDeploymentNameLabelKey = Some name"
        "expires s = ParseRFC3339 (FormatRFC3339 tz (t + hour))"
      and t: "clk w \<le> t" "t \<le> clk w'" for w' os s t old
  proof (intro allI impI)
    fix tok old'
    assume "Inr (tokenOf s, old) = (Inr (tok, old') :: (string \<times> bool) res)" and "clk w' + hour < 10 ^ 20"
    with t start tz obtain e where "expires s = Inr e" "t + 30 * minute \<le> e" "tokenOf s = tok"
      using ParseRFC3339_hour [of tz t] s(3) by auto
    moreover have "token_at (objs w') ?c name s" by (simp add: token_at_def w' s)
    ultimately show "\<exists>s e. token_at (objs w') ?c name s \<and> tokenOf s = tok
        \<and> expires s = Inr e \<and> clk w + 30 * minute \<le> e" using t by fastforce
  qed
  have renew: "?Q (Inr (tokenOf s, True)) w'"
    if "objs w' = os(key_of ?c (SEC (renewed (FormatRFC3339 tz (t + hour)) s))
          := stored_update (SEC (renewed (FormatRFC3339 tz (t + hour)) s)))"
      "token_at os ?c name s" "clk w \<le> t" "t \<le> clk w'" for w' os s t
    using stored [of w' os "renewed (FormatRFC3339 tz (t + hour)) s" t] that
    by (simp add: expires_renewed token_at_def)
  have new: "?Q (Inr (i @ ''.'' @ sec, False)) w'"
    if "objs w' = os(key_of ?c (SEC s) \<mapsto> SEC s)" "s = newTokenSecret name i sec (FormatRFC3339 tz (t + hour))"
      "clk w \<le> t" "t \<le> clk w'" for i sec w' os s t
    using stored [of w' os s t] that by (simp add: expires_new token_at_new)
  have keep: "?Q (Inr (tokenOf s, True)) w'"
    if "token_at (objs w') ?c name s" "expires s = Inr e" "\<not> e - t < 30 * minute" "clk w \<le> t" for w' s e t
    using that by fastforce
  show ?thesis
    unfolding createBootstrapToken_def updateSecretExpirationAndGetToken_def expires_def [symmetric]
      renewed_def [symmetric]
    apply (intro wp_bindI wp_wrapI wp_retI wp_liftI wp_optionI wp_ifI case_InlI case_InrI
          wp_getSecretIfExists_clk wp_expiry_clk wp_now_clk wp_create_clk wp_update_clk wp_rand_clk; (simp; fail)?)
    subgoal by (rule new, assumption, rule refl, linarith, linarith)
    subgoal by (rule renew, assumption, simp, linarith, linarith)
    subgoal by (rule keep, simp, assumption, assumption, linarith)
    done
qed

end

end
