(* ===== verification/OSCResources.thy ===== *)
theory OSCResources
  imports Generator Providers ContainerRuntime Bootstrap
begin

text \<open>
  \<open>pkg/controllers/osc/resources\<close>: rendering an OperatingSystemProfile for a MachineDeployment into
  an OperatingSystemConfig, and the secret of a cloud configuration.

  The libraries the rendering uses are parameters, collected in \<open>libs\<close>. Of the template engine
  (\<open>text/template\<close> with the function libraries of sprig and Helm) only two things are used: whether
  a text parses after others in the template of a name, and what executing a template on the data
  gives. A template is therefore its name and the list of the texts parsed into it. \<open>te_range\<close> is
  the order in which the \<open>range\<close> loop over the map of additional templates meets its entries.
\<close>

section \<open>The data handed to the templates\<close>

record kubeletConfig =
  kl_KubeReserved :: "strmap option"
  kl_SystemReserved :: "strmap option"
  kl_EvictionHard :: "strmap option"
  kl_MaxPods :: "int32 option"
  kl_ContainerLogMaxSize :: "string option"
  kl_ContainerLogMaxFiles :: "string option"
  kl_ImageGCHighThresholdPercent :: "int32 option"
  kl_ImageGCLowThresholdPercent :: "int32 option"
  kl_ImageMinimumGCAge :: "int option"
  kl_ImageMaximumGCAge :: "int option"

definition emptyKubeletConfig :: kubeletConfig where
  "emptyKubeletConfig = \<lparr>kl_KubeReserved = None, kl_SystemReserved = None, kl_EvictionHard = None,
     kl_MaxPods = None, kl_ContainerLogMaxSize = None, kl_ContainerLogMaxFiles = None,
     kl_ImageGCHighThresholdPercent = None, kl_ImageGCLowThresholdPercent = None,
     kl_ImageMinimumGCAge = None, kl_ImageMaximumGCAge = None\<rparr>"

record operatingSystemConfig =
  AmazonLinuxConfig :: DistConfig
  FlatcarConfig_data :: FlatcarConfig
  RhelConfig_data :: RhelConfig
  UbuntuConfig :: DistConfig
  RockyLinuxConfig :: DistConfig

definition emptyDist :: DistConfig where
  "emptyDist = \<lparr>DistUpgradeOnBoot = False\<rparr>"

definition emptyOSConfig :: operatingSystemConfig where
  "emptyOSConfig = \<lparr>AmazonLinuxConfig = emptyDist, FlatcarConfig_data = emptyFlatcar,
     RhelConfig_data = emptyRhel, UbuntuConfig = emptyDist, RockyLinuxConfig = emptyDist\<rparr>"

record bootstrapConfig =
  bc_Token :: string
  bc_ServerURL :: string
  bc_SecretName :: string
  bc_BootstrapKubeconfigSecretName :: string

text \<open>
  \<open>filesData\<close> with its three embedded structs. The fields no code sets (\<open>KubeletConfiguration\<close>,
  \<open>KubeletSystemdUnit\<close>, \<open>CNIVersion\<close>, \<open>ServerAddress\<close>, \<open>RHSubscription\<close>) are always empty and left out.
\<close>

record filesData =
  fd_KubeVersion :: string
  fd_BootstrapKubeconfig :: string
  fd_InTreeCCMAvailable :: bool
  fd_ClusterDNSIPs :: "IP list"
  fd_KubernetesCACert :: string
  fd_HostCACert :: string
  fd_CloudConfig :: string
  fd_ContainerRuntime :: string
  fd_CloudProviderName :: CloudProvider
  fd_NetworkConfig :: "NetworkConfig option"
  fd_ExternalCloudProvider :: bool
  fd_InitialTaints :: string
  fd_HTTPProxy :: "string option"
  fd_NoProxy :: "string option"
  fd_ContainerRuntimeConfig :: string
  fd_ContainerRuntimeAuthConfig :: string
  fd_KubeletFeatureGates :: "(string \<times> bool) list"
  fd_NetworkIPFamily :: string
  fd_PauseImage :: string
  fd_kubelet :: kubeletConfig
  fd_os :: operatingSystemConfig
  fd_bootstrap :: bootstrapConfig

record engine =
  te_Parse :: "string \<Rightarrow> string list \<Rightarrow> string \<Rightarrow> unit res"
  te_Execute :: "string \<Rightarrow> string list \<Rightarrow> filesData \<Rightarrow> string res"
  te_range :: "strmap \<Rightarrow> strmap"

record libs =
  lib_sdk :: sdk
  lib_client_go :: client_go
  lib_resolver :: resolver
  lib_verlib :: verlib
  lib_toml :: toml
  lib_engine :: engine

section \<open>Kubelet settings from annotations\<close>

definition getKeyValueMap :: "string \<Rightarrow> char \<Rightarrow> strmap" where
  "getKeyValueMap value kvDelimiter =
     foldl (\<lambda>res pair. case SplitN2 kvDelimiter pair of [k, v] \<Rightarrow> mput k v res | _ \<Rightarrow> res) []
       (SplitC CHR '','' value)"

definition getKubeletConfigMap :: "sdk \<Rightarrow> strmap \<Rightarrow> strmap" where
  "getKubeletConfigMap S annotations =
     foldl (\<lambda>configs (name, value).
         if HasPrefix name (KubeletConfigAnnotationPrefixV1 S)
         then (case SplitN2 CHR ''/'' name of [_, k] \<Rightarrow> mput k value configs | _ \<Rightarrow> configs)
         else configs) [] annotations"

text \<open>\<open>if val, ok := m[k]; ok \<close>, with a conversion that may fail.\<close>

definition setting :: "strmap \<Rightarrow> string \<Rightarrow> (string \<Rightarrow> 'a res) \<Rightarrow> 'a option res" where
  "setting m k conv = (case map_of m k of None \<Rightarrow> Inr None | Some v \<Rightarrow> bindR (conv v) (\<lambda>x. Inr (Some x)))"

definition parseInt32 :: "string \<Rightarrow> string \<Rightarrow> int32 res" where
  "parseInt32 what s = bindR (wrapR what [] (ParseInt10 32 s)) (\<lambda>i. Inr (word_of_int i))"

definition getKubeletConfigs :: "sdk \<Rightarrow> strmap \<Rightarrow> kubeletConfig res" where
  "getKubeletConfigs S annotations =
     (let m = getKubeletConfigMap S annotations in
      if m = [] then Inr emptyKubeletConfig else
      bindR (setting m (KubeReservedKubeletConfig S) (\<lambda>v. Inr (getKeyValueMap v CHR ''=''))) (\<lambda>kubeRes.
      bindR (setting m (SystemReservedKubeletConfig S) (\<lambda>v. Inr (getKeyValueMap v CHR ''=''))) (\<lambda>sysRes.
      bindR (setting m (EvictionHardKubeletConfig S) (\<lambda>v. Inr (getKeyValueMap v CHR ''<''))) (\<lambda>evict.
      bindR (setting m (MaxPodsKubeletConfig S) (parseInt32 ''parsing maxPods: %w'')) (\<lambda>maxPods.
      bindR (setting m (ContainerLogMaxSizeKubeletConfig S) Inr) (\<lambda>logSize.
      bindR (setting m (ContainerLogMaxFilesKubeletConfig S) Inr) (\<lambda>logFiles.
      bindR (setting m (ImageGCHighThresholdPercentKey S) (parseInt32 ''parsing imageGCHighThresholdPercent: %w'')) (\<lambda>high.
      bindR (setting m (ImageGCLowThresholdPercentKey S) (parseInt32 ''parsing imageGCLowThresholdPercent: %w'')) (\<lambda>low.
      bindR (setting m (ImageMinimumGCAgeKey S)
               (\<lambda>v. wrapR ''parsing imageMinimumGCAge: %w'' [] (ParseDuration v))) (\<lambda>minAge.
      bindR (setting m (ImageMaximumGCAgeKey S)
               (\<lambda>v. wrapR ''parsing imageMaximumGCAge: %w'' [] (ParseDuration v))) (\<lambda>maxAge.
        Inr \<lparr>kl_KubeReserved = kubeRes, kl_SystemReserved = sysRes, kl_EvictionHard = evict,
          kl_MaxPods = maxPods, kl_ContainerLogMaxSize = logSize, kl_ContainerLogMaxFiles = logFiles,
          kl_ImageGCHighThresholdPercent = high, kl_ImageGCLowThresholdPercent = low,
          kl_ImageMinimumGCAge = minAge, kl_ImageMaximumGCAge = maxAge\<rparr>)))))))))))"

section \<open>Preparing the data\<close>

definition parseProviderConfig :: "sdk \<Rightarrow> MachineDeployment \<Rightarrow> ProviderConfig res" where
  "parseProviderConfig S md =
     (case md_ProviderSpecValue md of
        None \<Rightarrow> Inl (Panic ''nil pointer: ProviderSpec.Value'')
      | Some raw \<Rightarrow>
          if orDefault [] raw = [] then Inl (Errorf ''providerSpec cannot be empty'' [])
          else wrapR ''failed to decode provider configs: %w'' []
                 (StrictUnmarshal (pc_decode S) (orDefault [] raw)))"

definition nonEmptyOr :: "string option \<Rightarrow> string \<Rightarrow> string" where
  "nonEmptyOr x d = (case x of None \<Rightarrow> d | Some s \<Rightarrow> if s = [] then d else s)"

definition prepareContainerRuntimeConfig ::
    "libs \<Rightarrow> MachineDeployment \<Rightarrow> CRConfig \<Rightarrow> (string \<times> string \<times> strmap) res" where
  "prepareContainerRuntimeConfig L md crc =
     bindR (getKubeletConfigs (lib_sdk L) (md_Annotations md)) (\<lambda>kc.
     let crc' = crc\<lparr>cr_ContainerLogMaxSize := nonEmptyOr (kl_ContainerLogMaxSize kc) (cr_ContainerLogMaxSize crc),
                    cr_ContainerLogMaxFiles := nonEmptyOr (kl_ContainerLogMaxFiles kc) (cr_ContainerLogMaxFiles crc)\<rparr>;
         crEngine = Engine crc' in
     bindR (wrapR ''failed to generate container runtime config: %w'' [] (Config_of (lib_toml L) crEngine)) (\<lambda>crConfig.
     bindR (wrapR ''failed to generate container runtime auth config: %w'' [] (AuthConfig_of crEngine)) (\<lambda>crAuthConfig.
     bindR (wrapR ''failed to generate registry host configs: %w'' []
              (RegistryHostConfigs (lib_toml L) crEngine)) (\<lambda>hostConfigs.
       Inr (crConfig, crAuthConfig, hostConfigs)))))"

definition ProvisioningCloudConfig :: string where
  "ProvisioningCloudConfig = ''provisioning''"

text \<open>The server of the cluster that the \<open>range\<close> loop meets first, through a pointer that may be nil.\<close>

definition firstServer :: "Kubeconfig \<Rightarrow> string res" where
  "firstServer c =
     (case kc_Clusters c of
        (_, Some cl) # _ \<Rightarrow> Inr (cl_Server cl)
      | _ \<Rightarrow> Inl (Panic ''invalid memory address or nil pointer dereference''))"

definition prepareBootstrapConfig ::
    "libs \<Rightarrow> MachineDeployment \<Rightarrow> Kubeconfig \<Rightarrow> string \<Rightarrow> string \<Rightarrow> (bootstrapConfig \<times> string) res" where
  "prepareBootstrapConfig L md kubeconfig kubeconfigSecretName apiServerToken =
     bindR (StringifyKubeconfig (lib_client_go L) kubeconfig) (\<lambda>kubeconfigString.
     bindR (firstServer kubeconfig) (\<lambda>serverURL.
       Inr (\<lparr>bc_Token = apiServerToken, bc_ServerURL = serverURL,
             bc_SecretName = CloudConfigSecretName (lib_sdk L) (md_Name md) (md_Namespace md) ProvisioningCloudConfig,
             bc_BootstrapKubeconfigSecretName = kubeconfigSecretName\<rparr>, kubeconfigString)))"

definition prepareCloudProviderConfig ::
    "libs \<Rightarrow> ProviderConfig \<Rightarrow> string \<Rightarrow> bool \<Rightarrow> (string \<times> bool \<times> bool) res" where
  "prepareCloudProviderConfig L pc kubeletVersion externalCloudProvider =
     (let (inTreeCCM, external) = KubeletCloudProviderConfig (pc_CloudProvider pc) externalCloudProvider in
      bindR (case pc_OverwriteCloudConfig pc of
               Some c \<Rightarrow> Inr c
             | None \<Rightarrow> wrapR ''failed to fetch cloud-config: %w'' []
                 (GetCloudConfig (lib_verlib L) (lib_resolver L) external pc kubeletVersion))
        (\<lambda>cloudConfig. Inr (cloudConfig, inTreeCCM, external)))"

definition formatKubeletVersion :: "verlib \<Rightarrow> string \<Rightarrow> string res" where
  "formatKubeletVersion V version =
     bindR (wrapR ''invalid kubelet version: %w'' [] (semver_NewVersion V version)) (\<lambda>s.
       Inr (if HasPrefix s ''v'' then s else ''v'' @ s))"

definition setOperatingSystemConfig ::
    "OperatingSystem \<Rightarrow> RawExtension \<Rightarrow> operatingSystemConfig \<Rightarrow> operatingSystemConfig res" where
  "setOperatingSystemConfig os spec data =
     (if os = OperatingSystemAmazonLinux2
      then bindR (amzn2_LoadConfig spec) (\<lambda>c. Inr (data\<lparr>AmazonLinuxConfig := c\<rparr>))
      else if os = OperatingSystemFlatcar
      then bindR (flatcar_LoadConfig spec) (\<lambda>c. Inr (data\<lparr>FlatcarConfig_data := c\<rparr>))
      else if os = OperatingSystemRHEL
      then bindR (rhel_LoadConfig spec) (\<lambda>c. Inr (data\<lparr>RhelConfig_data := c\<rparr>))
      else if os = OperatingSystemUbuntu
      then bindR (ubuntu_LoadConfig spec) (\<lambda>c. Inr (data\<lparr>UbuntuConfig := c\<rparr>))
      else if os = OperatingSystemRockyLinux
      then bindR (rockylinux_LoadConfig spec) (\<lambda>c. Inr (data\<lparr>RockyLinuxConfig := c\<rparr>))
      else Inl (Errorf ''unknown OperatingSystem'' []))"

definition nonEmptyPtr :: "string \<Rightarrow> string option" where
  "nonEmptyPtr s = (if s = [] then None else Some s)"

definition buildFilesData ::
    "sdk \<Rightarrow> string \<Rightarrow> IP list \<Rightarrow> string \<Rightarrow> string \<Rightarrow> bool \<Rightarrow> string \<Rightarrow> string \<Rightarrow> ProviderConfig \<Rightarrow> bool \<Rightarrow> string
     \<Rightarrow> string \<Rightarrow> string \<Rightarrow> (string \<times> bool) list \<Rightarrow> string \<Rightarrow> bootstrapConfig \<Rightarrow> string \<Rightarrow> string \<Rightarrow> string \<Rightarrow> strmap
     \<Rightarrow> filesData res" where
  "buildFilesData S kubeletVersionStr clusterDNSIPs caCert hostCACert inTreeCCM cloudConfig containerRuntime
      pc external initialTaints crConfig crAuthConfig kubeletFeatureGates bootstrapKubeconfigString bc
      nodeHTTPProxy nodeNoProxy sandboxImage annotations =
     bindR (getKubeletConfigs S annotations) (\<lambda>kc.
     let data = \<lparr>fd_KubeVersion = kubeletVersionStr, fd_BootstrapKubeconfig = bootstrapKubeconfigString,
           fd_InTreeCCMAvailable = inTreeCCM, fd_ClusterDNSIPs = clusterDNSIPs, fd_KubernetesCACert = caCert,
           fd_HostCACert = hostCACert, fd_CloudConfig = cloudConfig, fd_ContainerRuntime = containerRuntime,
           fd_CloudProviderName = pc_CloudProvider pc, fd_NetworkConfig = pc_Network pc,
           fd_ExternalCloudProvider = external, fd_InitialTaints = initialTaints,
           fd_HTTPProxy = nonEmptyPtr nodeHTTPProxy, fd_NoProxy = nonEmptyPtr nodeNoProxy,
           fd_ContainerRuntimeConfig = crConfig, fd_ContainerRuntimeAuthConfig = crAuthConfig,
           fd_KubeletFeatureGates = kubeletFeatureGates, fd_NetworkIPFamily = GetIPFamily S (pc_Network pc),
           fd_PauseImage = sandboxImage, fd_kubelet = kc, fd_os = emptyOSConfig, fd_bootstrap = bc\<rparr> in
     if IsStaticIPConfig S (pc_Network pc) \<and> pc_OperatingSystem pc \<noteq> OperatingSystemFlatcar
     then Inl (Errorf ''static IP config is not supported with: %s'' [pc_OperatingSystem pc])
     else bindR (wrapR ''failed to add operating system spec: %w'' []
                   (setOperatingSystemConfig (pc_OperatingSystem pc) (pc_OperatingSystemSpec pc) (fd_os data)))
            (\<lambda>os. Inr (data\<lparr>fd_os := os\<rparr>)))"

section \<open>Rendering\<close>

definition addTemplatingSequence :: "string \<Rightarrow> string \<Rightarrow> string" where
  "addTemplatingSequence name t =
     nl @ ''{{- define '' @ [CHR 0x22] @ name @ [CHR 0x22] @ '' }}'' @ nl @ t @ nl @ ''{{- end }}''"

definition selectAdditionalFiles :: "OSPConfig \<Rightarrow> string \<Rightarrow> File list" where
  "selectAdditionalFiles config containerRuntime =
     (case find (\<lambda>cr. crs_Name cr = containerRuntime) (ospc_SupportedContainerRuntimes config) of
        None \<Rightarrow> []
      | Some cr \<Rightarrow> crs_Files cr)"

text \<open>The templates of the runtime, overridden by the profile's own templates of the same name.\<close>

definition templatesToRender :: "OSPConfig \<Rightarrow> string \<Rightarrow> strmap" where
  "templatesToRender config containerRuntime =
     fold (\<lambda>(name, t). mput name t) (ospc_Templates config)
       (case find (\<lambda>cr. crs_Name cr = containerRuntime) (ospc_SupportedContainerRuntimes config) of
          None \<Rightarrow> []
        | Some cr \<Rightarrow> fold (\<lambda>(name, t). mput name t) (crs_Templates cr) [])"

definition renderTemplate :: "engine \<Rightarrow> filesData \<Rightarrow> string \<times> string \<Rightarrow> string res" where
  "renderTemplate E d nt = (case nt of (name, t) \<Rightarrow>
     bindR (wrapR ''failed to parse OSP template [%s]: %w'' [name] (te_Parse E name [] t)) (\<lambda>_.
     bindR (te_Execute E name [t] d) (\<lambda>out. Inr (addTemplatingSequence name out))))"

definition selectAdditionalTemplates :: "engine \<Rightarrow> OSPConfig \<Rightarrow> string \<Rightarrow> filesData \<Rightarrow> string list res" where
  "selectAdditionalTemplates E config containerRuntime d =
     mapR (renderTemplate E d) (te_range E (templatesToRender config containerRuntime))"

fun parseMore :: "engine \<Rightarrow> string \<Rightarrow> string list \<Rightarrow> string list \<Rightarrow> string list res" where
  "parseMore E name texts [] = Inr texts"
| "parseMore E name texts (t # ts) =
     bindR (te_Parse E name texts t) (\<lambda>_. parseMore E name (texts @ [t]) ts)"

definition defaultFilePermissions :: int32 where
  "defaultFilePermissions = 644"

definition populateFile :: "engine \<Rightarrow> string list \<Rightarrow> filesData \<Rightarrow> File \<Rightarrow> File res" where
  "populateFile E additionalTemplates d f =
     (case file_Inline f of
        None \<Rightarrow> Inl (Panic ''nil pointer: File.Content.Inline'')
      | Some inl \<Rightarrow>
          bindR (wrapR ''failed to parse OSP file [%s] template: %w'' [file_Path f]
                   (te_Parse E (file_Path f) [] (inl_Data inl))) (\<lambda>_.
          bindR (parseMore E (file_Path f) [inl_Data inl] additionalTemplates) (\<lambda>texts.
          bindR (te_Execute E (file_Path f) texts d) (\<lambda>out.
            Inr (f\<lparr>file_Inline := Some (inl\<lparr>inl_Data := out\<rparr>),
                   file_Permissions := (if file_Permissions f = 0 then defaultFilePermissions
                                        else file_Permissions f)\<rparr>)))))"

definition populateFilesList :: "engine \<Rightarrow> File list \<Rightarrow> string list \<Rightarrow> filesData \<Rightarrow> File list res" where
  "populateFilesList E files additionalTemplates d = mapR (populateFile E additionalTemplates d) files"

definition renderedFiles :: "engine \<Rightarrow> OSPConfig \<Rightarrow> string \<Rightarrow> filesData \<Rightarrow> File list res" where
  "renderedFiles E config containerRuntime d =
     bindR (wrapR ''failed to add OSP templates: %w'' [] (selectAdditionalTemplates E config containerRuntime d)) (\<lambda>ts.
     wrapR ''failed to populate OSP file template: %w'' []
       (populateFilesList E (ospc_Files config @ selectAdditionalFiles config containerRuntime) ts d))"

definition registryFile :: "strmap \<Rightarrow> string \<Rightarrow> File" where
  "registryFile hostConfigs path =
     \<lparr>file_Path = path, file_Permissions = 600,
      file_Inline = Some \<lparr>inl_Encoding = [], inl_Data = mget hostConfigs path\<rparr>\<rparr>"

definition injectRegistryHostConfigs :: "File list \<Rightarrow> strmap \<Rightarrow> File list" where
  "injectRegistryHostConfigs files hostConfigs =
     files @ map (registryFile hostConfigs) (sorted_keys hostConfigs)"

definition renderOSPFiles ::
    "engine \<Rightarrow> OperatingSystemProfile \<Rightarrow> string \<Rightarrow> filesData \<Rightarrow> strmap \<Rightarrow> (File list \<times> File list) res" where
  "renderOSPFiles E osp containerRuntime data hostConfigs =
     bindR (wrapR ''failed to render bootstrapping file templates: %w'' []
              (renderedFiles E (osps_BootstrapConfig (osp_Spec osp)) containerRuntime data)) (\<lambda>bootFiles.
     bindR (wrapR ''failed to render provisioning file templates: %w'' []
              (renderedFiles E (osps_ProvisioningConfig (osp_Spec osp)) containerRuntime data)) (\<lambda>provFiles.
       Inr (bootFiles, if hostConfigs = [] then provFiles else injectRegistryHostConfigs provFiles hostConfigs)))"

section \<open>The configuration\<close>

text \<open>The subscription goes into both configurations of the profile, in place.\<close>

definition withSubscription :: "strmap \<Rightarrow> OSPConfig \<Rightarrow> OSPConfig" where
  "withSubscription sub config =
     config\<lparr>ospc_CloudInitModules :=
       Some ((orElse emptyCloudInitModule (ospc_CloudInitModules config))\<lparr>cim_RHSubscription := sub\<rparr>)\<rparr>"

definition configureRHELSubscription ::
    "ProviderConfig \<Rightarrow> OperatingSystemProfile \<Rightarrow> filesData \<Rightarrow> OperatingSystemProfile" where
  "configureRHELSubscription pc osp data =
     (if pc_OperatingSystem pc \<noteq> OperatingSystemRHEL then osp
      else let sub = RHSubscription (RhelConfig_data (fd_os data)); spec = osp_Spec osp in
        osp\<lparr>osp_Spec := spec\<lparr>osps_BootstrapConfig := withSubscription sub (osps_BootstrapConfig spec),
                              osps_ProvisioningConfig := withSubscription sub (osps_ProvisioningConfig spec)\<rparr>\<rparr>)"

definition buildOSCSpec ::
    "OperatingSystemProfile \<Rightarrow> OperatingSystemProfile \<Rightarrow> ProviderConfig \<Rightarrow> File list \<Rightarrow> File list
     \<Rightarrow> OperatingSystemConfigSpec" where
  "buildOSCSpec ospOriginal osp pc bootFiles provFiles =
     (let orig = osp_Spec ospOriginal; spec = osp_Spec osp in
      \<lparr>oscs_OSName = osps_OSName orig, oscs_OSVersion = osps_OSVersion orig,
       oscs_CloudProvider = \<lparr>cps_Name = pc_CloudProvider pc, cps_Spec = pc_CloudProviderSpec pc\<rparr>,
       oscs_BootstrapConfig =
         \<lparr>oscc_Units = ospc_Units (osps_BootstrapConfig orig), oscc_Files = bootFiles,
          oscc_UserSSHKeys = pc_SSHPublicKeys pc,
          oscc_CloudInitModules = ospc_CloudInitModules (osps_BootstrapConfig spec)\<rparr>,
       oscs_ProvisioningConfig =
         \<lparr>oscc_Units = ospc_Units (osps_ProvisioningConfig orig), oscc_Files = provFiles,
          oscc_UserSSHKeys = pc_SSHPublicKeys pc,
          oscc_CloudInitModules = ospc_CloudInitModules (osps_ProvisioningConfig spec)\<rparr>,
       oscs_ProvisioningUtility = []\<rparr>)"

definition GenerateOperatingSystemConfig ::
    "libs \<Rightarrow> MachineDeployment \<Rightarrow> OperatingSystemProfile \<Rightarrow> Kubeconfig \<Rightarrow> string \<Rightarrow> string \<Rightarrow> string \<Rightarrow> string
     \<Rightarrow> string \<Rightarrow> string \<Rightarrow> IP list \<Rightarrow> string \<Rightarrow> bool \<Rightarrow> string \<Rightarrow> string \<Rightarrow> string \<Rightarrow> CRConfig \<Rightarrow> (string \<times> bool) list
     \<Rightarrow> OperatingSystemConfig res" where
  "GenerateOperatingSystemConfig L md osp kubeconfig kubeconfigSecretName apiServerToken oscName namespace
      caCert hostCACert clusterDNSIPs containerRuntime externalCloudProvider initialTaints nodeHTTPProxy
      nodeNoProxy crc kubeletFeatureGates =
     bindR (parseProviderConfig (lib_sdk L) md) (\<lambda>pc.
     bindR (prepareContainerRuntimeConfig L md crc) (\<lambda>(crConfig, crAuthConfig, hostConfigs).
     bindR (prepareBootstrapConfig L md kubeconfig kubeconfigSecretName apiServerToken) (\<lambda>(bc, kubeconfigString).
     bindR (prepareCloudProviderConfig L pc (md_Kubelet md) externalCloudProvider)
        (\<lambda>(cloudConfig, inTreeCCM, external).
     bindR (formatKubeletVersion (lib_verlib L) (md_Kubelet md)) (\<lambda>kubeletVersionStr.
     bindR (buildFilesData (lib_sdk L) kubeletVersionStr clusterDNSIPs caCert hostCACert inTreeCCM cloudConfig
              containerRuntime pc external initialTaints crConfig crAuthConfig kubeletFeatureGates
              kubeconfigString bc nodeHTTPProxy nodeNoProxy (cr_SandboxImage crc) (md_Annotations md)) (\<lambda>data.
     let osp' = configureRHELSubscription pc osp data in
     bindR (renderOSPFiles (lib_engine L) osp' containerRuntime data hostConfigs) (\<lambda>(bootFiles, provFiles).
       Inr \<lparr>osc_meta = emptyMeta\<lparr>meta_Name := oscName, meta_Namespace := namespace\<rparr>,
            osc_Spec = buildOSCSpec osp osp' pc bootFiles provFiles\<rparr>)))))))"

definition GenerateCloudConfigSecret :: "string \<Rightarrow> string \<Rightarrow> string \<Rightarrow> Secret" where
  "GenerateCloudConfigSecret name namespace data =
     \<lparr>secret_meta = emptyMeta\<lparr>meta_Name := name, meta_Namespace := namespace\<rparr>,
      secret_Type = ''Opaque'', secret_Data = [(''cloud-config'', data)], secret_Immutable = Some True\<rparr>"

end
