(* ===== verification/Finalizers.thy ===== *)
theory Finalizers
  imports Types
begin

text \<open>
  \<open>pkg/kubernetes/helper.go\<close>: the finalizers of an object as a sorted set of strings.
\<close>

definition HasFinalizer :: "string list \<Rightarrow> string list \<Rightarrow> bool" where
  "HasFinalizer finalizers names \<longleftrightarrow> list_all (\<lambda>n. n \<in> set finalizers) names"

definition AddFinalizer :: "string list \<Rightarrow> string list \<Rightarrow> string list" where
  "AddFinalizer finalizers names = sort (remdups (finalizers @ names))"

definition RemoveFinalizer :: "string list \<Rightarrow> string list \<Rightarrow> string list" where
  "RemoveFinalizer finalizers toRemove = sort (remdups (filter (\<lambda>f. f \<notin> set toRemove) finalizers))"

lemma set_AddFinalizer [simp]: "set (AddFinalizer fs ns) = set fs \<union> set ns"
  by (simp add: AddFinalizer_def)

lemma set_RemoveFinalizer [simp]: "set (RemoveFinalizer fs ns) = set fs - set ns"
  by (auto simp: RemoveFinalizer_def)

lemma HasFinalizer_one [simp]: "HasFinalizer fs [f] \<longleftrightarrow> f \<in> set fs"
  by (simp add: HasFinalizer_def)

text \<open>Adding finalizers makes the object have them and keeps the others, removing them leaves
  exactly the others, in both cases in sorted order without duplicates; removing what was added to
  an object that did not have it gives back its finalizers, up to order and repetition.\<close>

theorem finalizer_operations:
  "HasFinalizer (AddFinalizer fs ns) ns
   \<and> set (AddFinalizer fs ns) = set fs \<union> set ns
   \<and> set (RemoveFinalizer fs ns) = set fs - set ns
   \<and> sorted (AddFinalizer fs ns) \<and> distinct (AddFinalizer fs ns)
   \<and> sorted (RemoveFinalizer fs ns) \<and> distinct (RemoveFinalizer fs ns)
   \<and> (set fs \<inter> set ns = {} \<longrightarrow> RemoveFinalizer (AddFinalizer fs ns) ns = sort (remdups fs))"
proof -
  have "RemoveFinalizer (AddFinalizer fs ns) ns = sort (remdups fs)" if "set fs \<inter> set ns = {}"
    by (rule sorted_distinct_set_unique) (use that in \<open>auto simp: RemoveFinalizer_def AddFinalizer_def\<close>)
  then show ?thesis
    by (auto simp: HasFinalizer_def list_all_iff AddFinalizer_def RemoveFinalizer_def)
qed

theorem finalizer_operations_witness:
  "RemoveFinalizer (AddFinalizer [''b'', ''a'', ''b''] [''c'']) [''c''] = [''a'', ''b'']"
proof -
  have "sort (remdups [''b'', ''a'', ''b'']) = [''a'', ''b'' :: string]" by code_simp
  with finalizer_operations [of "[''b'', ''a'', ''b'']" "[''c'']"] show ?thesis by simp
qed

end
