(* ===== verification/OSCController.thy ===== *)
theory OSCController
  imports OSCResources Finalizers GoHash
begin

text \<open>
  \<open>pkg/controllers/osc\<close>: the controller that keeps, for every MachineDeployment, an
  OperatingSystemConfig and two cloud configuration secrets in step with the deployment and its
  profile, and removes them with the deployment.

  The definitions are the functions of \<open>osc_controller.go\<close>, in the monad of calls to the API
  servers. Logging and events are left out. A registry credential secret overwrites a field of the
  reconciler before each use, so it is a local value here.
\<close>

section \<open>The reconciler\<close>

type_synonym CloudConfigGenerator =
  "OSCConfig \<Rightarrow> ProvisioningUtility \<Rightarrow> OperatingSystem \<Rightarrow> CloudProvider \<Rightarrow> MachineDeployment \<Rightarrow> string \<Rightarrow> string res"

record 'w Reconciler =
  r_Client :: cluster
  r_workerClient :: cluster
  r_bootstrappingManager :: "'w Bootstrap"
  r_namespace :: string
  r_containerRuntime :: string
  r_externalCloudProvider :: bool
  r_initialTaints :: string
  r_generator :: CloudConfigGenerator
  r_clusterDNSIPs :: "IP list"
  r_caCert :: string
  r_hostCACert :: string
  r_nodeHTTPProxy :: string
  r_nodeNoProxy :: string
  r_nodeRegistryCredentialsSecret :: string
  r_containerRuntimeConfig :: CRConfig
  r_kubeletFeatureGates :: "(string \<times> bool) list"

text \<open>What every call is given besides: the API, the libraries, and the time zone of the process.\<close>

record 'w env =
  env_api :: "'w kube_ops"
  env_libs :: libs
  env_tz :: int

abbreviation env_sdk :: "'w env \<Rightarrow> sdk" where
  "env_sdk E \<equiv> lib_sdk (env_libs E)"

definition MachineDeploymentCleanupFinalizer :: string where
  "MachineDeploymentCleanupFinalizer = ''kubermatic.io/cleanup-operating-system-configs''"

definition OperatingSystemConfigVersionAnnotation :: string where
  "OperatingSystemConfigVersionAnnotation = ''k8c.io/osp-version''"

definition OperatingSystemConfigMDHash :: string where
  "OperatingSystemConfigMDHash = ''k8c.io/mdannotations-hash''"

definition MachineDeploymentOSPAnnotation :: string where
  "MachineDeploymentOSPAnnotation = ''k8c.io/operating-system-profile''"

definition MachineDeploymentOSPNamespaceAnnotation :: string where
  "MachineDeploymentOSPNamespaceAnnotation = ''k8c.io/operating-system-profile-namespace''"

section \<open>Names\<close>

definition oscNameOf :: "string \<Rightarrow> string \<Rightarrow> string" where
  "oscNameOf name namespace = name @ ''-'' @ namespace @ ''-config''"

definition machineDeploymentKey :: "string \<Rightarrow> string \<Rightarrow> string" where
  "machineDeploymentKey namespace name =
     (let key = namespace @ ''-'' @ name in if length key \<ge> 63 then name else key)"

definition oscKey :: "'w Reconciler \<Rightarrow> string \<Rightarrow> string \<Rightarrow> objkey" where
  "oscKey r namespace name = Key (r_Client r) KOSC (r_namespace r) (oscNameOf name namespace)"

definition cloudConfigKey :: "'w env \<Rightarrow> 'w Reconciler \<Rightarrow> string \<Rightarrow> string \<Rightarrow> string \<Rightarrow> objkey" where
  "cloudConfigKey E r namespace name secretType =
     Key (r_workerClient r) KSecret (CloudInitSettingsNamespace (env_sdk E))
       (CloudConfigSecretName (env_sdk E) name namespace secretType)"

definition kubeletConfigKey :: "'w env \<Rightarrow> 'w Reconciler \<Rightarrow> string \<Rightarrow> string \<Rightarrow> objkey" where
  "kubeletConfigKey E r namespace name =
     Key (r_workerClient r) KSecret (CloudInitSettingsNamespace (env_sdk E))
       (machineDeploymentKey namespace name @ ''-kubelet-bootstrap-config'')"

section \<open>Annotations\<close>

text \<open>\<open>json.Marshal\<close> of the annotations: a MachineDeployment without any has a nil map.\<close>

definition annotationsJSON :: "strmap \<Rightarrow> string" where
  "annotationsJSON annotations = (if annotations = [] then ''null'' else marshal_strmap annotations)"

definition calculateAnnotationsHash :: "strmap \<Rightarrow> string" where
  "calculateAnnotationsHash annotations = sha256_hex (annotationsJSON annotations)"

definition oscRotationAnnotations :: "sdk \<Rightarrow> string \<Rightarrow> string \<Rightarrow> string \<Rightarrow> strmap \<Rightarrow> strmap" where
  "oscRotationAnnotations S revision mdhash ospversion annotations =
     mput OperatingSystemConfigVersionAnnotation ospversion
       (mput OperatingSystemConfigMDHash mdhash
         (mput (MachineDeploymentRevision S) revision annotations))"

definition filterMachineDeploymentPredicate :: "MachineDeployment \<Rightarrow> bool" where
  "filterMachineDeploymentPredicate md \<longleftrightarrow> mget (md_Annotations md) MachineDeploymentOSPAnnotation \<noteq> []"

section \<open>The profile\<close>

definition fetchOSP :: "'w env \<Rightarrow> 'w Reconciler \<Rightarrow> MachineDeployment \<Rightarrow> ('w, OperatingSystemProfile) M" where
  "fetchOSP E r md =
     (let ospName = mget (md_Annotations md) MachineDeploymentOSPAnnotation;
          ns = mget (md_Annotations md) MachineDeploymentOSPNamespaceAnnotation;
          ospNamespace = (if ns = [] then r_namespace r else ns) in
      tryE (get_as (env_api E) as_OSP (Key (r_Client r) KOSP ospNamespace ospName)) (\<lambda>res. case res of
        Inl e \<Rightarrow> if IsNotFound e then throw (Errorf ''OperatingSystemProfile %q not found'' [ospName])
                 else throw (Wrapf ''failed to get OperatingSystemProfile %q from namespace %q: %w''
                               [ospName, ospNamespace] e)
      | Inr osp \<Rightarrow> ret osp))"

definition validateMachineDeployment :: "sdk \<Rightarrow> MachineDeployment \<Rightarrow> OperatingSystemProfile \<Rightarrow> unit res" where
  "validateMachineDeployment S md osp =
     (case md_ProviderSpecValue md of
        None \<Rightarrow> Inl (Panic ''nil pointer: ProviderSpec.Value'')
      | Some raw \<Rightarrow>
          bindR (wrapR ''failed to decode provider config: %w'' []
                   (Unmarshal (pc_decode S False) (orDefault [] raw))) (\<lambda>pc.
          if osps_OSName (osp_Spec osp) \<noteq> pc_OperatingSystem pc
          then Inl (Errorf ''OperatingSystemProfile %q does not support operating system %q''
                      [meta_Name (osp_meta osp), pc_OperatingSystem pc])
          else if \<not> list_ex (\<lambda>cp. cps_Name cp = pc_CloudProvider pc) (osps_SupportedCloudProviders (osp_Spec osp))
          then Inl (Errorf ''OperatingSystemProfile %q does not support cloud provider %q''
                      [meta_Name (osp_meta osp), pc_CloudProvider pc])
          else Inr ()))"

definition checkOSP :: "sdk \<Rightarrow> MachineDeployment \<Rightarrow> OperatingSystemProfile \<Rightarrow> unit res" where
  "checkOSP S md osp = validateMachineDeployment S md osp"

section \<open>Deleting\<close>

text \<open>\<open>if err := Delete(..); err != nil && !IsNotFound(err)\<close>.\<close>

definition deleteIgnoringNotFound :: "'w kube_ops \<Rightarrow> string \<Rightarrow> string list \<Rightarrow> objkey \<Rightarrow> ('w, unit) M" where
  "deleteIgnoringNotFound A fmt args k =
     tryE (delete_obj A k) (\<lambda>res. case res of
       Inl e \<Rightarrow> if IsNotFound e then ret () else throw (Wrapf fmt args e)
     | Inr u \<Rightarrow> ret ())"

definition deleteOperatingSystemConfig :: "'w env \<Rightarrow> 'w Reconciler \<Rightarrow> MachineDeployment \<Rightarrow> ('w, unit) M" where
  "deleteOperatingSystemConfig E r md =
     deleteIgnoringNotFound (env_api E)
       ''failed to delete OperatingSystemConfig %s: %v against MachineDeployment %w''
       [oscNameOf (md_Name md) (md_Namespace md), md_Name md] (oscKey r (md_Namespace md) (md_Name md))"

definition deleteGeneratedSecrets :: "'w env \<Rightarrow> 'w Reconciler \<Rightarrow> MachineDeployment \<Rightarrow> ('w, unit) M" where
  "deleteGeneratedSecrets E r md =
     (let ns = md_Namespace md; name = md_Name md;
          provisioning = cloudConfigKey E r ns name ProvisioningCloudConfig;
          boot = cloudConfigKey E r ns name (BootstrapCloudConfig (env_sdk E));
          kubelet = kubeletConfigKey E r ns name in
      bindE (deleteIgnoringNotFound (env_api E)
               ''failed to delete provisioning secret %s against MachineDeployment %s: %w''
               [k_name provisioning, name] provisioning) (\<lambda>_.
      bindE (deleteIgnoringNotFound (env_api E)
               ''failed to delete bootstrap secret %s against MachineDeployment %s: %w''
               [k_name boot, name] boot) (\<lambda>_.
      deleteIgnoringNotFound (env_api E)
               ''failed to delete kubelet bootstrap config secret %s against MachineDeployment %s: %w''
               [k_name kubelet, name] kubelet)))"

definition handleMachineDeploymentCleanup :: "'w env \<Rightarrow> 'w Reconciler \<Rightarrow> MachineDeployment \<Rightarrow> ('w, unit) M" where
  "handleMachineDeploymentCleanup E r md =
     bindE (deleteOperatingSystemConfig E r md) (\<lambda>_.
     bindE (deleteGeneratedSecrets E r md) (\<lambda>_.
     wrapE ''failed to remove finalizer: %w'' []
       (update_obj (env_api E) (r_workerClient r)
          (MD (md\<lparr>md_Finalizers := RemoveFinalizer (md_Finalizers md) [MachineDeploymentCleanupFinalizer]\<rparr>)))))"

section \<open>Rotation\<close>

definition inSync :: "sdk \<Rightarrow> MachineDeployment \<Rightarrow> OperatingSystemProfile \<Rightarrow> OperatingSystemConfig \<Rightarrow> bool" where
  "inSync S md osp osc \<longleftrightarrow>
     mget (md_Annotations md) (RevisionAnnotation S) = mget (osc_Annotations osc) (MachineDeploymentRevision S)
     \<and> osp_Version osp = mget (osc_Annotations osc) OperatingSystemConfigVersionAnnotation
     \<and> mget (osc_Annotations osc) OperatingSystemConfigMDHash = calculateAnnotationsHash (md_Annotations md)"

definition handleOSCAndSecretsRotation ::
    "'w env \<Rightarrow> 'w Reconciler \<Rightarrow> MachineDeployment \<Rightarrow> OperatingSystemProfile \<Rightarrow> ('w, unit) M" where
  "handleOSCAndSecretsRotation E r md osp =
     (let k = oscKey r (md_Namespace md) (md_Name md) in
      tryE (get_as (env_api E) as_OSC k) (\<lambda>res. case res of
        Inl e \<Rightarrow> if IsNotFound e then ret () else throw e
      | Inr osc \<Rightarrow>
          if inSync (env_sdk E) md osp osc then ret ()
          else bindE (wrapE ''failed to delete OperatingSystemConfig %s: %v against MachineDeployment %w''
                        [k_name k, md_Name md] (delete_obj (env_api E) k))
                 (\<lambda>_. deleteGeneratedSecrets E r md)))"

section \<open>The OperatingSystemConfig\<close>

definition edgeScript :: "string \<Rightarrow> string \<Rightarrow> string \<Rightarrow> string" where
  "edgeScript token serverURL secretName =
     ''apt-get update -y'' @ nl @ ''apt-get install jq -y'' @ nl
     @ ''curl -s -k -v --header '' @ [CHR 0x27] @ ''Authorization: Bearer '' @ token @ [CHR 0x27] @ '' ''
     @ serverURL @ ''/api/v1/namespaces/cloud-init-settings/secrets/'' @ secretName
     @ '' | jq '' @ [CHR 0x27] @ ''.data['' @ [CHR 0x22] @ ''cloud-config'' @ [CHR 0x22] @ '']'' @ [CHR 0x27]
     @ '' -r| base64 -d > /etc/cloud/cloud.cfg.d/'' @ secretName @ ''.cfg '' @ nl
     @ ''cloud-init --file /etc/cloud/cloud.cfg.d/'' @ secretName @ ''.cfg init'' @ nl
     @ ''systemctl enable bootstrap.service'' @ nl @ ''systemctl restart bootstrap.service'' @ nl"

definition edgeScriptName :: "string \<Rightarrow> string \<Rightarrow> string" where
  "edgeScriptName namespace name = ''edge-provider-script-'' @ name @ ''-'' @ namespace"

definition emptySecret :: Secret where
  "emptySecret = \<lparr>secret_meta = emptyMeta, secret_Type = [], secret_Data = [], secret_Immutable = None\<rparr>"

definition edgeSecret :: "string \<Rightarrow> string \<Rightarrow> Secret \<Rightarrow> Secret" where
  "edgeSecret name script s =
     s\<lparr>secret_meta := (secret_meta s)\<lparr>meta_Name := name, meta_Namespace := CloudInitNamespace\<rparr>,
       secret_Data := mput ''fetch-bootstrap-script'' script (secret_Data s)\<rparr>"

definition generateEdgeScript ::
    "'w env \<Rightarrow> 'w Reconciler \<Rightarrow> MachineDeployment \<Rightarrow> string \<Rightarrow> Kubeconfig \<Rightarrow> ('w, unit) M" where
  "generateEdgeScript E r md token config =
     bindE (lift (firstServer config)) (\<lambda>serverURL.
     let script = edgeScript token serverURL (md_Name md @ ''-'' @ md_Namespace md @ ''-bootstrap-config'');
         name = edgeScriptName (md_Namespace md) (md_Name md) in
     tryE (get_as (env_api E) as_SEC (Key (r_workerClient r) KSecret CloudInitNamespace name)) (\<lambda>res. case res of
       Inl e \<Rightarrow> if IsNotFound e
                then create_obj (env_api E) (r_workerClient r) (SEC (edgeSecret name script emptySecret))
                else throw (Wrapf ''failed to get %s secret in namespace %s: %w'' [name, CloudInitNamespace] e)
     | Inr s \<Rightarrow> create_obj (env_api E) (r_workerClient r) (SEC (edgeSecret name script s))))"

definition registryCredentials :: "'w env \<Rightarrow> 'w Reconciler \<Rightarrow> ('w, CRConfig) M" where
  "registryCredentials E r =
     (if r_nodeRegistryCredentialsSecret r \<noteq> []
      then bindE (wrapE ''failed to get containerd auth config: %w'' []
               (GetContainerdAuthConfig (env_api E) (r_Client r) (r_nodeRegistryCredentialsSecret r)))
             (\<lambda>creds. ret ((r_containerRuntimeConfig r)\<lparr>cr_RegistryCredentials := creds\<rparr>))
      else ret (r_containerRuntimeConfig r))"

text \<open>The annotations and the utility that the controller adds to a generated configuration.\<close>

definition completeOSC ::
    "sdk \<Rightarrow> MachineDeployment \<Rightarrow> OperatingSystemProfile \<Rightarrow> OperatingSystemConfig \<Rightarrow> OperatingSystemConfig" where
  "completeOSC S md osp osc =
     (let utility = osps_ProvisioningUtility (osp_Spec osp) in
      osc\<lparr>osc_meta := (osc_meta osc)\<lparr>meta_Annotations :=
            oscRotationAnnotations S (mget (md_Annotations md) (RevisionAnnotation S))
              (calculateAnnotationsHash (md_Annotations md)) (osp_Version osp) (osc_Annotations osc)\<rparr>,
          osc_Spec := (osc_Spec osc)\<lparr>oscs_ProvisioningUtility :=
            (if utility = [] then ProvisioningUtilityCloudInit else utility)\<rparr>\<rparr>)"

definition reconcileOperatingSystemConfigs ::
    "'w env \<Rightarrow> 'w Reconciler \<Rightarrow> MachineDeployment \<Rightarrow> OperatingSystemProfile \<Rightarrow> ('w, unit) M" where
  "reconcileOperatingSystemConfigs E r md osp =
     (let A = env_api E; L = env_libs E; S = env_sdk E; ns = md_Namespace md; name = md_Name md;
          k = oscKey r ns name; utility = osps_ProvisioningUtility (osp_Spec osp) in
      bindE (wrapE ''failed to create bootstrap kubeconfig: %w'' []
          (CreateBootstrapKubeconfig (lib_client_go L) A (env_tz E) (r_bootstrappingManager r)
             (machineDeploymentKey ns name))) (\<lambda>(kubeconfig, kubeconfigName).
      tryE (get_as A as_OSC k) (\<lambda>res. case res of Inr osc \<Rightarrow> ret () | Inl e0 \<Rightarrow>
      bindE (wrapE ''failed to determine provisioning utility: %w'' []
          (lift (GetProvisioningUtility S (osps_OSName (osp_Spec osp)) md))) (\<lambda>provisioner.
      if utility \<noteq> [] \<and> provisioner \<noteq> utility
      then throw (Errorf ''specified provisioning utility %q is not supported by the OperatingSystemProfile'' [utility])
      else
      bindE (registryCredentials E r) (\<lambda>crc.
      bindE (wrapE ''failed to fetch api-server token: %w'' [] (ExtractAPIServerToken A (r_workerClient r))) (\<lambda>token.
      bindE (wrapE ''failed to generate %s osc: %w'' [k_name k] (lift
          (GenerateOperatingSystemConfig L md osp kubeconfig kubeconfigName token (k_name k) (r_namespace r)
             (r_caCert r) (r_hostCACert r) (r_clusterDNSIPs r) (r_containerRuntime r) (r_externalCloudProvider r)
             (r_initialTaints r) (r_nodeHTTPProxy r) (r_nodeNoProxy r) crc (r_kubeletFeatureGates r)))) (\<lambda>osc.
      bindE (if cps_Name (oscs_CloudProvider (osc_Spec osc)) = ''edge''
             then wrapE ''failed to generate edge provider bootstrap script: %w'' []
                    (generateEdgeScript E r md token kubeconfig)
             else ret ()) (\<lambda>_.
      wrapE ''failed to create %s osc: %w'' [k_name k]
        (create_obj A (r_Client r) (OSC (completeOSC S md osp osc)))))))))))"

section \<open>The cloud configuration secrets\<close>

definition ensureCloudConfigSecret ::
    "'w env \<Rightarrow> 'w Reconciler \<Rightarrow> OSCConfig \<Rightarrow> ProvisioningUtility \<Rightarrow> string \<Rightarrow> OperatingSystem \<Rightarrow> CloudProvider
     \<Rightarrow> MachineDeployment \<Rightarrow> string \<Rightarrow> ('w, unit) M" where
  "ensureCloudConfigSecret E r config utility secretType operatingSystem cloudProvider md ospVersion =
     (let A = env_api E; S = env_sdk E; k = cloudConfigKey E r (md_Namespace md) (md_Name md) secretType in
      tryE (get_as A as_SEC k) (\<lambda>res. case res of Inr s \<Rightarrow> ret () | Inl e0 \<Rightarrow>
      bindE (wrapE ''failed to generate %s data with error: %w'' [secretType]
          (lift (r_generator r config utility operatingSystem cloudProvider md secretType))) (\<lambda>provisionData.
      let s = GenerateCloudConfigSecret (k_name k) (k_ns k) provisionData;
          s' = s\<lparr>secret_meta := (secret_meta s)\<lparr>meta_Annotations :=
            oscRotationAnnotations S (mget (md_Annotations md) (RevisionAnnotation S))
              (calculateAnnotationsHash (md_Annotations md)) ospVersion (meta_Annotations (secret_meta s))\<rparr>\<rparr> in
      wrapE ''failed to create %s %s secret: %w'' [k_name k, secretType]
        (create_obj A (r_workerClient r) (SEC s')))))"

definition reconcileSecrets ::
    "'w env \<Rightarrow> 'w Reconciler \<Rightarrow> MachineDeployment \<Rightarrow> OperatingSystemProfile \<Rightarrow> ('w, unit) M" where
  "reconcileSecrets E r md osp =
     (let k = oscKey r (md_Namespace md) (md_Name md) in
      bindE (wrapE ''failed to get OperatingSystemConfigs %q from namespace %q: %w'' [k_name k, r_namespace r]
          (get_as (env_api E) as_OSC k)) (\<lambda>osc.
      let spec = osc_Spec osc; provider = cps_Name (oscs_CloudProvider spec) in
      bindE (wrapE ''failed to reconcile provisioning config secret: %w'' []
          (ensureCloudConfigSecret E r (oscs_ProvisioningConfig spec) (oscs_ProvisioningUtility spec)
             ProvisioningCloudConfig (oscs_OSName spec) provider md (osp_Version osp))) (\<lambda>_.
      wrapE ''failed to reconcile bootstrapping config secret: %w'' []
          (ensureCloudConfigSecret E r (oscs_BootstrapConfig spec) (oscs_ProvisioningUtility spec)
             (BootstrapCloudConfig (env_sdk E)) (oscs_OSName spec) provider md (osp_Version osp)))))"

section \<open>Reconcile\<close>

definition reconcile :: "'w env \<Rightarrow> 'w Reconciler \<Rightarrow> MachineDeployment \<Rightarrow> ('w, unit) M" where
  "reconcile E r md =
     bindE (wrapE ''failed to fetch OperatingSystemProfile: %w'' [] (fetchOSP E r md)) (\<lambda>osp.
     bindE (wrapE ''failed to validate referenced OSP: %w'' [] (lift (checkOSP (env_sdk E) md osp))) (\<lambda>_.
     bindE (wrapE ''failed to perform rotation for OSC and secrets: %w'' []
         (handleOSCAndSecretsRotation E r md osp)) (\<lambda>_.
     bindE (wrapE ''failed to reconcile operating system config: %w'' []
         (reconcileOperatingSystemConfigs E r md osp)) (\<lambda>_.
     wrapE ''failed to reconcile secrets: %w'' [] (reconcileSecrets E r md osp)))))"

definition mdKey :: "'w Reconciler \<Rightarrow> string \<Rightarrow> string \<Rightarrow> objkey" where
  "mdKey r namespace name = Key (r_workerClient r) KMD namespace name"

definition hasCleanup :: "MachineDeployment \<Rightarrow> bool" where
  "hasCleanup md \<longleftrightarrow> HasFinalizer (md_Finalizers md) [MachineDeploymentCleanupFinalizer]"

definition withCleanup :: "MachineDeployment \<Rightarrow> MachineDeployment" where
  "withCleanup md = md\<lparr>md_Finalizers := AddFinalizer (md_Finalizers md) [MachineDeploymentCleanupFinalizer]\<rparr>"

definition Reconcile :: "'w env \<Rightarrow> 'w Reconciler \<Rightarrow> string \<times> string \<Rightarrow> ('w, unit) M" where
  "Reconcile E r req = (case req of (namespace, name) \<Rightarrow>
     tryE (get_as (env_api E) as_MD (mdKey r namespace name)) (\<lambda>res. case res of
       Inl e \<Rightarrow> if IsNotFound e then ret () else throw e
     | Inr md \<Rightarrow>
         if md_DeletionTimestamp md \<noteq> None
         then (if hasCleanup md then handleMachineDeploymentCleanup E r md else ret ())
         else if hasCleanup md then reconcile E r md
         else bindE (wrapE ''failed to add finalizer: %w'' []
                  (update_obj (env_api E) (r_workerClient r) (MD (withCleanup md))))
                (\<lambda>_. reconcile E r (withCleanup md))))"

end
