(* ===== verification/OSCContracts.thy ===== *)
theory OSCContracts
  imports OSCController
begin

text \<open>
  What the operations of the OSC controller do to the clusters, on every path: each contract is
  proved once, in the locale \<open>osc_controller\<close>, from the laws of the API servers and from how the
  program is wired. The wiring: the bootstrapping manager writes to the worker cluster and only
  reads its kubeconfig, and the SDK's constants name the namespace the repository uses and an
  annotation of their own.
\<close>

section \<open>The objects of a MachineDeployment\<close>

definition secretKeys :: "'w env \<Rightarrow> 'w Reconciler \<Rightarrow> string \<Rightarrow> string \<Rightarrow> objkey list" where
  "secretKeys E r ns n =
     [cloudConfigKey E r ns n ProvisioningCloudConfig,
      cloudConfigKey E r ns n (BootstrapCloudConfig (env_sdk E)),
      kubeletConfigKey E r ns n]"

definition ownKeys :: "'w env \<Rightarrow> 'w Reconciler \<Rightarrow> string \<Rightarrow> string \<Rightarrow> objkey list" where
  "ownKeys E r ns n = oscKey r ns n # secretKeys E r ns n"

definition scriptKey :: "'w Reconciler \<Rightarrow> string \<Rightarrow> string \<Rightarrow> objkey" where
  "scriptKey r ns n = Key (r_workerClient r) KSecret CloudInitNamespace (edgeScriptName ns n)"

text \<open>Everything but the MachineDeployment that reconciling it may touch.\<close>

definition touches :: "'w env \<Rightarrow> 'w Reconciler \<Rightarrow> string \<Rightarrow> string \<Rightarrow> objkey \<Rightarrow> bool" where
  "touches E r ns n k \<longleftrightarrow> k \<in> set (ownKeys E r ns n) \<or> system_secret (r_workerClient r) k \<or> k = scriptKey r ns n"

lemma secret_kinds [simp]: "k \<in> set (secretKeys E r ns n) \<Longrightarrow> k_kind k = KSecret"
  by (auto simp: secretKeys_def cloudConfigKey_def kubeletConfigKey_def)

lemma oscKey_kind [simp]: "k_kind (oscKey r ns n) = KOSC"
  by (simp add: oscKey_def)

lemma key_kinds [simp]:
  "k_kind (cloudConfigKey E r ns n t) = KSecret" "k_kind (kubeletConfigKey E r ns n) = KSecret"
  "k_kind (scriptKey r ns n) = KSecret" "k_kind (mdKey r ns n) = KMD"
  by (simp_all add: cloudConfigKey_def kubeletConfigKey_def scriptKey_def mdKey_def)

lemma own_not_md [simp]: "k \<in> set (ownKeys E r ns n) \<Longrightarrow> k_kind k \<noteq> KMD"
  by (auto simp: ownKeys_def)

lemma touches_not_md: "touches E r ns n k \<Longrightarrow> k_kind k \<noteq> KMD"
  by (auto simp: touches_def system_secret_def)

lemma oscKey_neq [simp]:
  "oscKey r ns n \<noteq> cloudConfigKey E r a b t" "cloudConfigKey E r a b t \<noteq> oscKey r ns n"
  "oscKey r ns n \<noteq> kubeletConfigKey E r a b" "kubeletConfigKey E r a b \<noteq> oscKey r ns n"
  "oscKey r ns n \<noteq> scriptKey r a b" "scriptKey r a b \<noteq> oscKey r ns n" "\<not> system_secret c (oscKey r ns n)"
  by (simp_all add: oscKey_def cloudConfigKey_def kubeletConfigKey_def scriptKey_def system_secret_def)

lemma touches_iff: "touches E r ns n k \<longleftrightarrow> system_secret (r_workerClient r) k \<or> k = scriptKey r ns n \<or> k = oscKey r ns n
    \<or> k = cloudConfigKey E r ns n ProvisioningCloudConfig \<or> k = cloudConfigKey E r ns n (BootstrapCloudConfig (env_sdk E))
    \<or> k = kubeletConfigKey E r ns n"
  by (auto simp: touches_def ownKeys_def secretKeys_def)

text \<open>\<open>deletes objs ks\<close>: some of the objects at \<open>ks\<close> are gone, nothing else happened.\<close>

definition deletes :: "('w \<Rightarrow> objkey \<Rightarrow> kobj option) \<Rightarrow> objkey list \<Rightarrow> 'w \<Rightarrow> 'w \<Rightarrow> bool" where
  "deletes objs ks w w' \<longleftrightarrow> (\<forall>k. objs w' k = objs w k \<or> k \<in> set ks \<and> objs w' k = None)"

lemma deletes_upd: "objs w' = objs w \<or> objs w' = (objs w)(k := None) \<Longrightarrow> k \<in> set ks \<Longrightarrow> deletes objs ks w w'"
  by (auto simp: deletes_def split: if_splits)

lemma deletes_trans: "deletes objs ks w w1 \<Longrightarrow> deletes objs ks w1 w2 \<Longrightarrow> deletes objs ks w w2"
  unfolding deletes_def by metis

lemma deletes_weaken: "deletes objs ks w w' \<Longrightarrow> set ks \<subseteq> set ks' \<Longrightarrow> deletes objs ks' w w'"
  unfolding deletes_def by blast

lemma deletes_frame: "deletes objs ks w w' \<Longrightarrow> (\<And>k. k \<in> set ks \<Longrightarrow> K k) \<Longrightarrow> frame objs K w w'"
  unfolding deletes_def frame_def by blast

definition erase :: "objkey list \<Rightarrow> (objkey \<Rightarrow> kobj option) \<Rightarrow> objkey \<Rightarrow> kobj option" where
  "erase ks os = (\<lambda>k. if k \<in> set ks then None else os k)"

lemma erase_Cons: "erase (k # ks) os = (erase ks os)(k := None)"
  by (auto simp: erase_def)

lemma deletes_erase: "objs w' = erase ks (objs w) \<Longrightarrow> deletes objs ks w w'"
  by (auto simp: deletes_def erase_def)

lemma erase3: "os(a := None, b := None, c := None) = erase [a, b, c] os"
  by (auto simp: erase_def)

lemma deletes_first: "objs w1 = (objs w)(k := None) \<Longrightarrow> k \<in> set ks \<Longrightarrow> deletes objs ks w1 w2 \<Longrightarrow> deletes objs ks w w2"
  by (rule deletes_trans [OF deletes_upd]) auto

text \<open>\<open>grows objs k\<close>: at most, an object appeared at \<open>k\<close> where there was none.\<close>

definition grows :: "('w \<Rightarrow> objkey \<Rightarrow> kobj option) \<Rightarrow> objkey \<Rightarrow> 'w \<Rightarrow> 'w \<Rightarrow> bool" where
  "grows objs k w w' \<longleftrightarrow> objs w' = objs w \<or> objs w k = None \<and> (\<exists>x. objs w' = (objs w)(k \<mapsto> x))"

lemma grows_refl [simp]: "grows objs k w w"
  by (simp add: grows_def)

section \<open>What reconciling promises\<close>

lemma meta_GenerateOSC:
  "GenerateOperatingSystemConfig L md osp kubeconfig kn token oscName ns ca hca ips cr ext taints hp np crc gates = Inr osc
    \<Longrightarrow> osc_meta osc = emptyMeta\<lparr>meta_Name := oscName, meta_Namespace := ns\<rparr>"
  by (auto simp: GenerateOperatingSystemConfig_def Let_def res_simps split: prod.splits)

text \<open>The configuration the controller makes for a deployment, whatever kubeconfig and token it used.\<close>

definition generatedOSC ::
    "'w env \<Rightarrow> 'w Reconciler \<Rightarrow> MachineDeployment \<Rightarrow> OperatingSystemProfile \<Rightarrow> OperatingSystemConfig \<Rightarrow> bool" where
  "generatedOSC E r md osp osc \<longleftrightarrow> (\<exists>kubeconfig kn token crc osc0.
     GenerateOperatingSystemConfig (env_libs E) md osp kubeconfig kn token
       (k_name (oscKey r (md_Namespace md) (md_Name md))) (r_namespace r) (r_caCert r) (r_hostCACert r)
       (r_clusterDNSIPs r) (r_containerRuntime r) (r_externalCloudProvider r) (r_initialTaints r)
       (r_nodeHTTPProxy r) (r_nodeNoProxy r) crc (r_kubeletFeatureGates r) = Inr osc0
     \<and> osc = completeOSC (env_sdk E) md osp osc0)"

text \<open>The secret that holds the cloud configuration \<open>d\<close>.\<close>

definition cloudSecret ::
    "'w env \<Rightarrow> 'w Reconciler \<Rightarrow> MachineDeployment \<Rightarrow> OperatingSystemProfile \<Rightarrow> string \<Rightarrow> string \<Rightarrow> Secret" where
  "cloudSecret E r md osp t d =
     (let k = cloudConfigKey E r (md_Namespace md) (md_Name md) t;
          s = GenerateCloudConfigSecret (k_name k) (k_ns k) d in
      s\<lparr>secret_meta := (secret_meta s)\<lparr>meta_Annotations :=
        oscRotationAnnotations (env_sdk E) (mget (md_Annotations md) (RevisionAnnotation (env_sdk E)))
          (calculateAnnotationsHash (md_Annotations md)) (osp_Version osp) (meta_Annotations (secret_meta s))\<rparr>\<rparr>)"

text \<open>The secret of type \<open>t\<close> holds what the generator makes of \<open>c\<close>, a part of the configuration.\<close>

definition issued :: "'w env \<Rightarrow> 'w Reconciler \<Rightarrow> MachineDeployment \<Rightarrow> OperatingSystemProfile \<Rightarrow>
    OperatingSystemConfig \<Rightarrow> OSCConfig \<Rightarrow> string \<Rightarrow> (objkey \<Rightarrow> kobj option) \<Rightarrow> bool" where
  "issued E r md osp osc c t os \<longleftrightarrow> (\<exists>d.
     r_generator r c (oscs_ProvisioningUtility (osc_Spec osc)) (oscs_OSName (osc_Spec osc))
       (cps_Name (oscs_CloudProvider (osc_Spec osc))) md t = Inr d
     \<and> os (cloudConfigKey E r (md_Namespace md) (md_Name md) t) = Some (SEC (cloudSecret E r md osp t d)))"

abbreviation bootKeys :: "'w env \<Rightarrow> 'w Reconciler \<Rightarrow> string \<Rightarrow> string \<Rightarrow> objkey \<Rightarrow> bool" where
  "bootKeys E r ns n k \<equiv> system_secret (r_workerClient r) k \<or> k = kubeletConfigKey E r ns n"

definition ospKey :: "'w Reconciler \<Rightarrow> MachineDeployment \<Rightarrow> objkey" where
  "ospKey r md = Key (r_Client r) KOSP
     (if mget (md_Annotations md) MachineDeploymentOSPNamespaceAnnotation = [] then r_namespace r
      else mget (md_Annotations md) MachineDeploymentOSPNamespaceAnnotation)
     (mget (md_Annotations md) MachineDeploymentOSPAnnotation)"

text \<open>What is left of the objects after rotation.\<close>

definition rotated :: "'w env \<Rightarrow> 'w Reconciler \<Rightarrow> MachineDeployment \<Rightarrow> OperatingSystemProfile
    \<Rightarrow> (objkey \<Rightarrow> kobj option) \<Rightarrow> objkey \<Rightarrow> kobj option" where
  "rotated E r md osp os = (case os (oscKey r (md_Namespace md) (md_Name md)) of
     Some (OSC osc) \<Rightarrow> if inSync (env_sdk E) md osp osc then os
                     else erase (ownKeys E r (md_Namespace md) (md_Name md)) os
   | _ \<Rightarrow> os)"

definition isEdge :: "OperatingSystemConfig \<Rightarrow> bool" where
  "isEdge osc \<longleftrightarrow> cps_Name (oscs_CloudProvider (osc_Spec osc)) = ''edge''"

text \<open>
  What a successful reconciliation promises, as a relation between the objects before and after:
  a configuration in step with the deployment and its profile (the old one if it was, else a newly
  generated one), with its secrets, those that were missing or rotated made from that configuration,
  a new script if the configuration is new and for the edge provider, and nothing else changed.
\<close>

definition synced :: "'w env \<Rightarrow> 'w Reconciler \<Rightarrow> MachineDeployment \<Rightarrow> OperatingSystemProfile
    \<Rightarrow> (objkey \<Rightarrow> kobj option) \<Rightarrow> (objkey \<Rightarrow> kobj option) \<Rightarrow> bool" where
  "synced E r md osp os os' \<longleftrightarrow>
     (let ns = md_Namespace md; n = md_Name md; old = rotated E r md osp os; boot = BootstrapCloudConfig (env_sdk E);
          pk = cloudConfigKey E r ns n ProvisioningCloudConfig; bk = cloudConfigKey E r ns n boot in
      (\<forall>k. \<not> touches E r ns n k \<longrightarrow> os' k = os k)
      \<and> (\<forall>k \<in> set (secretKeys E r ns n). os' k \<noteq> None)
      \<and> (\<exists>osc. os' (oscKey r ns n) = Some (OSC osc) \<and> inSync (env_sdk E) md osp osc
          \<and> (if old (oscKey r ns n) = None then generatedOSC E r md osp osc
             else old (oscKey r ns n) = Some (OSC osc))
          \<and> (distinct (scriptKey r ns n # secretKeys E r ns n) \<longrightarrow>
               (if old pk = None
                then issued E r md osp osc (oscs_ProvisioningConfig (osc_Spec osc)) ProvisioningCloudConfig os'
                else os' pk = old pk)
               \<and> (if old bk = None then issued E r md osp osc (oscs_BootstrapConfig (osc_Spec osc)) boot os'
                  else os' bk = old bk)
               \<and> (if old (oscKey r ns n) = None \<and> isEdge osc
                  then os (scriptKey r ns n) = None \<and> os' (scriptKey r ns n) \<noteq> None
                  else os' (scriptKey r ns n) = os (scriptKey r ns n)))))"

text \<open>The deployment once it is cleaned up.\<close>

definition unfinalized :: "MachineDeployment \<Rightarrow> MachineDeployment" where
  "unfinalized md = md\<lparr>md_Finalizers := RemoveFinalizer (md_Finalizers md) [MachineDeploymentCleanupFinalizer]\<rparr>"

text \<open>A live deployment before anything is made for it.\<close>

definition finalized :: "MachineDeployment \<Rightarrow> MachineDeployment" where
  "finalized md = (if hasCleanup md then md else withCleanup md)"

text \<open>The configuration that is there afterwards was there before, or it is made from the profile.\<close>

definition traced :: "'w env \<Rightarrow> 'w Reconciler \<Rightarrow> MachineDeployment
    \<Rightarrow> (objkey \<Rightarrow> kobj option) \<Rightarrow> (objkey \<Rightarrow> kobj option) \<Rightarrow> bool" where
  "traced E r md os os' \<longleftrightarrow> (let k = oscKey r (md_Namespace md) (md_Name md) in
     \<forall>osc. os' k = Some (OSC osc) \<longrightarrow> os k = Some (OSC osc)
       \<or> (\<exists>osp. os (ospKey r md) = Some (OSP osp) \<and> generatedOSC E r md osp osc))"

text \<open>
  One call of \<open>Reconcile\<close> for the deployment \<open>n\<close> of the namespace \<open>ns\<close>, with result \<open>x\<close>. A deployment
  that is being deleted loses its finalizer only after everything of its own has gone. A live one has
  the finalizer before anything else happens; on success everything is in step, on an error nothing
  outside the reach of the deployment has changed, and a new configuration is one made from the profile.
\<close>

definition outcome :: "'w env \<Rightarrow> 'w Reconciler \<Rightarrow> string \<Rightarrow> string
    \<Rightarrow> (objkey \<Rightarrow> kobj option) \<Rightarrow> unit res \<Rightarrow> (objkey \<Rightarrow> kobj option) \<Rightarrow> bool" where
  "outcome E r ns n os x os' \<longleftrightarrow>
     (let key = mdKey r ns n; own = ownKeys E r ns n in
      case os key of
        Some (MD md) \<Rightarrow>
          if md_DeletionTimestamp md \<noteq> None
          then if hasCleanup md
               then deletes (\<lambda>os. os) own os os' \<and> x \<noteq> Inr ()
                    \<or> os' = (erase own os)(key := stored_update (MD (unfinalized md)))
               else os' = os
          else let started = os(key \<mapsto> MD (finalized md)) in
               (case x of
                  Inl e \<Rightarrow> os' = os \<or> (\<forall>k. \<not> touches E r ns n k \<longrightarrow> os' k = started k) \<and> traced E r (finalized md) os os'
                | Inr u \<Rightarrow> \<exists>osp. os (ospKey r md) = Some (OSP osp) \<and> checkOSP (env_sdk E) (finalized md) osp = Inr ()
                           \<and> synced E r (finalized md) osp started os')
      | _ \<Rightarrow> os' = os)"

text \<open>Whatever happens, of the secrets of \<open>kube-system\<close> only the deployment's own tokens change.\<close>

definition reconciled :: "'w env \<Rightarrow> 'w Reconciler \<Rightarrow> string \<Rightarrow> string
    \<Rightarrow> (objkey \<Rightarrow> kobj option) \<Rightarrow> unit res \<Rightarrow> (objkey \<Rightarrow> kobj option) \<Rightarrow> bool" where
  "reconciled E r ns n os x os' \<longleftrightarrow>
     tokens_only (r_workerClient r) (machineDeploymentKey ns n) os os' \<and> outcome E r ns n os x os'"

section \<open>The interface\<close>

locale osc_controller =
  fixes E :: "'w env" and objs :: "'w \<Rightarrow> objkey \<Rightarrow> kobj option" and r :: "'w Reconciler"
  assumes api: "kube_api (env_api E) objs"
    and boot_client: "b_client (r_bootstrappingManager r) = r_workerClient r"
    and boot_readonly: "readonly objs (b_GetKubeconfig (r_bootstrappingManager r))"
    and sdk_namespace: "CloudInitSettingsNamespace (env_sdk E) = CloudInitNamespace"
    and sdk_revision: "MachineDeploymentRevision (env_sdk E)
      \<notin> {OperatingSystemConfigVersionAnnotation, OperatingSystemConfigMDHash}"

sublocale osc_controller \<subseteq> kube_api "env_api E" objs
  by (rule api)

context osc_controller
begin

lemma config_key_boot: "config_key (r_workerClient r) (machineDeploymentKey ns n) = kubeletConfigKey E r ns n"
  by (simp add: config_key_def kubeletConfigKey_def sdk_namespace bootstrapConfigName_def)

lemma wp_deleteIgnoring [wp_intros]:
  assumes "k_kind k \<noteq> KMD"
    and "\<And>w'. objs w' = (objs w)(k := None) \<Longrightarrow> Q (Inr ()) w'"
    and "\<And>e w'. objs w' = objs w \<or> objs w' = (objs w)(k := None) \<Longrightarrow> Q (Inl e) w'"
  shows "wp (deleteIgnoringNotFound (env_api E) fmt args k) Q w"
  unfolding deleteIgnoringNotFound_def
  by (intro wp_intros) (auto simp: assms(1) fun_upd_idem intro!: assms(2,3))

lemma wp_deleteOSC [wp_intros]:
  assumes "\<And>w'. objs w' = (objs w)(oscKey r (md_Namespace md) (md_Name md) := None) \<Longrightarrow> Q (Inr ()) w'"
    and "\<And>e w'. deletes objs [oscKey r (md_Namespace md) (md_Name md)] w w' \<Longrightarrow> Q (Inl e) w'"
  shows "wp (deleteOperatingSystemConfig E r md) Q w"
  unfolding deleteOperatingSystemConfig_def
  by (intro wp_intros) (auto intro!: assms deletes_upd)

lemma wp_deleteSecrets [wp_intros]:
  assumes ok: "\<And>w'. objs w' = erase (secretKeys E r (md_Namespace md) (md_Name md)) (objs w) \<Longrightarrow> Q (Inr ()) w'"
    and err: "\<And>e w'. deletes objs (secretKeys E r (md_Namespace md) (md_Name md)) w w' \<Longrightarrow> Q (Inl e) w'"
  shows "wp (deleteGeneratedSecrets E r md) Q w"
  unfolding deleteGeneratedSecrets_def Let_def
  apply (intro wp_intros; (simp; fail)?)
  subgoal by (rule ok) (simp add: secretKeys_def erase3)
  subgoal by (rule err, erule deletes_first, simp add: secretKeys_def, erule deletes_first, simp add: secretKeys_def,
      erule deletes_upd, simp add: secretKeys_def)
  subgoal by (rule err, erule deletes_first, simp add: secretKeys_def, erule deletes_upd, simp add: secretKeys_def)
  subgoal by (rule err, erule deletes_upd, simp add: secretKeys_def)
  done

text \<open>Cleaning up: the finalizer goes only after everything else has gone.\<close>

lemma wp_cleanup [wp_intros]:
  assumes ok: "\<And>w'. objs w' = (erase (ownKeys E r (md_Namespace md) (md_Name md)) (objs w))
        (mdKey r (md_Namespace md) (md_Name md) := stored_update (MD (unfinalized md))) \<Longrightarrow> Q (Inr ()) w'"
    and err: "\<And>e w'. deletes objs (ownKeys E r (md_Namespace md) (md_Name md)) w w' \<Longrightarrow> Q (Inl e) w'"
    and lost: "\<And>e w'. objs w' = (erase (ownKeys E r (md_Namespace md) (md_Name md)) (objs w))
        (mdKey r (md_Namespace md) (md_Name md) := stored_update (MD (unfinalized md))) \<Longrightarrow> Q (Inl e) w'"
  shows "wp (handleMachineDeploymentCleanup E r md) Q w"
proof -
  let ?ks = "secretKeys E r (md_Namespace md) (md_Name md)" and ?k = "oscKey r (md_Namespace md) (md_Name md)"
  have key: "key_of (r_workerClient r) (MD (unfinalized md)) = mdKey r (md_Namespace md) (md_Name md)"
    by (simp add: key_of_def unfinalized_def mdKey_def)
  have all: "objs w2 = erase (ownKeys E r (md_Namespace md) (md_Name md)) (objs w)"
    if "objs w1 = (objs w)(?k := None)" "objs w2 = erase ?ks (objs w1)" for w1 w2
    using that by (simp add: ownKeys_def erase_def fun_eq_iff)
  have part: "deletes objs (ownKeys E r (md_Namespace md) (md_Name md)) w w2"
    if "objs w1 = (objs w)(?k := None)" "deletes objs ?ks w1 w2" for w1 w2
    using that by (auto simp: ownKeys_def deletes_def split: if_splits)
  have first: "deletes objs (ownKeys E r (md_Namespace md) (md_Name md)) w w1" if "deletes objs [?k] w w1" for w1
    using that by (auto simp: ownKeys_def elim: deletes_weaken)
  show ?thesis
    unfolding handleMachineDeploymentCleanup_def unfinalized_def [symmetric]
    apply (intro wp_intros)
    subgoal for w1 w2 u w3 using ok [of w3] all [of w1 w2] by (simp add: key del: stored_update.simps)
    subgoal for w1 w2 e w3
      using all [of w1 w2] by (auto simp: key simp del: stored_update.simps intro: lost err deletes_erase)
    subgoal by (rule err, rule part)
    subgoal by (rule err, rule first)
    done
qed

text \<open>Rotation: an OSC that is not in step goes, with everything generated from it.\<close>

lemma wp_rotation [wp_intros]:
  assumes ok: "\<And>w'. objs w' = rotated E r md osp (objs w) \<Longrightarrow> Q (Inr ()) w'"
    and err: "\<And>e w'. deletes objs (ownKeys E r (md_Namespace md) (md_Name md)) w w' \<Longrightarrow> Q (Inl e) w'"
  shows "wp (handleOSCAndSecretsRotation E r md osp) Q w"
proof -
  let ?k = "oscKey r (md_Namespace md) (md_Name md)" and ?ks = "secretKeys E r (md_Namespace md) (md_Name md)"
  have own: "?k \<in> set (ownKeys E r (md_Namespace md) (md_Name md))" "set ?ks \<subseteq> set (ownKeys E r (md_Namespace md) (md_Name md))"
    by (auto simp: ownKeys_def)
  have all: "erase ?ks ((objs w)(?k := None)) = erase (ownKeys E r (md_Namespace md) (md_Name md)) (objs w)"
    by (auto simp: ownKeys_def erase_def)
  have early: "Q (Inl e) w'" if "objs w' = objs w \<or> objs w' = (objs w)(?k := None)" for e w'
    using that by (intro err deletes_upd [OF _ own(1)])
  have late: "Q (Inl e) w2" if "objs w1 = (objs w)(?k := None)" "deletes objs ?ks w1 w2" for e w1 w2
    by (rule err [OF deletes_first [OF that(1) own(1) deletes_weaken [OF that(2) own(2)]]])
  show ?thesis
    unfolding handleOSCAndSecretsRotation_def Let_def
    apply (intro wp_intros; (simp; fail)?)
    subgoal by (rule ok) (auto simp: rotated_def)
    subgoal by (rule early) auto
    subgoal by (rule ok) (auto simp: rotated_def)
    subgoal by (rule ok) (auto simp: rotated_def all)
    subgoal by (rule late) auto
    subgoal by (rule early) auto
    done
qed

text \<open>The profile, the registry credentials and the API server's token are only read.\<close>

lemma wp_fetchOSP [wp_intros]:
  assumes "\<And>e w'. objs w' = objs w \<Longrightarrow> Q (Inl e) w'"
    and "\<And>osp w'. objs w' = objs w \<Longrightarrow> objs w (ospKey r md) = Some (OSP osp) \<Longrightarrow> Q (Inr osp) w'"
  shows "wp (fetchOSP E r md) Q w"
  unfolding fetchOSP_def Let_def ospKey_def [symmetric]
  by (intro wp_intros) (auto intro: assms)

lemma wp_authConfig [wp_intros]:
  assumes "\<And>e w'. objs w' = objs w \<Longrightarrow> Q (Inl e) w'" and "\<And>x w'. objs w' = objs w \<Longrightarrow> Q (Inr x) w'"
  shows "wp (GetContainerdAuthConfig (env_api E) c ref) Q w"
  unfolding GetContainerdAuthConfig_def by (intro wp_intros) (auto intro: assms)

lemma wp_registryCredentials [wp_intros]:
  assumes "\<And>e w'. objs w' = objs w \<Longrightarrow> Q (Inl e) w'" and "\<And>x w'. objs w' = objs w \<Longrightarrow> Q (Inr x) w'"
  shows "wp (registryCredentials E r) Q w"
  unfolding registryCredentials_def by (intro wp_intros) (auto intro: assms)

lemma wp_serverToken [wp_intros]:
  assumes "\<And>e w'. objs w' = objs w \<Longrightarrow> Q (Inl e) w'" and "\<And>x w'. objs w' = objs w \<Longrightarrow> Q (Inr x) w'"
  shows "wp (ExtractAPIServerToken (env_api E) c) Q w"
  unfolding ExtractAPIServerToken_def by (intro wp_intros) (auto intro: assms)

text \<open>The bootstrap kubeconfig, after success, has its secret in place.\<close>

lemma wp_bootstrap [wp_intros]:
  assumes "\<And>e w'. frame objs (\<lambda>k. system_secret (r_workerClient r) k \<or> k = kubeletConfigKey E r ns n) w w' \<Longrightarrow> Q (Inl e) w'"
    and "\<And>cfg name w'. frame objs (\<lambda>k. system_secret (r_workerClient r) k \<or> k = kubeletConfigKey E r ns n) w w' \<Longrightarrow>
      objs w' (kubeletConfigKey E r ns n) \<noteq> None \<Longrightarrow> Q (Inr (cfg, name)) w'"
  shows "wp (CreateBootstrapKubeconfig G (env_api E) tz (r_bootstrappingManager r) (machineDeploymentKey ns n)) Q w"
proof (rule wp_mono [OF wp_CreateBootstrapKubeconfig [OF boot_readonly]])
  fix x w'
  assume post: "boot_post G objs (r_bootstrappingManager r) (machineDeploymentKey ns n) w x w'"
  then have "frame objs (\<lambda>k. system_secret (r_workerClient r) k \<or> k = kubeletConfigKey E r ns n) w w'"
    by (simp add: boot_post_def boot_key_def [abs_def] config_key_boot boot_client)
  moreover have "objs w' (kubeletConfigKey E r ns n) \<noteq> None" if "x = Inr (cfg, name)" for cfg name
    using post that by (auto simp: boot_post_def config_key_boot boot_client)
  ultimately show "Q x w'" using assms by (cases x) auto
qed

text \<open>The edge script only ever creates its own secret.\<close>

lemma key_edgeSecret: "key_of (r_workerClient r) (SEC (edgeSecret (edgeScriptName ns n) script s)) = scriptKey r ns n"
  by (simp add: key_of_def edgeSecret_def scriptKey_def)

lemma wp_edgeScript [wp_intros]:
  assumes "\<And>e w'. grows objs (scriptKey r (md_Namespace md) (md_Name md)) w w' \<Longrightarrow> Q (Inl e) w'"
    and "\<And>u x w'. objs w (scriptKey r (md_Namespace md) (md_Name md)) = None \<Longrightarrow>
      objs w' = (objs w)(scriptKey r (md_Namespace md) (md_Name md) \<mapsto> x) \<Longrightarrow> Q (Inr u) w'"
  shows "wp (generateEdgeScript E r md token config) Q w"
  unfolding generateEdgeScript_def Let_def scriptKey_def [symmetric]
  by (intro wp_intros) (auto simp: key_edgeSecret grows_def intro!: assms)

lemma key_completeOSC:
  assumes "osc_meta osc = emptyMeta\<lparr>meta_Name := k_name (oscKey r ns n), meta_Namespace := r_namespace r\<rparr>"
  shows "key_of (r_Client r) (OSC (completeOSC S md osp osc)) = oscKey r ns n"
  using assms by (simp add: key_of_def completeOSC_def oscKey_def Let_def)

lemma inSync_complete:
  assumes "meta_Annotations (osc_meta osc) = []"
  shows "inSync (env_sdk E) md osp (completeOSC (env_sdk E) md osp osc)"
  using sdk_revision assms
  by (auto simp: inSync_def completeOSC_def oscRotationAnnotations_def Let_def OperatingSystemConfigMDHash_def
      OperatingSystemConfigVersionAnnotation_def)

lemma not_token [simp]: "\<not> system_secret c (cloudConfigKey E r ns n t)" "\<not> system_secret c (kubeletConfigKey E r ns n)"
    "\<not> system_secret c (scriptKey r ns n)"
  by (simp_all add: system_secret_def cloudConfigKey_def kubeletConfigKey_def scriptKey_def sdk_namespace CloudInitNamespace_def)

lemma own_not_token [simp]: "k \<in> set (ownKeys E r ns n) \<Longrightarrow> \<not> system_secret c k"
  by (auto simp: ownKeys_def secretKeys_def system_secret_def oscKey_def cloudConfigKey_def kubeletConfigKey_def
      sdk_namespace CloudInitNamespace_def)

lemma made_osc:
  assumes "GenerateOperatingSystemConfig (env_libs E) md osp kubeconfig kn token
       (k_name (oscKey r (md_Namespace md) (md_Name md))) (r_namespace r) (r_caCert r) (r_hostCACert r)
       (r_clusterDNSIPs r) (r_containerRuntime r) (r_externalCloudProvider r) (r_initialTaints r)
       (r_nodeHTTPProxy r) (r_nodeNoProxy r) crc (r_kubeletFeatureGates r) = Inr osc"
  shows "key_of (r_Client r) (OSC (completeOSC (env_sdk E) md osp osc)) = oscKey r (md_Namespace md) (md_Name md)
    \<and> generatedOSC E r md osp (completeOSC (env_sdk E) md osp osc)"
  using key_completeOSC [OF meta_GenerateOSC [OF assms]] assms unfolding generatedOSC_def by blast

lemma isEdge_complete: "isEdge (completeOSC S md osp osc) \<longleftrightarrow> cps_Name (oscs_CloudProvider (osc_Spec osc)) = ''edge''"
  by (simp add: isEdge_def completeOSC_def Let_def)

lemma generatedOSC_inSync: "generatedOSC E r md osp osc \<Longrightarrow> inSync (env_sdk E) md osp osc"
  by (auto simp: generatedOSC_def meta_GenerateOSC emptyMeta_def intro!: inSync_complete)

lemma wp_reconcileOSC [wp_intros]:
  fixes md
  defines "ns \<equiv> md_Namespace md" and "n \<equiv> md_Name md"
  assumes err: "\<And>e w'. frame objs (touches E r ns n) w w' \<Longrightarrow>
      (\<And>osc. objs w' (oscKey r ns n) = Some (OSC osc) \<Longrightarrow>
        objs w (oscKey r ns n) = Some (OSC osc) \<or> generatedOSC E r md osp osc) \<Longrightarrow> Q (Inl e) w'"
    and ok: "\<And>osc w'. frame objs (\<lambda>k. bootKeys E r ns n k
        \<or> objs w (oscKey r ns n) = None \<and> (isEdge osc \<and> k = scriptKey r ns n \<or> k = oscKey r ns n)) w w' \<Longrightarrow>
      objs w (oscKey r ns n) = None \<and> isEdge osc \<and> scriptKey r ns n \<noteq> kubeletConfigKey E r ns n \<longrightarrow>
        objs w (scriptKey r ns n) = None \<and> objs w' (scriptKey r ns n) \<noteq> None \<Longrightarrow>
      objs w' (oscKey r ns n) = Some (OSC osc) \<Longrightarrow>
      (if objs w (oscKey r ns n) = None then generatedOSC E r md osp osc else objs w (oscKey r ns n) = Some (OSC osc)) \<Longrightarrow>
      objs w' (kubeletConfigKey E r ns n) \<noteq> None \<Longrightarrow> Q (Inr ()) w'"
  shows "wp (reconcileOperatingSystemConfigs E r md osp) Q w"
proof -
  let ?k = "oscKey r ns n" and ?new = "\<lambda>osc. OSC (completeOSC (env_sdk E) md osp osc)"
  note t = touches_iff [of E r ns n]
  have early: "Q (Inl e) w2" if "frame objs (bootKeys E r ns n) w w1" "objs w2 = objs w1" for e w1 w2
    using that by (intro err) (auto simp: frame_def t)
  have late: "Q (Inl e) w3" if "frame objs (\<lambda>k. bootKeys E r ns n k \<or> k = scriptKey r ns n) w w2"
      "objs w3 = objs w2 \<or> (\<exists>osc. generatedOSC E r md osp osc \<and> objs w3 = (objs w2)(?k \<mapsto> OSC osc))" for e w2 w3
    using that by (intro err) (auto simp: frame_def t)
  have edge: "frame objs (\<lambda>k. bootKeys E r ns n k \<or> k = scriptKey r ns n) w w2"
    if "frame objs (bootKeys E r ns n) w w1" "objs w1' = objs w1" "grows objs (scriptKey r ns n) w1' w2"
    for w1 w1' w2
    using that by (auto simp: frame_def grows_def)
  have edge': "frame objs (\<lambda>k. bootKeys E r ns n k \<or> k = scriptKey r ns n) w w2"
    if "frame objs (bootKeys E r ns n) w w1" "objs w2 = (objs w1')(scriptKey r ns n \<mapsto> x)" "objs w1' = objs w1"
    for w1 w1' w2 x
    using that by (auto simp: frame_def)
  have fin: "Q (Inr u) w3"
    if w1: "frame objs (bootKeys E r ns n) w w1" "objs w1' = objs w1" "objs w1 (kubeletConfigKey E r ns n) \<noteq> None"
      and w2: "if isEdge osc then objs w1' (scriptKey r ns n) = None \<and> (\<exists>x. objs w2 = (objs w1')(scriptKey r ns n \<mapsto> x))
        else objs w2 = objs w1'"
      and gen: "generatedOSC E r md osp osc" and w3: "objs w2 ?k = None" "objs w3 = (objs w2)(?k \<mapsto> OSC osc)"
    for u w1 w1' w2 w3 osc
  proof -
    have none: "objs w ?k = None"
      using w1(1,2) w2 w3(1) by (auto simp: frame_def split: if_splits)
    then have "frame objs (\<lambda>k. bootKeys E r ns n k \<or> objs w ?k = None
        \<and> (isEdge osc \<and> k = scriptKey r ns n \<or> k = ?k)) w w3"
      using w1(1,2) w2 w3 by (auto simp: frame_def split: if_splits)
    moreover have "objs w ?k = None \<and> isEdge osc \<and> scriptKey r ns n \<noteq> kubeletConfigKey E r ns n \<longrightarrow>
        objs w (scriptKey r ns n) = None \<and> objs w3 (scriptKey r ns n) \<noteq> None"
      using w1(1,2) w2 w3(2) by (auto simp: frame_def)
    moreover have "objs w3 (kubeletConfigKey E r ns n) \<noteq> None"
      using w1(2,3) w2 w3(2) by (auto split: if_splits)
    ultimately show ?thesis using ok [of osc w3] none gen w3(2) by (cases u) auto
  qed
  show ?thesis
    unfolding reconcileOperatingSystemConfigs_def Let_def ns_def [symmetric] n_def [symmetric]
    apply (intro wp_intros; (fold ns_def n_def)?)
    subgoal by (rule early) auto
    subgoal by (rule early) auto
    subgoal by (rule early) auto
    subgoal by (rule early) auto
    subgoal by (rule early) auto
    subgoal by (rule early) auto
    subgoal by (rule late [OF edge]) auto
    subgoal by (rule fin, assumption) (auto simp: ns_def n_def isEdge_complete dest: made_osc)
    subgoal by (rule late [OF edge'], assumption, assumption, simp) (auto simp: ns_def n_def dest!: made_osc)
    subgoal by (rule fin, assumption) (auto simp: ns_def n_def isEdge_complete dest: made_osc)
    subgoal by (rule late [OF edge], assumption) (auto simp: ns_def n_def dest!: made_osc)
    subgoal for cfg name w1 c kn osc x w2 by (rule ok [of osc]) (auto simp: frame_def)
    done
qed

text \<open>A cloud configuration secret that is missing is made from the generator's output.\<close>

lemma key_cloudSecret:
  "key_of (r_workerClient r) (SEC (cloudSecret E r md osp t d)) = cloudConfigKey E r (md_Namespace md) (md_Name md) t"
  by (simp add: cloudSecret_def key_of_def cloudConfigKey_def GenerateCloudConfigSecret_def Let_def)

lemma wp_ensure [wp_intros]:
  fixes md t
  defines "k \<equiv> cloudConfigKey E r (md_Namespace md) (md_Name md) t"
  assumes err: "\<And>e w'. grows objs k w w' \<Longrightarrow> Q (Inl e) w'"
    and ok: "\<And>w'. grows objs k w w' \<Longrightarrow> objs w' k \<noteq> None \<Longrightarrow>
      objs w k = None \<longrightarrow> (\<exists>d. r_generator r c u os p md t = Inr d \<and> objs w' k = Some (SEC (cloudSecret E r md osp t d))) \<Longrightarrow>
      Q (Inr ()) w'"
  shows "wp (ensureCloudConfigSecret E r c u t os p md (osp_Version osp)) Q w"
  unfolding ensureCloudConfigSecret_def Let_def cloudSecret_def [unfolded Let_def, symmetric]
  apply (intro wp_intros; fold k_def)
  subgoal by (rule err) (simp add: grows_def)
  subgoal for e w1 d u w2 using ok [of w2] by (auto simp: key_cloudSecret k_def grows_def)
  subgoal by (rule err) (auto simp: key_cloudSecret k_def grows_def)
  subgoal by (rule ok) (auto simp: grows_def)
  done

lemma wp_reconcileSecrets [wp_intros]:
  fixes md
  defines "ns \<equiv> md_Namespace md" and "n \<equiv> md_Name md" and "boot \<equiv> BootstrapCloudConfig (env_sdk E)"
  defines "pk \<equiv> cloudConfigKey E r ns n ProvisioningCloudConfig" and "bk \<equiv> cloudConfigKey E r ns n boot"
  assumes err: "\<And>e w'. frame objs (\<lambda>k. k = pk \<or> k = bk) w w' \<Longrightarrow> Q (Inl e) w'"
    and ok: "\<And>osc w'. objs w (oscKey r ns n) = Some (OSC osc) \<Longrightarrow> frame objs (\<lambda>k. k = pk \<or> k = bk) w w' \<Longrightarrow>
      objs w \<subseteq>\<^sub>m objs w' \<Longrightarrow> objs w' pk \<noteq> None \<Longrightarrow> objs w' bk \<noteq> None \<Longrightarrow>
      objs w pk = None \<longrightarrow> issued E r md osp osc (oscs_ProvisioningConfig (osc_Spec osc)) ProvisioningCloudConfig (objs w') \<Longrightarrow>
      objs w bk = None \<and> pk \<noteq> bk \<longrightarrow> issued E r md osp osc (oscs_BootstrapConfig (osc_Spec osc)) boot (objs w') \<Longrightarrow>
      Q (Inr ()) w'"
  shows "wp (reconcileSecrets E r md osp) Q w"
proof -
  have early: "Q (Inl e) w1" if "objs w1 = objs w" for e w1
    using that by (intro err) (simp add: frame_def)
  have later: "Q (Inl e) w2" if "objs w1 = objs w" "grows objs pk w1 w2" for e w1 w2
    using that by (intro err) (auto simp: frame_def grows_def)
  have latest: "Q (Inl e) w3" if "objs w1 = objs w" "grows objs pk w1 w2" "grows objs bk w2 w3" for e w1 w2 w3
    using that by (intro err) (auto simp: frame_def grows_def)
  have fin: "Q (Inr ()) w3"
    if "objs w1 = objs w" "objs w (oscKey r ns n) = Some (OSC osc)"
      and p: "grows objs pk w1 w2" "objs w2 pk \<noteq> None"
        "objs w1 pk = None \<longrightarrow> (\<exists>d. r_generator r (oscs_ProvisioningConfig (osc_Spec osc)) (oscs_ProvisioningUtility (osc_Spec osc))
          (oscs_OSName (osc_Spec osc)) (cps_Name (oscs_CloudProvider (osc_Spec osc))) md ProvisioningCloudConfig = Inr d
          \<and> objs w2 pk = Some (SEC (cloudSecret E r md osp ProvisioningCloudConfig d)))"
      and b: "grows objs bk w2 w3" "objs w3 bk \<noteq> None"
        "objs w2 bk = None \<longrightarrow> (\<exists>d. r_generator r (oscs_BootstrapConfig (osc_Spec osc)) (oscs_ProvisioningUtility (osc_Spec osc))
          (oscs_OSName (osc_Spec osc)) (cps_Name (oscs_CloudProvider (osc_Spec osc))) md boot = Inr d
          \<and> objs w3 bk = Some (SEC (cloudSecret E r md osp boot d)))"
    for osc w1 w2 w3
  proof (rule ok [OF that(2)])
    show "frame objs (\<lambda>k. k = pk \<or> k = bk) w w3"
      using that(1) p(1) b(1) by (auto simp: frame_def grows_def)
    show "objs w \<subseteq>\<^sub>m objs w3" "objs w3 pk \<noteq> None" "objs w3 bk \<noteq> None"
      using that(1) p(1,2) b(1,2) by (auto simp: map_le_def grows_def)
    show "objs w pk = None \<longrightarrow> issued E r md osp osc (oscs_ProvisioningConfig (osc_Spec osc)) ProvisioningCloudConfig (objs w3)"
      using that(1) p b(1) unfolding issued_def ns_def [symmetric] n_def [symmetric] pk_def [symmetric]
      by (auto simp: grows_def)
    show "objs w bk = None \<and> pk \<noteq> bk \<longrightarrow> issued E r md osp osc (oscs_BootstrapConfig (osc_Spec osc)) boot (objs w3)"
      using that(1) p(1) b unfolding issued_def ns_def [symmetric] n_def [symmetric] bk_def [symmetric]
      by (auto simp: grows_def)
  qed
  show ?thesis
    unfolding reconcileSecrets_def Let_def
    apply (intro wp_intros)
    subgoal by (rule early) simp
    subgoal by (rule later) (simp_all add: pk_def ns_def n_def)
    subgoal by (rule latest) (simp_all add: pk_def bk_def boot_def ns_def n_def)
    subgoal for osc x w1 w2 w3 using fin [of w1 osc w2 w3] by (simp add: pk_def bk_def boot_def ns_def n_def)
    done
qed

lemma rotated_cases:
  "rotated E r md osp os = os \<or> rotated E r md osp os = erase (ownKeys E r (md_Namespace md) (md_Name md)) os"
  by (auto simp: rotated_def split: option.split kobj.split)

lemma rotated_inSync:
  "rotated E r md osp os (oscKey r (md_Namespace md) (md_Name md)) = Some (OSC osc) \<Longrightarrow> inSync (env_sdk E) md osp osc"
  by (auto simp: rotated_def ownKeys_def erase_def split: option.splits kobj.splits if_splits)

lemma rotated_outside: "k \<notin> set (ownKeys E r (md_Namespace md) (md_Name md)) \<Longrightarrow> rotated E r md osp os k = os k"
  using rotated_cases [of md osp os] by (auto simp: erase_def)

lemma synced_intro:
  fixes md
  defines "ns \<equiv> md_Namespace md" and "n \<equiv> md_Name md" and "boot \<equiv> BootstrapCloudConfig (env_sdk E)"
  defines "pk \<equiv> cloudConfigKey E r ns n ProvisioningCloudConfig" and "bk \<equiv> cloudConfigKey E r ns n boot"
  assumes w1: "objs w1 = rotated E r md osp (objs w)"
    and fr: "frame objs (\<lambda>k. bootKeys E r ns n k
        \<or> objs w1 (oscKey r ns n) = None \<and> (isEdge osc \<and> k = scriptKey r ns n \<or> k = oscKey r ns n)) w1 w2"
    and edge: "objs w1 (oscKey r ns n) = None \<and> isEdge osc \<and> scriptKey r ns n \<noteq> kubeletConfigKey E r ns n \<longrightarrow>
        objs w1 (scriptKey r ns n) = None \<and> objs w2 (scriptKey r ns n) \<noteq> None"
    and osc: "objs w2 (oscKey r ns n) = Some (OSC osc)"
      "if objs w1 (oscKey r ns n) = None then generatedOSC E r md osp osc else objs w1 (oscKey r ns n) = Some (OSC osc)"
    and kk: "objs w2 (kubeletConfigKey E r ns n) \<noteq> None"
    and w3: "frame objs (\<lambda>k. k = pk \<or> k = bk) w2 w3" "objs w2 \<subseteq>\<^sub>m objs w3" "objs w3 pk \<noteq> None" "objs w3 bk \<noteq> None"
      "objs w2 pk = None \<longrightarrow> issued E r md osp osc (oscs_ProvisioningConfig (osc_Spec osc)) ProvisioningCloudConfig (objs w3)"
      "objs w2 bk = None \<and> pk \<noteq> bk \<longrightarrow> issued E r md osp osc (oscs_BootstrapConfig (osc_Spec osc)) boot (objs w3)"
  shows "synced E r md osp (objs w) (objs w3)"
proof -
  have same: "objs w2 k = objs w1 k" if "\<not> bootKeys E r ns n k" "k \<noteq> scriptKey r ns n" "k \<noteq> oscKey r ns n" for k
    using fr that by (auto simp: frame_def)
  have grew: "objs w3 k = objs w2 k" if "objs w2 k \<noteq> None" for k
    using w3(2) that by (auto simp: map_le_def dom_def)
  have outside: "objs w3 k = objs w k" if "\<not> touches E r ns n k" for k
    using that w3(1) same [of k] rotated_outside [of k md osp "objs w"] w1
    by (auto simp: touches_iff frame_def ns_def n_def pk_def bk_def boot_def ownKeys_def secretKeys_def)
  have sec: "objs w3 k \<noteq> None" if "k \<in> set (secretKeys E r ns n)" for k
    using that grew [of "kubeletConfigKey E r ns n"] kk w3(3,4) by (auto simp: secretKeys_def pk_def bk_def boot_def)
  have sync: "inSync (env_sdk E) md osp osc"
    using osc(2) generatedOSC_inSync rotated_inSync [of md osp "objs w" osc] w1
    by (auto simp: ns_def n_def split: if_splits)
  have pk: "if objs w1 pk = None
      then issued E r md osp osc (oscs_ProvisioningConfig (osc_Spec osc)) ProvisioningCloudConfig (objs w3)
      else objs w3 pk = objs w1 pk"
    and bk: "if objs w1 bk = None then issued E r md osp osc (oscs_BootstrapConfig (osc_Spec osc)) boot (objs w3)
      else objs w3 bk = objs w1 bk"
    if "distinct (scriptKey r ns n # secretKeys E r ns n)"
  proof -
    have "pk \<noteq> bk" "objs w2 pk = objs w1 pk" "objs w2 bk = objs w1 bk"
      using that same [of pk] same [of bk] by (auto simp: secretKeys_def pk_def bk_def boot_def)
    then show "if objs w1 pk = None
      then issued E r md osp osc (oscs_ProvisioningConfig (osc_Spec osc)) ProvisioningCloudConfig (objs w3)
      else objs w3 pk = objs w1 pk"
      "if objs w1 bk = None then issued E r md osp osc (oscs_BootstrapConfig (osc_Spec osc)) boot (objs w3)
      else objs w3 bk = objs w1 bk"
      using w3(5,6) grew [of pk] grew [of bk] by auto
  qed
  have script: "if objs w1 (oscKey r ns n) = None \<and> isEdge osc
      then objs w (scriptKey r ns n) = None \<and> objs w3 (scriptKey r ns n) \<noteq> None
      else objs w3 (scriptKey r ns n) = objs w (scriptKey r ns n)"
    if "distinct (scriptKey r ns n # secretKeys E r ns n)"
  proof -
    have "\<not> (objs w1 (oscKey r ns n) = None \<and> isEdge osc) \<Longrightarrow> objs w2 (scriptKey r ns n) = objs w1 (scriptKey r ns n)"
      and "objs w3 (scriptKey r ns n) = objs w2 (scriptKey r ns n)"
      using that fr w3(1) by (auto simp: frame_def secretKeys_def pk_def bk_def boot_def)
    moreover have "objs w1 (scriptKey r ns n) = objs w (scriptKey r ns n)"
      using that rotated_outside [of "scriptKey r ns n" md osp "objs w"] w1
      by (auto simp: ownKeys_def secretKeys_def ns_def n_def)
    ultimately show ?thesis using edge that by (auto simp: secretKeys_def)
  qed
  show ?thesis
    using outside sec sync pk bk script osc grew [of "oscKey r ns n"]
    unfolding synced_def Let_def w1 [symmetric] ns_def [symmetric] n_def [symmetric] boot_def [symmetric]
      pk_def [symmetric] bk_def [symmetric]
    by auto
qed

lemma wp_reconcile [wp_intros]:
  assumes err: "\<And>e w'. frame objs (touches E r (md_Namespace md) (md_Name md)) w w' \<Longrightarrow>
      traced E r md (objs w) (objs w') \<Longrightarrow> Q (Inl e) w'"
    and ok: "\<And>osp w'. objs w (ospKey r md) = Some (OSP osp) \<Longrightarrow> checkOSP (env_sdk E) md osp = Inr () \<Longrightarrow>
      synced E r md osp (objs w) (objs w') \<Longrightarrow> Q (Inr ()) w'"
  shows "wp (reconcile E r md) Q w"
proof -
  let ?K = "touches E r (md_Namespace md) (md_Name md)" and ?ks = "ownKeys E r (md_Namespace md) (md_Name md)"
  note t = touches_iff [of E r "md_Namespace md" "md_Name md"]
  let ?k = "oscKey r (md_Namespace md) (md_Name md)"
  have early: "Q (Inl e) w1" if "objs w1 = objs w" for e w1
    using that by (intro err) (simp_all add: frame_def traced_def Let_def)
  have rot: "frame objs ?K w w2" if "objs w1 = objs w" "objs w2 = rotated E r md osp (objs w1)" for osp w1 w2
    using that rotated_outside [of _ md osp "objs w"] by (auto simp: frame_def touches_def)
  have kept: "objs w2 ?k = Some (OSC osc) \<Longrightarrow> objs w1 ?k = Some (OSC osc)" if "objs w2 = rotated E r md osp (objs w1)" for osp osc w1 w2
    using that rotated_cases [of md osp "objs w1"] by (auto simp: erase_def split: if_splits)
  have mid: "Q (Inl e) w3" if "objs w (ospKey r md) = Some (OSP osp)" "objs w1 = objs w" "objs w2 = rotated E r md osp (objs w1)"
    "frame objs ?K w2 w3"
    "\<And>osc. objs w3 ?k = Some (OSC osc) \<Longrightarrow> objs w2 ?k = Some (OSC osc) \<or> generatedOSC E r md osp osc" for e osp w1 w2 w3
    using that(1,2) rot [OF that(2,3)] kept [OF that(3)] that(4,5) by (intro err) (auto simp: frame_def traced_def Let_def)
  show ?thesis
    unfolding reconcile_def
    apply (intro wp_intros)
    subgoal by (rule early)
    subgoal by (rule early)
    subgoal by (rule mid)
    subgoal by (rule mid) (auto simp: frame_def t split: if_splits)
    subgoal by (rule ok, assumption, simp, rule synced_intro) auto
    subgoal by (rule err, rule deletes_frame, simp add: deletes_def, simp add: touches_def)
      (auto simp: deletes_def traced_def Let_def, metis option.distinct(1))
    done
qed

lemma deletes_map: "deletes objs ks w w' \<longleftrightarrow> deletes (\<lambda>os. os) ks (objs w) (objs w')"
  by (simp add: deletes_def)

lemma finalized_simps [simp]:
  "md_meta (finalized md) = md_meta md" "md_DeletionTimestamp (finalized md) = md_DeletionTimestamp md"
  "hasCleanup (finalized md)" "md_meta (withCleanup md) = md_meta md"
  "md_DeletionTimestamp (withCleanup md) = md_DeletionTimestamp md"
  by (simp_all add: finalized_def withCleanup_def hasCleanup_def)

lemma md_at: "objs w (mdKey r ns n) = Some (MD md) \<Longrightarrow> md_Namespace md = ns \<and> md_Name md = n"
  using typed [of w "mdKey r ns n" "MD md"] by (simp add: mdKey_def key_of_def)

lemma key_md [simp]: "key_of (r_workerClient r) (MD md) = mdKey r (md_Namespace md) (md_Name md)"
  by (simp add: key_of_def mdKey_def)

lemma outcome_live:
  assumes "os (mdKey r ns n) = Some (MD md)" "md_DeletionTimestamp md = None"
  shows "outcome E r ns n os x os' \<longleftrightarrow>
      (let started = os(mdKey r ns n \<mapsto> MD (finalized md)) in
       (case x of
          Inl e \<Rightarrow> os' = os \<or> (\<forall>k. \<not> touches E r ns n k \<longrightarrow> os' k = started k) \<and> traced E r (finalized md) os os'
        | Inr u \<Rightarrow> \<exists>osp. os (ospKey r md) = Some (OSP osp) \<and> checkOSP (env_sdk E) (finalized md) osp = Inr ()
                   \<and> synced E r (finalized md) osp started os'))"
  using assms by (simp add: outcome_def Let_def)

lemma traced_started [simp]: "traced E r md (os(mdKey r ns n := y)) os' \<longleftrightarrow> traced E r md os os'"
  "traced E r md os (os'(mdKey r ns n := y)) \<longleftrightarrow> traced E r md os os'" "traced E r md os os"
  by (auto simp: traced_def Let_def mdKey_def oscKey_def ospKey_def)

text \<open>What a call does to the objects of the deployment.\<close>

lemma wp_Reconcile_outcome: "wp (Reconcile E r (ns, n)) (\<lambda>x w'. outcome E r ns n (objs w) x (objs w')) w"
proof -
  have same: "outcome E r ns n (objs w) (Inl e) (objs w')" if "objs w' = objs w" for e w'
    using that by (auto simp: outcome_def deletes_def Let_def split: option.split kobj.split)
  have osp: "ospKey r (withCleanup md) = ospKey r md" "ospKey r md \<noteq> mdKey r a b" for md a b
    by (simp_all add: ospKey_def mdKey_def)
  show ?thesis
    unfolding Reconcile_def
    apply (intro wp_intros)
    subgoal by (auto simp: outcome_def)
    subgoal by (rule same)
    subgoal for a b md using md_at [of w ns n md] by (auto simp: outcome_def Let_def)
    subgoal for a b md using md_at [of w ns n md] by (auto simp: outcome_def Let_def deletes_map)
    subgoal for a b md using md_at [of w ns n md] by (auto simp: outcome_def Let_def)
    subgoal for a b md by (auto simp: outcome_def)
    subgoal for a b md using md_at [of w ns n md] by (auto simp: outcome_live finalized_def frame_def Let_def)
    subgoal for a b md by (auto simp: outcome_live finalized_def fun_upd_idem Let_def)
    subgoal for a b md using md_at [of w ns n md] by (auto simp: outcome_live finalized_def frame_def Let_def)
    subgoal for a b md using md_at [of w ns n md] by (auto simp: outcome_live finalized_def Let_def osp)
    subgoal for a b md using md_at [of w ns n md] by (auto simp: outcome_live finalized_def Let_def)
    done
qed

section \<open>The tokens of other deployments\<close>

text \<open>
  Every operation keeps the secrets of \<open>kube-system\<close> up to the tokens of one deployment: all but
  \<open>CreateBootstrapKubeconfig\<close> do not write there at all.
\<close>

abbreviation tokens :: "string \<Rightarrow> 'w \<Rightarrow> 'w \<Rightarrow> bool" where
  "tokens name \<equiv> \<lambda>w w'. tokens_only (r_workerClient r) name (objs w) (objs w')"

lemma preorder_tokens: "preorder (tokens name)"
  unfolding preorder_def using tokens_only_trans by fastforce

lemma tokens_frame: "frame objs K w w' \<Longrightarrow> (\<And>k. K k \<Longrightarrow> \<not> system_secret (r_workerClient r) k) \<Longrightarrow> tokens name w w'"
  by (rule tokens_only_frame) (auto simp: frame_def)

lemma tokens_deletes: "deletes objs (ownKeys E r ns n) w w' \<Longrightarrow> tokens name w w'"
  by (rule tokens_frame [OF deletes_frame, where K = "\<lambda>k. k \<in> set (ownKeys E r ns n)"]) auto

lemma tokens_get: "keeps (tokens name) (get_as (env_api E) proj k)"
  unfolding keeps_def by (auto intro!: wp_get_as)

lemma tokens_create: "\<not> system_secret (r_workerClient r) (key_of c x) \<Longrightarrow> keeps (tokens name) (create_obj (env_api E) c x)"
  unfolding keeps_def by (intro allI wp_create) (auto intro!: tokens_only_frame)

lemma tokens_fetchOSP: "keeps (tokens name) (fetchOSP E r md)"
  unfolding keeps_def by (auto intro!: wp_fetchOSP)

lemma tokens_credentials: "keeps (tokens name) (registryCredentials E r)"
  unfolding keeps_def by (auto intro!: wp_registryCredentials)

lemma tokens_server: "keeps (tokens name) (ExtractAPIServerToken (env_api E) c)"
  unfolding keeps_def by (auto intro!: wp_serverToken)

lemma tokens_edge: "keeps (tokens name) (generateEdgeScript E r md token config)"
  unfolding keeps_def by (intro allI wp_edgeScript) (auto simp: grows_def intro!: tokens_only_frame)

lemma tokens_rotation: "keeps (tokens name) (handleOSCAndSecretsRotation E r md osp)"
proof -
  have "tokens name w w'" if "objs w' = rotated E r md osp (objs w)" for w w'
    using that by (intro tokens_only_frame) (auto intro: rotated_outside dest: own_not_token)
  then show ?thesis unfolding keeps_def by (intro allI wp_rotation) (auto elim: tokens_deletes)
qed

lemma tokens_secrets: "keeps (tokens name) (reconcileSecrets E r md osp)"
  unfolding keeps_def by (intro allI wp_reconcileSecrets) (auto elim!: tokens_frame)

lemma tokens_bootstrap:
  "keeps (tokens name) (CreateBootstrapKubeconfig G (env_api E) tz (r_bootstrappingManager r) name)"
  unfolding keeps_def
  by (rule allI, rule wp_mono [OF wp_CreateBootstrapKubeconfig [OF boot_readonly]]) (simp add: boot_post_def boot_client)

lemmas tokens_intros = preorder_tokens tokens_get tokens_create tokens_fetchOSP tokens_credentials tokens_server
  tokens_edge tokens_rotation tokens_secrets tokens_bootstrap

lemma tokens_reconcileOSC:
  "keeps (tokens (machineDeploymentKey (md_Namespace md) (md_Name md))) (reconcileOperatingSystemConfigs E r md osp)"
  unfolding reconcileOperatingSystemConfigs_def Let_def
  by (intro keeps_intros tokens_intros) (simp add: system_secret_def key_of_def)

lemma tokens_reconcile: "keeps (tokens (machineDeploymentKey (md_Namespace md) (md_Name md))) (reconcile E r md)"
  unfolding reconcile_def by (intro keeps_intros tokens_intros tokens_reconcileOSC)

lemma wp_Reconcile_tokens:
  "wp (Reconcile E r (ns, n)) (\<lambda>x. tokens (machineDeploymentKey ns n) w) w"
proof -
  have rec: "wp (reconcile E r md) (\<lambda>x. tokens (machineDeploymentKey ns n) w) w1"
    if "tokens (machineDeploymentKey ns n) w w1" "md_Namespace md = ns" "md_Name md = n" for md w1
    by (rule wp_mono [OF keeps_wp [OF tokens_reconcile]])
      (use that in \<open>auto intro: tokens_only_trans\<close>)
  have md: "tokens_only (r_workerClient r) name os (os(mdKey r a b := y))" for name os a b y
    by (intro tokens_only_frame) (auto simp: mdKey_def system_secret_def)
  have own: "tokens_only (r_workerClient r) name os ((erase (ownKeys E r a b) os)(mdKey r a' b' := y))"
    for name os a b a' b' y
    by (intro tokens_only_frame) (auto simp: mdKey_def system_secret_def erase_def dest: own_not_token)
  have del: "tokens_only (r_workerClient r) name (objs w) (objs w2)"
    if "deletes objs (ownKeys E r a b) w1 w2" "objs w1 = objs w" for name a b w1 w2
    using tokens_deletes [OF that(1)] that(2) by simp
  show ?thesis
    unfolding Reconcile_def
    by (intro wp_prodI wp_tryI wp_get_as wp_case_Inl wp_case_Inr wp_ifI wp_retI wp_throwI wp_cleanup wp_bindI wp_wrapI
        wp_update case_InlI case_InrI rec)
      (auto simp: md own simp del: stored_update.simps intro: del dest: md_at)
qed

text \<open>The theorem the properties of the controller rest on.\<close>

lemma wp_Reconcile: "wp (Reconcile E r (ns, n)) (\<lambda>x w'. reconciled E r ns n (objs w) x (objs w')) w"
  unfolding reconciled_def by (rule wp_conj [OF wp_Reconcile_tokens wp_Reconcile_outcome])

end

end
