(* ===== verification/Progress.thy ===== *)
theory Progress
  imports KubeAPI
begin

text \<open>
  Progress: what is certain to succeed on API servers that answer every call. \<open>suc m Q w\<close> says that
  \<open>m\<close> ends without an error, in a world of which \<open>Q\<close> holds.
\<close>

named_theorems suc_intros "proving that a program succeeds, backwards"

definition suc :: "('w, 'a) M \<Rightarrow> ('a \<Rightarrow> 'w \<Rightarrow> bool) \<Rightarrow> 'w \<Rightarrow> bool" where
  "suc m Q w \<longleftrightarrow> (\<exists>x w'. m w = (Inr x, w') \<and> Q x w')"

lemma suc_wp: "suc m Q w \<longleftrightarrow> wp m (\<lambda>r w'. \<exists>x. r = Inr x \<and> Q x w') w"
  by (auto simp: suc_def wp_def split: prod.splits)

lemma suc_ret [suc_intros]: "Q x w \<Longrightarrow> suc (ret x) Q w"
  by (simp add: suc_def ret_def)

lemma suc_bind [suc_intros]: "suc m (\<lambda>x. suc (f x) Q) w \<Longrightarrow> suc (bindE m f) Q w"
  by (auto simp: suc_def bindE_def)

lemma suc_wrap [suc_intros]: "suc m Q w \<Longrightarrow> suc (wrapE fmt args m) Q w"
  by (auto simp: suc_def wrapE_def)

lemma suc_lift: "r = Inr x \<Longrightarrow> Q x w \<Longrightarrow> suc (lift r) Q w"
  by (simp add: suc_def lift_def)

lemma suc_try [suc_intros]: "wp m (\<lambda>r. suc (h r) Q) w \<Longrightarrow> suc (tryE m h) Q w"
  by (auto simp: suc_def wp_def tryE_def split: prod.splits)

lemma suc_if [suc_intros]: "(b \<Longrightarrow> suc m Q w) \<Longrightarrow> (\<not> b \<Longrightarrow> suc m' Q w) \<Longrightarrow> suc (if b then m else m') Q w"
  by simp

lemma suc_case_Inl [suc_intros]: "suc (f e) Q w \<Longrightarrow> suc (case Inl e of Inl a \<Rightarrow> f a | Inr b \<Rightarrow> g b) Q w"
  by simp

lemma suc_case_Inr [suc_intros]: "suc (g x) Q w \<Longrightarrow> suc (case Inr x of Inl a \<Rightarrow> f a | Inr b \<Rightarrow> g b) Q w"
  by simp

lemma suc_prod [suc_intros]: "(\<And>a b. p = (a, b) \<Longrightarrow> suc (f a b) Q w) \<Longrightarrow> suc (case p of (a, b) \<Rightarrow> f a b) Q w"
  by (cases p) simp

lemma suc_mono: "suc m Q w \<Longrightarrow> (\<And>x w'. Q x w' \<Longrightarrow> Q' x w') \<Longrightarrow> suc m Q' w"
  by (auto simp: suc_def)

section \<open>Servers that answer\<close>

text \<open>
  In a \<open>calm\<close> world every call is answered truthfully and done, and the world stays calm.
\<close>

locale kube_calm = kube_api +
  fixes calm :: "'a \<Rightarrow> bool"
  assumes calm_get: "calm w \<Longrightarrow> get_obj A k w = (ro, w') \<Longrightarrow>
      calm w' \<and> (case objs w k of None \<Rightarrow> \<exists>e. ro = Inl e \<and> IsNotFound e | Some x \<Rightarrow> ro = Inr x)"
    and calm_create: "calm w \<Longrightarrow> create_obj A c x w = (ru, w') \<Longrightarrow>
      calm w' \<and> (objs w (key_of c x) = None \<longrightarrow> ru = Inr ())"
    and calm_update: "calm w \<Longrightarrow> update_obj A c x w = (ru, w') \<Longrightarrow>
      calm w' \<and> (objs w (key_of c x) \<noteq> None \<longrightarrow> ru = Inr ())"
    and calm_delete: "calm w \<Longrightarrow> delete_obj A k w = (ru, w') \<Longrightarrow>
      calm w' \<and> (if objs w k = None then \<exists>e. ru = Inl e \<and> IsNotFound e else ru = Inr ())"
begin

lemma wp_calm_get:
  assumes "calm w"
    and "\<And>e w'. calm w' \<Longrightarrow> objs w' = objs w \<Longrightarrow> objs w k = None \<Longrightarrow> IsNotFound e \<Longrightarrow> Q (Inl e) w'"
    and "\<And>x w'. calm w' \<Longrightarrow> objs w' = objs w \<Longrightarrow> objs w k = Some x \<Longrightarrow> Q (Inr x) w'"
  shows "wp (get_obj A k) Q w"
proof (rule wpI)
  fix r w'
  assume run: "get_obj A k w = (r, w')"
  with calm_get [OF assms(1) run] get_frame [OF run] show "Q r w'"
    by (auto split: option.splits intro: assms(2,3))
qed

lemma wp_calm_get_as:
  assumes "calm w" and "\<And>x. objs w k = Some x \<Longrightarrow> proj x \<noteq> None"
    and "\<And>e w'. calm w' \<Longrightarrow> objs w' = objs w \<Longrightarrow> objs w k = None \<Longrightarrow> IsNotFound e \<Longrightarrow> Q (Inl e) w'"
    and "\<And>x y w'. calm w' \<Longrightarrow> objs w' = objs w \<Longrightarrow> objs w k = Some x \<Longrightarrow> proj x = Some y \<Longrightarrow> Q (Inr y) w'"
  shows "wp (get_as A proj k) Q w"
  unfolding get_as_def wp_simps
  by (rule wp_calm_get) (use assms in \<open>auto simp: wp_simps split: option.splits\<close>)

lemma suc_get_as:
  assumes "calm w" "objs w k = Some x" "proj x = Some y" "\<And>w'. calm w' \<Longrightarrow> objs w' = objs w \<Longrightarrow> Q y w'"
  shows "suc (get_as A proj k) Q w"
  unfolding suc_wp by (rule wp_calm_get_as) (use assms in auto)

lemma suc_create:
  assumes "calm w" "objs w (key_of c x) = None"
    and "\<And>w'. calm w' \<Longrightarrow> objs w' = (objs w)(key_of c x \<mapsto> x) \<Longrightarrow> Q () w'"
  shows "suc (create_obj A c x) Q w"
proof -
  obtain r w' where run: "create_obj A c x w = (r, w')" by force
  with calm_create [OF assms(1) run] assms(2) have "create_obj A c x w = (Inr (), w')" "calm w'" by auto
  with create_ok assms(3) show ?thesis by (auto simp: suc_def)
qed

lemma suc_update:
  assumes "calm w" "objs w (key_of c x) \<noteq> None"
    and "\<And>w'. calm w' \<Longrightarrow> objs w' = (objs w)(key_of c x := stored_update x) \<Longrightarrow> Q () w'"
  shows "suc (update_obj A c x) Q w"
proof -
  obtain r w' where run: "update_obj A c x w = (r, w')" by force
  with calm_update [OF assms(1) run] assms(2) have "update_obj A c x w = (Inr (), w')" "calm w'" by auto
  with update_ok assms(3) show ?thesis by (auto simp: suc_def)
qed

lemma wp_calm_delete:
  assumes "calm w" "k_kind k \<noteq> KMD"
    and "\<And>e w'. calm w' \<Longrightarrow> objs w k = None \<Longrightarrow> IsNotFound e \<Longrightarrow> objs w' = objs w \<Longrightarrow> Q (Inl e) w'"
    and "\<And>w'. calm w' \<Longrightarrow> objs w k \<noteq> None \<Longrightarrow> objs w' = (objs w)(k := None) \<Longrightarrow> Q (Inr ()) w'"
  shows "wp (delete_obj A k) Q w"
proof (rule wpI)
  fix r w'
  assume run: "delete_obj A k w = (r, w')"
  have "wp (delete_obj A k) (\<lambda>r w'. (IsNotFound (projl r) \<longrightarrow> (\<exists>e. r = Inl e) \<longrightarrow> objs w' = objs w)
      \<and> (r = Inr () \<longrightarrow> objs w' = (objs w)(k := None))) w"
    by (rule wp_delete [OF assms(2)]) auto
  from wpD [OF this run] calm_delete [OF assms(1) run] show "Q r w'"
    by (auto split: if_splits intro: assms(3,4))
qed

lemma suc_delete:
  assumes "calm w" "k_kind k \<noteq> KMD" "objs w k \<noteq> None"
    and "\<And>w'. calm w' \<Longrightarrow> objs w' = (objs w)(k := None) \<Longrightarrow> Q () w'"
  shows "suc (delete_obj A k) Q w"
  unfolding suc_wp by (rule wp_calm_delete) (use assms in auto)

end

interpretation stp: kube_calm store_ops store_objs "\<lambda>w. s_faults w = []"
proof
  fix w w' :: store and k :: objkey and x :: kobj and c :: cluster and ro :: "kobj res" and ru :: "unit res"
  assume "s_faults w = []"
  then have q: "consume w = w" "next_fault w = NoFault" by (simp_all add: consume_def next_fault_def)
  note simps = store_ops_def faulty_def Let_def q store_objs_def
  show "get_obj store_ops k w = (ro, w') \<Longrightarrow> s_faults w' = []
      \<and> (case store_objs w k of None \<Rightarrow> \<exists>e. ro = Inl e \<and> IsNotFound e | Some x \<Rightarrow> ro = Inr x)"
    using \<open>s_faults w = []\<close> by (auto simp: simps split: option.splits)
  show "create_obj store_ops c x w = (ru, w') \<Longrightarrow> s_faults w' = [] \<and> (store_objs w (key_of c x) = None \<longrightarrow> ru = Inr ())"
    using \<open>s_faults w = []\<close> by (auto simp: simps split: if_splits)
  show "update_obj store_ops c x w = (ru, w') \<Longrightarrow> s_faults w' = [] \<and> (store_objs w (key_of c x) \<noteq> None \<longrightarrow> ru = Inr ())"
    using \<open>s_faults w = []\<close> by (auto simp: simps split: if_splits)
  show "delete_obj store_ops k w = (ru, w') \<Longrightarrow> s_faults w' = []
      \<and> (if store_objs w k = None then \<exists>e. ru = Inl e \<and> IsNotFound e else ru = Inr ())"
    using \<open>s_faults w = []\<close> by (auto simp: simps split: if_splits)
qed

end
