(* ===== verification/BootstrapProgress.thy ===== *)
theory BootstrapProgress
  imports Bootstrap Progress
begin

text \<open>
  Progress of \<open>pkg/clusterinfo\<close> and \<open>pkg/bootstrap\<close> on API servers that answer: when a kubeconfig of the
  cluster can be read from its ConfigMap, and when a bootstrap kubeconfig with the token of a service
  account is made and stored.
\<close>

text \<open>The token that \<open>firstTokenSecret\<close> is looking for, read off the objects.\<close>

fun accountToken :: "(objkey \<Rightarrow> kobj option) \<Rightarrow> cluster \<Rightarrow> string \<Rightarrow> string list \<Rightarrow> string option" where
  "accountToken os c ns [] = None"
| "accountToken os c ns (n # names) = (case os (Key c KSecret ns n) of
     Some (SEC s) \<Rightarrow>
       if secret_Type s \<noteq> ''kubernetes.io/service-account-token'' then accountToken os c ns names
       else Some (mget (secret_Data s) ''token'')
   | _ \<Rightarrow> None)"

lemma accountToken_cong:
  "(\<And>n. os' (Key c KSecret ns n) = os (Key c KSecret ns n)) \<Longrightarrow> accountToken os' c ns names = accountToken os c ns names"
  by (induction names) (auto split: option.splits kobj.splits)

context kube_calm
begin

lemma suc_firstTokenSecret:
  "calm w \<Longrightarrow> accountToken (objs w) c ns names = Some t \<Longrightarrow> (\<And>w'. calm w' \<Longrightarrow> objs w' = objs w \<Longrightarrow> Q t w')
    \<Longrightarrow> suc (firstTokenSecret A c ns names) Q w"
proof (induction names arbitrary: w)
  case (Cons n names)
  then obtain s where s: "objs w (Key c KSecret ns n) = Some (SEC s)"
    by (auto split: option.splits kobj.splits)
  show ?case
    unfolding firstTokenSecret.simps getAsUnstructured_def
    by (intro suc_intros suc_get_as [OF Cons.prems(1) s, of _ s]) (use Cons s in \<open>auto intro!: suc_ret Cons.IH split: if_splits\<close>)
qed simp

lemma suc_getTokenFromServiceAccount:
  assumes "calm w" and sa: "objs w (Key (b_client b) KServiceAccount ns n) = Some (SA sa)"
    and "accountToken (objs w) (b_client b) ns (sa_Secrets sa) = Some t"
    and "\<And>w'. calm w' \<Longrightarrow> objs w' = objs w \<Longrightarrow> Q t w'"
  shows "suc (getTokenFromServiceAccount A b (ns, n)) Q w"
proof -
  have "meta_Namespace (sa_meta sa) = ns" using typed [OF sa] by (simp add: key_of_def)
  with assms show ?thesis
    unfolding getTokenFromServiceAccount_def getAsUnstructured_def case_prod_conv
    by (intro suc_intros suc_get_as [OF assms(1) sa, of _ sa]) (auto intro!: suc_firstTokenSecret)
qed

lemma suc_GetKubeconfig:
  assumes "calm w" and cm: "objs w (Key (kp_client p) KConfigMap ''kube-public'' ''cluster-info'') = Some (CM cm)"
    and "map_of (cm_Data cm) ''kubeconfig'' = Some d" and "clientcmd_Load G d = Inr info"
    and "\<And>w'. calm w' \<Longrightarrow> objs w' = objs w \<Longrightarrow> Q info w'"
  shows "suc (GetKubeconfig G A p) Q w"
proof -
  have "suc (getKubeconfigFromConfigMap G A p) Q w"
    unfolding getKubeconfigFromConfigMap_def
    by (intro suc_intros suc_get_as [OF assms(1) cm, of _ cm]) (use assms in \<open>auto intro!: suc_lift\<close>)
  then show ?thesis
    unfolding GetKubeconfig_def by (auto simp: suc_def tryE_def ret_def)
qed

lemma suc_storeBootstrapConfig:
  assumes "calm w" and "\<And>w'. calm w' \<Longrightarrow> Q () w'"
  shows "suc (storeBootstrapConfig A b name c updated) Q w"
proof -
  have sec: "as_SEC x \<noteq> None" if "objs w (Key (b_client b) KSecret CloudInitNamespace (bootstrapConfigName name)) = Some x" for x
    using typed [OF that] by (cases x) (auto simp: key_of_def)
  have key: "key_of (b_client b) (SEC (s\<lparr>secret_Data := d\<rparr>)) = Key (b_client b) KSecret CloudInitNamespace (bootstrapConfigName name)"
    if "objs w (Key (b_client b) KSecret CloudInitNamespace (bootstrapConfigName name)) = Some (SEC s)" for s d
    using typed [OF that] by (simp add: key_of_def)
  show ?thesis
    unfolding storeBootstrapConfig_def
    by (rule suc_try, rule wp_calm_get_as [OF assms(1) sec])
      (auto intro!: suc_intros suc_create suc_update assms(2) simp: key key_config_secret config_key_def)
qed

lemma suc_CreateBootstrapKubeconfig:
  assumes "calm w" and "b_ServiceAccount b = Some (ns, n)"
    and "objs w (Key (b_client b) KServiceAccount ns n) = Some (SA sa)"
    and "accountToken (objs w) (b_client b) ns (sa_Secrets sa) = Some t"
    and info: "\<And>w1. calm w1 \<Longrightarrow> objs w1 = objs w \<Longrightarrow> suc (b_GetKubeconfig b) (\<lambda>i w'. i = info \<and> calm w') w1"
    and out: "outKubeconfig (b_overrideServer b) t info = Inr cfg" "clientcmd_Write G cfg = Inr str"
    and "\<And>w'. calm w' \<Longrightarrow> Q (cfg, bootstrapConfigName name) w'"
  shows "suc (CreateBootstrapKubeconfig G A tz b name) Q w"
proof -
  have "suc (bootstrapToken G A tz b name) (\<lambda>(tok, upd) w'. tok = t \<and> calm w' \<and> objs w' = objs w) w"
    unfolding bootstrapToken_def assms(2) option.case case_prod_conv
    by (intro suc_intros suc_getTokenFromServiceAccount [OF assms(1,3,4)]) simp
  moreover have "suc (generateKubeconfig b t) (\<lambda>c w'. c = cfg \<and> calm w') w1" if "calm w1" "objs w1 = objs w" for w1
    unfolding generateKubeconfig_def
    by (rule suc_bind, rule suc_mono [OF info [OF that]]) (auto intro: suc_lift simp: out)
  ultimately show ?thesis
    unfolding CreateBootstrapKubeconfig_def
    apply (intro suc_bind)
    apply (rule suc_mono, assumption)
    apply (clarsimp intro!: suc_bind)
    apply (rule suc_mono, assumption)
    using out(2) assms(8)
    by (auto simp: StringifyKubeconfig_def intro!: suc_bind suc_lift suc_storeBootstrapConfig suc_ret)
qed

end

end
