(* ===== verification/OSCProgress.thy ===== *)
theory OSCProgress
  imports OSCContracts BootstrapProgress
begin

text \<open>
  Progress of the OSC controller on API servers that answer every call: cleaning up always ends, and
  reconciling a live deployment succeeds once what it depends on is there.
\<close>

text \<open>The cloud configurations of an OSC can be generated.\<close>

definition generates :: "'w env \<Rightarrow> 'w Reconciler \<Rightarrow> MachineDeployment \<Rightarrow> OperatingSystemConfig \<Rightarrow> bool" where
  "generates E r md osc \<longleftrightarrow> (let spec = osc_Spec osc in
     \<forall>(c, t) \<in> {(oscs_ProvisioningConfig spec, ProvisioningCloudConfig), (oscs_BootstrapConfig spec, BootstrapCloudConfig (env_sdk E))}.
       \<exists>d. r_generator r c (oscs_ProvisioningUtility spec) (oscs_OSName spec)
             (cps_Name (oscs_CloudProvider spec)) md t = Inr d)"

text \<open>What generating from the profile \<open>osp\<close> with a kubeconfig needs to succeed.\<close>

definition renders :: "'w env \<Rightarrow> 'w Reconciler \<Rightarrow> MachineDeployment \<Rightarrow> OperatingSystemProfile
    \<Rightarrow> Kubeconfig \<Rightarrow> string \<Rightarrow> string \<Rightarrow> bool" where
  "renders E r md osp cfg kn token \<longleftrightarrow> (\<exists>osc.
     GenerateOperatingSystemConfig (env_libs E) md osp cfg kn token
       (k_name (oscKey r (md_Namespace md) (md_Name md))) (r_namespace r) (r_caCert r) (r_hostCACert r)
       (r_clusterDNSIPs r) (r_containerRuntime r) (r_externalCloudProvider r) (r_initialTaints r)
       (r_nodeHTTPProxy r) (r_nodeNoProxy r) (r_containerRuntimeConfig r) (r_kubeletFeatureGates r) = Inr osc
     \<and> cps_Name (oscs_CloudProvider (osc_Spec osc)) \<noteq> ''edge''
     \<and> generates E r md (completeOSC (env_sdk E) md osp osc))"

section \<open>The interface\<close>

locale osc_calm = osc_controller E objs r
  for E :: "'w env" and objs :: "'w \<Rightarrow> objkey \<Rightarrow> kobj option" and r :: "'w Reconciler" +
  fixes calm :: "'w \<Rightarrow> bool"
  assumes answering: "kube_calm (env_api E) objs calm"

sublocale osc_calm \<subseteq> kube_calm "env_api E" objs calm
  by (rule answering)

context osc_calm
begin

lemma proj_osc: "objs w (oscKey r ns n) = Some x \<Longrightarrow> as_OSC x \<noteq> None"
  using typed [of w "oscKey r ns n" x] by (cases x) (auto simp: key_of_def oscKey_def)

lemma proj_md: "objs w (mdKey r ns n) = Some x \<Longrightarrow> as_MD x \<noteq> None"
  using typed [of w "mdKey r ns n" x] by (cases x) (auto simp: key_of_def mdKey_def)

lemma proj_secret: "objs w (cloudConfigKey E r ns n t) = Some x \<Longrightarrow> as_SEC x \<noteq> None"
  using typed [of w "cloudConfigKey E r ns n t" x] by (cases x) (auto simp: key_of_def cloudConfigKey_def)

lemma suc_deleteIgnoring [suc_intros]:
  assumes "calm w" "k_kind k \<noteq> KMD" "\<And>w'. calm w' \<Longrightarrow> objs w' = (objs w)(k := None) \<Longrightarrow> Q () w'"
  shows "suc (deleteIgnoringNotFound (env_api E) fmt args k) Q w"
  unfolding deleteIgnoringNotFound_def
  by (intro suc_intros, rule wp_calm_delete) (use assms in \<open>auto intro!: suc_intros simp: fun_upd_idem\<close>)

lemma suc_deleteSecrets [suc_intros]:
  assumes "calm w"
    and "\<And>w'. calm w' \<Longrightarrow> objs w' = erase (secretKeys E r (md_Namespace md) (md_Name md)) (objs w) \<Longrightarrow> Q () w'"
  shows "suc (deleteGeneratedSecrets E r md) Q w"
  unfolding deleteGeneratedSecrets_def Let_def
  by (intro suc_intros) (use assms in \<open>auto simp: secretKeys_def erase3\<close>)

lemma suc_cleanup:
  assumes "calm w" and md: "objs w (mdKey r (md_Namespace md) (md_Name md)) \<noteq> None"
  shows "suc (handleMachineDeploymentCleanup E r md) (\<lambda>_ w'. True) w"
proof -
  have key: "key_of (r_workerClient r) (MD (md\<lparr>md_Finalizers := fs\<rparr>)) = mdKey r (md_Namespace md) (md_Name md)" for fs
    by (simp add: key_of_def mdKey_def)
  have "mdKey r (md_Namespace md) (md_Name md) \<notin> set (secretKeys E r (md_Namespace md) (md_Name md))"
    "mdKey r (md_Namespace md) (md_Name md) \<noteq> oscKey r (md_Namespace md) (md_Name md)"
    by (auto dest!: secret_kinds) (simp add: mdKey_def oscKey_def)
  then show ?thesis
    unfolding handleMachineDeploymentCleanup_def deleteOperatingSystemConfig_def
    by (intro suc_intros suc_update) (use assms in \<open>auto simp: key erase_def\<close>)
qed

lemma suc_fetchOSP [suc_intros]:
  assumes "calm w" "objs w (ospKey r md) = Some (OSP osp)"
    and "\<And>w'. calm w' \<Longrightarrow> objs w' = objs w \<Longrightarrow> Q osp w'"
  shows "suc (fetchOSP E r md) Q w"
  unfolding fetchOSP_def Let_def ospKey_def [symmetric]
  by (intro suc_intros, rule wp_calm_get_as) (use assms in \<open>auto intro!: suc_intros\<close>)

lemma suc_rotation [suc_intros]:
  assumes "calm w" and ok: "\<And>w'. calm w' \<Longrightarrow> objs w' = rotated E r md osp (objs w) \<Longrightarrow> Q () w'"
  shows "suc (handleOSCAndSecretsRotation E r md osp) Q w"
proof -
  have all: "erase (secretKeys E r (md_Namespace md) (md_Name md)) ((objs w)(oscKey r (md_Namespace md) (md_Name md) := None))
      = erase (ownKeys E r (md_Namespace md) (md_Name md)) (objs w)"
    by (auto simp: ownKeys_def erase_def)
  show ?thesis
    unfolding handleOSCAndSecretsRotation_def Let_def
    apply (intro suc_intros, rule wp_calm_get_as [OF assms(1) proj_osc], assumption)
    subgoal by (auto intro!: suc_intros ok simp: rotated_def)
    subgoal for x osc w1
      by (intro suc_intros suc_delete) (auto intro: ok simp: rotated_def all)
    done
qed

lemma suc_ensure [suc_intros]:
  assumes "calm w" and "r_generator r c u os p md t = Inr d"
    and ok: "\<And>w'. calm w' \<Longrightarrow> grows objs (cloudConfigKey E r (md_Namespace md) (md_Name md) t) w w' \<Longrightarrow> Q () w'"
  shows "suc (ensureCloudConfigSecret E r c u t os p md (osp_Version osp)) Q w"
proof -
  let ?k = "cloudConfigKey E r (md_Namespace md) (md_Name md) t"
  show ?thesis
    unfolding ensureCloudConfigSecret_def Let_def cloudSecret_def [unfolded Let_def, symmetric]
    apply (intro suc_intros, rule wp_calm_get_as [OF assms(1) proj_secret], assumption)
    subgoal for e w1
      by (intro suc_intros suc_lift [OF assms(2)] suc_create) (auto intro!: ok simp: key_cloudSecret grows_def)
    subgoal by (auto intro!: suc_intros ok simp: grows_def)
    done
qed

lemma suc_serverToken:
  assumes "calm w" "objs w (Key c KSecret CloudInitNamespace ''cloud-init-getter-token'') = Some (SEC s)"
    "map_of (secret_Data s) ''token'' = Some t" "\<And>w'. calm w' \<Longrightarrow> objs w' = objs w \<Longrightarrow> Q t w'"
  shows "suc (ExtractAPIServerToken (env_api E) c) Q w"
  unfolding ExtractAPIServerToken_def
  by (intro suc_intros suc_get_as [OF assms(1,2)]) (use assms(3,4) in \<open>auto intro!: suc_intros\<close>)

lemma suc_reconcileOSC:
  fixes md
  defines "ns \<equiv> md_Namespace md" and "n \<equiv> md_Name md"
  assumes boot: "suc (CreateBootstrapKubeconfig (lib_client_go (env_libs E)) (env_api E) (env_tz E)
        (r_bootstrappingManager r) (machineDeploymentKey ns n))
      (\<lambda>(cfg, kn) w'. calm w' \<and> renders E r md osp cfg kn token) w"
    and token: "objs w (Key (r_workerClient r) KSecret CloudInitNamespace ''cloud-init-getter-token'') = Some (SEC s)"
      "map_of (secret_Data s) ''token'' = Some token"
      "bootstrapConfigName (machineDeploymentKey ns n) \<noteq> ''cloud-init-getter-token''"
    and utility: "GetProvisioningUtility (env_sdk E) (osps_OSName (osp_Spec osp)) md = Inr p"
      "osps_ProvisioningUtility (osp_Spec osp) \<in> {[], p}"
    and creds: "r_nodeRegistryCredentialsSecret r = []"
    and old: "\<And>osc. objs w (oscKey r ns n) = Some (OSC osc) \<Longrightarrow> generates E r md osc"
    and ok: "\<And>osc w'. calm w' \<Longrightarrow> objs w' (oscKey r ns n) = Some (OSC osc) \<Longrightarrow> generates E r md osc \<Longrightarrow> Q () w'"
  shows "suc (reconcileOperatingSystemConfigs E r md osp) Q w"
proof -
  have "wp (CreateBootstrapKubeconfig (lib_client_go (env_libs E)) (env_api E) (env_tz E)
        (r_bootstrappingManager r) (machineDeploymentKey ns n)) (\<lambda>x w'. frame objs (bootKeys E r ns n) w w') w"
    by (rule wp_bootstrap) auto
  with boot have boot': "suc (CreateBootstrapKubeconfig (lib_client_go (env_libs E)) (env_api E) (env_tz E)
        (r_bootstrappingManager r) (machineDeploymentKey ns n))
      (\<lambda>(cfg, kn) w'. calm w' \<and> renders E r md osp cfg kn token \<and> frame objs (bootKeys E r ns n) w w') w"
    by (auto simp: suc_def wp_def)
  have fin: "suc (bindE (registryCredentials E r) (\<lambda>crc.
      bindE (wrapE f1 a1 (ExtractAPIServerToken (env_api E) (r_workerClient r))) (\<lambda>token.
      bindE (wrapE f2 a2 (lift
          (GenerateOperatingSystemConfig (env_libs E) md osp cfg kn token (k_name (oscKey r ns n)) (r_namespace r)
             (r_caCert r) (r_hostCACert r) (r_clusterDNSIPs r) (r_containerRuntime r) (r_externalCloudProvider r)
             (r_initialTaints r) (r_nodeHTTPProxy r) (r_nodeNoProxy r) crc (r_kubeletFeatureGates r)))) (\<lambda>osc.
      bindE (if cps_Name (oscs_CloudProvider (osc_Spec osc)) = ''edge''
             then wrapE f3 a3 (generateEdgeScript E r md token cfg) else ret ()) (\<lambda>_.
      wrapE f4 a4 (create_obj (env_api E) (r_Client r) (OSC (completeOSC (env_sdk E) md osp osc)))))))) Q w2"
    if w1: "renders E r md osp cfg kn token" "frame objs (bootKeys E r ns n) w w1"
      and w2: "calm w2" "objs w2 = objs w1" "objs w1 (oscKey r ns n) = None"
    for cfg kn w1 w2 f1 a1 f2 a2 f3 a3 f4 a4
  proof -
    obtain osc where osc: "GenerateOperatingSystemConfig (env_libs E) md osp cfg kn token
       (k_name (oscKey r ns n)) (r_namespace r) (r_caCert r) (r_hostCACert r)
       (r_clusterDNSIPs r) (r_containerRuntime r) (r_externalCloudProvider r) (r_initialTaints r)
       (r_nodeHTTPProxy r) (r_nodeNoProxy r) (r_containerRuntimeConfig r) (r_kubeletFeatureGates r) = Inr osc"
      "cps_Name (oscs_CloudProvider (osc_Spec osc)) \<noteq> ''edge''" "generates E r md (completeOSC (env_sdk E) md osp osc)"
      using w1(1) unfolding renders_def ns_def n_def by blast
    have "Key (r_workerClient r) KSecret CloudInitNamespace ''cloud-init-getter-token'' \<noteq> kubeletConfigKey E r ns n"
      using token(3) by (auto simp: kubeletConfigKey_def bootstrapConfigName_def)
    moreover have "\<not> system_secret (r_workerClient r) (Key (r_workerClient r) KSecret CloudInitNamespace ''cloud-init-getter-token'')"
      by (simp add: system_secret_def CloudInitNamespace_def)
    ultimately have t: "objs w2 (Key (r_workerClient r) KSecret CloudInitNamespace ''cloud-init-getter-token'') = Some (SEC s)"
      using w1(2) w2(2) token(1) by (simp add: frame_def)
    show ?thesis
      apply (intro suc_intros)
      apply (simp add: registryCredentials_def creds)
      apply (intro suc_intros suc_serverToken [OF w2(1) t token(2)] suc_lift [OF osc(1)])
      apply (simp add: osc(2))
      apply (intro suc_intros suc_create)
      using made_osc [OF osc(1) [unfolded ns_def n_def]] osc(3) w2
      by (auto simp: ns_def n_def intro: ok)
  qed
  show ?thesis
    unfolding reconcileOperatingSystemConfigs_def Let_def ns_def [symmetric] n_def [symmetric]
    apply (intro suc_intros suc_mono [OF boot'])
    subgoal for x w1 cfg kn
      apply (simp, elim conjE)
      apply (rule wp_calm_get_as [OF _ proj_osc], assumption, assumption)
      subgoal for e w2
        apply (rule suc_case_Inl, rule suc_bind, rule suc_wrap, rule suc_lift [OF utility(1)])
        apply (subst if_not_P, use utility(2) in blast)
        by (rule fin) auto
      subgoal for y osc w2 by (auto intro!: suc_intros ok old simp: frame_def)
      done
    done
qed

lemma suc_reconcileSecrets:
  assumes "calm w" "objs w (oscKey r (md_Namespace md) (md_Name md)) = Some (OSC osc)" "generates E r md osc"
  shows "suc (reconcileSecrets E r md osp) (\<lambda>_ w'. True) w"
proof -
  obtain d1 d2 where d: "r_generator r (oscs_ProvisioningConfig (osc_Spec osc)) (oscs_ProvisioningUtility (osc_Spec osc))
        (oscs_OSName (osc_Spec osc)) (cps_Name (oscs_CloudProvider (osc_Spec osc))) md ProvisioningCloudConfig = Inr d1"
    "r_generator r (oscs_BootstrapConfig (osc_Spec osc)) (oscs_ProvisioningUtility (osc_Spec osc))
        (oscs_OSName (osc_Spec osc)) (cps_Name (oscs_CloudProvider (osc_Spec osc))) md (BootstrapCloudConfig (env_sdk E)) = Inr d2"
    using assms(3) by (auto simp: generates_def Let_def)
  show ?thesis
    unfolding reconcileSecrets_def Let_def
    by (intro suc_intros suc_get_as [OF assms(1,2)]) (auto intro!: suc_intros d)
qed

text \<open>A live deployment is reconciled once everything it depends on is there.\<close>

lemma suc_reconcile:
  fixes md
  defines "ns \<equiv> md_Namespace md" and "n \<equiv> md_Name md"
  assumes "calm w" and osp: "objs w (ospKey r md) = Some (OSP osp)" "checkOSP (env_sdk E) md osp = Inr ()"
    and boot: "\<And>w1. calm w1 \<Longrightarrow> (\<And>k. k \<notin> set (ownKeys E r ns n) \<Longrightarrow> objs w1 k = objs w k) \<Longrightarrow>
      suc (CreateBootstrapKubeconfig (lib_client_go (env_libs E)) (env_api E) (env_tz E)
        (r_bootstrappingManager r) (machineDeploymentKey ns n))
      (\<lambda>(cfg, kn) w'. calm w' \<and> renders E r md osp cfg kn token) w1"
    and token: "objs w (Key (r_workerClient r) KSecret CloudInitNamespace ''cloud-init-getter-token'') = Some (SEC s)"
      "map_of (secret_Data s) ''token'' = Some token"
      "Key (r_workerClient r) KSecret CloudInitNamespace ''cloud-init-getter-token'' \<notin> set (ownKeys E r ns n)"
    and utility: "GetProvisioningUtility (env_sdk E) (osps_OSName (osp_Spec osp)) md = Inr p"
      "osps_ProvisioningUtility (osp_Spec osp) \<in> {[], p}"
    and creds: "r_nodeRegistryCredentialsSecret r = []"
    and old: "\<And>osc. objs w (oscKey r ns n) = Some (OSC osc) \<Longrightarrow> generates E r md osc"
  shows "suc (reconcile E r md) (\<lambda>_ w'. True) w"
proof -
  have name: "bootstrapConfigName (machineDeploymentKey ns n) \<noteq> ''cloud-init-getter-token''"
    using token(3) by (auto simp: ownKeys_def secretKeys_def kubeletConfigKey_def bootstrapConfigName_def sdk_namespace)
  have rot: "objs w1 k = objs w k" if "objs w1 = rotated E r md osp (objs w)" "k \<notin> set (ownKeys E r ns n)" for w1 k
    using that rotated_outside [of k md osp "objs w"] by (simp add: ns_def n_def)
  have kept: "generates E r md osc" if "objs w1 = rotated E r md osp (objs w)" "objs w1 (oscKey r ns n) = Some (OSC osc)" for w1 osc
    using that rotated_cases [of md osp "objs w"] by (auto intro!: old simp: erase_def split: if_splits)
  show ?thesis
    unfolding reconcile_def
    apply (intro suc_intros, rule \<open>calm w\<close>, rule osp)
    apply (intro suc_intros suc_lift [OF osp(2)], assumption)
    subgoal premises prems for w0 w1
    proof -
      have "calm w1" and w1': "objs w1 = rotated E r md osp (objs w)" using prems by simp_all
      show ?thesis
      proof (rule suc_reconcileOSC [OF _ _ token(2) _ utility creds])
        show "suc (CreateBootstrapKubeconfig (lib_client_go (env_libs E)) (env_api E) (env_tz E)
            (r_bootstrappingManager r) (machineDeploymentKey (md_Namespace md) (md_Name md)))
          (\<lambda>(cfg, kn) w'. calm w' \<and> renders E r md osp cfg kn token) w1"
          using boot [OF \<open>calm w1\<close> rot [OF w1']] by (simp add: ns_def n_def)
        show "objs w1 (Key (r_workerClient r) KSecret CloudInitNamespace ''cloud-init-getter-token'') = Some (SEC s)"
          using rot [OF w1' token(3)] token(1) by simp
      qed (use name kept [OF w1'] in \<open>auto simp: ns_def n_def intro!: suc_wrap intro: suc_reconcileSecrets\<close>)
    qed
    done
qed

lemma suc_Reconcile:
  assumes "calm w" and md: "objs w (mdKey r ns n) = Some (MD md)"
    and live: "md_DeletionTimestamp md = None \<Longrightarrow>
      (\<And>w1. calm w1 \<Longrightarrow> objs w1 = (objs w)(mdKey r ns n \<mapsto> MD (finalized md)) \<Longrightarrow>
        suc (reconcile E r (finalized md)) (\<lambda>_ w'. True) w1)"
  shows "suc (Reconcile E r (ns, n)) (\<lambda>_ w'. True) w"
proof -
  have started: "suc (reconcile E r md) (\<lambda>_ w'. True) w1"
    if "hasCleanup md" "md_DeletionTimestamp md = None" "calm w1" "objs w1 = objs w" for w1
    using live [of w1] that md by (simp add: finalized_def fun_upd_idem)
  have added: "suc (reconcile E r (withCleanup md)) (\<lambda>_ w'. True) w1"
    if "\<not> hasCleanup md" "md_DeletionTimestamp md = None" "calm w1"
      "objs w1 = (objs w)(mdKey r ns n \<mapsto> MD (withCleanup md))" for w1
    using live [of w1] that by (simp add: finalized_def)
  note at = md_at [OF md]
  show ?thesis
    unfolding Reconcile_def
    apply (intro suc_intros)
    apply (rule wp_calm_get_as [OF assms(1)], erule proj_md)
    subgoal using md by auto
    subgoal for a b x md' w1
      using md at by (auto intro!: suc_intros suc_cleanup suc_update intro: started added)
    done
qed

end

end
