(* ===== verification/OSCDemo.thy ===== *)
theory OSCDemo
  imports OSCProgress
begin

text \<open>
  A management and worker cluster in one, with a deployment, its profile, and what the bootstrapping
  needs: the world in which the properties of the controller are exercised.
\<close>

definition demo_kubeconfig :: Kubeconfig where
  "demo_kubeconfig = \<lparr>kc_Clusters = [(''c0'', Some \<lparr>cl_Server = ''https://k'', cl_CertificateAuthorityData = ''ca''\<rparr>)],
     kc_AuthInfos = [], kc_Contexts = [], kc_CurrentContext = []\<rparr>"

definition demo_client_go :: client_go where
  "demo_client_go = \<lparr>clientcmd_Load = (\<lambda>s. Inr demo_kubeconfig), clientcmd_Write = (\<lambda>c. Inr ''kubeconfig''),
     labels_NewRequirement = (\<lambda>k v. Inr ())\<rparr>"

definition demo_templates :: engine where
  "demo_templates = \<lparr>te_Parse = (\<lambda>n ts t. Inr ()), te_Execute = (\<lambda>n ts d. Inr (fd_KubeVersion d)), te_range = id\<rparr>"

definition demo_libs :: libs where
  "demo_libs = \<lparr>lib_sdk = demo_sdk, lib_client_go = demo_client_go, lib_resolver = demo_resolver,
     lib_verlib = demo_verlib, lib_toml = demo_toml, lib_engine = demo_templates\<rparr>"

definition demo_env :: "store env" where
  "demo_env = \<lparr>env_api = store_ops, env_libs = demo_libs, env_tz = 0\<rparr>"

definition demo_manager :: "store Bootstrap" where
  "demo_manager = \<lparr>b_ServiceAccount = Some (''kube-system'', ''osm''), b_overrideServer = [],
     b_GetKubeconfig = ret demo_kubeconfig, b_client = Management\<rparr>"

definition demo_cr :: CRConfig where
  "demo_cr = \<lparr>cr_InsecureRegistries = [], cr_RegistryMirrors = [], cr_RegistryCredentials = [],
     cr_SandboxImage = [], cr_ContainerLogMaxFiles = [], cr_ContainerLogMaxSize = [],
     cr_ContainerdVersion = [], cr_DeviceOwnership = False\<rparr>"

definition demo_reconciler :: "store Reconciler" where
  "demo_reconciler = \<lparr>r_Client = Management, r_workerClient = Management, r_bootstrappingManager = demo_manager,
     r_namespace = ''kube-system'', r_containerRuntime = ''containerd'', r_externalCloudProvider = False,
     r_initialTaints = [], r_generator = Generate demo_sdk demo_transpiler, r_clusterDNSIPs = [],
     r_caCert = ''ca'', r_hostCACert = [], r_nodeHTTPProxy = [], r_nodeNoProxy = [],
     r_nodeRegistryCredentialsSecret = [], r_containerRuntimeConfig = demo_cr, r_kubeletFeatureGates = []\<rparr>"

definition demo_secret :: "string \<Rightarrow> string \<Rightarrow> string \<Rightarrow> strmap \<Rightarrow> Secret" where
  "demo_secret ns n t d = \<lparr>secret_meta = emptyMeta\<lparr>meta_Name := n, meta_Namespace := ns\<rparr>, secret_Type = t,
     secret_Data = d, secret_Immutable = None\<rparr>"

definition demo_osp_config :: OSPConfig where
  "demo_osp_config = \<lparr>ospc_SupportedContainerRuntimes = [], ospc_Templates = [], ospc_Units = [],
     ospc_Files = [demo_file], ospc_CloudInitModules = None\<rparr>"

definition demo_osp :: OperatingSystemProfile where
  "demo_osp = \<lparr>osp_meta = emptyMeta\<lparr>meta_Name := ''osp'', meta_Namespace := ''kube-system''\<rparr>,
     osp_Spec = \<lparr>osps_OSName = ''ubuntu'', osps_OSVersion = ''22'', osps_Version = ''v1.0.0'',
       osps_SupportedCloudProviders = [\<lparr>cps_Name = ''hetzner'', cps_Spec = None\<rparr>, \<lparr>cps_Name = ''edge'', cps_Spec = None\<rparr>],
       osps_BootstrapConfig = demo_osp_config, osps_ProvisioningConfig = demo_osp_config,
       osps_ProvisioningUtility = ''cloud-init''\<rparr>\<rparr>"

lemma demo_controller: "osc_controller demo_env store_objs demo_reconciler"
proof (rule osc_controller.intro)
  show "kube_api (env_api demo_env) store_objs"
    by (simp add: demo_env_def st.kube_api_axioms)
  show "readonly store_objs (b_GetKubeconfig (r_bootstrappingManager demo_reconciler))"
    by (simp add: demo_reconciler_def demo_manager_def readonly_def keeps_def wp_simps)
qed (simp_all add: demo_env_def demo_libs_def demo_sdk_def demo_reconciler_def demo_manager_def
    CloudInitNamespace_def OperatingSystemConfigVersionAnnotation_def OperatingSystemConfigMDHash_def)

lemma demo_calm: "osc_calm demo_env store_objs demo_reconciler (\<lambda>w. s_faults w = [])"
  using demo_controller
  by (simp add: osc_calm_def osc_calm_axioms_def demo_env_def stp.kube_calm_axioms)

interpretation demo: osc_calm demo_env store_objs demo_reconciler "\<lambda>w. s_faults w = []"
  by (rule demo_calm)

lemma demo_md_simps: "md_meta (demo_md p os) = emptyMeta\<lparr>meta_Name := ''md'', meta_Namespace := ''kube-system'',
       meta_Annotations := [(''k8c.io/operating-system-profile'', ''osp'')]\<rparr>"
  "md_Finalizers (demo_md p os) = []" "md_DeletionTimestamp (demo_md p os) = None"
  "md_ProviderSpecValue (demo_md p os) = Some (Some (demo_raw p os))"  "md_Kubelet (demo_md p os) = ''1.30.0''"
  by (simp_all add: demo_md_def)

definition demo_final :: MachineDeployment where
  "demo_final = finalized (demo_md ''hetzner'' ''ubuntu'')"

lemma demo_final_simps [simp]: "md_meta demo_final = emptyMeta\<lparr>meta_Name := ''md'', meta_Namespace := ''kube-system'',
       meta_Annotations := [(''k8c.io/operating-system-profile'', ''osp'')]\<rparr>"
  "md_DeletionTimestamp demo_final = None"
  "md_ProviderSpecValue demo_final = Some (Some (demo_raw ''hetzner'' ''ubuntu''))" "md_Kubelet demo_final = ''1.30.0''"
  by (simp_all add: demo_final_def demo_md_simps finalized_def withCleanup_def)

lemma demo_parse: "parseProviderConfig demo_sdk demo_final = Inr (demo_pc ''hetzner'' ''ubuntu'')"
  by (simp add: parseProviderConfig_def demo_unmarshal orDefault_def) (simp add: demo_raw_def)

lemma demo_kubelet: "getKubeletConfigs demo_sdk [(''k8c.io/operating-system-profile'', ''osp'')] = Inr emptyKubeletConfig"
proof -
  have "getKubeletConfigMap demo_sdk [(''k8c.io/operating-system-profile'', ''osp'')] = []" by code_simp
  then show ?thesis by (simp add: getKubeletConfigs_def)
qed

definition demo_hosts :: strmap where
  "demo_hosts = projr (RegistryHostConfigs demo_toml (Engine demo_cr))"

lemma demo_runtime: "prepareContainerRuntimeConfig demo_libs demo_final demo_cr = Inr ([], [], demo_hosts)"
proof -
  have "isOk (RegistryHostConfigs demo_toml (Engine demo_cr))" by code_simp
  then have "RegistryHostConfigs demo_toml (Engine demo_cr) = Inr demo_hosts"
    by (auto simp: isOk_iff demo_hosts_def)
  moreover have "Engine (demo_cr\<lparr>cr_ContainerLogMaxSize := x, cr_ContainerLogMaxFiles := y\<rparr>) = Engine demo_cr" for x y
    by (simp add: Engine_def)
  moreover have "cr_ContainerLogMaxSize demo_cr = []" "cr_ContainerLogMaxFiles demo_cr = []" "toml_Config demo_toml m = Inr []" for m
    by (simp_all add: demo_cr_def demo_toml_def)
  ultimately show ?thesis
    by (simp add: prepareContainerRuntimeConfig_def demo_libs_def demo_kubelet emptyMeta_def Let_def nonEmptyOr_def
        emptyKubeletConfig_def Config_of_def AuthConfig_of_def)
qed

definition demo_files :: "File list" where
  "demo_files = [demo_file\<lparr>file_Inline := Some \<lparr>inl_Encoding = base64Encoding, inl_Data = ''v1.30.0''\<rparr>\<rparr>]"

definition demo_rendered :: "string \<Rightarrow> OperatingSystemConfig" where
  "demo_rendered name = \<lparr>osc_meta = emptyMeta\<lparr>meta_Name := name, meta_Namespace := ''kube-system''\<rparr>,
     osc_Spec = buildOSCSpec demo_osp demo_osp (demo_pc ''hetzner'' ''ubuntu'') demo_files
       (if demo_hosts = [] then demo_files else injectRegistryHostConfigs demo_files demo_hosts)\<rparr>"

lemma demo_ubuntu: "ubuntu_LoadConfig None = Inr emptyDist"
  by (simp add: load_simps default_json emptyDist_def)

lemma demo_lib_simps [simp]: "lib_sdk demo_libs = demo_sdk" "lib_client_go demo_libs = demo_client_go"
  "lib_resolver demo_libs = demo_resolver" "lib_verlib demo_libs = demo_verlib" "lib_toml demo_libs = demo_toml"
  "lib_engine demo_libs = demo_templates"
  by (simp_all add: demo_libs_def)

lemma demo_rendering:
  assumes "fd_KubeVersion d = ''v1.30.0''"
  shows "renderOSPFiles demo_templates demo_osp c d demo_hosts = Inr (demo_files,
    if demo_hosts = [] then demo_files else injectRegistryHostConfigs demo_files demo_hosts)"
  using assms
  by (simp add: renderOSPFiles_def renderedFiles_def selectAdditionalTemplates_def templatesToRender_def
    populateFilesList_def populateFile_def selectAdditionalFiles_def demo_templates_def demo_osp_def demo_osp_config_def
    demo_file_def demo_files_def)

lemma demo_data:
  "\<exists>d. buildFilesData demo_sdk ''v1.30.0'' ips ca hca it cc c (demo_pc ''hetzner'' ''ubuntu'') ex taints x y gates k bc hp np s
     [(''k8c.io/operating-system-profile'', ''osp'')] = Inr d \<and> fd_KubeVersion d = ''v1.30.0''"
proof -
  have "setOperatingSystemConfig ''ubuntu'' None os = Inr (os\<lparr>UbuntuConfig := emptyDist\<rparr>)" for os
    by (simp add: setOperatingSystemConfig_def demo_ubuntu OperatingSystemAmazonLinux2_def OperatingSystemFlatcar_def
        OperatingSystemRHEL_def OperatingSystemUbuntu_def)
  moreover have "IsStaticIPConfig demo_sdk n = False" for n by (simp add: demo_sdk_def)
  ultimately show ?thesis
    by (simp add: buildFilesData_def demo_kubelet demo_pc_def Let_def)
qed

lemma demo_generated:
  assumes "kc_Clusters kubeconfig = [(''c'', Some cl)]"
  shows "GenerateOperatingSystemConfig demo_libs demo_final demo_osp kubeconfig kn token name ''kube-system''
    ca hca ips ''containerd'' False taints hp np demo_cr gates = Inr (demo_rendered name)"
proof -
  have rhel: "configureRHELSubscription (demo_pc ''hetzner'' ''ubuntu'') demo_osp d = demo_osp" for d
    by (simp add: configureRHELSubscription_def demo_pc_def OperatingSystemRHEL_def)
  obtain bc k where bc: "prepareBootstrapConfig demo_libs demo_final kubeconfig kn token = Inr (bc, k)"
    using assms by (simp add: prepareBootstrapConfig_def StringifyKubeconfig_def demo_client_go_def firstServer_def)
  have cc: "prepareCloudProviderConfig demo_libs (demo_pc ''hetzner'' ''ubuntu'') ''1.30.0'' False = Inr ([], False, False)"
    by (simp add: prepareCloudProviderConfig_def demo_pc_def KubeletCloudProviderConfig_def GetCloudConfig_def demo_verlib_def)
  have "\<not> HasPrefix ''1.30.0'' ''v''" by code_simp
  then have v: "formatKubeletVersion demo_verlib ''1.30.0'' = Inr ''v1.30.0''"
    by (simp add: formatKubeletVersion_def demo_verlib_def)
  obtain d where d: "buildFilesData demo_sdk ''v1.30.0'' ips ca hca False [] ''containerd'' (demo_pc ''hetzner'' ''ubuntu'') False
      taints [] [] gates k bc hp np (cr_SandboxImage demo_cr) [(''k8c.io/operating-system-profile'', ''osp'')] = Inr d"
    "fd_KubeVersion d = ''v1.30.0''"
    using demo_data by blast
  show ?thesis
    by (simp add: GenerateOperatingSystemConfig_def demo_runtime demo_parse bc cc v d demo_rendering rhel Let_def
        demo_rendered_def)
qed

text \<open>The run.\<close>

lemma demo_generate_secret:
  assumes "\<forall>f \<in> set (oscc_Files c). file_Inline f \<noteq> None"
  shows "\<exists>d. Generate demo_sdk demo_transpiler c ''cloud-init'' ''ubuntu'' ''hetzner'' demo_final t = Inr d"
proof -
  have "isOk (mapR (fileSpec_of ''cloud-init'') (oscc_Files c))"
    using assms by (auto simp: mapR_isOk fileSpec_of_def)
  moreover have "GetProvisioningUtility demo_sdk ''ubuntu'' demo_final = Inr ''cloud-init''"
    by (simp add: GetProvisioningUtility_def OperatingSystemFlatcar_def ProvisioningUtilityCloudInit_def)
  moreover have "decodeProviderConfig demo_sdk demo_final = Inr (demo_pc ''hetzner'' ''ubuntu'')"
    by (simp add: decodeProviderConfig_def demo_unmarshal orDefault_def)
  moreover have "LoadConfig (pc_OperatingSystemSpec (demo_pc ''hetzner'' ''ubuntu'')) = Inr emptyDist"
    by (simp add: demo_pc_def load_simps default_json emptyDist_def)
  ultimately show ?thesis
    by (auto simp: Generate_def isOk_iff ProvisioningUtilityCloudInit_def)
qed

lemma demo_reconciler_simps [simp]:
  "env_api demo_env = store_ops" "env_libs demo_env = demo_libs" "env_tz demo_env = 0"
  "r_Client demo_reconciler = Management" "r_workerClient demo_reconciler = Management"
  "r_bootstrappingManager demo_reconciler = demo_manager" "r_namespace demo_reconciler = ''kube-system''"
  "r_containerRuntime demo_reconciler = ''containerd''" "r_externalCloudProvider demo_reconciler = False"
  "r_generator demo_reconciler = Generate demo_sdk demo_transpiler"
  "r_nodeRegistryCredentialsSecret demo_reconciler = []" "r_containerRuntimeConfig demo_reconciler = demo_cr"
  by (simp_all add: demo_env_def demo_reconciler_def)

lemma demo_sdk_simps [simp]: "BootstrapCloudConfig demo_sdk = ''bootstrap''"
  "RevisionAnnotation demo_sdk = ''machinedeployment.clusters.k8s.io/revision''"
  by (simp_all add: demo_sdk_def)

text \<open>The keys of the example.\<close>

lemma demo_keys [simp]:
  "mdKey demo_reconciler ns n = Key Management KMD ns n"
  "oscKey demo_reconciler ''kube-system'' ''md'' = Key Management KOSC ''kube-system'' ''md-kube-system-config''"
  "cloudConfigKey demo_env demo_reconciler ''kube-system'' ''md'' t = Key Management KSecret ''cloud-init-settings'' (''md-kube-system-'' @ t @ ''-config'')"
  "kubeletConfigKey demo_env demo_reconciler ''kube-system'' ''md'' = Key Management KSecret ''cloud-init-settings'' ''kube-system-md-kubelet-bootstrap-config''"
  by (simp_all add: mdKey_def oscKey_def oscNameOf_def cloudConfigKey_def kubeletConfigKey_def machineDeploymentKey_def demo_sdk_def)

lemma demo_manager_simps [simp]: "b_ServiceAccount demo_manager = Some (''kube-system'', ''osm'')"
  "b_overrideServer demo_manager = []" "b_GetKubeconfig demo_manager = ret demo_kubeconfig" "b_client demo_manager = Management"
  by (simp_all add: demo_manager_def)

definition demo_sa :: ServiceAccount where
  "demo_sa = \<lparr>sa_meta = emptyMeta\<lparr>meta_Name := ''osm'', meta_Namespace := ''kube-system''\<rparr>, sa_Secrets = [''osm-token'']\<rparr>"

definition demo_sa_token :: Secret where
  "demo_sa_token = demo_secret ''kube-system'' ''osm-token'' ''kubernetes.io/service-account-token'' [(''token'', ''u'')]"

lemma demo_joining:
  obtains cfg cl where "outKubeconfig [] ''u'' demo_kubeconfig = Inr cfg" "kc_Clusters cfg = [(''c'', Some cl)]"
  by (simp add: outKubeconfig_def demo_kubeconfig_def clusterContextName_def contextIdentifier_def Let_def mput_def mdel_def)

lemma demo_account:
  assumes "os (Key Management KSecret ''kube-system'' ''osm-token'') = Some (SEC demo_sa_token)"
  shows "accountToken os Management ''kube-system'' (sa_Secrets demo_sa) = Some ''u''"
  using assms by (simp add: demo_sa_def demo_sa_token_def demo_secret_def mget_def)

lemma demo_boot:
  assumes "s_faults w = []"
    and sa: "store_objs w (Key Management KServiceAccount ''kube-system'' ''osm'') = Some (SA demo_sa)"
    and tok: "store_objs w (Key Management KSecret ''kube-system'' ''osm-token'') = Some (SEC demo_sa_token)"
  shows "suc (CreateBootstrapKubeconfig demo_client_go store_ops tz demo_manager name)
    (\<lambda>(cfg, kn) w'. s_faults w' = [] \<and> (\<exists>cl. kc_Clusters cfg = [(''c'', Some cl)])) w"
proof -
  obtain cfg cl where cfg: "outKubeconfig [] ''u'' demo_kubeconfig = Inr cfg" "kc_Clusters cfg = [(''c'', Some cl)]"
    by (rule demo_joining)
  show ?thesis
    by (rule stp.suc_CreateBootstrapKubeconfig [where b = demo_manager, unfolded demo_manager_simps, OF assms(1) refl sa demo_account [of "store_objs w", OF tok] _ cfg(1)])
      (auto simp: demo_client_go_def cfg(2) intro: suc_ret)
qed

text \<open>The world of the example, for any deployment and with any further objects.\<close>

definition demo_world :: "MachineDeployment \<Rightarrow> kobj list \<Rightarrow> store" where
  "demo_world md os = empty_store\<lparr>s_objs := map (Pair Management) ([MD md, OSP demo_osp,
     SEC (demo_secret ''cloud-init-settings'' ''cloud-init-getter-token'' [] [(''token'', ''t'')]),
     SA demo_sa, SEC demo_sa_token] @ os)\<rparr>"

lemma demo_world_objs:
  assumes "md_meta md = emptyMeta\<lparr>meta_Name := ''md'', meta_Namespace := ''kube-system'', meta_Annotations := a\<rparr>"
  shows "store_objs (demo_world md os) (Key Management KMD ''kube-system'' ''md'') = Some (MD md)"
    "store_objs (demo_world md os) (Key Management KOSP ''kube-system'' ''osp'') = Some (OSP demo_osp)"
    "store_objs (demo_world md os) (Key Management KSecret ''cloud-init-settings'' ''cloud-init-getter-token'')
      = Some (SEC (demo_secret ''cloud-init-settings'' ''cloud-init-getter-token'' [] [(''token'', ''t'')]))"
    "store_objs (demo_world md os) (Key Management KServiceAccount ''kube-system'' ''osm'') = Some (SA demo_sa)"
    "store_objs (demo_world md os) (Key Management KSecret ''kube-system'' ''osm-token'') = Some (SEC demo_sa_token)"
  using assms
  by (simp_all add: store_objs_def demo_world_def find_Cons key_of_def demo_osp_def demo_secret_def demo_sa_def
      demo_sa_token_def emptyMeta_def)

lemma demo_osp_key: "ospKey demo_reconciler demo_final = Key Management KOSP ''kube-system'' ''osp''"
  by (simp add: ospKey_def MachineDeploymentOSPNamespaceAnnotation_def MachineDeploymentOSPAnnotation_def mget_def)

lemma demo_check: "checkOSP demo_sdk demo_final demo_osp = Inr ()"
  by (simp add: checkOSP_def validateMachineDeployment_def demo_unmarshal orDefault_def demo_osp_def demo_pc_def)

lemma demo_own: "set (ownKeys demo_env demo_reconciler ''kube-system'' ''md'') =
   {Key Management KOSC ''kube-system'' ''md-kube-system-config'',
    Key Management KSecret ''cloud-init-settings'' ''md-kube-system-provisioning-config'',
    Key Management KSecret ''cloud-init-settings'' ''md-kube-system-bootstrap-config'',
    Key Management KSecret ''cloud-init-settings'' ''kube-system-md-kubelet-bootstrap-config''}"
  by (simp add: ownKeys_def secretKeys_def ProvisioningCloudConfig_def)

lemma demo_inline:
  "\<forall>f \<in> set demo_files. file_Inline f \<noteq> None"
  "\<forall>f \<in> set (injectRegistryHostConfigs demo_files h). file_Inline f \<noteq> None"
  by (auto simp: demo_files_def injectRegistryHostConfigs_def registryFile_def)

lemma demo_generates:
  assumes "osc_Spec osc = osc_Spec (completeOSC demo_sdk demo_final demo_osp (demo_rendered n))"
  shows "generates demo_env demo_reconciler demo_final osc"
proof -
  have spec: "oscs_ProvisioningUtility (osc_Spec osc) = ''cloud-init''" "oscs_OSName (osc_Spec osc) = ''ubuntu''"
    "cps_Name (oscs_CloudProvider (osc_Spec osc)) = ''hetzner''"
    "oscc_Files (oscs_ProvisioningConfig (osc_Spec osc)) =
      (if demo_hosts = [] then demo_files else injectRegistryHostConfigs demo_files demo_hosts)"
    "oscc_Files (oscs_BootstrapConfig (osc_Spec osc)) = demo_files"
    by (simp_all add: assms completeOSC_def demo_rendered_def buildOSCSpec_def demo_osp_def demo_pc_def Let_def)
  show ?thesis
    using demo_generate_secret [of "oscs_ProvisioningConfig (osc_Spec osc)" ProvisioningCloudConfig]
      demo_generate_secret [of "oscs_BootstrapConfig (osc_Spec osc)" "''bootstrap''"]
    by (cases "demo_hosts = []") (simp_all add: generates_def spec demo_inline Let_def)
qed

lemma demo_renders:
  assumes "kc_Clusters cfg = [(''c'', Some cl)]"
  shows "renders demo_env demo_reconciler demo_final demo_osp cfg kn token"
proof -
  have "cps_Name (oscs_CloudProvider (osc_Spec (demo_rendered n))) = ''hetzner''" for n
    by (simp add: demo_rendered_def buildOSCSpec_def demo_pc_def Let_def)
  then show ?thesis using demo_generated [OF assms] demo_generates [OF refl] by (simp add: renders_def)
qed

text \<open>The controller succeeds on the example's objects, and on more of them; a configuration among them has to generate.\<close>

lemma demo_run_kept:
  assumes old: "\<And>osc. store_objs (demo_world (demo_md ''hetzner'' ''ubuntu'') os)
    (Key Management KOSC ''kube-system'' ''md-kube-system-config'') = Some (OSC osc)
      \<Longrightarrow> generates demo_env demo_reconciler demo_final osc"
  shows "suc (Reconcile demo_env demo_reconciler (''kube-system'', ''md'')) (\<lambda>_ w'. True)
     (demo_world (demo_md ''hetzner'' ''ubuntu'') os)"
proof (rule demo.suc_Reconcile)
  let ?md = "demo_md ''hetzner'' ''ubuntu''"
  note objs = demo_world_objs [OF demo_md_simps(1), of "''hetzner''" "''ubuntu''" os]
  show "s_faults (demo_world ?md os) = []" by (simp add: demo_world_def empty_store_def)
  show "store_objs (demo_world ?md os) (mdKey demo_reconciler ''kube-system'' ''md'') = Some (MD ?md)"
    using objs by simp
  fix w1
  assume w1: "s_faults w1 = []"
    "store_objs w1 = (store_objs (demo_world ?md os)) (mdKey demo_reconciler ''kube-system'' ''md'' \<mapsto> MD (finalized ?md))"
  have osp: "osps_OSName (osp_Spec demo_osp) = ''ubuntu''" "osps_ProvisioningUtility (osp_Spec demo_osp) = ''cloud-init''"
    by (simp_all add: demo_osp_def)
  have at: "md_Namespace demo_final = ''kube-system''" "md_Name demo_final = ''md''" by simp_all
  have "suc (reconcile demo_env demo_reconciler demo_final) (\<lambda>_ w'. True) w1"
  proof (rule demo.suc_reconcile [where osp = demo_osp and token = "''t''" and p = "''cloud-init''"
        and s = "demo_secret ''cloud-init-settings'' ''cloud-init-getter-token'' [] [(''token'', ''t'')]"], goal_cases)
    case (4 w2)
    have "suc (CreateBootstrapKubeconfig demo_client_go store_ops 0 demo_manager n)
      (\<lambda>(cfg, kn) w'. s_faults w' = [] \<and> (\<exists>cl. kc_Clusters cfg = [(''c'', Some cl)])) w2" for n
      using 4 objs by (intro demo_boot) (simp_all add: at demo_own w1)
    then have "suc (CreateBootstrapKubeconfig demo_client_go store_ops 0 demo_manager n)
      (\<lambda>(cfg, kn) w'. s_faults w' = [] \<and> renders demo_env demo_reconciler demo_final demo_osp cfg kn ''t'') w2" for n
      by (rule suc_mono) (auto intro: demo_renders)
    then show ?case by (simp add: at)
  qed (use objs in \<open>auto simp: w1 demo_osp_key demo_check demo_own CloudInitNamespace_def demo_secret_def
     GetProvisioningUtility_def OperatingSystemFlatcar_def ProvisioningUtilityCloudInit_def osp intro: old\<close>)
  then show "suc (reconcile demo_env demo_reconciler (finalized ?md)) (\<lambda>_ w'. True) w1"
    by (simp add: demo_final_def)
qed

lemma demo_run_with:
  assumes "store_objs (demo_world (demo_md ''hetzner'' ''ubuntu'') os)
    (Key Management KOSC ''kube-system'' ''md-kube-system-config'') = None"
  shows "suc (Reconcile demo_env demo_reconciler (''kube-system'', ''md'')) (\<lambda>_ w'. True)
     (demo_world (demo_md ''hetzner'' ''ubuntu'') os)"
  by (rule demo_run_kept) (simp add: assms)

lemma demo_run:
  "suc (Reconcile demo_env demo_reconciler (''kube-system'', ''md'')) (\<lambda>_ w'. True)
     (demo_world (demo_md ''hetzner'' ''ubuntu'') [])"
  by (rule demo_run_with) (simp add: store_objs_def demo_world_def find_obj_def key_of_def)

end
