(* ===== verification/OSCProperties.thy ===== *)
theory OSCProperties
  imports OSCDemo
begin

text \<open>
  What the OSC controller guarantees: the properties of \<open>Reconcile\<close> over the API servers of both
  clusters, and of the annotations and names it works with. They rest on the contract
  \<open>wp_Reconcile\<close> of \<open>OSCContracts\<close>, the witnesses on the world of \<open>OSCDemo\<close>.
\<close>

section \<open>The contract of a reconciliation\<close>

lemma outcomeI:
  assumes "osc_controller E objs r" and "Reconcile E r (ns, n) w = (x, w')"
  shows "outcome E r ns n (objs w) x (objs w')"
  by (rule wpD [OF osc_controller.wp_Reconcile_outcome [OF assms(1)] assms(2)])

lemma tokensI:
  assumes "osc_controller E objs r" and "Reconcile E r (ns, n) w = (x, w')" and "system_secret (r_workerClient r) k"
  shows "own_token (machineDeploymentKey ns n) k (objs w k) (objs w' k)"
  using wpD [OF osc_controller.wp_Reconcile_tokens [OF assms(1)] assms(2)] assms(3) by (simp add: tokens_only_def)

lemma md_named:
  assumes "osc_controller E objs r" and "objs w (mdKey r ns n) = Some (MD md)"
  shows "md_Namespace md = ns \<and> md_Name md = n"
  using osc_controller.md_at [OF assms] .

lemma mdKey_untouched [simp]: "\<not> touches E r a b (mdKey r ns n)"
  by (auto dest: touches_not_md)

lemma mdKey_not_own [simp]: "mdKey r ns n \<notin> set (ownKeys E r a b)"
  by (auto dest: own_not_md)

lemma ospKey_untouched [simp]: "\<not> touches E r a b (ospKey r md)"
  by (auto simp: touches_iff ospKey_def system_secret_def oscKey_def scriptKey_def cloudConfigKey_def kubeletConfigKey_def)

lemma ospKey_not_md [simp]: "ospKey r md \<noteq> mdKey r ns n" "mdKey r ns n \<noteq> ospKey r md"
  by (simp_all add: ospKey_def mdKey_def)

lemma ospKey_finalized [simp]: "ospKey r (finalized md) = ospKey r md"
  by (simp add: ospKey_def)

lemma finalized_idem [simp]: "finalized (finalized md) = finalized md"
  by (subst finalized_def) simp

lemma demo_result:
  obtains w' where "Reconcile demo_env demo_reconciler (''kube-system'', ''md'')
    (demo_world (demo_md ''hetzner'' ''ubuntu'') []) = (Inr (), w')"
  using demo_run by (auto simp: suc_def)

text \<open>C1. Every call of Reconcile does what the specification \<open>reconciled\<close> allows, on every path and
  whatever calls to the API servers fail: a deployment that is not there or being deleted without the
  finalizer is left alone; one being deleted loses the finalizer only when its configuration and its
  three secrets are gone; a live one gets the finalizer first, on success everything is in step with
  its profile, and on an error nothing but its own objects has changed. In every case the secrets of
  \<open>kube-system\<close> stay as they are but for the bootstrap tokens with the deployment's label, of which a new
  one may appear and one that is there may get a later expiration.\<close>

theorem reconcile_refines:
  assumes "osc_controller E objs r" and "Reconcile E r (ns, n) w = (x, w')"
  shows "reconciled E r ns n (objs w) x (objs w')"
  by (rule wpD [OF osc_controller.wp_Reconcile [OF assms(1)] assms(2)])

theorem reconcile_refines_witness:
  "\<exists>w'. Reconcile demo_env demo_reconciler (''kube-system'', ''md'') (demo_world (demo_md ''hetzner'' ''ubuntu'') [])
      = (Inr (), w')
    \<and> reconciled demo_env demo_reconciler ''kube-system'' ''md''
        (store_objs (demo_world (demo_md ''hetzner'' ''ubuntu'') [])) (Inr ()) (store_objs w')"
  using reconcile_refines [OF demo_controller] by (metis demo_result)

section \<open>Success\<close>

lemma live_success:
  assumes con: "osc_controller E objs r" and run: "Reconcile E r (ns, n) w = (Inr (), w')"
    and md: "objs w (mdKey r ns n) = Some (MD md)" and live: "md_DeletionTimestamp md = None"
  obtains osp where "objs w (ospKey r md) = Some (OSP osp)" "checkOSP (env_sdk E) (finalized md) osp = Inr ()"
    "synced E r (finalized md) osp ((objs w)(mdKey r ns n \<mapsto> MD (finalized md))) (objs w')"
    "objs w' (mdKey r ns n) = Some (MD (finalized md))" "objs w' (ospKey r md) = Some (OSP osp)"
    "md_Namespace md = ns" "md_Name md = n"
proof -
  have at: "md_Namespace md = ns" "md_Name md = n" using md_named [OF con md] by simp_all
  from outcomeI [OF con run] md live obtain osp where osp:
    "objs w (ospKey r md) = Some (OSP osp)" "checkOSP (env_sdk E) (finalized md) osp = Inr ()"
    "synced E r (finalized md) osp ((objs w)(mdKey r ns n \<mapsto> MD (finalized md))) (objs w')"
    by (auto simp: outcome_def Let_def)
  then have out: "objs w' k = ((objs w)(mdKey r ns n \<mapsto> MD (finalized md))) k" if "\<not> touches E r ns n k" for k
    using that at by (simp add: synced_def Let_def)
  show ?thesis
    using that [OF osp] out [of "mdKey r ns n"] out [of "ospKey r md"] at osp(1) by simp
qed

text \<open>C4. After a successful Reconcile of a live deployment the deployment has the cleanup finalizer, the
  OperatingSystemConfig exists and carries the deployment's revision, the profile's version and the hash
  of the deployment's annotations, and the provisioning, the bootstrap and the kubelet kubeconfig secret
  all exist.\<close>

theorem reconcile_establishes:
  assumes "osc_controller E objs r" and "Reconcile E r (ns, n) w = (Inr (), w')"
    and "objs w (mdKey r ns n) = Some (MD md)" and "md_DeletionTimestamp md = None"
  shows "\<exists>md' osp osc. objs w' (mdKey r ns n) = Some (MD md') \<and> hasCleanup md'
    \<and> md_meta md' = md_meta md
    \<and> objs w' (ospKey r md) = Some (OSP osp)
    \<and> objs w' (oscKey r ns n) = Some (OSC osc) \<and> inSync (env_sdk E) md' osp osc
    \<and> (\<forall>k \<in> set (secretKeys E r ns n). objs w' k \<noteq> None)"
proof -
  from live_success [OF assms] obtain osp where osp:
    "synced E r (finalized md) osp ((objs w)(mdKey r ns n \<mapsto> MD (finalized md))) (objs w')"
    "objs w' (mdKey r ns n) = Some (MD (finalized md))" "objs w' (ospKey r md) = Some (OSP osp)"
    "md_Namespace md = ns" "md_Name md = n" .
  then obtain osc where "objs w' (oscKey r ns n) = Some (OSC osc)" "inSync (env_sdk E) (finalized md) osp osc"
    "\<forall>k \<in> set (secretKeys E r ns n). objs w' k \<noteq> None"
    by (auto simp: synced_def Let_def)
  with osp show ?thesis by (intro exI [of _ "finalized md"]) auto
qed

theorem reconcile_establishes_witness:
  "\<exists>w' osc. Reconcile demo_env demo_reconciler (''kube-system'', ''md'') (demo_world (demo_md ''hetzner'' ''ubuntu'') [])
      = (Inr (), w') \<and> store_objs w' (Key Management KOSC ''kube-system'' ''md-kube-system-config'') = Some (OSC osc)"
proof -
  obtain w' where run: "Reconcile demo_env demo_reconciler (''kube-system'', ''md'')
    (demo_world (demo_md ''hetzner'' ''ubuntu'') []) = (Inr (), w')" by (rule demo_result)
  from reconcile_establishes [OF demo_controller run, of "demo_md ''hetzner'' ''ubuntu''"] run show ?thesis
    by (auto simp: demo_world_objs [OF demo_md_simps(1)] demo_md_simps)
qed

lemma synced_kept:
  assumes sync: "synced E r md osp os os'" and rot: "rotated E r md osp os = os"
    and osc: "os (oscKey r (md_Namespace md) (md_Name md)) = Some (OSC osc)"
    and sec: "\<forall>k \<in> set (secretKeys E r (md_Namespace md) (md_Name md)). os k \<noteq> None"
    and dist: "distinct (scriptKey r (md_Namespace md) (md_Name md) # secretKeys E r (md_Namespace md) (md_Name md))"
    and k: "\<not> bootKeys E r (md_Namespace md) (md_Name md) k"
  shows "os' k = os k"
proof -
  have "os (cloudConfigKey E r (md_Namespace md) (md_Name md) t) \<noteq> None"
    if "t \<in> {ProvisioningCloudConfig, BootstrapCloudConfig (env_sdk E)}" for t
    using sec that by (auto simp: secretKeys_def)
  with sync rot osc dist have "os' k = os k"
    if "k \<in> {oscKey r (md_Namespace md) (md_Name md), scriptKey r (md_Namespace md) (md_Name md),
      cloudConfigKey E r (md_Namespace md) (md_Name md) ProvisioningCloudConfig,
      cloudConfigKey E r (md_Namespace md) (md_Name md) (BootstrapCloudConfig (env_sdk E))}"
    using that by (simp add: synced_def Let_def) (elim disjE; force)
  moreover have "os' k = os k" if "\<not> touches E r (md_Namespace md) (md_Name md) k"
    using sync that by (simp add: synced_def Let_def)
  ultimately show ?thesis using k by (auto simp: touches_iff)
qed

text \<open>C5. Reconciling is idempotent: a second successful Reconcile changes nothing but the kubelet kubeconfig
  secret and, of the secrets of \<open>kube-system\<close>, the bootstrap tokens with the deployment's own label, which it may
  make anew or renew; provided the names of the deployment's three secrets and its edge script do not coincide.\<close>

theorem reconcile_idempotent:
  assumes "osc_controller E objs r" and "distinct (scriptKey r ns n # secretKeys E r ns n)"
    and "Reconcile E r (ns, n) w = (Inr (), w1)" and "Reconcile E r (ns, n) w1 = (Inr (), w2)"
    and "objs w (mdKey r ns n) = Some (MD md)" and "md_DeletionTimestamp md = None"
  shows "(\<not> system_secret (r_workerClient r) k \<and> k \<noteq> kubeletConfigKey E r ns n \<longrightarrow> objs w2 k = objs w1 k)
    \<and> (system_secret (r_workerClient r) k \<longrightarrow> own_token (machineDeploymentKey ns n) k (objs w1 k) (objs w2 k))"
proof -
  from live_success [OF assms(1,3,5,6)] obtain osp where first:
    "synced E r (finalized md) osp ((objs w)(mdKey r ns n \<mapsto> MD (finalized md))) (objs w1)"
    "objs w1 (mdKey r ns n) = Some (MD (finalized md))" "objs w1 (ospKey r md) = Some (OSP osp)"
    "md_Namespace md = ns" "md_Name md = n" .
  from live_success [OF assms(1,4) first(2)] assms(6) obtain osp' where
    "synced E r (finalized md) osp' ((objs w1)(mdKey r ns n \<mapsto> MD (finalized md))) (objs w2)"
    "objs w1 (ospKey r md) = Some (OSP osp')"
    by auto
  with first(2,3) have second: "synced E r (finalized md) osp (objs w1) (objs w2)"
    by (simp add: fun_upd_idem)
  from first(1,4,5) obtain osc where osc: "objs w1 (oscKey r ns n) = Some (OSC osc)"
    "inSync (env_sdk E) (finalized md) osp osc" and sec: "\<forall>k \<in> set (secretKeys E r ns n). objs w1 k \<noteq> None"
    by (auto simp: synced_def Let_def)
  then have "rotated E r (finalized md) osp (objs w1) = objs w1"
    using first(4,5) by (simp add: rotated_def)
  then have "objs w2 k = objs w1 k" if "\<not> bootKeys E r ns n k"
    using synced_kept [OF second] first(4,5) osc(1) sec assms(2) that by simp
  with tokensI [OF assms(1,4)] show ?thesis by simp
qed

theorem reconcile_idempotent_witness:
  "\<exists>w1. Reconcile demo_env demo_reconciler (''kube-system'', ''md'') (demo_world (demo_md ''hetzner'' ''ubuntu'') []) = (Inr (), w1)
    \<and> (\<forall>w2. Reconcile demo_env demo_reconciler (''kube-system'', ''md'') w1 = (Inr (), w2) \<longrightarrow>
          store_objs w2 (Key Management KOSC ''kube-system'' ''md-kube-system-config'')
          = store_objs w1 (Key Management KOSC ''kube-system'' ''md-kube-system-config''))"
proof -
  obtain w1 where run: "Reconcile demo_env demo_reconciler (''kube-system'', ''md'')
    (demo_world (demo_md ''hetzner'' ''ubuntu'') []) = (Inr (), w1)" by (rule demo_result)
  have "distinct (scriptKey demo_reconciler ''kube-system'' ''md'' # secretKeys demo_env demo_reconciler ''kube-system'' ''md'')"
    by (simp add: scriptKey_def secretKeys_def edgeScriptName_def ProvisioningCloudConfig_def)
  from reconcile_idempotent [OF demo_controller this run, of _ "demo_md ''hetzner'' ''ubuntu''"
      "Key Management KOSC ''kube-system'' ''md-kube-system-config''"] run
  show ?thesis
    by (auto simp: demo_world_objs [OF demo_md_simps(1)] demo_md_simps system_secret_def)
qed

lemma reconciled_out:
  assumes "osc_controller E objs r" and "Reconcile E r (ns, n) w = (x, w')"
    and k: "k \<noteq> mdKey r ns n" "\<not> touches E r ns n k"
  shows "objs w' k = objs w k"
proof (cases "objs w (mdKey r ns n)")
  case (Some y)
  show ?thesis
  proof (cases y)
    case (MD md)
    with Some md_named [OF assms(1)] have "md_Namespace md = ns" "md_Name md = n" by blast+
    moreover have "k \<notin> set (ownKeys E r ns n)" using k(2) by (auto simp: touches_def)
    ultimately show ?thesis using outcomeI [OF assms(1,2)] Some MD k
      by (cases x) (auto simp: outcome_def Let_def deletes_def erase_def synced_def split: if_splits)
  qed (use outcomeI [OF assms(1,2)] Some in \<open>auto simp: outcome_def Let_def\<close>)
qed (use outcomeI [OF assms(1,2)] in \<open>simp add: outcome_def Let_def\<close>)

text \<open>C6. Nothing else is touched: whatever Reconcile returns, it changes no object but the deployment's own
  configuration and secrets, its edge script and the bootstrap tokens with its label, and of the deployment
  itself only the cleanup finalizer. In particular no profile, no other deployment, and no secret of
  \<open>kube-system\<close> without that label changes, and of those with it only the expiration.\<close>

theorem reconcile_frame:
  assumes "osc_controller E objs r" and "Reconcile E r (ns, n) w = (x, w')"
  shows "(k \<noteq> mdKey r ns n \<and> \<not> touches E r ns n k \<longrightarrow> objs w' k = objs w k)
    \<and> (system_secret (r_workerClient r) k \<longrightarrow> own_token (machineDeploymentKey ns n) k (objs w k) (objs w' k))
    \<and> (k_kind k \<in> {KMD, KOSP, KConfigMap, KServiceAccount, KEndpointSlice} \<and> k \<noteq> mdKey r ns n \<longrightarrow> objs w' k = objs w k)
    \<and> (objs w (mdKey r ns n) = None \<longrightarrow> objs w' = objs w)
    \<and> (\<forall>md. objs w (mdKey r ns n) = Some (MD md) \<longrightarrow>
          objs w' (mdKey r ns n) \<in> {Some (MD md), Some (MD (withCleanup md)), stored_update (MD (unfinalized md))})"
proof -
  note spec = outcomeI [OF assms]
  have kinds: "\<not> touches E r ns n k" if "k_kind k \<in> {KMD, KOSP, KConfigMap, KServiceAccount, KEndpointSlice}"
    using that by (auto simp: touches_iff system_secret_def)
  have md: "objs w' (mdKey r ns n) \<in> {Some (MD md), Some (MD (withCleanup md)), stored_update (MD (unfinalized md))}"
    if "objs w (mdKey r ns n) = Some (MD md)" for md
  proof -
    have at: "md_Namespace md = ns" "md_Name md = n" using md_named [OF assms(1) that] by simp_all
    have fin: "finalized md \<in> {md, withCleanup md}" by (simp add: finalized_def)
    show ?thesis
    proof (cases "md_DeletionTimestamp md")
      case None
      then show ?thesis
        using spec that at fin by (cases x) (auto simp: outcome_def synced_def Let_def)
    next
      case (Some t)
      have "deletes (\<lambda>os. os) (ownKeys E r ns n) (objs w) (objs w') \<Longrightarrow> objs w' (mdKey r ns n) = objs w (mdKey r ns n)"
        unfolding deletes_def using mdKey_not_own by blast
      then show ?thesis
        using spec that Some by (auto simp: outcome_def Let_def simp del: stored_update.simps split: if_splits)
    qed
  qed
  show ?thesis
    using reconciled_out [OF assms] tokensI [OF assms] kinds md spec by (auto simp: outcome_def Let_def)
qed

theorem reconcile_frame_witness:
  "\<exists>w'. Reconcile demo_env demo_reconciler (''kube-system'', ''md'') (demo_world (demo_md ''hetzner'' ''ubuntu'') [])
      = (Inr (), w')
    \<and> store_objs w' (Key Management KOSP ''kube-system'' ''osp'') = Some (OSP demo_osp)"
proof -
  obtain w' where run: "Reconcile demo_env demo_reconciler (''kube-system'', ''md'')
    (demo_world (demo_md ''hetzner'' ''ubuntu'') []) = (Inr (), w')" by (rule demo_result)
  from reconcile_frame [OF demo_controller run, of "Key Management KOSP ''kube-system'' ''osp''"] run show ?thesis
    by (auto simp: demo_world_objs [OF demo_md_simps(1)])
qed

section \<open>Cleaning up\<close>

lemma unfinalized_neq: "hasCleanup md \<Longrightarrow> stored_update (MD (unfinalized md)) \<noteq> Some (MD md)"
proof
  assume "hasCleanup md" "stored_update (MD (unfinalized md)) = Some (MD md)"
  then have "unfinalized md = md" by (simp split: if_splits)
  moreover have "\<not> hasCleanup (unfinalized md)" by (simp add: unfinalized_def hasCleanup_def)
  ultimately show False using \<open>hasCleanup md\<close> by simp
qed

lemma cleanup_spec:
  assumes "osc_controller E objs r" and "Reconcile E r (ns, n) w = (x, w')"
    and "objs w (mdKey r ns n) = Some (MD md)" and "md_DeletionTimestamp md \<noteq> None" and "hasCleanup md"
    and "x = Inr () \<or> objs w' (mdKey r ns n) \<noteq> Some (MD md)"
  shows "objs w' = (erase (ownKeys E r ns n) (objs w))(mdKey r ns n := stored_update (MD (unfinalized md)))"
proof -
  have "\<not> (deletes (\<lambda>os. os) (ownKeys E r ns n) (objs w) (objs w') \<and> x \<noteq> Inr ())"
  proof
    assume del: "deletes (\<lambda>os. os) (ownKeys E r ns n) (objs w) (objs w') \<and> x \<noteq> Inr ()"
    then have "objs w' (mdKey r ns n) = objs w (mdKey r ns n)"
      unfolding deletes_def using mdKey_not_own by blast
    with del assms(3,6) show False by simp
  qed
  moreover have "deletes (\<lambda>os. os) (ownKeys E r ns n) (objs w) (objs w') \<and> x \<noteq> Inr ()
      \<or> objs w' = (erase (ownKeys E r ns n) (objs w))(mdKey r ns n := stored_update (MD (unfinalized md)))"
    using outcomeI [OF assms(1,2)] assms(3-5) by (simp add: outcome_def Let_def del: stored_update.simps)
  ultimately show ?thesis by blast
qed

text \<open>C7. The finalizer is given up last: when Reconcile of a deployment that is being deleted succeeds, or
  when for any reason the deployment has changed, then its configuration and its three secrets are gone,
  the finalizer is off (and the deployment itself gone if it was the last), and every other object is as
  it was. Lost answers and failing deletions on the way make no difference.\<close>

theorem cleanup_complete:
  assumes "osc_controller E objs r" and "Reconcile E r (ns, n) w = (x, w')"
    and "objs w (mdKey r ns n) = Some (MD md)" and "md_DeletionTimestamp md \<noteq> None" and "hasCleanup md"
    and "x = Inr () \<or> objs w' (mdKey r ns n) \<noteq> Some (MD md)"
  shows "(\<forall>k \<in> set (ownKeys E r ns n). objs w' k = None)
    \<and> objs w' (mdKey r ns n) = stored_update (MD (unfinalized md))
    \<and> (k \<notin> set (ownKeys E r ns n) \<and> k \<noteq> mdKey r ns n \<longrightarrow> objs w' k = objs w k)"
  using cleanup_spec [OF assms] by (auto simp: erase_def simp del: stored_update.simps)

lemma demo_world_calm: "s_faults (demo_world md os) = []"
  by (simp add: demo_world_def empty_store_def)

text \<open>The example's deployment being deleted, with one of its secrets still there.\<close>

definition demo_leaving :: MachineDeployment where
  "demo_leaving = (demo_md ''hetzner'' ''ubuntu'')\<lparr>md_DeletionTimestamp := Some 1,
     md_Finalizers := [MachineDeploymentCleanupFinalizer]\<rparr>"

definition demo_left :: Secret where
  "demo_left = demo_secret ''cloud-init-settings'' ''md-kube-system-bootstrap-config'' [] []"

lemma demo_leaving_simps: "md_meta demo_leaving = emptyMeta\<lparr>meta_Name := ''md'', meta_Namespace := ''kube-system'',
       meta_Annotations := [(''k8c.io/operating-system-profile'', ''osp'')]\<rparr>"
  "md_DeletionTimestamp demo_leaving = Some 1" "hasCleanup demo_leaving"
  "stored_update (MD (unfinalized demo_leaving)) = None"
  by (simp_all add: demo_leaving_def demo_md_simps hasCleanup_def unfinalized_def RemoveFinalizer_def)

lemma demo_cleanup:
  obtains w' where "Reconcile demo_env demo_reconciler (''kube-system'', ''md'')
    (demo_world demo_leaving [SEC demo_left]) = (Inr (), w')"
proof -
  have "suc (Reconcile demo_env demo_reconciler (''kube-system'', ''md'')) (\<lambda>_ w'. True) (demo_world demo_leaving [SEC demo_left])"
    by (rule demo.suc_Reconcile [where md = demo_leaving])
      (simp_all add: demo_world_objs [OF demo_leaving_simps(1)] demo_leaving_simps demo_world_calm)
  then show ?thesis using that by (auto simp: suc_def)
qed

theorem cleanup_complete_witness:
  "\<exists>w'. Reconcile demo_env demo_reconciler (''kube-system'', ''md'') (demo_world demo_leaving [SEC demo_left]) = (Inr (), w')
    \<and> store_objs w' (Key Management KMD ''kube-system'' ''md'') = None
    \<and> store_objs w' (Key Management KSecret ''cloud-init-settings'' ''md-kube-system-bootstrap-config'') = None"
proof -
  obtain w' where run: "Reconcile demo_env demo_reconciler (''kube-system'', ''md'')
    (demo_world demo_leaving [SEC demo_left]) = (Inr (), w')" by (rule demo_cleanup)
  from cleanup_complete [OF demo_controller run, of demo_leaving]
  have "\<forall>k \<in> set (ownKeys demo_env demo_reconciler ''kube-system'' ''md''). store_objs w' k = None"
    "store_objs w' (Key Management KMD ''kube-system'' ''md'') = None"
    by (simp_all add: demo_world_objs [OF demo_leaving_simps(1)] demo_leaving_simps(2-4) del: stored_update.simps)
  with run show ?thesis by (simp add: demo_own)
qed

text \<open>C8. Cleaning up ends: on API servers that answer, Reconcile of a deployment that is being deleted
  succeeds, however much of what was made for it is left.\<close>

theorem cleanup_ends:
  assumes "osc_calm E objs r calm" and "calm w"
    and "objs w (mdKey r ns n) = Some (MD md)" and "md_DeletionTimestamp md \<noteq> None" and "hasCleanup md"
  shows "\<exists>w'. Reconcile E r (ns, n) w = (Inr (), w')
    \<and> objs w' = (erase (ownKeys E r ns n) (objs w))(mdKey r ns n := stored_update (MD (unfinalized md)))"
proof -
  have con: "osc_controller E objs r" using assms(1) by (simp add: osc_calm_def)
  have "suc (Reconcile E r (ns, n)) (\<lambda>_ w'. True) w"
    by (rule osc_calm.suc_Reconcile [OF assms(1-3)]) (use assms(4) in simp)
  then obtain w' where "Reconcile E r (ns, n) w = (Inr (), w')" by (auto simp: suc_def)
  with cleanup_spec [OF con this assms(3-5)] show ?thesis by simp
qed

theorem cleanup_ends_witness:
  "\<exists>w'. Reconcile demo_env demo_reconciler (''kube-system'', ''md'') (demo_world demo_leaving [SEC demo_left]) = (Inr (), w')"
  using cleanup_ends [OF demo_calm, of "demo_world demo_leaving [SEC demo_left]" "''kube-system''" "''md''" demo_leaving]
  by (auto simp: demo_world_objs [OF demo_leaving_simps(1)] demo_leaving_simps demo_world_calm)

section \<open>No orphans\<close>

text \<open>
  What others may do: anything but create objects under the controller's names, and take the finalizer
  from a deployment or remove one that has it.
\<close>

definition others :: "'w env \<Rightarrow> ('w \<Rightarrow> objkey \<Rightarrow> kobj option) \<Rightarrow> 'w Reconciler \<Rightarrow> 'w \<Rightarrow> 'w \<Rightarrow> bool" where
  "others E objs r w w' \<longleftrightarrow>
     (\<forall>ns n. \<forall>k \<in> set (ownKeys E r ns n). objs w k = None \<longrightarrow> objs w' k = None)
     \<and> (\<forall>ns n md. objs w (mdKey r ns n) = Some (MD md) \<and> hasCleanup md \<longrightarrow>
          (\<exists>md'. objs w' (mdKey r ns n) = Some (MD md') \<and> hasCleanup md'))"

text \<open>The worlds the controller can be in: it runs for any deployment at any time, with any result.\<close>

inductive reach :: "'w env \<Rightarrow> ('w \<Rightarrow> objkey \<Rightarrow> kobj option) \<Rightarrow> 'w Reconciler \<Rightarrow> 'w \<Rightarrow> bool"
  for E objs r where
  start: "(\<And>ns n k. k \<in> set (ownKeys E r ns n) \<Longrightarrow> objs w k = None) \<Longrightarrow> reach E objs r w"
| run: "reach E objs r w \<Longrightarrow> Reconcile E r (ns, n) w = (x, w') \<Longrightarrow> reach E objs r w'"
| other: "reach E objs r w \<Longrightarrow> others E objs r w w' \<Longrightarrow> reach E objs r w'"

definition owned :: "'w env \<Rightarrow> ('w \<Rightarrow> objkey \<Rightarrow> kobj option) \<Rightarrow> 'w Reconciler \<Rightarrow> 'w \<Rightarrow> objkey \<Rightarrow> bool" where
  "owned E objs r w k \<longleftrightarrow> (\<exists>ns n md. k \<in> set (ownKeys E r ns n)
     \<and> objs w (mdKey r ns n) = Some (MD md) \<and> hasCleanup md)"

lemma mdKey_inj [simp]: "mdKey r ns n = mdKey r ns' n' \<longleftrightarrow> ns = ns' \<and> n = n'"
  by (simp add: mdKey_def)

lemma owned_step:
  assumes con: "osc_controller E objs r" and run: "Reconcile E r (ns, n) w = (x, w')"
    and inv: "objs w k \<noteq> None \<Longrightarrow> owned E objs r w k"
    and k: "k \<in> set (ownKeys E r a b)" and script: "\<And>ns n. k \<noteq> scriptKey r ns n" and ex: "objs w' k \<noteq> None"
  shows "owned E objs r w' k"
proof -
  note spec = outcomeI [OF con run]
  have md_other: "objs w' (mdKey r c d) = objs w (mdKey r c d)" if "(c, d) \<noteq> (ns, n)" for c d
    using reconciled_out [OF con run, of "mdKey r c d"] that by auto
  show ?thesis
  proof (cases "k \<in> set (ownKeys E r ns n)")
    case True
    have same: "owned E objs r w' k" if "objs w' = objs w" using that ex inv by (simp add: owned_def)
    have kept: "owned E objs r w' k" if "objs w' (mdKey r ns n) = Some (MD (finalized md))" for md
      unfolding owned_def by (rule exI [of _ ns], rule exI [of _ n], rule exI [of _ "finalized md"]) (simp add: that True)
    show ?thesis
    proof (cases "\<exists>md. objs w (mdKey r ns n) = Some (MD md)")
      case no_md: False
      then have "objs w' = objs w"
        using spec by (auto simp: outcome_def Let_def split: option.splits kobj.splits)
      then show ?thesis by (rule same)
    next
      case md: True
      then obtain md where md: "objs w (mdKey r ns n) = Some (MD md)" ..
      show ?thesis
      proof (cases "md_DeletionTimestamp md")
        case None
        with spec md md_named [OF con md] show ?thesis
          by (cases x) (auto simp: outcome_def Let_def synced_def intro: same kept)
      next
        case (Some t)
        have gone: "objs w' k = None" if "objs w' = (erase (ownKeys E r ns n) (objs w))(mdKey r ns n := y)" for y
          using that True mdKey_not_own by (auto simp: erase_def)
        have del: "owned E objs r w' k" if "deletes (\<lambda>os. os) (ownKeys E r ns n) (objs w) (objs w')"
        proof -
          have "objs w' (mdKey r c d) = objs w (mdKey r c d)" for c d
            using that mdKey_not_own unfolding deletes_def by blast
          moreover have "objs w k \<noteq> None" using that ex unfolding deletes_def by metis
          ultimately show ?thesis using inv by (simp add: owned_def)
        qed
        from spec md Some show ?thesis
          using gone ex by (auto simp: outcome_def Let_def simp del: stored_update.simps split: if_splits intro: same del)
      qed
    qed
  next
    case False
    have "\<not> touches E r ns n k"
      using False script [of ns n] osc_controller.own_not_token [OF con k] by (auto simp: touches_def)
    moreover have "k \<noteq> mdKey r ns n" using k by auto
    ultimately have "objs w' k = objs w k" by (intro reconciled_out [OF con run])
    with ex inv False md_other show ?thesis by (auto simp: owned_def) metis
  qed
qed

text \<open>C2. Nothing made for a deployment outlives it unnoticed: in every world the controller can get to,
  whatever deployments come and go and whatever calls fail, a configuration or secret under one of the
  controller's names belongs to a deployment that is still there and still carries the cleanup finalizer.
  (An edge script that has such a name is excepted.)\<close>

theorem no_orphans:
  assumes "osc_controller E objs r" and "reach E objs r w"
    and "k \<in> set (ownKeys E r a b)" and "\<And>ns n. k \<noteq> scriptKey r ns n" and "objs w k \<noteq> None"
  shows "\<exists>ns n md. k \<in> set (ownKeys E r ns n) \<and> objs w (mdKey r ns n) = Some (MD md) \<and> hasCleanup md"
proof -
  have "owned E objs r w k" using assms(2,5)
  proof induction
    case (start w)
    with assms(3) show ?case by simp
  next
    case (run w ns n x w')
    with owned_step [OF assms(1) run(2) _ assms(3,4)] show ?case by blast
  next
    case (other w w')
    have "objs w k \<noteq> None" using other assms(3) unfolding others_def by metis
    with other have "owned E objs r w k" by blast
    with other(2) show ?case unfolding owned_def others_def by metis
  qed
  then show ?thesis by (simp add: owned_def)
qed

lemma synced_osc:
  assumes "synced E r md osp os os'"
  shows "os' (oscKey r (md_Namespace md) (md_Name md)) \<noteq> None"
  using assms unfolding synced_def Let_def by blast

text \<open>No secret of the example's world has a name of the controller.\<close>

lemma config_suffix: "x @ ''-config'' \<noteq> ''cloud-init-getter-token''" "x @ ''-kubelet-bootstrap-config'' \<noteq> ''cloud-init-getter-token''"
  by (auto dest: arg_cong [where f = last])

lemma demo_own_names:
  assumes "k \<in> set (ownKeys demo_env demo_reconciler ns n)"
  shows "k_kind k = KOSC \<or> k_kind k = KSecret \<and> k_ns k = ''cloud-init-settings'' \<and> (\<exists>x. k_name k = x @ ''-config'')"
proof -
  have "machineDeploymentKey ns n @ ''-kubelet-bootstrap-config'' = (machineDeploymentKey ns n @ ''-kubelet-bootstrap'') @ ''-config''"
    "n @ ''-'' @ ns @ ''-'' @ t @ ''-config'' = (n @ ''-'' @ ns @ ''-'' @ t) @ ''-config''" for t
    by simp_all
  then show ?thesis using assms
    by (auto simp: ownKeys_def secretKeys_def oscKey_def cloudConfigKey_def kubeletConfigKey_def demo_sdk_def
      simp del: append.simps append_assoc)
qed

lemma demo_unowned:
  assumes "k \<in> set (ownKeys demo_env demo_reconciler ns n)"
  shows "store_objs (demo_world (demo_md ''hetzner'' ''ubuntu'') []) k = None"
proof -
  obtain c kd n' m where k: "k = Key c kd n' m" by (cases k)
  have "find_obj k [] = None" by (simp add: find_obj_def)
  with demo_own_names [OF assms] config_suffix show ?thesis
    by (auto simp: k store_objs_def demo_world_def find_Cons key_of_def demo_secret_def demo_sa_token_def)
qed

theorem no_orphans_witness:
  "\<exists>w' md. Reconcile demo_env demo_reconciler (''kube-system'', ''md'') (demo_world (demo_md ''hetzner'' ''ubuntu'') []) = (Inr (), w')
    \<and> store_objs w' (Key Management KOSC ''kube-system'' ''md-kube-system-config'') \<noteq> None
    \<and> (\<exists>ns n md. store_objs w' (Key Management KMD ns n) = Some (MD md) \<and> hasCleanup md)"
proof -
  let ?k = "Key Management KOSC ''kube-system'' ''md-kube-system-config''"
  obtain w' where run: "Reconcile demo_env demo_reconciler (''kube-system'', ''md'')
    (demo_world (demo_md ''hetzner'' ''ubuntu'') []) = (Inr (), w')" by (rule demo_result)
  have reach: "reach demo_env store_objs demo_reconciler w'"
    by (rule reach.run [OF reach.start run]) (rule demo_unowned)
  have "store_objs (demo_world (demo_md ''hetzner'' ''ubuntu'') []) (mdKey demo_reconciler ''kube-system'' ''md'')
        = Some (MD (demo_md ''hetzner'' ''ubuntu''))"
      "md_DeletionTimestamp (demo_md ''hetzner'' ''ubuntu'') = None"
    by (simp_all add: demo_world_objs [OF demo_md_simps(1)] demo_md_simps)
  then obtain osp where
    "synced demo_env demo_reconciler (finalized (demo_md ''hetzner'' ''ubuntu'')) osp
      ((store_objs (demo_world (demo_md ''hetzner'' ''ubuntu'') []))(mdKey demo_reconciler ''kube-system'' ''md''
        \<mapsto> MD (finalized (demo_md ''hetzner'' ''ubuntu'')))) (store_objs w')"
    by (rule live_success [OF demo_controller run]) blast
  from synced_osc [OF this] have ex: "store_objs w' ?k \<noteq> None" by (simp add: demo_md_simps)
  have own: "?k \<in> set (ownKeys demo_env demo_reconciler ''kube-system'' ''md'')" unfolding demo_own by (rule insertI1)
  have noscript: "?k \<noteq> scriptKey demo_reconciler ns n" for ns n by (simp add: scriptKey_def)
  from no_orphans [OF demo_controller, OF reach, OF own noscript ex] obtain ns n md where
    "store_objs w' (mdKey demo_reconciler ns n) = Some (MD md)" "hasCleanup md" by blast
  then have "\<exists>ns n md. store_objs w' (Key Management KMD ns n) = Some (MD md) \<and> hasCleanup md"
    unfolding demo_keys(1) by blast
  with run ex show ?thesis by blast
qed

end
