(* ===== verification/OSCFailures.thy ===== *)
theory OSCFailures
  imports OSCProperties
begin

text \<open>
  Where the OSC controller does not do what it means to: objects that an interrupted rotation leaves
  behind are taken over, and the script of an edge machine blocks every later rotation.
\<close>

section \<open>Interrupted rotations\<close>

text \<open>C11. A configuration is new but its secrets are not: if the OperatingSystemConfig of a deployment is gone and a
  cloud configuration secret is left (as after a rotation that deleted the configuration and then failed), the
  next successful Reconcile makes a new configuration, in step with the deployment, keeps the old secret as it is,
  and after that no rotation is due: machines go on starting from the old configuration.\<close>

theorem stale_secret_kept:
  assumes "osc_controller E objs r" and "distinct (scriptKey r ns n # secretKeys E r ns n)"
    and "Reconcile E r (ns, n) w = (Inr (), w')"
    and "objs w (mdKey r ns n) = Some (MD md)" and "md_DeletionTimestamp md = None"
    and "objs w (oscKey r ns n) = None"
    and "t \<in> {ProvisioningCloudConfig, BootstrapCloudConfig (env_sdk E)}"
    and "objs w (cloudConfigKey E r ns n t) = Some (SEC s)"
  shows "\<exists>osp osc. objs w' (cloudConfigKey E r ns n t) = Some (SEC s)
    \<and> objs w' (oscKey r ns n) = Some (OSC osc) \<and> generatedOSC E r (finalized md) osp osc
    \<and> inSync (env_sdk E) (finalized md) osp osc \<and> objs w' (ospKey r md) = Some (OSP osp)"
proof -
  from live_success [OF assms(1,3,4,5)] obtain osp where osp:
    "synced E r (finalized md) osp ((objs w)(mdKey r ns n \<mapsto> MD (finalized md))) (objs w')"
    "objs w' (ospKey r md) = Some (OSP osp)" "md_Namespace md = ns" "md_Name md = n"
    by blast
  let ?os = "(objs w)(mdKey r ns n \<mapsto> MD (finalized md))"
  have neq: "oscKey r ns n \<noteq> mdKey r ns n" "cloudConfigKey E r ns n t \<noteq> mdKey r ns n"
    by (auto dest: arg_cong [where f = k_kind])
  have rot: "rotated E r (finalized md) osp ?os = ?os"
    using osp(3,4) assms(6) neq by (simp add: rotated_def)
  show ?thesis
    using osp assms(2,6,7,8) neq rot
    by (auto simp: synced_def Let_def)
qed

text \<open>The example: a bootstrap secret of an earlier configuration is there.\<close>

definition demo_stale :: Secret where
  "demo_stale = demo_secret ''cloud-init-settings'' ''md-kube-system-bootstrap-config'' ''Opaque'' [(''cloud-config'', ''old'')]"

lemma demo_distinct:
  "distinct (scriptKey demo_reconciler ''kube-system'' ''md'' # secretKeys demo_env demo_reconciler ''kube-system'' ''md'')"
  by (simp add: scriptKey_def secretKeys_def edgeScriptName_def ProvisioningCloudConfig_def)

theorem stale_secret_kept_witness:
  "\<exists>w' osc. Reconcile demo_env demo_reconciler (''kube-system'', ''md'')
      (demo_world (demo_md ''hetzner'' ''ubuntu'') [SEC demo_stale]) = (Inr (), w')
    \<and> store_objs w' (Key Management KSecret ''cloud-init-settings'' ''md-kube-system-bootstrap-config'') = Some (SEC demo_stale)
    \<and> store_objs w' (Key Management KOSC ''kube-system'' ''md-kube-system-config'') = Some (OSC osc)"
proof -
  let ?w = "demo_world (demo_md ''hetzner'' ''ubuntu'') [SEC demo_stale]"
  have none: "store_objs ?w (Key Management KOSC ''kube-system'' ''md-kube-system-config'') = None"
    by (simp add: store_objs_def demo_world_def find_obj_def key_of_def)
  obtain w' where run: "Reconcile demo_env demo_reconciler (''kube-system'', ''md'') ?w = (Inr (), w')"
    using demo_run_with [OF none] by (auto simp: suc_def)
  have stale: "store_objs ?w (Key Management KSecret ''cloud-init-settings'' ''md-kube-system-bootstrap-config'')
      = Some (SEC demo_stale)"
    by (simp add: store_objs_def demo_world_def find_Cons key_of_def demo_stale_def demo_secret_def demo_sa_token_def
        demo_osp_def demo_sa_def demo_md_simps)
  from stale_secret_kept [OF demo_controller demo_distinct run, of "demo_md ''hetzner'' ''ubuntu''" "''bootstrap''" demo_stale]
  show ?thesis using run none stale
    by (auto simp: demo_world_objs [OF demo_md_simps(1)] demo_md_simps)
qed

section \<open>Edge machines\<close>

lemma generated_provider:
  assumes "generatedOSC E r md osp osc" and "parseProviderConfig (env_sdk E) md = Inr pc"
  shows "cps_Name (oscs_CloudProvider (osc_Spec osc)) = pc_CloudProvider pc"
  using assms
  by (auto simp: generatedOSC_def GenerateOperatingSystemConfig_def completeOSC_def buildOSCSpec_def Let_def res_simps
      split: prod.splits)

lemma synced_fresh:
  assumes "synced E r md osp os os'" and "rotated E r md osp os (oscKey r (md_Namespace md) (md_Name md)) = None"
    and "distinct (scriptKey r (md_Namespace md) (md_Name md) # secretKeys E r (md_Namespace md) (md_Name md))"
  obtains osc where "generatedOSC E r md osp osc" "isEdge osc \<longrightarrow> os (scriptKey r (md_Namespace md) (md_Name md)) = None"
proof -
  from assms(1) obtain osc where "if rotated E r md osp os (oscKey r (md_Namespace md) (md_Name md)) = None
      then generatedOSC E r md osp osc
      else rotated E r md osp os (oscKey r (md_Namespace md) (md_Name md)) = Some (OSC osc)"
    "if rotated E r md osp os (oscKey r (md_Namespace md) (md_Name md)) = None \<and> isEdge osc
      then os (scriptKey r (md_Namespace md) (md_Name md)) = None \<and> os' (scriptKey r (md_Namespace md) (md_Name md)) \<noteq> None
      else os' (scriptKey r (md_Namespace md) (md_Name md)) = os (scriptKey r (md_Namespace md) (md_Name md))"
    using assms(3) unfolding synced_def Let_def by blast
  with assms(2) that show ?thesis by (simp split: if_splits)
qed

lemma parse_finalized [simp]: "parseProviderConfig S (finalized md) = parseProviderConfig S md"
  by (simp add: parseProviderConfig_def finalized_def withCleanup_def)

text \<open>C12. For a machine of the edge provider the script secret is created together with the configuration and never
  updated: while the secret exists, no Reconcile that has to make a configuration succeeds, be it after a rotation
  or because the configuration is missing.\<close>

theorem edge_script_blocks:
  assumes "osc_controller E objs r" and "distinct (scriptKey r ns n # secretKeys E r ns n)"
    and "objs w (mdKey r ns n) = Some (MD md)" and "md_DeletionTimestamp md = None"
    and "parseProviderConfig (env_sdk E) md = Inr pc" and "pc_CloudProvider pc = ''edge''"
    and "objs w (scriptKey r ns n) \<noteq> None"
    and "objs w (oscKey r ns n) = None
      \<or> (\<exists>osc osp. objs w (oscKey r ns n) = Some (OSC osc) \<and> objs w (ospKey r md) = Some (OSP osp)
          \<and> \<not> inSync (env_sdk E) (finalized md) osp osc)"
  shows "fst (Reconcile E r (ns, n) w) \<noteq> Inr ()"
proof
  assume "fst (Reconcile E r (ns, n) w) = Inr ()"
  then obtain w' where run: "Reconcile E r (ns, n) w = (Inr (), w')" by (metis prod.collapse)
  from live_success [OF assms(1) run assms(3,4)] obtain osp where osp: "objs w (ospKey r md) = Some (OSP osp)"
    "synced E r (finalized md) osp ((objs w)(mdKey r ns n \<mapsto> MD (finalized md))) (objs w')"
    "md_Namespace md = ns" "md_Name md = n"
    by blast
  let ?os = "(objs w)(mdKey r ns n \<mapsto> MD (finalized md))"
  have neq: "oscKey r ns n \<noteq> mdKey r ns n" "scriptKey r ns n \<noteq> mdKey r ns n"
    by (auto dest: arg_cong [where f = k_kind])
  have "rotated E r (finalized md) osp ?os (oscKey r ns n) = None"
    using osp(1,3,4) assms(8) neq by (auto simp: rotated_def erase_def ownKeys_def)
  with synced_fresh [OF osp(2)] osp(3,4) assms(2) obtain osc where osc: "generatedOSC E r (finalized md) osp osc"
    "isEdge osc \<longrightarrow> ?os (scriptKey r ns n) = None"
    by auto
  have "isEdge osc"
    using generated_provider [OF osc(1)] assms(5,6) by (simp add: isEdge_def)
  with osc(2) assms(7) neq(2) show False by simp
qed

definition demo_script :: Secret where
  "demo_script = demo_secret ''cloud-init-settings'' ''edge-provider-script-md-kube-system'' [] []"

theorem edge_script_blocks_witness:
  "\<exists>e w'. Reconcile demo_env demo_reconciler (''kube-system'', ''md'')
      (demo_world (demo_md ''edge'' ''ubuntu'') [SEC demo_script]) = (Inl e, w')"
proof -
  let ?w = "demo_world (demo_md ''edge'' ''ubuntu'') [SEC demo_script]"
  have none: "store_objs ?w (Key Management KOSC ''kube-system'' ''md-kube-system-config'') = None"
    by (simp add: store_objs_def demo_world_def find_obj_def key_of_def)
  have script: "store_objs ?w (scriptKey demo_reconciler ''kube-system'' ''md'') = Some (SEC demo_script)"
    by (simp add: store_objs_def demo_world_def find_Cons key_of_def demo_script_def demo_secret_def demo_sa_token_def
        demo_osp_def demo_sa_def demo_md_simps scriptKey_def edgeScriptName_def CloudInitNamespace_def)
  have parse: "parseProviderConfig (env_sdk demo_env) (demo_md ''edge'' ''ubuntu'') = Inr (demo_pc ''edge'' ''ubuntu'')"
    by (simp add: parseProviderConfig_def demo_md_simps demo_unmarshal orDefault_def) (simp add: demo_raw_def)
  have "fst (Reconcile demo_env demo_reconciler (''kube-system'', ''md'') ?w) \<noteq> Inr ()"
    by (rule edge_script_blocks [OF demo_controller demo_distinct _ demo_md_simps(3) parse])
      (simp_all add: script none demo_world_objs [OF demo_md_simps(1)] demo_pc_def)
  then show ?thesis
    by (cases "Reconcile demo_env demo_reconciler (''kube-system'', ''md'') ?w") (auto split: sum.splits, metis sum.exhaust old.unit.exhaust)
qed

end
