(* ===== verification/OSCRendering.thy ===== *)
theory OSCRendering
  imports OSCDemo
begin

text \<open>
  From a profile to user data: what the rendered configuration of \<open>pkg/controllers/osc/resources\<close> looks like,
  and that \<open>pkg/generator\<close> can make both cloud configurations of it.
\<close>

section \<open>Rendered files\<close>

lemma populateFile_Inr:
  assumes "populateFile E ts d f = Inr f'"
  shows "file_Path f' = file_Path f \<and> file_Inline f' \<noteq> None \<and> file_Permissions f' \<noteq> 0
    \<and> (file_Permissions f \<noteq> 0 \<longrightarrow> file_Permissions f' = file_Permissions f)"
  using assms by (auto simp: populateFile_def res_simps defaultFilePermissions_def split: option.splits if_splits)

definition plannedFiles :: "OSPConfig \<Rightarrow> string \<Rightarrow> File list" where
  "plannedFiles config containerRuntime = ospc_Files config @ selectAdditionalFiles config containerRuntime"

lemma renderedFiles_Inr:
  assumes "renderedFiles E config cr d = Inr fs"
  shows "map file_Path fs = map file_Path (plannedFiles config cr)
    \<and> (\<forall>f \<in> set fs. file_Inline f \<noteq> None \<and> file_Permissions f \<noteq> 0)"
proof -
  obtain ts where "list_all2 (\<lambda>f f'. populateFile E ts d f = Inr f') (plannedFiles config cr) fs"
    using assms by (auto simp: renderedFiles_def populateFilesList_def plannedFiles_def res_simps mapR_Inr)
  then show ?thesis
    by (induction rule: list_all2_induct) (auto dest: populateFile_Inr)
qed

text \<open>
  What rendering makes of a file of the profile, in terms of the template engine alone: path and
  encoding stay, the permissions get their default, and the text is what executing the file's template
  gives, with the additional templates \<open>ts\<close> parsed into it.
\<close>

definition renderedFrom :: "engine \<Rightarrow> filesData \<Rightarrow> string list \<Rightarrow> File \<Rightarrow> File \<Rightarrow> bool" where
  "renderedFrom E d ts f f' \<longleftrightarrow> (\<exists>inl out. file_Inline f = Some inl
     \<and> te_Execute E (file_Path f) (inl_Data inl # ts) d = Inr out
     \<and> f' = \<lparr>file_Path = file_Path f, file_Permissions = (if file_Permissions f = 0 then 644 else file_Permissions f),
         file_Inline = Some \<lparr>inl_Encoding = inl_Encoding inl, inl_Data = out\<rparr>\<rparr>)"

lemma parseMore_Inr: "parseMore E name texts ts = Inr r \<Longrightarrow> r = texts @ ts"
  by (induction E name texts ts rule: parseMore.induct) (auto simp: res_simps)

lemma populateFile_rendered: "populateFile E ts d f = Inr f' \<Longrightarrow> renderedFrom E d ts f f'"
  by (auto simp: populateFile_def renderedFrom_def res_simps defaultFilePermissions_def split: option.splits dest!: parseMore_Inr)

lemma renderedFiles_from:
  assumes "renderedFiles E config cr d = Inr fs"
  shows "\<exists>ts. selectAdditionalTemplates E config cr d = Inr ts \<and> list_all2 (renderedFrom E d ts) (plannedFiles config cr) fs"
  using assms
  by (auto simp: renderedFiles_def populateFilesList_def plannedFiles_def res_simps mapR_Inr
      intro!: list_all2_mono [OF _ populateFile_rendered])

lemma injected:
  "map file_Path (injectRegistryHostConfigs fs hosts) = map file_Path fs @ sorted_keys hosts"
  "(\<forall>f \<in> set (injectRegistryHostConfigs fs hosts). file_Inline f \<noteq> None \<and> file_Permissions f \<noteq> 0)
    \<longleftrightarrow> (\<forall>f \<in> set fs. file_Inline f \<noteq> None \<and> file_Permissions f \<noteq> 0)"
  by (auto simp: injectRegistryHostConfigs_def registryFile_def comp_def)

text \<open>The settings of an operating system other than Flatcar decode for the generator if they do for the templates.\<close>

lemma Unmarshal_weaken:
  assumes "isOk (Unmarshal dec raw)" and "\<And>ms. isOk (dec ms) \<Longrightarrow> isOk (dec' ms)"
  shows "isOk (Unmarshal dec' raw)"
  using assms by (auto simp: Unmarshal_def isOk_iff res_simps split: option.splits)

lemma settings_decode:
  assumes "setOperatingSystemConfig os spec data = Inr data'" and "os \<noteq> OperatingSystemFlatcar"
  shows "isOk (LoadConfig spec)"
proof (cases spec)
  case None
  then show ?thesis by (simp add: load_simps default_json isOk_iff)
next
  case (Some s)
  have "isOk (Unmarshal decodeDist s) \<or> isOk (Unmarshal decodeRhel s)"
    using assms Some by (auto simp: setOperatingSystemConfig_def load_simps isOk_iff res_simps split: if_splits)
  then show ?thesis
    using Some Unmarshal_weaken [of decodeRhel s decodeDist]
    by (auto simp: load_simps isOk_iff decodeRhel_def decodeDist_def res_simps)
qed

lemma buildFilesData_settings:
  assumes "buildFilesData S v ips ca hca it cc cr pc ex taints x y gates k bc hp np sb ann = Inr d"
  shows "\<exists>os os'. setOperatingSystemConfig (pc_OperatingSystem pc) (pc_OperatingSystemSpec pc) os = Inr os'"
  using assms by (auto simp: buildFilesData_def Let_def res_simps split: if_splits)

section \<open>The rendered configuration\<close>

text \<open>The subscription changes no file.\<close>

lemma planned_subscription [simp]:
  "plannedFiles (osps_BootstrapConfig (osp_Spec (configureRHELSubscription pc osp d))) cr
    = plannedFiles (osps_BootstrapConfig (osp_Spec osp)) cr"
  "plannedFiles (osps_ProvisioningConfig (osp_Spec (configureRHELSubscription pc osp d))) cr
    = plannedFiles (osps_ProvisioningConfig (osp_Spec osp)) cr"
  by (simp_all add: plannedFiles_def configureRHELSubscription_def withSubscription_def selectAdditionalFiles_def Let_def)

lemma generated_parts:
  assumes "GenerateOperatingSystemConfig L md osp kubeconfig kn token name ns ca hca ips cr ext taints hp np crc gates = Inr osc"
  obtains pc hosts where "parseProviderConfig (lib_sdk L) md = Inr pc"
    "oscs_OSName (osc_Spec osc) = osps_OSName (osp_Spec osp)"
    "cps_Name (oscs_CloudProvider (osc_Spec osc)) = pc_CloudProvider pc"
    "\<exists>os os'. setOperatingSystemConfig (pc_OperatingSystem pc) (pc_OperatingSystemSpec pc) os = Inr os'"
    "map file_Path (oscc_Files (oscs_BootstrapConfig (osc_Spec osc)))
      = map file_Path (plannedFiles (osps_BootstrapConfig (osp_Spec osp)) cr)"
    "map file_Path (oscc_Files (oscs_ProvisioningConfig (osc_Spec osc)))
      = map file_Path (plannedFiles (osps_ProvisioningConfig (osp_Spec osp)) cr) @ sorted_keys (hosts :: strmap)"
    "\<forall>f \<in> set (oscc_Files (oscs_BootstrapConfig (osc_Spec osc)) @ oscc_Files (oscs_ProvisioningConfig (osc_Spec osc))).
      file_Inline f \<noteq> None \<and> file_Permissions f \<noteq> 0"
proof -
  obtain pc crConfig crAuth hosts bc k cc it ex v d boot prov0 where pc: "parseProviderConfig (lib_sdk L) md = Inr pc"
    and d: "buildFilesData (lib_sdk L) v ips ca hca it cc cr pc ex taints crConfig crAuth gates k bc hp np
      (cr_SandboxImage crc) (md_Annotations md) = Inr d"
    and files: "renderOSPFiles (lib_engine L) (configureRHELSubscription pc osp d) cr d hosts = Inr (boot, prov0)"
    and osc: "osc = \<lparr>osc_meta = emptyMeta\<lparr>meta_Name := name, meta_Namespace := ns\<rparr>,
            osc_Spec = buildOSCSpec osp (configureRHELSubscription pc osp d) pc boot prov0\<rparr>"
    using assms
    unfolding GenerateOperatingSystemConfig_def Let_def bindR_Inr split_paired_Ex case_prod_conv sum.inject
    by (elim exE conjE) (rule that, assumption+, rule sym)
  let ?osp = "configureRHELSubscription pc osp d"
  from files obtain prov where files: "renderedFiles (lib_engine L) (osps_BootstrapConfig (osp_Spec ?osp)) cr d = Inr boot"
      "renderedFiles (lib_engine L) (osps_ProvisioningConfig (osp_Spec ?osp)) cr d = Inr prov"
      "prov0 = (if hosts = [] then prov else injectRegistryHostConfigs prov hosts)"
    by (auto simp: renderOSPFiles_def res_simps)
  have empty: "sorted_keys [] = []" by (simp add: sorted_keys_def keys_def)
  show ?thesis
    by (rule that [OF pc, where hosts = hosts])
      (use renderedFiles_Inr [OF files(1)] renderedFiles_Inr [OF files(2)] injected [of prov hosts]
         buildFilesData_settings [OF d] in \<open>auto simp: osc files(3) buildOSCSpec_def Let_def empty\<close>)
qed

text \<open>The files one by one.\<close>

lemma templates_subscription [simp]:
  "selectAdditionalTemplates E (osps_BootstrapConfig (osp_Spec (configureRHELSubscription pc osp d))) cr d'
    = selectAdditionalTemplates E (osps_BootstrapConfig (osp_Spec osp)) cr d'"
  "selectAdditionalTemplates E (osps_ProvisioningConfig (osp_Spec (configureRHELSubscription pc osp d))) cr d'
    = selectAdditionalTemplates E (osps_ProvisioningConfig (osp_Spec osp)) cr d'"
  by (simp_all add: selectAdditionalTemplates_def templatesToRender_def configureRHELSubscription_def withSubscription_def Let_def)

lemma prepared_hosts:
  "prepareContainerRuntimeConfig L md crc = Inr (a, b, hosts) \<Longrightarrow> RegistryHostConfigs (lib_toml L) (Engine crc) = Inr hosts"
  by (auto simp: prepareContainerRuntimeConfig_def Engine_def Let_def res_simps split: option.splits if_splits)

definition hostFile :: "strmap \<Rightarrow> string \<Rightarrow> File" where
  "hostFile hosts p = \<lparr>file_Path = p, file_Permissions = 600, file_Inline = Some \<lparr>inl_Encoding = [], inl_Data = mget hosts p\<rparr>\<rparr>"

definition handedOver :: "libs \<Rightarrow> Kubeconfig \<Rightarrow> string \<Rightarrow> string \<Rightarrow> string \<Rightarrow> string \<Rightarrow> IP list \<Rightarrow> CRConfig \<Rightarrow> filesData \<Rightarrow> bool" where
  "handedOver L kubeconfig kn token ca hca ips crc d \<longleftrightarrow>
     StringifyKubeconfig (lib_client_go L) kubeconfig = Inr (fd_BootstrapKubeconfig d)
   \<and> bc_Token (fd_bootstrap d) = token \<and> bc_BootstrapKubeconfigSecretName (fd_bootstrap d) = kn
   \<and> fd_KubernetesCACert d = ca \<and> fd_HostCACert d = hca \<and> fd_ClusterDNSIPs d = ips \<and> fd_PauseImage d = cr_SandboxImage crc"

lemma generated_files:
  assumes "GenerateOperatingSystemConfig L md osp kubeconfig kn token name ns ca hca ips cr ext taints hp np crc gates = Inr osc"
  obtains d hosts bts pts fs where "handedOver L kubeconfig kn token ca hca ips crc d"
    "RegistryHostConfigs (lib_toml L) (Engine crc) = Inr hosts"
    "selectAdditionalTemplates (lib_engine L) (osps_BootstrapConfig (osp_Spec osp)) cr d = Inr bts"
    "list_all2 (renderedFrom (lib_engine L) d bts) (plannedFiles (osps_BootstrapConfig (osp_Spec osp)) cr)
       (oscc_Files (oscs_BootstrapConfig (osc_Spec osc)))"
    "selectAdditionalTemplates (lib_engine L) (osps_ProvisioningConfig (osp_Spec osp)) cr d = Inr pts"
    "list_all2 (renderedFrom (lib_engine L) d pts) (plannedFiles (osps_ProvisioningConfig (osp_Spec osp)) cr) fs"
    "oscc_Files (oscs_ProvisioningConfig (osc_Spec osc)) = fs @ map (hostFile hosts) (sorted_keys hosts)"
proof -
  obtain pc crConfig crAuth hosts bc k cc it ex v d boot prov0 where
    hosts: "prepareContainerRuntimeConfig L md crc = Inr (crConfig, crAuth, hosts)"
    and bc: "prepareBootstrapConfig L md kubeconfig kn token = Inr (bc, k)"
    and d: "buildFilesData (lib_sdk L) v ips ca hca it cc cr pc ex taints crConfig crAuth gates k bc hp np
      (cr_SandboxImage crc) (md_Annotations md) = Inr d"
    and files: "renderOSPFiles (lib_engine L) (configureRHELSubscription pc osp d) cr d hosts = Inr (boot, prov0)"
    and osc: "osc = \<lparr>osc_meta = emptyMeta\<lparr>meta_Name := name, meta_Namespace := ns\<rparr>,
            osc_Spec = buildOSCSpec osp (configureRHELSubscription pc osp d) pc boot prov0\<rparr>"
    using assms
    unfolding GenerateOperatingSystemConfig_def Let_def bindR_Inr split_paired_Ex case_prod_conv sum.inject
    by (elim exE conjE) (rule that, assumption+, rule sym)
  from files obtain prov where files:
    "renderedFiles (lib_engine L) (osps_BootstrapConfig (osp_Spec (configureRHELSubscription pc osp d))) cr d = Inr boot"
    "renderedFiles (lib_engine L) (osps_ProvisioningConfig (osp_Spec (configureRHELSubscription pc osp d))) cr d = Inr prov"
    "prov0 = (if hosts = [] then prov else injectRegistryHostConfigs prov hosts)"
    by (auto simp: renderOSPFiles_def res_simps)
  have "prov0 = prov @ map (hostFile hosts) (sorted_keys hosts)"
    using files(3) by (auto simp: injectRegistryHostConfigs_def registryFile_def hostFile_def sorted_keys_def keys_def)
  moreover have "handedOver L kubeconfig kn token ca hca ips crc d"
    using bc d by (auto simp: handedOver_def prepareBootstrapConfig_def buildFilesData_def Let_def res_simps split: if_splits)
  ultimately show ?thesis
    using renderedFiles_from [OF files(1)] renderedFiles_from [OF files(2)] prepared_hosts [OF hosts]
    by (auto simp: osc buildOSCSpec_def Let_def intro: that)
qed

lemma completed_spec:
  assumes "spec = osc_Spec (completeOSC S md osp osc)"
  shows "oscs_BootstrapConfig spec = oscs_BootstrapConfig (osc_Spec osc)" "oscs_OSName spec = oscs_OSName (osc_Spec osc)"
    "oscs_ProvisioningConfig spec = oscs_ProvisioningConfig (osc_Spec osc)"
    "oscs_CloudProvider spec = oscs_CloudProvider (osc_Spec osc)"
    "oscs_ProvisioningUtility spec = (if osps_ProvisioningUtility (osp_Spec osp) = [] then ProvisioningUtilityCloudInit
       else osps_ProvisioningUtility (osp_Spec osp))"
  by (simp_all add: assms completeOSC_def Let_def)

text \<open>The generator makes both cloud configurations of a configuration that was rendered, if it is not for Flatcar.\<close>

lemma generated_accepted:
  assumes "GenerateOperatingSystemConfig L md osp kubeconfig kn token name ns ca hca ips cr ext taints hp np crc gates = Inr osc"
    and "decodeProviderConfig (lib_sdk L) md = parseProviderConfig (lib_sdk L) md"
    and "spec = osc_Spec (completeOSC (lib_sdk L) md osp osc)" and "c \<in> {oscs_BootstrapConfig spec, oscs_ProvisioningConfig spec}"
    and "parseProviderConfig (lib_sdk L) md = Inr pc" and "pc_OperatingSystem pc = osps_OSName (osp_Spec osp)"
    and "osps_OSName (osp_Spec osp) \<noteq> OperatingSystemFlatcar"
    and "osps_ProvisioningUtility (osp_Spec osp) \<in> {[], ProvisioningUtilityCloudInit}"
  shows "isOk (Generate (lib_sdk L) T c (oscs_ProvisioningUtility spec) (oscs_OSName spec)
      (cps_Name (oscs_CloudProvider spec)) md t)"
proof -
  from assms(1) obtain pc' hosts where parts: "parseProviderConfig (lib_sdk L) md = Inr pc'"
    "oscs_OSName (osc_Spec osc) = osps_OSName (osp_Spec osp)"
    "\<exists>os os'. setOperatingSystemConfig (pc_OperatingSystem pc') (pc_OperatingSystemSpec pc') os = Inr os'"
    "\<forall>f \<in> set (oscc_Files (oscs_BootstrapConfig (osc_Spec osc)) @ oscc_Files (oscs_ProvisioningConfig (osc_Spec osc))).
      file_Inline f \<noteq> None \<and> file_Permissions f \<noteq> 0"
    by (rule generated_parts)
  have pc: "pc' = pc" using parts(1) assms(5) by simp
  have "\<forall>f \<in> set (oscc_Files c). file_Inline f \<noteq> None"
    using parts(4) assms(4) by (auto simp: completed_spec [OF assms(3)])
  moreover have "isOk (LoadConfig (pc_OperatingSystemSpec pc))"
    using settings_decode parts(3) assms(6,7) pc by auto
  moreover have "oscs_ProvisioningUtility spec \<in> {[], ProvisioningUtilityCloudInit}"
    using assms(8) by (auto simp: completed_spec [OF assms(3)])
  ultimately show ?thesis
    using assms(2,5,7) parts(2) by (subst Generate_isOk) (auto simp: completed_spec [OF assms(3)])
qed

text \<open>C14. The configuration rendered from a profile is well formed. It is for the profile's operating system and the
  deployment's provider. The files of its bootstrap part are those of the profile and of the container runtime, in that
  order, each with the text that executing its template on the data of this call gives, with its own path and
  encoding and permissions by default 644; so are the first files of its provisioning part, and after them come
  exactly the registry host files of the container runtime, by path, with permissions 600. The data carry the kubeconfig
  and the token, the certificates, the DNS addresses and the sandbox image of the call. The generator makes both cloud
  configurations of it if the operating system is not Flatcar, the profile asks for cloud-init or for no utility, and the
  generator decodes the deployment's provider configuration as the rendering does, with the profile's operating system.\<close>

theorem rendered_configuration:
  assumes "GenerateOperatingSystemConfig L md osp kubeconfig kn token name ns ca hca ips cr ext taints hp np crc gates = Inr osc"
    and "spec = osc_Spec (completeOSC (lib_sdk L) md osp osc)"
  shows "\<exists>pc d hosts bts pts fs.
      parseProviderConfig (lib_sdk L) md = Inr pc
    \<and> cps_Name (oscs_CloudProvider spec) = pc_CloudProvider pc \<and> oscs_OSName spec = osps_OSName (osp_Spec osp)
    \<and> handedOver L kubeconfig kn token ca hca ips crc d
    \<and> RegistryHostConfigs (lib_toml L) (Engine crc) = Inr hosts
    \<and> selectAdditionalTemplates (lib_engine L) (osps_BootstrapConfig (osp_Spec osp)) cr d = Inr bts
    \<and> list_all2 (renderedFrom (lib_engine L) d bts) (plannedFiles (osps_BootstrapConfig (osp_Spec osp)) cr)
        (oscc_Files (oscs_BootstrapConfig spec))
    \<and> selectAdditionalTemplates (lib_engine L) (osps_ProvisioningConfig (osp_Spec osp)) cr d = Inr pts
    \<and> list_all2 (renderedFrom (lib_engine L) d pts) (plannedFiles (osps_ProvisioningConfig (osp_Spec osp)) cr) fs
    \<and> oscc_Files (oscs_ProvisioningConfig spec) = fs @ map (hostFile hosts) (sorted_keys hosts)
    \<and> (decodeProviderConfig (lib_sdk L) md = Inr pc \<and> pc_OperatingSystem pc = oscs_OSName spec
        \<and> oscs_OSName spec \<noteq> OperatingSystemFlatcar \<and> osps_ProvisioningUtility (osp_Spec osp) \<in> {[], ProvisioningUtilityCloudInit} \<longrightarrow>
       (\<forall>c \<in> {oscs_BootstrapConfig spec, oscs_ProvisioningConfig spec}.
          isOk (Generate (lib_sdk L) T c (oscs_ProvisioningUtility spec) (oscs_OSName spec)
            (cps_Name (oscs_CloudProvider spec)) md t)))"
proof -
  obtain pc hosts where parts: "parseProviderConfig (lib_sdk L) md = Inr pc"
    "oscs_OSName (osc_Spec osc) = osps_OSName (osp_Spec osp)"
    "cps_Name (oscs_CloudProvider (osc_Spec osc)) = pc_CloudProvider pc"
    using assms(1) by (rule generated_parts)
  have gen: "isOk (Generate (lib_sdk L) T c (oscs_ProvisioningUtility spec) (oscs_OSName spec)
      (cps_Name (oscs_CloudProvider spec)) md t)"
    if "decodeProviderConfig (lib_sdk L) md = Inr pc" "pc_OperatingSystem pc = oscs_OSName spec"
      "oscs_OSName spec \<noteq> OperatingSystemFlatcar" "osps_ProvisioningUtility (osp_Spec osp) \<in> {[], ProvisioningUtilityCloudInit}"
      "c \<in> {oscs_BootstrapConfig spec, oscs_ProvisioningConfig spec}" for c
    by (rule generated_accepted [OF assms(1) _ assms(2) that(5) parts(1)])
      (use that parts(1,2) completed_spec(2) [OF assms(2)] in simp_all)
  obtain d hosts bts pts fs where "handedOver L kubeconfig kn token ca hca ips crc d"
    "RegistryHostConfigs (lib_toml L) (Engine crc) = Inr hosts"
    "selectAdditionalTemplates (lib_engine L) (osps_BootstrapConfig (osp_Spec osp)) cr d = Inr bts"
    "list_all2 (renderedFrom (lib_engine L) d bts) (plannedFiles (osps_BootstrapConfig (osp_Spec osp)) cr)
       (oscc_Files (oscs_BootstrapConfig (osc_Spec osc)))"
    "selectAdditionalTemplates (lib_engine L) (osps_ProvisioningConfig (osp_Spec osp)) cr d = Inr pts"
    "list_all2 (renderedFrom (lib_engine L) d pts) (plannedFiles (osps_ProvisioningConfig (osp_Spec osp)) cr) fs"
    "oscc_Files (oscs_ProvisioningConfig (osc_Spec osc)) = fs @ map (hostFile hosts) (sorted_keys hosts)"
    using assms(1) by (rule generated_files)
  with parts gen show ?thesis
    by (intro exI [of _ pc] exI [of _ d] exI [of _ hosts] exI [of _ bts] exI [of _ pts] exI [of _ fs])
      (simp add: completed_spec [OF assms(2)])
qed

text \<open>The example.\<close>

definition demo_joined :: Kubeconfig where
  "demo_joined = demo_kubeconfig\<lparr>kc_Clusters :=
     [(''c'', Some \<lparr>cl_Server = ''https://k'', cl_CertificateAuthorityData = ''ca''\<rparr>)]\<rparr>"

theorem rendered_configuration_witness:
  "\<exists>osc. GenerateOperatingSystemConfig demo_libs demo_final demo_osp demo_joined ''n'' ''t'' ''md-kube-system-config''
      ''kube-system'' [] [] [] ''containerd'' False [] [] [] demo_cr [] = Inr osc
    \<and> isOk (Generate demo_sdk demo_transpiler (oscs_BootstrapConfig (osc_Spec osc)) ''cloud-init'' ''ubuntu'' ''hetzner'' demo_final ''bootstrap'')
    \<and> map file_Path (oscc_Files (oscs_BootstrapConfig (osc_Spec osc))) = [file_Path demo_file]"
proof -
  let ?osc = "demo_rendered ''md-kube-system-config''"
  let ?spec = "osc_Spec (completeOSC (lib_sdk demo_libs) demo_final demo_osp ?osc)"
  have run: "GenerateOperatingSystemConfig demo_libs demo_final demo_osp demo_joined ''n'' ''t'' ''md-kube-system-config''
      ''kube-system'' [] [] [] ''containerd'' False [] [] [] demo_cr [] = Inr ?osc"
    by (rule demo_generated) (simp add: demo_joined_def)
  have decode: "decodeProviderConfig demo_sdk demo_final = Inr (demo_pc ''hetzner'' ''ubuntu'')"
    by (simp add: decodeProviderConfig_def demo_unmarshal orDefault_def)
  have spec: "oscs_OSName ?spec = ''ubuntu''" "cps_Name (oscs_CloudProvider ?spec) = ''hetzner''"
    "oscs_ProvisioningUtility ?spec = ''cloud-init''" "oscs_BootstrapConfig ?spec = oscs_BootstrapConfig (osc_Spec ?osc)"
    by (simp_all add: completeOSC_def demo_rendered_def buildOSCSpec_def demo_osp_def demo_pc_def Let_def)
  note ok = rendered_configuration [OF run refl, of demo_transpiler "''bootstrap''"]
  have "plannedFiles (osps_BootstrapConfig (osp_Spec demo_osp)) ''containerd'' = [demo_file]"
    "osps_ProvisioningUtility (osp_Spec demo_osp) = ''cloud-init''" "pc_OperatingSystem (demo_pc ''hetzner'' ''ubuntu'') = ''ubuntu''"
    by (simp_all add: plannedFiles_def demo_osp_def demo_osp_config_def selectAdditionalFiles_def demo_pc_def)
  with ok run show ?thesis
    unfolding spec by (auto simp: demo_parse decode OperatingSystemFlatcar_def ProvisioningUtilityCloudInit_def
        list_all2_Cons1 renderedFrom_def)
qed

end
