(* ===== verification/OSCLiveness.thy ===== *)
theory OSCLiveness
  imports OSCFailures OSCRendering
begin

text \<open>
  The whole pipeline makes progress: a live deployment on API servers that answer gets its
  configuration and its secrets, from the cluster information and the profile to the user data.
\<close>

lemma decode_finalized [simp]: "decodeProviderConfig S (finalized md) = decodeProviderConfig S md"
  by (simp add: decodeProviderConfig_def finalized_def withCleanup_def)

lemma checkOSP_finalized [simp]: "checkOSP S (finalized md) osp = checkOSP S md osp"
  by (simp add: checkOSP_def validateMachineDeployment_def finalized_def withCleanup_def)

lemma rendered_generates:
  assumes "GenerateOperatingSystemConfig (env_libs E) md osp cfg kn token name ns ca hca ips cr ext taints hp np crc gates = Inr osc"
    and "decodeProviderConfig (env_sdk E) md = parseProviderConfig (env_sdk E) md"
    and "parseProviderConfig (env_sdk E) md = Inr pc" and "pc_OperatingSystem pc = osps_OSName (osp_Spec osp)"
    and "osps_OSName (osp_Spec osp) \<noteq> OperatingSystemFlatcar"
    and "osps_ProvisioningUtility (osp_Spec osp) \<in> {[], ProvisioningUtilityCloudInit}"
    and "r_generator r = Generate (env_sdk E) T"
  shows "generates E r md (completeOSC (env_sdk E) md osp osc)"
  using generated_accepted [OF assms(1,2) refl _ assms(3-6), of _ T]
  by (auto simp: generates_def Let_def assms(7) isOk_iff)

lemma generated_cloud:
  assumes "GenerateOperatingSystemConfig L md osp kubeconfig kn token name ns ca hca ips cr ext taints hp np crc gates = Inr osc"
    and "parseProviderConfig (lib_sdk L) md = Inr pc"
  shows "cps_Name (oscs_CloudProvider (osc_Spec osc)) = pc_CloudProvider pc"
  using generated_parts [OF assms(1)] assms(2) by (metis sum.inject(2))

context osc_calm
begin

lemma account_not_own:
  "sans \<noteq> CloudInitNamespace \<Longrightarrow> Key c KSecret sans m \<notin> set (ownKeys E r ns n)"
  by (auto simp: ownKeys_def secretKeys_def cloudConfigKey_def kubeletConfigKey_def oscKey_def sdk_namespace)

lemma kinds_not_own: "k_kind k \<notin> {KOSC, KSecret} \<Longrightarrow> k \<notin> set (ownKeys E r ns n)"
  by (auto simp: ownKeys_def)

lemma suc_account_kubeconfig:
  assumes "calm w1" and same: "\<And>k. k \<notin> set (ownKeys E r ns n) \<Longrightarrow> k_kind k \<noteq> KMD \<Longrightarrow> objs w1 k = objs w k"
    and wired: "b_GetKubeconfig (r_bootstrappingManager r) = GetKubeconfig (lib_client_go (env_libs E)) (env_api E)
         \<lparr>kp_caCert = ca, kp_client = r_workerClient r\<rparr>"
      "b_ServiceAccount (r_bootstrappingManager r) = Some (sans, san)" "sans \<noteq> CloudInitNamespace"
    and info: "objs w (Key (r_workerClient r) KConfigMap ''kube-public'' ''cluster-info'') = Some (CM cm)"
      "map_of (cm_Data cm) ''kubeconfig'' = Some d" "clientcmd_Load (lib_client_go (env_libs E)) d = Inr info"
    and account: "objs w (Key (r_workerClient r) KServiceAccount sans san) = Some (SA sa)"
      "accountToken (objs w) (r_workerClient r) sans (sa_Secrets sa) = Some t"
    and out: "outKubeconfig (b_overrideServer (r_bootstrappingManager r)) t info = Inr cfg"
      "isOk (clientcmd_Write (lib_client_go (env_libs E)) cfg)"
  shows "suc (CreateBootstrapKubeconfig (lib_client_go (env_libs E)) (env_api E) tz (r_bootstrappingManager r) name)
    (\<lambda>(c, kn) w'. calm w' \<and> c = cfg \<and> kn = bootstrapConfigName name) w1"
proof -
  obtain str where str: "clientcmd_Write (lib_client_go (env_libs E)) cfg = Inr str"
    using out(2) by (auto simp: isOk_iff)
  have sa1: "objs w1 (Key (r_workerClient r) KServiceAccount sans san) = Some (SA sa)"
    and cm1: "objs w1 (Key (r_workerClient r) KConfigMap ''kube-public'' ''cluster-info'') = Some (CM cm)"
    using account(1) info(1) by (simp_all add: same kinds_not_own)
  have tok1: "accountToken (objs w1) (r_workerClient r) sans (sa_Secrets sa) = Some t"
    using accountToken_cong [of "objs w1" "r_workerClient r" sans "objs w"] account(2)
    by (simp add: same account_not_own [OF wired(3)])
  show ?thesis
  proof (rule suc_CreateBootstrapKubeconfig [OF assms(1) wired(2), unfolded boot_client, OF sa1 tok1 _ out(1) str])
    fix w2
    assume "calm w2" "objs w2 = objs w1"
    with cm1 show "suc (b_GetKubeconfig (r_bootstrappingManager r)) (\<lambda>i w'. i = info \<and> calm w') w2"
      unfolding wired(1) by (intro suc_GetKubeconfig) (use info(2,3) in auto)
  qed auto
qed

end

text \<open>C9. When a live deployment gets what it needs. Assume API servers that answer every call, each read from what was last
  written; a profile that is there, fits the machines, is not for Flatcar and asks for cloud-init or for no utility;
  machines of a provider other than edge (whose script is another matter); no registry credentials; bootstrap kubeconfigs
  with the token of a service account, which is there with its token, as is the cluster's kubeconfig; the token with which
  the machines read their secrets; and that the call's configuration renders, with the profile's templates and the
  deployment's settings, and that a configuration that is stored already can be generated from. Then Reconcile succeeds, and
  a configuration in step with the deployment and its three secrets are there.\<close>

theorem live_succeeds:
  assumes "osc_calm E objs r calm" and "calm w"
    and md: "objs w (mdKey r ns n) = Some (MD md)" "md_DeletionTimestamp md = None"
    and profile: "objs w (ospKey r md) = Some (OSP osp)" "checkOSP (env_sdk E) md osp = Inr ()"
      "osps_OSName (osp_Spec osp) \<noteq> OperatingSystemFlatcar"
      "osps_ProvisioningUtility (osp_Spec osp) \<in> {[], ProvisioningUtilityCloudInit}"
    and machines: "parseProviderConfig (env_sdk E) md = Inr pc" "decodeProviderConfig (env_sdk E) md = Inr pc"
      "pc_OperatingSystem pc = osps_OSName (osp_Spec osp)" "pc_CloudProvider pc \<noteq> ''edge''"
    and wired: "r_generator r = Generate (env_sdk E) T" "r_nodeRegistryCredentialsSecret r = []"
      "b_GetKubeconfig (r_bootstrappingManager r) = GetKubeconfig (lib_client_go (env_libs E)) (env_api E)
         \<lparr>kp_caCert = ca, kp_client = r_workerClient r\<rparr>"
      "b_ServiceAccount (r_bootstrappingManager r) = Some (sans, san)" "sans \<noteq> CloudInitNamespace"
    and info: "objs w (Key (r_workerClient r) KConfigMap ''kube-public'' ''cluster-info'') = Some (CM cm)"
      "map_of (cm_Data cm) ''kubeconfig'' = Some d" "clientcmd_Load (lib_client_go (env_libs E)) d = Inr info"
    and account: "objs w (Key (r_workerClient r) KServiceAccount sans san) = Some (SA sa)"
      "accountToken (objs w) (r_workerClient r) sans (sa_Secrets sa) = Some t"
    and token: "objs w (Key (r_workerClient r) KSecret CloudInitNamespace ''cloud-init-getter-token'') = Some (SEC s)"
      "map_of (secret_Data s) ''token'' = Some token"
      "Key (r_workerClient r) KSecret CloudInitNamespace ''cloud-init-getter-token'' \<notin> set (ownKeys E r ns n)"
    and renders: "outKubeconfig (b_overrideServer (r_bootstrappingManager r)) t info = Inr cfg"
      "isOk (clientcmd_Write (lib_client_go (env_libs E)) cfg)"
      "isOk (GenerateOperatingSystemConfig (env_libs E) (finalized md) osp cfg
         (bootstrapConfigName (machineDeploymentKey ns n)) token (k_name (oscKey r ns n)) (r_namespace r) (r_caCert r)
         (r_hostCACert r) (r_clusterDNSIPs r) (r_containerRuntime r) (r_externalCloudProvider r) (r_initialTaints r)
         (r_nodeHTTPProxy r) (r_nodeNoProxy r) (r_containerRuntimeConfig r) (r_kubeletFeatureGates r))"
    and old: "\<forall>osc. objs w (oscKey r ns n) = Some (OSC osc) \<longrightarrow> generates E r (finalized md) osc"
  shows "\<exists>w' osc. Reconcile E r (ns, n) w = (Inr (), w')
    \<and> objs w' (oscKey r ns n) = Some (OSC osc) \<and> inSync (env_sdk E) (finalized md) osp osc
    \<and> (\<forall>k \<in> set (secretKeys E r ns n). objs w' k \<noteq> None)"
proof -
  have con: "osc_controller E objs r" using assms(1) by (rule osc_calm.axioms)
  have at: "md_Namespace md = ns" "md_Name md = n" using md_named [OF con md(1)] by simp_all
  have fin: "md_Namespace (finalized md) = ns" "md_Name (finalized md) = n" using at by simp_all
  obtain osc where osc: "GenerateOperatingSystemConfig (env_libs E) (finalized md) osp cfg
         (bootstrapConfigName (machineDeploymentKey ns n)) token (k_name (oscKey r ns n)) (r_namespace r) (r_caCert r)
         (r_hostCACert r) (r_clusterDNSIPs r) (r_containerRuntime r) (r_externalCloudProvider r) (r_initialTaints r)
         (r_nodeHTTPProxy r) (r_nodeNoProxy r) (r_containerRuntimeConfig r) (r_kubeletFeatureGates r) = Inr osc"
    using renders(3) by (auto simp: isOk_iff)
  have "cps_Name (oscs_CloudProvider (osc_Spec osc)) = pc_CloudProvider pc"
    by (rule generated_cloud [OF osc]) (simp add: machines(1))
  moreover have "generates E r (finalized md) (completeOSC (env_sdk E) (finalized md) osp osc)"
    by (rule rendered_generates [OF osc]) (use machines profile wired(1) in simp_all)
  ultimately have rendered: "renders E r (finalized md) osp cfg (bootstrapConfigName (machineDeploymentKey ns n)) token"
    unfolding renders_def fin by (intro exI [of _ osc] conjI) (simp_all only: osc machines(4) not_False_eq_True)
  have run: "suc (Reconcile E r (ns, n)) (\<lambda>_ w'. True) w"
  proof (rule osc_calm.suc_Reconcile [OF assms(1,2) md(1)])
    fix w0
    assume w0: "calm w0" "objs w0 = (objs w)(mdKey r ns n \<mapsto> MD (finalized md))"
    have keep: "objs w0 k = objs w k" if "k_kind k \<noteq> KMD" for k
      using that w0(2) by auto
    have at0: "objs w0 (ospKey r md) = Some (OSP osp)" using w0(2) profile(1) by simp
    show "suc (reconcile E r (finalized md)) (\<lambda>_ w'. True) w0"
    proof (rule osc_calm.suc_reconcile [OF assms(1) w0(1), where osp = osp and token = token and s = s
          and p = ProvisioningUtilityCloudInit], unfold fin, goal_cases)
      case (3 w1)
      have "suc (CreateBootstrapKubeconfig (lib_client_go (env_libs E)) (env_api E) (env_tz E) (r_bootstrappingManager r)
          (machineDeploymentKey ns n)) (\<lambda>(c, kn) w'. calm w' \<and> c = cfg \<and> kn = bootstrapConfigName (machineDeploymentKey ns n)) w1"
        by (rule osc_calm.suc_account_kubeconfig [where ns = ns and n = n, OF assms(1) 3(1) _ wired(3-5) info account renders(1,2)])
          (use 3(2) keep in auto)
      then show ?case
        by (rule suc_mono) (use rendered in auto)
    qed (use profile token old keep at0 in \<open>auto simp: GetProvisioningUtility_def wired(2)\<close>)
  qed
  then obtain w' where "Reconcile E r (ns, n) w = (Inr (), w')" by (auto simp: suc_def)
  moreover from live_success [OF con this md] profile(1) obtain w'' where
    "synced E r (finalized md) osp ((objs w)(mdKey r ns n \<mapsto> MD (finalized md))) (objs w')" by auto
  ultimately show ?thesis using at by (auto simp: synced_def Let_def)
qed

section \<open>The example\<close>

text \<open>The world of the other examples, with the cluster information in its ConfigMap.\<close>

definition live_cm :: ConfigMap where
  "live_cm = \<lparr>cm_meta = emptyMeta\<lparr>meta_Name := ''cluster-info'', meta_Namespace := ''kube-public''\<rparr>,
     cm_Data = [(''kubeconfig'', ''kubeconfig'')]\<rparr>"

definition live_manager :: "store Bootstrap" where
  "live_manager = demo_manager\<lparr>b_GetKubeconfig := GetKubeconfig demo_client_go store_ops
     \<lparr>kp_caCert = ''ca'', kp_client = Management\<rparr>\<rparr>"

definition live_reconciler :: "store Reconciler" where
  "live_reconciler = demo_reconciler\<lparr>r_bootstrappingManager := live_manager\<rparr>"

lemma live_simps [simp]:
  "r_Client live_reconciler = Management" "r_workerClient live_reconciler = Management"
  "r_bootstrappingManager live_reconciler = live_manager" "r_namespace live_reconciler = ''kube-system''"
  "r_nodeRegistryCredentialsSecret live_reconciler = []" "r_generator live_reconciler = Generate demo_sdk demo_transpiler"
  "r_containerRuntime live_reconciler = ''containerd''" "r_externalCloudProvider live_reconciler = False"
  "r_containerRuntimeConfig live_reconciler = demo_cr"
  "b_ServiceAccount live_manager = Some (''kube-system'', ''osm'')" "b_overrideServer live_manager = []"
  "b_client live_manager = Management"
  by (simp_all add: live_reconciler_def live_manager_def)

lemma live_keys [simp]: "mdKey live_reconciler = mdKey demo_reconciler" "oscKey live_reconciler = oscKey demo_reconciler"
  "ospKey live_reconciler = ospKey demo_reconciler" "secretKeys E live_reconciler = secretKeys E demo_reconciler"
  "ownKeys E live_reconciler = ownKeys E demo_reconciler"
  by (auto simp: fun_eq_iff mdKey_def oscKey_def ospKey_def secretKeys_def cloudConfigKey_def kubeletConfigKey_def ownKeys_def)

lemma live_calm: "osc_calm demo_env store_objs live_reconciler (\<lambda>w. s_faults w = [])"
proof -
  have "readonly store_objs (GetKubeconfig demo_client_go store_ops p)" for p
    unfolding readonly_def keeps_def by (intro allI st.wp_GetKubeconfig_frame)
  then have "readonly store_objs (b_GetKubeconfig live_manager)" by (simp add: live_manager_def)
  with demo_controller show ?thesis
    by (simp add: osc_calm_def osc_calm_axioms_def osc_controller_def demo_env_def stp.kube_calm_axioms)
qed

lemma demo_decode: "decodeProviderConfig demo_sdk demo_final = Inr (demo_pc ''hetzner'' ''ubuntu'')"
  by (simp add: decodeProviderConfig_def demo_unmarshal orDefault_def)

theorem live_succeeds_witness:
  "\<exists>w' osc. Reconcile demo_env live_reconciler (''kube-system'', ''md'')
      (demo_world (demo_md ''hetzner'' ''ubuntu'') [CM live_cm]) = (Inr (), w')
    \<and> store_objs w' (Key Management KOSC ''kube-system'' ''md-kube-system-config'') = Some (OSC osc)"
proof -
  let ?md = "demo_md ''hetzner'' ''ubuntu''"
  let ?w = "demo_world ?md [CM live_cm]"
  note objs = demo_world_objs [OF demo_md_simps(1), of "''hetzner''" "''ubuntu''" "[CM live_cm]"]
  have none: "store_objs ?w (Key Management KOSC ''kube-system'' ''md-kube-system-config'') = None"
    and cm: "store_objs ?w (Key Management KConfigMap ''kube-public'' ''cluster-info'') = Some (CM live_cm)"
    by (simp_all add: store_objs_def demo_world_def find_Cons find_obj_def key_of_def live_cm_def)
  have osp: "osps_OSName (osp_Spec demo_osp) = ''ubuntu''" "osps_ProvisioningUtility (osp_Spec demo_osp) = ''cloud-init''"
    by (simp_all add: demo_osp_def)
  have parse: "parseProviderConfig demo_sdk ?md = Inr (demo_pc ''hetzner'' ''ubuntu'')"
    "decodeProviderConfig demo_sdk ?md = Inr (demo_pc ''hetzner'' ''ubuntu'')" "checkOSP demo_sdk ?md demo_osp = Inr ()"
    using demo_parse demo_decode demo_check by (simp_all add: demo_final_def)
  have key: "ospKey demo_reconciler ?md = Key Management KOSP ''kube-system'' ''osp''"
    using demo_osp_key by (simp add: demo_final_def)
  have data: "cm_Data live_cm = [(''kubeconfig'', ''kubeconfig'')]" "secret_Data (demo_secret ns n ty dt) = dt" for ns n ty dt
    by (simp_all add: live_cm_def demo_secret_def)
  have calm: "s_faults ?w = []" by (simp add: demo_world_def empty_store_def)
  obtain cfg cl where cfg: "outKubeconfig [] ''u'' demo_kubeconfig = Inr cfg" "kc_Clusters cfg = [(''c'', Some cl)]"
    by (rule demo_joining)
  have go: "clientcmd_Load demo_client_go d = Inr demo_kubeconfig" "clientcmd_Write demo_client_go cfg = Inr ''kubeconfig''" for d
    by (simp_all add: demo_client_go_def)
  have "\<exists>w' osc. Reconcile demo_env live_reconciler (''kube-system'', ''md'') ?w = (Inr (), w')
    \<and> store_objs w' (oscKey live_reconciler ''kube-system'' ''md'') = Some (OSC osc)
    \<and> inSync (env_sdk demo_env) (finalized ?md) demo_osp osc
    \<and> (\<forall>k \<in> set (secretKeys demo_env live_reconciler ''kube-system'' ''md''). store_objs w' k \<noteq> None)"
    by (rule live_succeeds [OF live_calm, where osp = demo_osp and pc = "demo_pc ''hetzner'' ''ubuntu''" and ca = "''ca''"
          and T = demo_transpiler and sans = "''kube-system''" and san = "''osm''" and cm = live_cm and d = "''kubeconfig''"
          and info = demo_kubeconfig and sa = demo_sa and t = "''u''" and token = "''t''" and cfg = cfg
          and s = "demo_secret ''cloud-init-settings'' ''cloud-init-getter-token'' [] [(''token'', ''t'')]"])
      (simp_all add: objs none cm parse demo_account cfg go osp key calm demo_md_simps demo_own demo_pc_def data
        live_manager_def CloudInitNamespace_def OperatingSystemFlatcar_def ProvisioningUtilityCloudInit_def
        demo_generated [OF cfg(2), unfolded demo_final_def])
  then show ?thesis by auto
qed

end
