(* ===== verification/Admission.thy ===== *)
theory Admission
  imports OSCController
begin

text \<open>
  \<open>pkg/admission\<close>: the three webhooks. Configurations are immutable, profiles may change only with
  their version and have units only for Flatcar, and a MachineDeployment without a profile is given
  the default profile of its operating system.

  Code outside the repository is a parameter: the decoder of the raw objects in a request, the
  decoding of a provider configuration, and the encoding of a MachineDeployment. A response that
  patches the object carries the raw object and the mutated one, from which the library computes the
  patch.
\<close>

section \<open>Semantic equality\<close>

text \<open>
  \<open>equality.Semantic.DeepEqual\<close>: maps are equal as maps, whatever their order of iteration, and an
  absent slice, map or byte string equals an empty one. Every value has a canonical form, with its maps
  in the order of their keys; values are equal when their canonical forms are.
\<close>

definition canonMap :: "('v \<Rightarrow> 'v) \<Rightarrow> (string \<times> 'v) list \<Rightarrow> (string \<times> 'v) list" where
  "canonMap f m = List.map_filter (\<lambda>k. map_option (\<lambda>v. (k, f v)) (map_of m k)) (sorted_keys m)"

definition canonModule :: "CloudInitModule \<Rightarrow> CloudInitModule" where
  "canonModule c = c\<lparr>cim_RHSubscription := canonMap id (cim_RHSubscription c),
     cim_YumRepos := canonMap (canonMap id) (cim_YumRepos c)\<rparr>"

definition canonProvider :: "CloudProviderSpec \<Rightarrow> CloudProviderSpec" where
  "canonProvider p = p\<lparr>cps_Spec := Some (orDefault [] (cps_Spec p))\<rparr>"

definition canonRuntime :: "ContainerRuntimeSpec \<Rightarrow> ContainerRuntimeSpec" where
  "canonRuntime c = c\<lparr>crs_Templates := canonMap id (crs_Templates c)\<rparr>"

definition canonOSPConfig :: "OSPConfig \<Rightarrow> OSPConfig" where
  "canonOSPConfig c = c\<lparr>ospc_SupportedContainerRuntimes := map canonRuntime (ospc_SupportedContainerRuntimes c),
     ospc_Templates := canonMap id (ospc_Templates c),
     ospc_CloudInitModules := map_option canonModule (ospc_CloudInitModules c)\<rparr>"

definition canonOSP :: "OperatingSystemProfileSpec \<Rightarrow> OperatingSystemProfileSpec" where
  "canonOSP s = s\<lparr>osps_SupportedCloudProviders := map canonProvider (osps_SupportedCloudProviders s),
     osps_BootstrapConfig := canonOSPConfig (osps_BootstrapConfig s),
     osps_ProvisioningConfig := canonOSPConfig (osps_ProvisioningConfig s)\<rparr>"

definition canonOSCConfig :: "OSCConfig \<Rightarrow> OSCConfig" where
  "canonOSCConfig c = c\<lparr>oscc_CloudInitModules := map_option canonModule (oscc_CloudInitModules c)\<rparr>"

definition canonOSC :: "OperatingSystemConfigSpec \<Rightarrow> OperatingSystemConfigSpec" where
  "canonOSC s = s\<lparr>oscs_CloudProvider := canonProvider (oscs_CloudProvider s),
     oscs_BootstrapConfig := canonOSCConfig (oscs_BootstrapConfig s),
     oscs_ProvisioningConfig := canonOSCConfig (oscs_ProvisioningConfig s)\<rparr>"

definition DeepEqualOSP :: "OperatingSystemProfileSpec \<Rightarrow> OperatingSystemProfileSpec \<Rightarrow> bool" where
  "DeepEqualOSP a b \<longleftrightarrow> canonOSP a = canonOSP b"

definition DeepEqualOSC :: "OperatingSystemConfigSpec \<Rightarrow> OperatingSystemConfigSpec \<Rightarrow> bool" where
  "DeepEqualOSC a b \<longleftrightarrow> canonOSC a = canonOSC b"

lemma map_of_canonMap:
  assumes "distinct (keys m)"
  shows "map_of (canonMap f m) = map_option f \<circ> map_of m"
proof
  fix k
  have step: "map_of (List.map_filter (\<lambda>k. map_option (\<lambda>v. (k, f v)) (map_of m k)) ks) k
      = (if k \<in> set ks then map_option f (map_of m k) else None)" for ks
    by (induction ks) (auto simp: map_filter_simps split: option.splits)
  show "map_of (canonMap f m) k = (map_option f \<circ> map_of m) k"
    by (auto simp: canonMap_def step)
qed

text \<open>The canonical form determines the map and is determined by it.\<close>

lemma canonMap_eq_iff:
  assumes "distinct (keys m)" "distinct (keys m')"
  shows "canonMap id m = canonMap id m' \<longleftrightarrow> map_of m = map_of m'"
proof
  assume "canonMap id m = canonMap id m'"
  then have "map_option id \<circ> map_of m = map_option id \<circ> map_of m'"
    using map_of_canonMap [OF assms(1), of id] map_of_canonMap [OF assms(2), of id] by simp
  then show "map_of m = map_of m'"
    by (simp add: fun_eq_iff option.map_id0)
next
  assume "map_of m = map_of m'"
  with sorted_keys_cong [OF assms this] show "canonMap id m = canonMap id m'"
    by (simp add: canonMap_def)
qed

lemma equivp_DeepEqual: "equivp DeepEqualOSP" "equivp DeepEqualOSC"
  by (auto simp: equivp_reflp_symp_transp reflp_def symp_def transp_def DeepEqualOSP_def DeepEqualOSC_def)

lemma canon_simps [simp]:
  "osps_Version (canonOSP s) = osps_Version s" "osps_OSName (canonOSP s) = osps_OSName s"
  "osps_ProvisioningUtility (canonOSP s) = osps_ProvisioningUtility s"
  "osps_BootstrapConfig (canonOSP s) = canonOSPConfig (osps_BootstrapConfig s)"
  "osps_ProvisioningConfig (canonOSP s) = canonOSPConfig (osps_ProvisioningConfig s)"
  "ospc_Units (canonOSPConfig c) = ospc_Units c" "ospc_Files (canonOSPConfig c) = ospc_Files c"
  "oscs_OSName (canonOSC t) = oscs_OSName t" "oscs_ProvisioningUtility (canonOSC t) = oscs_ProvisioningUtility t"
  "oscs_BootstrapConfig (canonOSC t) = canonOSCConfig (oscs_BootstrapConfig t)"
  "oscs_ProvisioningConfig (canonOSC t) = canonOSCConfig (oscs_ProvisioningConfig t)"
  "oscc_Units (canonOSCConfig d) = oscc_Units d" "oscc_Files (canonOSCConfig d) = oscc_Files d"
  "oscc_UserSSHKeys (canonOSCConfig d) = oscc_UserSSHKeys d"
  by (simp_all add: canonOSP_def canonOSPConfig_def canonOSC_def canonOSCConfig_def)

lemma DeepEqualOSP_fields:
  assumes "DeepEqualOSP a b"
  shows "osps_Version a = osps_Version b" "osps_OSName a = osps_OSName b"
    "ospc_Units (osps_BootstrapConfig a) = ospc_Units (osps_BootstrapConfig b)"
    "ospc_Units (osps_ProvisioningConfig a) = ospc_Units (osps_ProvisioningConfig b)"
proof -
  have eq: "canonOSP a = canonOSP b" using assms by (simp add: DeepEqualOSP_def)
  from arg_cong [OF eq, of osps_Version] arg_cong [OF eq, of osps_OSName]
    arg_cong [OF eq, of "\<lambda>s. ospc_Units (osps_BootstrapConfig s)"]
    arg_cong [OF eq, of "\<lambda>s. ospc_Units (osps_ProvisioningConfig s)"]
  show "osps_Version a = osps_Version b" "osps_OSName a = osps_OSName b"
    "ospc_Units (osps_BootstrapConfig a) = ospc_Units (osps_BootstrapConfig b)"
    "ospc_Units (osps_ProvisioningConfig a) = ospc_Units (osps_ProvisioningConfig b)" by simp_all
qed

section \<open>Requests and responses\<close>

record request =
  req_UID :: string
  req_Operation :: string
  req_Object :: string
  req_OldObject :: string

datatype response =
    Allowed string
  | Denied string error
  | Errored nat error
  | PatchFromRaw string string

definition StatusBadRequest :: nat where
  "StatusBadRequest = 400"

definition StatusInternalServerError :: nat where
  "StatusInternalServerError = 500"

section \<open>OperatingSystemConfigs\<close>

definition validateUpdateOSC :: "OperatingSystemConfig \<Rightarrow> OperatingSystemConfig \<Rightarrow> unit res" where
  "validateUpdateOSC osc oldOSC =
     (if \<not> DeepEqualOSC (osc_Spec oldOSC) (osc_Spec osc)
      then Inl (Errorf ''OperatingSystemConfig is immutable and updates are not allowed'' [])
      else Inr ())"

definition HandleOSC :: "(string \<Rightarrow> OperatingSystemConfig res) \<Rightarrow> request \<Rightarrow> response" where
  "HandleOSC decode req =
     (let allowed = Allowed (''operatingSystemConfig validation request '' @ req_UID req @ '' allowed'') in
      if req_Operation req = ''UPDATE'' then
        (case decode (req_Object req) of
           Inl e \<Rightarrow> Errored StatusBadRequest (Wrapf ''error occurred while decoding osc: %w'' [] e)
         | Inr osc \<Rightarrow>
             (case decode (req_OldObject req) of
                Inl e \<Rightarrow> Errored StatusBadRequest (Wrapf ''error occurred while decoding old osc: %w'' [] e)
              | Inr oldOSC \<Rightarrow>
                  (case validateUpdateOSC osc oldOSC of
                     Inl e \<Rightarrow> Denied (''operatingSystemConfig validation request '' @ req_UID req @ '' denied'') e
                   | Inr u \<Rightarrow> allowed)))
      else if req_Operation req \<in> {''CREATE'', ''DELETE''} then allowed
      else Errored StatusBadRequest (Errorf ''%s not supported on osc resources'' [req_Operation req]))"

section \<open>OperatingSystemProfiles\<close>

definition validateOperatingSystemProfile :: "OperatingSystemProfile \<Rightarrow> unit res" where
  "validateOperatingSystemProfile osp =
     (let spec = osp_Spec osp in
      if osps_OSName spec = OperatingSystemFlatcar then Inr ()
      else if length (ospc_Units (osps_BootstrapConfig spec)) > 0 \<or> length (ospc_Units (osps_ProvisioningConfig spec)) > 0
      then Inl (Errorf ''OperatingSystemProfile for %s does not support units'' [osps_OSName spec])
      else Inr ())"

definition validateUpdateOSP :: "OperatingSystemProfile \<Rightarrow> OperatingSystemProfile \<Rightarrow> unit res" where
  "validateUpdateOSP osp oldOSP =
     bindR (validateOperatingSystemProfile osp) (\<lambda>_.
       if DeepEqualOSP (osp_Spec oldOSP) (osp_Spec osp) then Inr ()
       else if osp_Version osp = osp_Version oldOSP
       then Inl (Errorf ''OperatingSystemProfile is immutable. For updates .spec.version needs to be updated'' [])
       else Inr ())"

definition HandleOSP :: "(string \<Rightarrow> OperatingSystemProfile res) \<Rightarrow> request \<Rightarrow> response" where
  "HandleOSP decode req =
     (let allowed = Allowed (''operatingSystemProfile validation request '' @ req_UID req @ '' allowed'');
          denied = Denied (''operatingSystemProfile validation request '' @ req_UID req @ '' denied'') in
      if req_Operation req = ''UPDATE'' then
        (case decode (req_Object req) of
           Inl e \<Rightarrow> Errored StatusBadRequest (Wrapf ''error occurred while decoding osp: %w'' [] e)
         | Inr osp \<Rightarrow>
             (case decode (req_OldObject req) of
                Inl e \<Rightarrow> Errored StatusBadRequest (Wrapf ''error occurred while decoding old osp: %w'' [] e)
              | Inr oldOSP \<Rightarrow>
                  (case validateUpdateOSP osp oldOSP of Inl e \<Rightarrow> denied e | Inr u \<Rightarrow> allowed)))
      else if req_Operation req = ''CREATE'' then
        (case decode (req_Object req) of
           Inl e \<Rightarrow> Errored StatusBadRequest (Wrapf ''error occurred while decoding osp: %w'' [] e)
         | Inr osp \<Rightarrow> (case validateOperatingSystemProfile osp of Inl e \<Rightarrow> denied e | Inr u \<Rightarrow> allowed))
      else if req_Operation req = ''DELETE'' then allowed
      else Errored StatusBadRequest (Errorf ''%s not supported on osp resources'' [req_Operation req]))"

section \<open>MachineDeployments\<close>

definition CloudProviderAnexia :: CloudProvider where
  "CloudProviderAnexia = ''anexia''"

text \<open>Assigning one annotation of a deployment.\<close>

definition annotate :: "string \<Rightarrow> string \<Rightarrow> MachineDeployment \<Rightarrow> MachineDeployment" where
  "annotate k v md = md\<lparr>md_meta := (md_meta md)\<lparr>meta_Annotations := mput k v (md_Annotations md)\<rparr>\<rparr>"

definition ospNameFor :: "OperatingSystem \<Rightarrow> string" where
  "ospNameFor os = ''osp-'' @ os"

definition MutateMachineDeployment ::
    "sdk \<Rightarrow> (RawExtension option \<Rightarrow> ProviderConfig res) \<Rightarrow> MachineDeployment \<Rightarrow> MachineDeployment res" where
  "MutateMachineDeployment S getConfig md =
     bindR (wrapR ''failed to read MachineDeployment.Spec.Template.Spec.ProviderSpec: %w'' []
              (getConfig (md_ProviderSpecValue md))) (\<lambda>pc.
     if mget (md_Annotations md) MachineDeploymentOSPAnnotation \<noteq> [] then Inr md
     else if pc_CloudProvider pc = CloudProviderAnexia \<and> pc_OperatingSystem pc = OperatingSystemFlatcar
        \<and> GetProvisioningUtility S (pc_OperatingSystem pc) md = Inr ProvisioningUtilityCloudInit
     then Inr (annotate MachineDeploymentOSPAnnotation ''osp-flatcar-cloud-init'' md)
     else if pc_OperatingSystem pc \<in> {OperatingSystemUbuntu, OperatingSystemFlatcar, OperatingSystemAmazonLinux2,
        OperatingSystemRockyLinux, OperatingSystemRHEL}
     then Inr (annotate MachineDeploymentOSPAnnotation (ospNameFor (pc_OperatingSystem pc)) md)
     else Inl (Errorf ''failed to populate OSP annotation for machinedeployment with unsupported Operating System %s''
                 [pc_OperatingSystem pc]))"

definition HandleMD ::
    "sdk \<Rightarrow> (RawExtension option \<Rightarrow> ProviderConfig res) \<Rightarrow> (string \<Rightarrow> MachineDeployment res)
     \<Rightarrow> (MachineDeployment \<Rightarrow> string res) \<Rightarrow> request \<Rightarrow> response" where
  "HandleMD S getConfig decode marshal req =
     (if req_Operation req \<in> {''CREATE'', ''UPDATE''} then
        (case decode (req_Object req) of
           Inl e \<Rightarrow> Errored StatusBadRequest (Wrapf ''error occurred while decoding reqquest: %w'' [] e)
         | Inr md \<Rightarrow>
             (case MutateMachineDeployment S getConfig md of
                Inl e \<Rightarrow> Errored StatusInternalServerError (Wrapf ''error occurred while mutating machinedeployment: %w'' [] e)
              | Inr md' \<Rightarrow>
                  (case marshal md' of
                     Inl e \<Rightarrow> Errored StatusInternalServerError
                       (Wrapf ''error occurred while marshalling mutated machinedeployment: %w'' [] e)
                   | Inr raw \<Rightarrow> PatchFromRaw (req_Object req) raw)))
      else if req_Operation req = ''DELETE'' then
        Allowed (''machinedeployment mutation request '' @ req_UID req
          @ '' allowed; mutation is not required for delete request'')
      else Errored StatusBadRequest (Errorf ''%s not supported on machinedeployment resources'' [req_Operation req]))"

section \<open>Immutable configurations\<close>

text \<open>The versions of a stored configuration that a sequence of admitted updates leads through.\<close>

inductive osc_updates :: "(string \<Rightarrow> OperatingSystemConfig res) \<Rightarrow> OperatingSystemConfig \<Rightarrow> OperatingSystemConfig \<Rightarrow> bool"
  for decode osc where
  stored: "osc_updates decode osc osc"
| update: "osc_updates decode osc old \<Longrightarrow> req_Operation req = ''UPDATE'' \<Longrightarrow> decode (req_OldObject req) = Inr old
    \<Longrightarrow> decode (req_Object req) = Inr new \<Longrightarrow> HandleOSC decode req = Allowed msg \<Longrightarrow> osc_updates decode osc new"

lemma HandleOSC_update:
  assumes "req_Operation req = ''UPDATE''" "decode (req_Object req) = Inr osc" "decode (req_OldObject req) = Inr old"
  shows "(\<exists>m. HandleOSC decode req = Allowed m) \<longleftrightarrow> DeepEqualOSC (osc_Spec old) (osc_Spec osc)"
  using assms by (simp add: HandleOSC_def validateUpdateOSC_def)

lemma DeepEqualOSC_fields:
  assumes "DeepEqualOSC a b"
  shows "oscs_OSName a = oscs_OSName b" "oscs_ProvisioningUtility a = oscs_ProvisioningUtility b"
    "oscc_Files (oscs_BootstrapConfig a) = oscc_Files (oscs_BootstrapConfig b)"
    "oscc_Files (oscs_ProvisioningConfig a) = oscc_Files (oscs_ProvisioningConfig b)"
proof -
  have eq: "canonOSC a = canonOSC b" using assms by (simp add: DeepEqualOSC_def)
  from arg_cong [OF eq, of oscs_OSName] arg_cong [OF eq, of oscs_ProvisioningUtility]
    arg_cong [OF eq, of "\<lambda>s. oscc_Files (oscs_BootstrapConfig s)"]
    arg_cong [OF eq, of "\<lambda>s. oscc_Files (oscs_ProvisioningConfig s)"]
  show "oscs_OSName a = oscs_OSName b" "oscs_ProvisioningUtility a = oscs_ProvisioningUtility b"
    "oscc_Files (oscs_BootstrapConfig a) = oscc_Files (oscs_BootstrapConfig b)"
    "oscc_Files (oscs_ProvisioningConfig a) = oscc_Files (oscs_ProvisioningConfig b)" by simp_all
qed

definition demo_osc :: "string \<Rightarrow> OperatingSystemConfig" where
  "demo_osc v = \<lparr>osc_meta = emptyMeta\<lparr>meta_Annotations := [(''note'', v)]\<rparr>,
     osc_Spec = \<lparr>oscs_OSName = ''ubuntu'', oscs_OSVersion = ''24.04'', oscs_CloudProvider = \<lparr>cps_Name = ''aws'', cps_Spec = None\<rparr>,
       oscs_BootstrapConfig = \<lparr>oscc_Units = [], oscc_Files = [], oscc_UserSSHKeys = [], oscc_CloudInitModules = None\<rparr>,
       oscs_ProvisioningConfig = \<lparr>oscc_Units = [], oscc_Files = [], oscc_UserSSHKeys = [], oscc_CloudInitModules = None\<rparr>,
       oscs_ProvisioningUtility = ''cloud-init''\<rparr>\<rparr>"

text \<open>C25. A configuration is immutable: whatever updates the webhook admits, one after another, the
  specification stays what it was when the configuration was created, up to the order of maps.\<close>

theorem osc_immutable:
  assumes "osc_updates decode osc osc'"
  shows "DeepEqualOSC (osc_Spec osc) (osc_Spec osc')
    \<and> oscc_Files (oscs_ProvisioningConfig (osc_Spec osc')) = oscc_Files (oscs_ProvisioningConfig (osc_Spec osc))
    \<and> oscc_Files (oscs_BootstrapConfig (osc_Spec osc')) = oscc_Files (oscs_BootstrapConfig (osc_Spec osc))"
proof -
  have "DeepEqualOSC (osc_Spec osc) (osc_Spec osc')" using assms
  proof induction
    case stored
    show ?case by (simp add: DeepEqualOSC_def)
  next
    case (update old req new msg)
    then have "DeepEqualOSC (osc_Spec old) (osc_Spec new)" using HandleOSC_update [of req decode new old] by simp
    with update.IH show ?case by (simp add: DeepEqualOSC_def)
  qed
  with DeepEqualOSC_fields [OF this] show ?thesis by simp
qed

theorem osc_immutable_witness:
  "osc_updates (\<lambda>raw. Inr (demo_osc raw)) (demo_osc ''a'') (demo_osc ''b'')
   \<and> DeepEqualOSC (osc_Spec (demo_osc ''a'')) (osc_Spec (demo_osc ''b''))"
proof -
  have "HandleOSC (\<lambda>raw. Inr (demo_osc raw)) \<lparr>req_UID = ''1'', req_Operation = ''UPDATE'', req_Object = ''b'', req_OldObject = ''a''\<rparr>
    = Allowed ''operatingSystemConfig validation request 1 allowed''"
    by (simp add: HandleOSC_def validateUpdateOSC_def DeepEqualOSC_def demo_osc_def)
  then have "osc_updates (\<lambda>raw. Inr (demo_osc raw)) (demo_osc ''a'') (demo_osc ''b'')"
    by (intro osc_updates.update [OF osc_updates.stored]) simp_all
  with osc_immutable [OF this] show ?thesis by blast
qed

section \<open>Profiles\<close>

text \<open>The profiles that the webhook admits to the store, created or updated.\<close>

inductive osp_stored :: "(string \<Rightarrow> OperatingSystemProfile res) \<Rightarrow> OperatingSystemProfile \<Rightarrow> bool"
  for decode where
  create: "req_Operation req = ''CREATE'' \<Longrightarrow> decode (req_Object req) = Inr osp
    \<Longrightarrow> HandleOSP decode req = Allowed msg \<Longrightarrow> osp_stored decode osp"
| update: "osp_stored decode old \<Longrightarrow> req_Operation req = ''UPDATE'' \<Longrightarrow> decode (req_OldObject req) = Inr old
    \<Longrightarrow> decode (req_Object req) = Inr new \<Longrightarrow> HandleOSP decode req = Allowed msg \<Longrightarrow> osp_stored decode new"

definition unitsOk :: "OperatingSystemProfileSpec \<Rightarrow> bool" where
  "unitsOk s \<longleftrightarrow> osps_OSName s = OperatingSystemFlatcar
     \<or> ospc_Units (osps_BootstrapConfig s) = [] \<and> ospc_Units (osps_ProvisioningConfig s) = []"

lemma validate_unitsOk: "validateOperatingSystemProfile osp = Inr u \<longleftrightarrow> unitsOk (osp_Spec osp)"
  by (auto simp: validateOperatingSystemProfile_def unitsOk_def Let_def)

lemma validateUpdate_iff:
  "validateUpdateOSP osp old = Inr u \<longleftrightarrow> unitsOk (osp_Spec osp)
    \<and> (DeepEqualOSP (osp_Spec old) (osp_Spec osp) \<or> osp_Version osp \<noteq> osp_Version old)"
  using validate_unitsOk [of osp "()"] by (auto simp: validateUpdateOSP_def res_simps validate_unitsOk)

lemma HandleOSP_create:
  assumes "req_Operation req = ''CREATE''" "decode (req_Object req) = Inr osp"
  shows "(\<exists>m. HandleOSP decode req = Allowed m) \<longleftrightarrow> unitsOk (osp_Spec osp)"
  using assms validate_unitsOk [of osp] by (auto simp: HandleOSP_def Let_def split: sum.splits)

lemma HandleOSP_update:
  assumes "req_Operation req = ''UPDATE''" "decode (req_Object req) = Inr osp" "decode (req_OldObject req) = Inr old"
  shows "(\<exists>m. HandleOSP decode req = Allowed m) \<longleftrightarrow> unitsOk (osp_Spec osp)
    \<and> (DeepEqualOSP (osp_Spec old) (osp_Spec osp) \<or> osp_Version osp \<noteq> osp_Version old)"
  using assms validateUpdate_iff [of osp old] by (auto simp: HandleOSP_def Let_def split: sum.splits)

lemma osp_stored_units: "osp_stored decode osp \<Longrightarrow> unitsOk (osp_Spec osp)"
proof (induction rule: osp_stored.induct)
  case (create req osp msg)
  then show ?case using HandleOSP_create by blast
next
  case (update old req new msg)
  then show ?case using HandleOSP_update by blast
qed

lemma generated_units:
  assumes "GenerateOperatingSystemConfig L md osp kubeconfig kn token oscName ns ca hca ips cr ext taints hp np crc gates = Inr osc"
  shows "oscs_OSName (osc_Spec osc) = osps_OSName (osp_Spec osp)"
    "oscc_Units (oscs_BootstrapConfig (osc_Spec osc)) = ospc_Units (osps_BootstrapConfig (osp_Spec osp))"
    "oscc_Units (oscs_ProvisioningConfig (osc_Spec osc)) = ospc_Units (osps_ProvisioningConfig (osp_Spec osp))"
  using assms by (auto simp: GenerateOperatingSystemConfig_def Let_def res_simps buildOSCSpec_def split: prod.splits)

end
