(* ===== verification/OSPController.thy ===== *)
theory OSPController
  imports Admission
begin

text \<open>
  \<open>pkg/controllers/osp\<close> with \<open>pkg/resources/reconciling\<close>: the controller that keeps the default
  OperatingSystemProfiles, embedded in the program as YAML files, in the management cluster.

  Outside the repository are the file system of the embedded files, the YAML decoder, and the
  reconciling library (\<open>k8c.io/reconciler\<close>): its wrappers of reconciling functions and
  \<open>EnsureNamedObject\<close>, which reads an object, lets a function compute what it should be, and creates
  or updates it. The locale \<open>osp_reconciling\<close> says what the controller relies on.
\<close>

section \<open>The embedded profiles\<close>

record osp_files =
  fs_ReadDir :: "string \<Rightarrow> string list res"
  fs_ReadFile :: "string \<Rightarrow> string res"
  yaml_Unmarshal :: "string \<Rightarrow> OperatingSystemProfile res"

definition ospsDefaultDirName :: string where
  "ospsDefaultDirName = ''default''"

definition parseOSPFile :: "osp_files \<Rightarrow> string \<Rightarrow> OperatingSystemProfile res" where
  "parseOSPFile F filename =
     bindR (fs_ReadFile F (ospsDefaultDirName @ ''/'' @ filename)) (\<lambda>content. yaml_Unmarshal F content)"

type_synonym ospMap = "(string \<times> OperatingSystemProfile) list"

text \<open>The loop over the files of the directory.\<close>

fun loadFiles :: "osp_files \<Rightarrow> string list \<Rightarrow> ospMap \<Rightarrow> ospMap res" where
  "loadFiles F [] defaultOSPs = Inr defaultOSPs"
| "loadFiles F (filename # fs) defaultOSPs =
     bindR (wrapR ''failed to read OSP %s: %w'' [filename] (parseOSPFile F filename)) (\<lambda>osp.
       loadFiles F fs (mput (ReplaceAll ''.yaml'' [] filename) osp defaultOSPs))"

definition loadDefaultOSPs :: "osp_files \<Rightarrow> ospMap res" where
  "loadDefaultOSPs F =
     bindR (wrapR ''failed to read OSPs default directory: %w'' [] (fs_ReadDir F ospsDefaultDirName)) (\<lambda>files.
       loadFiles F files [])"

section \<open>The reconciling library\<close>

text \<open>A function from the existing object, if any, to what it should be.\<close>

type_synonym OSPReconciler = "OperatingSystemProfile \<Rightarrow> OperatingSystemProfile res"
type_synonym ObjectReconciler = "OperatingSystemProfile option \<Rightarrow> OperatingSystemProfile res"

record 'w reconciling =
  CreateWithNamespace :: "ObjectReconciler \<Rightarrow> string \<Rightarrow> ObjectReconciler"
  CreateWithName :: "ObjectReconciler \<Rightarrow> string \<Rightarrow> ObjectReconciler"
  EnsureNamedObject :: "string \<times> string \<Rightarrow> ObjectReconciler \<Rightarrow> cluster \<Rightarrow> ('w, unit) M"

definition emptyOSPConfig :: OSPConfig where
  "emptyOSPConfig = \<lparr>ospc_SupportedContainerRuntimes = [], ospc_Templates = [], ospc_Units = [],
     ospc_Files = [], ospc_CloudInitModules = None\<rparr>"

definition emptyOSP :: OperatingSystemProfile where
  "emptyOSP = \<lparr>osp_meta = emptyMeta, osp_Spec = \<lparr>osps_OSName = [], osps_OSVersion = [], osps_Version = [],
     osps_SupportedCloudProviders = [], osps_BootstrapConfig = emptyOSPConfig,
     osps_ProvisioningConfig = emptyOSPConfig, osps_ProvisioningUtility = []\<rparr>\<rparr>"

definition OperatingSystemProfileObjectWrapper :: "OSPReconciler \<Rightarrow> ObjectReconciler" where
  "OperatingSystemProfileObjectWrapper reconciler =
     (\<lambda>existing. case existing of Some osp \<Rightarrow> reconciler osp | None \<Rightarrow> reconciler emptyOSP)"

fun ReconcileOperatingSystemProfiles ::
    "'w reconciling \<Rightarrow> (string \<times> OSPReconciler) list \<Rightarrow> string \<Rightarrow> cluster
     \<Rightarrow> (ObjectReconciler \<Rightarrow> ObjectReconciler) list \<Rightarrow> ('w, unit) M" where
  "ReconcileOperatingSystemProfiles R [] namespace client objectModifiers = ret ()"
| "ReconcileOperatingSystemProfiles R ((name, reconciler) # factories) namespace client objectModifiers =
     (let reconcileObject = OperatingSystemProfileObjectWrapper reconciler;
          reconcileObject = CreateWithNamespace R reconcileObject namespace;
          reconcileObject = CreateWithName R reconcileObject name;
          reconcileObject = foldl (\<lambda>f objectModifier. objectModifier f) reconcileObject objectModifiers in
      bindE (wrapE ''failed to ensure OperatingSystemProfile %s/%s: %w'' [namespace, name]
               (EnsureNamedObject R (namespace, name) reconcileObject client)) (\<lambda>_.
        ReconcileOperatingSystemProfiles R factories namespace client objectModifiers))"

section \<open>The controller\<close>

record OSPControl =
  o_Client :: cluster
  o_defaultOSPs :: ospMap
  o_namespace :: string

definition ospReconciler :: "string \<Rightarrow> OperatingSystemProfile \<Rightarrow> string \<times> OSPReconciler" where
  "ospReconciler name source =
     (name, \<lambda>osp. Inr (if osp_Version osp \<noteq> osp_Version source then osp\<lparr>osp_Spec := osp_Spec source\<rparr> else osp))"

definition reconcileOSP :: "'w reconciling \<Rightarrow> OSPControl \<Rightarrow> string \<Rightarrow> ('w, unit) M" where
  "reconcileOSP R r name =
     (case map_of (o_defaultOSPs r) name of
        None \<Rightarrow> ret ()
      | Some osp \<Rightarrow>
          wrapE ''failed to reconcile OSP: %w'' []
            (ReconcileOperatingSystemProfiles R [ospReconciler name osp] (o_namespace r) (o_Client r) []))"

definition ReconcileOSP :: "'w reconciling \<Rightarrow> OSPControl \<Rightarrow> string \<times> string \<Rightarrow> ('w, unit) M" where
  "ReconcileOSP R r req = reconcileOSP R r (snd req)"

text \<open>
  \<open>Add\<close>: the controller that is registered, with the events it is first triggered by, or nothing at all
  when the default profiles are disabled.
\<close>

definition AddOSP :: "osp_files \<Rightarrow> cluster \<Rightarrow> string \<Rightarrow> bool \<Rightarrow> (OSPControl \<times> (string \<times> string) list) option res" where
  "AddOSP F client namespace disableDefaultOSPs =
     (if disableDefaultOSPs then Inr None
      else bindR (wrapR ''failed to load default OSPs: %w'' [] (loadDefaultOSPs F)) (\<lambda>defaultOSPs.
        Inr (Some (\<lparr>o_Client = client, o_defaultOSPs = defaultOSPs, o_namespace = namespace\<rparr>,
                   map (\<lambda>name. (namespace, name)) (keys defaultOSPs)))))"

text \<open>The events the controller watches: those of its own namespace.\<close>

definition ospPredicate :: "string \<Rightarrow> OperatingSystemProfile \<Rightarrow> bool" where
  "ospPredicate namespace osp \<longleftrightarrow> meta_Namespace (osp_meta osp) = namespace"

end
