(* ===== verification/AdmissionProperties.thy ===== *)
theory AdmissionProperties
  imports Admission OSCDemo
begin

text \<open>
  What the webhooks mean for the controllers behind them: which profiles reach the rendering, which
  updates of a profile get through, and that a mutated MachineDeployment is one the OSC controller takes up.
\<close>

section \<open>Profiles\<close>

text \<open>The example's profile, in another version and with another operating system version.\<close>

definition demo_profile :: "string \<Rightarrow> string \<Rightarrow> OperatingSystemProfile" where
  "demo_profile version osVersion = demo_osp\<lparr>osp_Spec := (osp_Spec demo_osp)
     \<lparr>osps_Version := version, osps_OSVersion := osVersion\<rparr>\<rparr>"

definition demo_request :: "string \<Rightarrow> string \<Rightarrow> string \<Rightarrow> request" where
  "demo_request op old new = \<lparr>req_UID = ''1'', req_Operation = op, req_Object = new, req_OldObject = old\<rparr>"

definition demo_bootstrap :: Kubeconfig where
  "demo_bootstrap = demo_kubeconfig\<lparr>kc_Clusters :=
     [(''c'', Some \<lparr>cl_Server = ''https://k'', cl_CertificateAuthorityData = ''ca''\<rparr>)]\<rparr>"

lemma demo_profile_simps [simp]:
  "osps_Version (osp_Spec (demo_profile v o')) = v" "osps_OSName (osp_Spec (demo_profile v o')) = ''ubuntu''"
  "osps_OSVersion (osp_Spec (demo_profile v o')) = o'" "unitsOk (osp_Spec (demo_profile v o'))" "unitsOk (osp_Spec demo_osp)"
  by (simp_all add: demo_profile_def demo_osp_def demo_osp_config_def unitsOk_def)

text \<open>The webhook and the rendering together: from a profile that the webhook admitted, in any number of
  steps, a configuration for anything but Flatcar never has systemd units, in either of its parts.\<close>

theorem admitted_units:
  assumes "osp_stored decode osp"
    and "GenerateOperatingSystemConfig L md osp kubeconfig kn token oscName ns ca hca ips cr ext taints hp np crc gates = Inr osc"
    and "oscs_OSName (osc_Spec osc) \<noteq> OperatingSystemFlatcar"
  shows "oscc_Units (oscs_BootstrapConfig (osc_Spec osc)) = [] \<and> oscc_Units (oscs_ProvisioningConfig (osc_Spec osc)) = []"
  using osp_stored_units [OF assms(1)] generated_units [OF assms(2)] assms(3) by (simp add: unitsOk_def)

theorem admitted_units_witness:
  "\<exists>osc. GenerateOperatingSystemConfig demo_libs demo_final demo_osp demo_bootstrap ''k'' ''t'' ''o'' ''kube-system''
      [] [] [] ''containerd'' False [] [] [] demo_cr [] = Inr osc
    \<and> oscc_Units (oscs_ProvisioningConfig (osc_Spec osc)) = []"
proof -
  have gen: "GenerateOperatingSystemConfig demo_libs demo_final demo_osp demo_bootstrap ''k'' ''t'' ''o'' ''kube-system''
      [] [] [] ''containerd'' False [] [] [] demo_cr [] = Inr (demo_rendered ''o'')"
    by (rule demo_generated) (simp add: demo_bootstrap_def)
  have "\<exists>m. HandleOSP (\<lambda>raw. Inr demo_osp) (demo_request ''CREATE'' [] []) = Allowed m"
    using HandleOSP_create [of "demo_request ''CREATE'' [] []" "\<lambda>raw. Inr demo_osp" demo_osp]
    by (simp add: demo_request_def)
  then have "osp_stored (\<lambda>raw. Inr demo_osp) demo_osp"
    by (auto intro!: osp_stored.create [of "demo_request ''CREATE'' [] []"] simp: demo_request_def)
  moreover have "oscs_OSName (osc_Spec (demo_rendered ''o'')) \<noteq> OperatingSystemFlatcar"
    unfolding generated_units(1) [OF gen] by (simp add: demo_osp_def OperatingSystemFlatcar_def)
  ultimately show ?thesis using admitted_units [OF _ gen] gen by blast
qed

text \<open>C26. The rule for updating a profile: a decodable update is admitted exactly if the new profile has units
  only for Flatcar and it either does not change the specification or changes its version.\<close>

theorem osp_update_rule:
  assumes "req_Operation req = ''UPDATE''" and "decode (req_Object req) = Inr osp" and "decode (req_OldObject req) = Inr old"
  shows "if (osps_OSName (osp_Spec osp) = OperatingSystemFlatcar
        \<or> ospc_Units (osps_BootstrapConfig (osp_Spec osp)) = [] \<and> ospc_Units (osps_ProvisioningConfig (osp_Spec osp)) = [])
      \<and> (DeepEqualOSP (osp_Spec old) (osp_Spec osp) \<or> osp_Version osp \<noteq> osp_Version old)
    then \<exists>m. HandleOSP decode req = Allowed m else \<exists>m e. HandleOSP decode req = Denied m e"
proof -
  have "\<exists>m e. HandleOSP decode req = Denied m e" if "\<nexists>m. HandleOSP decode req = Allowed m"
    using that assms by (auto simp: HandleOSP_def Let_def split: sum.splits)
  then show ?thesis using HandleOSP_update [OF assms] by (auto simp: unitsOk_def)
qed

theorem osp_update_rule_witness:
  "\<exists>m. HandleOSP (\<lambda>raw. Inr (demo_profile raw raw)) (demo_request ''UPDATE'' ''v1'' ''v2'') = Allowed m"
  using osp_update_rule [of "demo_request ''UPDATE'' ''v1'' ''v2''" "\<lambda>raw. Inr (demo_profile raw raw)"
      "demo_profile ''v2'' ''v2''" "demo_profile ''v1'' ''v1''"] demo_profile_simps(4) [of "''v2''" "''v2''"]
  by (simp add: demo_request_def unitsOk_def)

section \<open>MachineDeployments\<close>

lemma annotate_simps [simp]: "md_Annotations (annotate k v md) = mput k v (md_Annotations md)"
  "md_ProviderSpecValue (annotate k v md) = md_ProviderSpecValue md"
  "(annotate k v md)\<lparr>md_meta := (md_meta (annotate k v md))\<lparr>meta_Annotations := md_Annotations md\<rparr>\<rparr> = md"
  by (simp_all add: annotate_def)

text \<open>C24. What the mutation of a MachineDeployment does: the result names a profile, so that the OSC controller
  takes the deployment up; a profile that was named stays; no other annotation and nothing else changes; and
  mutating the result again changes nothing.\<close>

theorem mutation_spec:
  assumes "MutateMachineDeployment S getConfig md = Inr md'"
  shows "filterMachineDeploymentPredicate md'
    \<and> (filterMachineDeploymentPredicate md \<longrightarrow> md' = md)
    \<and> (k \<noteq> MachineDeploymentOSPAnnotation \<longrightarrow> map_of (md_Annotations md') k = map_of (md_Annotations md) k)
    \<and> md'\<lparr>md_meta := (md_meta md')\<lparr>meta_Annotations := md_Annotations md\<rparr>\<rparr> = md
    \<and> MutateMachineDeployment S getConfig md' = Inr md'"
proof -
  obtain pc where pc: "getConfig (md_ProviderSpecValue md) = Inr pc"
    using assms by (auto simp: MutateMachineDeployment_def res_simps)
  consider "filterMachineDeploymentPredicate md" "md' = md"
    | v where "v \<noteq> []" "\<not> filterMachineDeploymentPredicate md" "md' = annotate MachineDeploymentOSPAnnotation v md"
    using assms pc
    by (auto simp: MutateMachineDeployment_def filterMachineDeploymentPredicate_def ospNameFor_def split: if_splits)
  then show ?thesis
  proof cases
    case 1
    with assms show ?thesis by simp
  next
    case 2
    with pc show ?thesis by (simp add: filterMachineDeploymentPredicate_def MutateMachineDeployment_def)
  qed
qed

text \<open>A provider configuration as the examples' deployments have it.\<close>

theorem mutation_spec_witness:
  "\<exists>md'. MutateMachineDeployment demo_sdk (\<lambda>raw. Inr (demo_pc ''aws'' ''rhel''))
      ((demo_md ''aws'' ''rhel'')\<lparr>md_meta := emptyMeta\<rparr>) = Inr md'
    \<and> md_Annotations md' = [(''k8c.io/operating-system-profile'', ''osp-rhel'')] \<and> filterMachineDeploymentPredicate md'"
proof -
  let ?md = "(demo_md ''aws'' ''rhel'')\<lparr>md_meta := emptyMeta\<rparr>"
  have run: "MutateMachineDeployment demo_sdk (\<lambda>raw. Inr (demo_pc ''aws'' ''rhel'')) ?md
      = Inr (annotate MachineDeploymentOSPAnnotation ''osp-rhel'' ?md)"
    by (simp add: MutateMachineDeployment_def demo_pc_def CloudProviderAnexia_def ospNameFor_def OperatingSystemRHEL_def
        emptyMeta_def mget_def)
  from mutation_spec [OF run] run show ?thesis
    by (simp add: MachineDeploymentOSPAnnotation_def mput_def emptyMeta_def)
qed

end
