(* ===== verification/OSPProperties.thy ===== *)
theory OSPProperties
  imports OSPController AdmissionProperties
begin

text \<open>
  What the controller of the default profiles guarantees, given how its reconciling library behaves,
  and how it fits the webhooks: what it writes they admit, and the profile that the mutation of a
  MachineDeployment names is one of those the program carries.
\<close>

section \<open>The reconciling library\<close>

text \<open>
  From \<open>old\<close> to \<open>new\<close>, both at one key: a missing object is created from what the function makes of
  no object or of an empty one, an existing one is updated, or left alone if the update is no change.
\<close>

definition ensured :: "ObjectReconciler \<Rightarrow> kobj option \<Rightarrow> kobj option \<Rightarrow> bool" where
  "ensured f old new \<longleftrightarrow> (case old of
     None \<Rightarrow> \<exists>x y. x \<in> {None, Some emptyOSP} \<and> f x = Inr y \<and> new = Some (OSP y)
   | Some ob \<Rightarrow> \<exists>osp y. ob = OSP osp \<and> f (Some osp) = Inr y
       \<and> (new = Some (OSP y) \<or> new = old \<and> DeepEqualOSP (osp_Spec osp) (osp_Spec y)))"

definition setName :: "string \<Rightarrow> OperatingSystemProfile \<Rightarrow> OperatingSystemProfile" where
  "setName n osp = osp\<lparr>osp_meta := (osp_meta osp)\<lparr>meta_Name := n\<rparr>\<rparr>"

definition setNamespace :: "string \<Rightarrow> OperatingSystemProfile \<Rightarrow> OperatingSystemProfile" where
  "setNamespace ns osp = osp\<lparr>osp_meta := (osp_meta osp)\<lparr>meta_Namespace := ns\<rparr>\<rparr>"

locale osp_reconciling =
  fixes R :: "'w reconciling" and objs :: "'w \<Rightarrow> objkey \<Rightarrow> kobj option"
  assumes with_namespace: "CreateWithNamespace R f ns v = bindR (f v) (\<lambda>osp. Inr (setNamespace ns osp))"
    and with_name: "CreateWithName R f n v = bindR (f v) (\<lambda>osp. Inr (setName n osp))"
    and ensure_ok: "(\<And>x y. f x = Inr y \<Longrightarrow> key_of c (OSP y) = Key c KOSP ns n)
      \<Longrightarrow> EnsureNamedObject R (ns, n) f c w = (Inr u, w')
      \<Longrightarrow> ensured f (objs w (Key c KOSP ns n)) (objs w' (Key c KOSP ns n))
        \<and> (\<forall>k. k \<noteq> Key c KOSP ns n \<longrightarrow> objs w' k = objs w k)"
    and ensure_err: "(\<And>x y. f x = Inr y \<Longrightarrow> key_of c (OSP y) = Key c KOSP ns n)
      \<Longrightarrow> EnsureNamedObject R (ns, n) f c w = (Inl e, w')
      \<Longrightarrow> objs w' = objs w \<or> ensured f (objs w (Key c KOSP ns n)) (objs w' (Key c KOSP ns n))
        \<and> (\<forall>k. k \<noteq> Key c KOSP ns n \<longrightarrow> objs w' k = objs w k)"

text \<open>
  What the controller provides for a default profile \<open>src\<close>: if there was none, or one of another version,
  then the profile as it is in the program; otherwise what was there.
\<close>

definition provided :: "OperatingSystemProfile \<Rightarrow> kobj option \<Rightarrow> kobj option \<Rightarrow> bool" where
  "provided src old new \<longleftrightarrow> (\<exists>osp'. new = Some (OSP osp') \<and> osp_Spec osp' =
     (let cur = (case old of Some (OSP osp) \<Rightarrow> osp_Spec osp | _ \<Rightarrow> osp_Spec emptyOSP) in
      if osps_Version cur = osp_Version src then cur else osp_Spec src))"

definition ospKeyOf :: "OSPControl \<Rightarrow> string \<Rightarrow> objkey" where
  "ospKeyOf r name = Key (o_Client r) KOSP (o_namespace r) name"

definition desired :: "string \<Rightarrow> string \<Rightarrow> OperatingSystemProfile \<Rightarrow> OperatingSystemProfile \<Rightarrow> OperatingSystemProfile" where
  "desired ns n src osp = setName n (setNamespace ns (projr (snd (ospReconciler n src) osp)))"

lemma desired_simps [simp]:
  "osp_Spec (desired ns n src osp) = (if osp_Version osp = osp_Version src then osp_Spec osp else osp_Spec src)"
  "key_of c (OSP (desired ns n src osp)) = Key c KOSP ns n"
  by (simp_all add: desired_def ospReconciler_def setName_def setNamespace_def key_of_def)

definition wrapped :: "'w reconciling \<Rightarrow> string \<Rightarrow> string \<Rightarrow> OperatingSystemProfile \<Rightarrow> ObjectReconciler" where
  "wrapped R ns n src = CreateWithName R (CreateWithNamespace R
     (OperatingSystemProfileObjectWrapper (snd (ospReconciler n src))) ns) n"

lemma reconcileOSP_eq: "map_of (o_defaultOSPs r) n = Some src \<Longrightarrow> ReconcileOSP R r (ns, n) =
    wrapE ''failed to reconcile OSP: %w'' [] (bindE (wrapE ''failed to ensure OperatingSystemProfile %s/%s: %w'' [o_namespace r, n]
      (EnsureNamedObject R (o_namespace r, n) (wrapped R (o_namespace r) n src) (o_Client r))) (\<lambda>_. ret ()))"
  by (simp add: ReconcileOSP_def reconcileOSP_def ospReconciler_def wrapped_def)

context osp_reconciling
begin

lemma wrapped_eq: "wrapped R ns n src v = Inr (desired ns n src (case v of Some osp \<Rightarrow> osp | None \<Rightarrow> emptyOSP))"
  by (simp add: wrapped_def with_name with_namespace OperatingSystemProfileObjectWrapper_def ospReconciler_def desired_def
      split: option.split)

lemma ensured_provided:
  assumes "ensured (wrapped R ns n src) old new"
  shows "provided src old new"
proof (cases old)
  case None
  with assms show ?thesis by (auto simp: ensured_def provided_def wrapped_eq Let_def)
next
  case (Some ob)
  with assms obtain osp y where osp: "ob = OSP osp" and y: "wrapped R ns n src (Some osp) = Inr y"
    and or: "new = Some (OSP y) \<or> new = old \<and> DeepEqualOSP (osp_Spec osp) (osp_Spec y)"
    unfolding ensured_def by auto
  from y have "y = desired ns n src osp" by (simp only: wrapped_eq option.case sum.inject)
  with or have new: "new = Some (OSP (desired ns n src osp))
    \<or> new = old \<and> DeepEqualOSP (osp_Spec osp) (osp_Spec (desired ns n src osp))" by blast
  from new show ?thesis
  proof
    assume same: "new = old \<and> DeepEqualOSP (osp_Spec osp) (osp_Spec (desired ns n src osp))"
    then have "osp_Version osp = osp_Version (desired ns n src osp)" by (intro DeepEqualOSP_fields(1)) simp
    then have "osp_Version osp = osp_Version src" unfolding desired_simps by presburger
    with same Some osp show ?thesis by (simp add: provided_def Let_def split: if_splits)
  qed (use Some osp in \<open>simp add: provided_def Let_def\<close>)
qed

lemma reconcile_name:
  assumes run: "ReconcileOSP R r (ns, n) w = (x, w')" and src: "map_of (o_defaultOSPs r) n = Some src"
  shows "(\<forall>k. k \<noteq> ospKeyOf r n \<longrightarrow> objs w' k = objs w k)
    \<and> (x \<noteq> Inr () \<and> objs w' = objs w \<or> provided src (objs w (ospKeyOf r n)) (objs w' (ospKeyOf r n)))"
proof -
  let ?f = "wrapped R (o_namespace r) n src"
  obtain y w1 where y1: "EnsureNamedObject R (o_namespace r, n) ?f (o_Client r) w = (y, w1)" by (rule prod.exhaust)
  then have "w1 = w'" and x: "x = Inr () \<longrightarrow> isOk y"
    using run unfolding reconcileOSP_eq [OF src] wrapE_def bindE_def by (cases y; clarsimp simp: ret_def)+
  with y1 have y: "EnsureNamedObject R (o_namespace r, n) ?f (o_Client r) w = (y, w')" by simp
  have key: "key_of (o_Client r) (OSP z) = Key (o_Client r) KOSP (o_namespace r) n" if "?f v = Inr z" for v z
    using that unfolding wrapped_eq by (metis desired_simps(2) Inr_inject)
  let ?key = "Key (o_Client r) KOSP (o_namespace r) n"
  have "(x \<noteq> Inr () \<and> objs w' = objs w) \<or> ensured ?f (objs w ?key) (objs w' ?key)
    \<and> (\<forall>k. k \<noteq> ?key \<longrightarrow> objs w' k = objs w k)"
  proof (cases y)
    case (Inl e)
    have "objs w' = objs w \<or> ensured ?f (objs w ?key) (objs w' ?key) \<and> (\<forall>k. k \<noteq> ?key \<longrightarrow> objs w' k = objs w k)"
      by (rule ensure_err [OF _ y [unfolded Inl]]) (rule key)
    with x Inl show ?thesis by auto
  next
    case (Inr u)
    have "ensured ?f (objs w ?key) (objs w' ?key) \<and> (\<forall>k. k \<noteq> ?key \<longrightarrow> objs w' k = objs w k)"
      by (rule ensure_ok [OF _ y [unfolded Inr]]) (rule key)
    then show ?thesis ..
  qed
  then show ?thesis unfolding ospKeyOf_def by (auto dest: ensured_provided)
qed

lemma reconcile_other: "map_of (o_defaultOSPs r) n = None \<Longrightarrow> ReconcileOSP R r (ns, n) w = (Inr (), w)"
  by (simp add: ReconcileOSP_def reconcileOSP_def ret_def)

end

section \<open>A reconciling library for examples\<close>

text \<open>The library over the example store of \<open>KubeAPI\<close>.\<close>

definition store_ensure :: "string \<times> string \<Rightarrow> ObjectReconciler \<Rightarrow> cluster \<Rightarrow> (store, unit) M" where
  "store_ensure key f c =
     tryE (get_as store_ops as_OSP (Key c KOSP (fst key) (snd key))) (\<lambda>res. case res of
       Inl e \<Rightarrow> if IsNotFound e then bindE (lift (f (Some emptyOSP))) (\<lambda>osp. create_obj store_ops c (OSP osp)) else throw e
     | Inr old \<Rightarrow> bindE (lift (f (Some old))) (\<lambda>osp.
         if osp_meta osp = osp_meta old \<and> DeepEqualOSP (osp_Spec old) (osp_Spec osp) then ret ()
         else update_obj store_ops c (OSP osp)))"

definition store_reconciling :: "store reconciling" where
  "store_reconciling = \<lparr>CreateWithNamespace = (\<lambda>f ns v. bindR (f v) (\<lambda>osp. Inr (setNamespace ns osp))),
     CreateWithName = (\<lambda>f n v. bindR (f v) (\<lambda>osp. Inr (setName n osp))), EnsureNamedObject = store_ensure\<rparr>"

lemma ensured_create: "f (Some emptyOSP) = Inr y \<Longrightarrow> ensured f None (Some (OSP y))"
  by (auto simp: ensured_def)

lemma ensured_update: "f (Some osp) = Inr y \<Longrightarrow> ensured f (Some (OSP osp)) (Some (OSP y))"
  by (auto simp: ensured_def)

lemma ensured_same: "f (Some osp) = Inr y \<Longrightarrow> DeepEqualOSP (osp_Spec osp) (osp_Spec y) \<Longrightarrow> ensured f (Some (OSP osp)) (Some (OSP osp))"
  by (auto simp: ensured_def)

lemma wp_store_ensure:
  assumes key: "\<And>x y. f x = Inr y \<Longrightarrow> key_of c (OSP y) = Key c KOSP ns n"
  shows "wp (store_ensure (ns, n) f c) (\<lambda>r w'. (\<exists>e. r = Inl e) \<and> store_objs w' = store_objs w
      \<or> ensured f (store_objs w (Key c KOSP ns n)) (store_objs w' (Key c KOSP ns n))
        \<and> (\<forall>k. k \<noteq> Key c KOSP ns n \<longrightarrow> store_objs w' k = store_objs w k)) w"
  unfolding store_ensure_def fst_conv snd_conv
  apply (intro wp_intros st.wp_get_as st.wp_create st.wp_update)
  subgoal by simp
  subgoal for e w' x using key [of "Some emptyOSP" x] ensured_create [of f x] by simp
  subgoal for e w' x using key [of "Some emptyOSP" x] ensured_create [of f x] by auto
  subgoal by simp
  subgoal by simp
  subgoal for y x w' xa using ensured_same [of f y xa] by simp
  subgoal for y x w' xa using key [of "Some y" xa] ensured_update [of f y xa] by simp
  subgoal for y x w' xa using key [of "Some y" xa] ensured_update [of f y xa] by auto
  done

interpretation os: osp_reconciling store_reconciling store_objs
proof
  fix f :: ObjectReconciler and c ns n w r w'
  assume key: "\<And>x y. f x = Inr y \<Longrightarrow> key_of c (OSP y) = Key c KOSP ns n"
  have spec: "(\<exists>e. r = Inl e) \<and> store_objs w' = store_objs w
      \<or> ensured f (store_objs w (Key c KOSP ns n)) (store_objs w' (Key c KOSP ns n))
        \<and> (\<forall>k. k \<noteq> Key c KOSP ns n \<longrightarrow> store_objs w' k = store_objs w k)"
    if "store_ensure (ns, n) f c w = (r, w')" for r
    by (rule wpD [OF wp_store_ensure that]) (rule key)
  show "ensured f (store_objs w (Key c KOSP ns n)) (store_objs w' (Key c KOSP ns n))
        \<and> (\<forall>k. k \<noteq> Key c KOSP ns n \<longrightarrow> store_objs w' k = store_objs w k)"
    if "EnsureNamedObject store_reconciling (ns, n) f c w = (Inr u, w')" for u
    using spec [of "Inr u"] that by (auto simp: store_reconciling_def)
  show "store_objs w' = store_objs w \<or> ensured f (store_objs w (Key c KOSP ns n)) (store_objs w' (Key c KOSP ns n))
        \<and> (\<forall>k. k \<noteq> Key c KOSP ns n \<longrightarrow> store_objs w' k = store_objs w k)"
    if "EnsureNamedObject store_reconciling (ns, n) f c w = (Inl e, w')" for e
    using spec [of "Inl e"] that by (auto simp: store_reconciling_def)
qed (simp_all add: store_reconciling_def)

text \<open>Without faults a run of the controller on the store succeeds.\<close>

lemma suc_store_ensure:
  assumes calm: "s_faults w = []" and f: "\<And>x. \<exists>y. f x = Inr y \<and> key_of c (OSP y) = Key c KOSP ns n"
  shows "suc (store_ensure (ns, n) f c) (\<lambda>_ w'. s_faults w' = []) w"
  unfolding store_ensure_def fst_conv snd_conv
proof (rule suc_try, rule stp.wp_calm_get_as)
  show "s_faults w = []" by fact
  show "as_OSP x \<noteq> None" if "store_objs w (Key c KOSP ns n) = Some x" for x
    using st.typed [OF that] by (cases x) (auto simp: key_of_def)
  fix e w1
  assume w1: "s_faults w1 = []" "store_objs w1 = store_objs w" "store_objs w (Key c KOSP ns n) = None" "IsNotFound e"
  obtain y where y: "f (Some emptyOSP) = Inr y" "key_of c (OSP y) = Key c KOSP ns n" using f by blast
  show "suc (case Inl e of Inl e \<Rightarrow> if IsNotFound e then bindE (lift (f (Some emptyOSP))) (\<lambda>osp. create_obj store_ops c (OSP osp))
        else throw e | Inr old \<Rightarrow> bindE (lift (f (Some old))) (\<lambda>osp.
        if osp_meta osp = osp_meta old \<and> DeepEqualOSP (osp_Spec old) (osp_Spec osp) then ret ()
        else update_obj store_ops c (OSP osp))) (\<lambda>_ w'. s_faults w' = []) w1"
    using w1 y by (auto intro!: suc_intros suc_lift stp.suc_create)
next
  fix x old w1
  assume w1: "s_faults w1 = []" "store_objs w1 = store_objs w" "store_objs w (Key c KOSP ns n) = Some x" "as_OSP x = Some old"
  obtain y where y: "f (Some old) = Inr y" "key_of c (OSP y) = Key c KOSP ns n" using f by blast
  show "suc (case Inr old of Inl e \<Rightarrow> if IsNotFound e then bindE (lift (f (Some emptyOSP))) (\<lambda>osp. create_obj store_ops c (OSP osp))
        else throw e | Inr old \<Rightarrow> bindE (lift (f (Some old))) (\<lambda>osp.
        if osp_meta osp = osp_meta old \<and> DeepEqualOSP (osp_Spec old) (osp_Spec osp) then ret ()
        else update_obj store_ops c (OSP osp))) (\<lambda>_ w'. s_faults w' = []) w1"
    using w1 y by (auto intro!: suc_intros suc_lift stp.suc_update)
qed

lemma store_run:
  assumes "s_faults w = []"
  shows "\<exists>w'. ReconcileOSP store_reconciling r (ns, n) w = (Inr (), w') \<and> s_faults w' = []"
proof (cases "map_of (o_defaultOSPs r) n")
  case None
  with assms show ?thesis by (simp add: os.reconcile_other)
next
  case (Some src)
  have op: "EnsureNamedObject store_reconciling = store_ensure" by (simp add: store_reconciling_def)
  have "suc (store_ensure (o_namespace r, n) (wrapped store_reconciling (o_namespace r) n src) (o_Client r))
      (\<lambda>_ w'. s_faults w' = []) w"
    by (rule suc_store_ensure [OF assms]) (simp add: os.wrapped_eq)
  then have "suc (ReconcileOSP store_reconciling r (ns, n)) (\<lambda>_ w'. s_faults w' = []) w"
    unfolding reconcileOSP_eq [OF Some] op
    by (intro suc_wrap suc_bind) (rule suc_mono, assumption, rule suc_ret)
  then show ?thesis by (auto simp: suc_def)
qed

section \<open>What the controller provides\<close>

text \<open>C21. One call of the controller, successful or not: for a name that is no default profile nothing happens; for
  one that is, only the profile of that name in the controller's namespace may change, and unless an error
  left everything as it was, it then has the specification the program carries if there was none or it had
  another version (a newer one too), and the specification it had otherwise.\<close>

theorem osp_reconcile_spec:
  assumes "osp_reconciling R objs" and "ReconcileOSP R r (ns, n) w = (x, w')"
  shows "case map_of (o_defaultOSPs r) n of
      None \<Rightarrow> x = Inr () \<and> objs w' = objs w
    | Some src \<Rightarrow> (\<forall>k. k \<noteq> ospKeyOf r n \<longrightarrow> objs w' k = objs w k)
        \<and> (x \<noteq> Inr () \<and> objs w' = objs w \<or> provided src (objs w (ospKeyOf r n)) (objs w' (ospKeyOf r n)))"
  using osp_reconciling.reconcile_name [OF assms] assms(2)
  by (auto simp: ReconcileOSP_def reconcileOSP_def ret_def split: option.split)

definition demo_control :: OSPControl where
  "demo_control = \<lparr>o_Client = Management, o_defaultOSPs = [(''osp-ubuntu'', demo_profile ''v1.0.0'' ''a'')],
     o_namespace = ''kube-system''\<rparr>"

definition demo_newer :: OperatingSystemProfile where
  "demo_newer = setName ''osp-ubuntu'' (demo_profile ''v2.0.0'' ''b'')"

theorem osp_reconcile_spec_witness:
  "\<exists>w' osp'. ReconcileOSP store_reconciling demo_control (''kube-system'', ''osp-ubuntu'')
      (empty_store\<lparr>s_objs := [(Management, OSP demo_newer)]\<rparr>) = (Inr (), w')
    \<and> store_objs w' (Key Management KOSP ''kube-system'' ''osp-ubuntu'') = Some (OSP osp') \<and> osp_Version osp' = ''v1.0.0''"
proof -
  let ?w = "empty_store\<lparr>s_objs := [(Management, OSP demo_newer)]\<rparr>"
  have "s_faults ?w = []" by (simp add: empty_store_def)
  from store_run [OF this] obtain w' where
    run: "ReconcileOSP store_reconciling demo_control (''kube-system'', ''osp-ubuntu'') ?w = (Inr (), w')" by blast
  have old: "store_objs ?w (Key Management KOSP ''kube-system'' ''osp-ubuntu'') = Some (OSP demo_newer)"
    by (simp add: store_objs_def find_Cons key_of_def demo_newer_def setName_def demo_profile_def demo_osp_def emptyMeta_def)
  from osp_reconcile_spec [OF os.osp_reconciling_axioms run] run show ?thesis
    by (auto simp: demo_control_def provided_def ospKeyOf_def old demo_newer_def setName_def Let_def)
qed

section \<open>Bootstrapping\<close>

text \<open>Running the controller for a list of requests, in any order, with their results.\<close>

fun runOSPs :: "'w reconciling \<Rightarrow> OSPControl \<Rightarrow> (string \<times> string) list \<Rightarrow> 'w \<Rightarrow> unit res list \<times> 'w" where
  "runOSPs R r [] w = ([], w)"
| "runOSPs R r (q # qs) w =
     (case ReconcileOSP R r q w of (x, w1) \<Rightarrow> (case runOSPs R r qs w1 of (xs, w') \<Rightarrow> (x # xs, w')))"

definition hasVersion :: "OperatingSystemProfile \<Rightarrow> kobj option \<Rightarrow> bool" where
  "hasVersion src ob \<longleftrightarrow> (\<exists>osp. ob = Some (OSP osp) \<and> osp_Version osp = osp_Version src)"

lemma provided_hasVersion: "provided src old new \<Longrightarrow> hasVersion src new"
  by (auto simp: provided_def hasVersion_def Let_def split: if_splits)

lemma hasVersion_step:
  assumes "osp_reconciling R objs" and "ReconcileOSP R r (ns', n') w = (x, w')" and "map_of (o_defaultOSPs r) n = Some src"
    and "x = Inr () \<and> n' = n \<or> hasVersion src (objs w (ospKeyOf r n))"
  shows "hasVersion src (objs w' (ospKeyOf r n))"
proof (cases "n' = n")
  case True
  with osp_reconciling.reconcile_name [OF assms(1,2), of src] assms(3,4) show ?thesis
    by (auto dest: provided_hasVersion)
next
  case False
  with assms(4) have old: "hasVersion src (objs w (ospKeyOf r n))" by simp
  show ?thesis
  proof (cases "map_of (o_defaultOSPs r) n'")
    case None
    with osp_reconciling.reconcile_other [OF assms(1) None] assms(2) old show ?thesis by simp
  next
    case (Some src')
    with osp_reconciling.reconcile_name [OF assms(1,2) Some] False old show ?thesis by (simp add: ospKeyOf_def)
  qed
qed

lemma hasVersion_run:
  assumes "osp_reconciling R objs" and "runOSPs R r qs w = (xs, w')" and "map_of (o_defaultOSPs r) n = Some src"
    and "hasVersion src (objs w (ospKeyOf r n)) \<or> (\<exists>i < length qs. snd (qs ! i) = n \<and> xs ! i = Inr ())"
  shows "hasVersion src (objs w' (ospKeyOf r n))"
  using assms(2,4)
proof (induction qs arbitrary: w xs)
  case Nil
  then show ?case by simp
next
  case (Cons q qs)
  obtain x w1 where x: "ReconcileOSP R r (fst q, snd q) w = (x, w1)" by (metis prod.exhaust)
  obtain ys w2 where ys: "runOSPs R r qs w1 = (ys, w2)" by (metis prod.exhaust)
  from x ys Cons.prems(1) have run: "runOSPs R r qs w1 = (ys, w')" "xs = x # ys" by simp_all
  note step = hasVersion_step [OF assms(1) x assms(3)]
  have "hasVersion src (objs w1 (ospKeyOf r n)) \<or> (\<exists>i < length qs. snd (qs ! i) = n \<and> ys ! i = Inr ())"
  proof (cases "hasVersion src (objs w (ospKeyOf r n))")
    case True
    then show ?thesis using step by simp
  next
    case False
    with Cons.prems(2) obtain i where i: "i < length (q # qs)" "snd ((q # qs) ! i) = n" "xs ! i = Inr ()" by blast
    show ?thesis
    proof (cases i)
      case 0
      with i run(2) show ?thesis using step by simp
    next
      case (Suc j)
      with i run(2) show ?thesis by auto
    qed
  qed
  with run(1) show ?case by (rule Cons.IH)
qed

lemma distinct_loadFiles: "loadFiles F fs m = Inr osps \<Longrightarrow> distinct (keys m) \<Longrightarrow> distinct (keys osps)"
  by (induction F fs m rule: loadFiles.induct) (auto simp: res_simps)

text \<open>C22. Starting the controller: it is first triggered once for every default profile; once each of these events
  has been handled successfully, whatever else was handled in between or failed, every profile the program
  carries is in the management cluster, in the version the program carries.\<close>

theorem osp_bootstrap:
  assumes "osp_reconciling R objs" and "AddOSP F client namespace False = Inr (Some (r, events))"
    and "runOSPs R r qs w = (xs, w')" and "\<forall>e \<in> set events. \<exists>i < length qs. qs ! i = e \<and> xs ! i = Inr ()"
    and "loadDefaultOSPs F = Inr osps" and "map_of osps name = Some src"
  shows "\<exists>osp. objs w' (Key client KOSP namespace name) = Some (OSP osp) \<and> osp_Version osp = osp_Version src"
proof -
  from assms(2,5) have r: "r = \<lparr>o_Client = client, o_defaultOSPs = osps, o_namespace = namespace\<rparr>"
    and ev: "events = map (\<lambda>name. (namespace, name)) (keys osps)"
    by (auto simp: AddOSP_def)
  from assms(6) have "name \<in> set (keys osps)" by (auto simp: set_keys)
  with assms(4) ev obtain i where "i < length qs" "qs ! i = (namespace, name)" "xs ! i = Inr ()" by auto
  then have "hasVersion src (objs w' (ospKeyOf r name))"
    by (intro hasVersion_run [OF assms(1,3)]) (use r assms(6) in auto)
  then show ?thesis by (simp add: hasVersion_def ospKeyOf_def r)
qed

definition demo_osp_files :: osp_files where
  "demo_osp_files = \<lparr>fs_ReadDir = (\<lambda>d. Inr [''osp-ubuntu.yaml'']), fs_ReadFile = (\<lambda>f. Inr f),
     yaml_Unmarshal = (\<lambda>t. Inr (demo_profile ''v1.0.0'' t))\<rparr>"

lemma demo_loaded: "loadDefaultOSPs demo_osp_files = Inr [(''osp-ubuntu'', demo_profile ''v1.0.0'' ''default/osp-ubuntu.yaml'')]"
proof -
  have "ReplaceAll ''.yaml'' [] ''osp-ubuntu.yaml'' = ''osp-ubuntu''" by code_simp
  then show ?thesis
    by (simp add: loadDefaultOSPs_def demo_osp_files_def parseOSPFile_def ospsDefaultDirName_def mput_def del: ReplaceAll.simps)
qed

theorem osp_bootstrap_witness:
  "\<exists>r w' osp. AddOSP demo_osp_files Management ''kube-system'' False = Inr (Some (r, [(''kube-system'', ''osp-ubuntu'')]))
    \<and> ReconcileOSP store_reconciling r (''kube-system'', ''osp-ubuntu'') empty_store = (Inr (), w')
    \<and> store_objs w' (Key Management KOSP ''kube-system'' ''osp-ubuntu'') = Some (OSP osp) \<and> osp_Version osp = ''v1.0.0''"
proof -
  obtain r where add: "AddOSP demo_osp_files Management ''kube-system'' False = Inr (Some (r, [(''kube-system'', ''osp-ubuntu'')]))"
    by (simp add: AddOSP_def demo_loaded keys_def)
  have "s_faults empty_store = []" by (simp add: empty_store_def)
  from store_run [OF this] obtain w' where
    run: "ReconcileOSP store_reconciling r (''kube-system'', ''osp-ubuntu'') empty_store = (Inr (), w')" by blast
  then have "runOSPs store_reconciling r [(''kube-system'', ''osp-ubuntu'')] empty_store = ([Inr ()], w')" by simp
  from osp_bootstrap [OF os.osp_reconciling_axioms add this _ demo_loaded, of "''osp-ubuntu''"] add run show ?thesis by auto
qed

section \<open>The profiles of the repository\<close>

text \<open>
  What the files of \<open>deploy/osps/default\<close> say of the fields that the webhooks and the controllers look at: the profile's name,
  its operating system, version and provisioning utility, the cloud providers it supports, and the names of the systemd
  units of its two parts. The YAML decoder is not in the repository, so that a file says this is an assumption on it: \<open>embeds\<close>.
\<close>

record profileFacts =
  pf_Name :: string
  pf_OSName :: string
  pf_Version :: string
  pf_ProvisioningUtility :: string
  pf_CloudProviders :: "string list"
  pf_BootstrapUnits :: "string list"
  pf_ProvisioningUnits :: "string list"

definition factsOf :: "OperatingSystemProfile \<Rightarrow> profileFacts" where
  "factsOf osp = \<lparr>pf_Name = meta_Name (osp_meta osp), pf_OSName = osps_OSName (osp_Spec osp), pf_Version = osp_Version osp,
     pf_ProvisioningUtility = osps_ProvisioningUtility (osp_Spec osp),
     pf_CloudProviders = map cps_Name (osps_SupportedCloudProviders (osp_Spec osp)),
     pf_BootstrapUnits = map unit_Name (ospc_Units (osps_BootstrapConfig (osp_Spec osp))),
     pf_ProvisioningUnits = map unit_Name (ospc_Units (osps_ProvisioningConfig (osp_Spec osp)))\<rparr>"

definition profileFile :: "string \<Rightarrow> string \<Rightarrow> string \<Rightarrow> string list \<Rightarrow> string list \<Rightarrow> string list \<Rightarrow> string \<times> profileFacts" where
  "profileFile name os utility providers bootstrapUnits provisioningUnits = (name @ ''.yaml'',
     \<lparr>pf_Name = name, pf_OSName = os, pf_Version = ''v1.11.2'', pf_ProvisioningUtility = utility,
      pf_CloudProviders = providers, pf_BootstrapUnits = bootstrapUnits, pf_ProvisioningUnits = provisioningUnits\<rparr>)"

definition embeddedProfiles :: "(string \<times> profileFacts) list" where
  "embeddedProfiles =
     [profileFile ''osp-amzn2'' ''amzn2'' ''cloud-init'' [''aws''] [] [],
      profileFile ''osp-flatcar-cloud-init'' ''flatcar'' ''cloud-init'' [''anexia''] [''setup.service''] [],
      profileFile ''osp-flatcar'' ''flatcar'' ''ignition''
        [''aws'', ''azure'', ''gce'', ''kubevirt'', ''openstack'', ''vsphere'', ''vmware-cloud-director'']
        [''bootstrap.service''] [''setup.service''],
      profileFile ''osp-rhel'' ''rhel'' ''cloud-init'' [''aws'', ''azure'', ''kubevirt'', ''openstack'', ''vsphere''] [] [],
      profileFile ''osp-rockylinux'' ''rockylinux'' ''cloud-init''
        [''aws'', ''azure'', ''digitalocean'', ''hetzner'', ''openstack'', ''kubevirt'', ''vsphere''] [] [],
      profileFile ''osp-ubuntu'' ''ubuntu'' ''cloud-init''
        [''alibaba'', ''aws'', ''azure'', ''baremetal'', ''digitalocean'', ''edge'', ''gce'', ''hetzner'', ''kubevirt'', ''nutanix'',
         ''openstack'', ''vmware-cloud-director'', ''vsphere''] [] []]"

definition embeds :: "osp_files \<Rightarrow> bool" where
  "embeds F \<longleftrightarrow> fs_ReadDir F ''default'' = Inr (map fst embeddedProfiles)
     \<and> (\<forall>(filename, facts) \<in> set embeddedProfiles. \<exists>content osp. fs_ReadFile F (''default/'' @ filename) = Inr content
          \<and> yaml_Unmarshal F content = Inr osp \<and> factsOf osp = facts)"

lemma factsOf_units:
  assumes "factsOf osp \<in> set (map snd embeddedProfiles)"
  shows "unitsOk (osp_Spec osp)"
  using assms by (auto simp: embeddedProfiles_def profileFile_def factsOf_def unitsOk_def OperatingSystemFlatcar_def)

lemma embedded_names: "map (\<lambda>x. ReplaceAll ''.yaml'' [] (fst x)) embeddedProfiles = map (\<lambda>x. pf_Name (snd x)) embeddedProfiles"
  by code_simp

lemma loadFiles_facts:
  assumes "\<forall>(filename, facts) \<in> set tab. \<exists>content osp. fs_ReadFile F (''default/'' @ filename) = Inr content
      \<and> yaml_Unmarshal F content = Inr osp \<and> factsOf osp = facts"
    and "\<forall>(n, src) \<in> set m. P n (factsOf src)" and "\<forall>(filename, facts) \<in> set tab. P (ReplaceAll ''.yaml'' [] filename) facts"
  shows "\<exists>osps. loadFiles F (map fst tab) m = Inr osps \<and> (\<forall>(n, src) \<in> set osps. P n (factsOf src))
    \<and> set (keys osps) = set (map (\<lambda>x. ReplaceAll ''.yaml'' [] (fst x)) tab) \<union> set (keys m)"
  using assms
proof (induction tab arbitrary: m)
  case (Cons x tab)
  obtain filename facts where x: "x = (filename, facts)" by (rule prod.exhaust)
  let ?k = "ReplaceAll ''.yaml'' [] filename"
  from x Cons.prems(1) obtain content osp where decoded: "fs_ReadFile F (''default/'' @ filename) = Inr content"
    "yaml_Unmarshal F content = Inr osp" "factsOf osp = facts" by auto
  have "\<forall>(n, src) \<in> set (mput ?k osp m). P n (factsOf src)"
    using Cons.prems(2,3) decoded(3) x by (induction m) (auto simp: mput_def)
  from Cons.IH [OF _ this] Cons.prems(1,3) decoded show ?case
    by (auto simp: x parseOSPFile_def ospsDefaultDirName_def set_keys)
qed simp

text \<open>So the program starts with exactly these profiles, each under its own name, and the webhook has nothing against them.\<close>

lemma embeds_load:
  assumes "embeds F"
  obtains osps where "loadDefaultOSPs F = Inr osps"
    "\<forall>(n, src) \<in> set osps. factsOf src \<in> set (map snd embeddedProfiles) \<and> pf_Name (factsOf src) = n"
    "set (keys osps) = set (map (\<lambda>x. pf_Name (snd x)) embeddedProfiles)"
    "\<forall>(n, src) \<in> set osps. validateOperatingSystemProfile src = Inr ()"
proof -
  have names: "ReplaceAll ''.yaml'' [] (fst x) = pf_Name (snd x)" if "x \<in> set embeddedProfiles" for x
    using embedded_names that by (simp add: map_eq_conv)
  have "\<exists>osps. loadFiles F (map fst embeddedProfiles) [] = Inr osps
      \<and> (\<forall>(n, src) \<in> set osps. factsOf src \<in> set (map snd embeddedProfiles) \<and> pf_Name (factsOf src) = n)
      \<and> set (keys osps) = set (map (\<lambda>x. ReplaceAll ''.yaml'' [] (fst x)) embeddedProfiles) \<union> set (keys ([] :: ospMap))"
    using assms by (intro loadFiles_facts [of embeddedProfiles])
      (auto simp: embeds_def dest: names simp del: ReplaceAll.simps intro: rev_image_eqI)
  then obtain osps where osps: "loadFiles F (map fst embeddedProfiles) [] = Inr osps"
    "\<forall>(n, src) \<in> set osps. factsOf src \<in> set (map snd embeddedProfiles) \<and> pf_Name (factsOf src) = n"
    "set (keys osps) = set (map (\<lambda>x. pf_Name (snd x)) embeddedProfiles)"
    unfolding embedded_names by (auto simp: keys_def)
  moreover have "\<forall>(n, src) \<in> set osps. validateOperatingSystemProfile src = Inr ()"
    using osps(2) factsOf_units unfolding validate_unitsOk by blast
  ultimately show ?thesis
    using that assms by (simp add: loadDefaultOSPs_def ospsDefaultDirName_def embeds_def)
qed

section \<open>With the webhooks\<close>

text \<open>C23. The controller is never stopped by the webhook of its own repository. If the embedded files decode to profiles with
  the names, operating systems, versions and units that the files have, then they load, and the webhook admits each of them;
  and whatever a run of the controller then makes of any object, where every profile stored before was admitted
  too, is a creation or an update that the webhook allows.\<close>

theorem default_profiles_admitted:
  assumes "embeds F" and "osp_reconciling R objs"
    and "AddOSP F client namespace False = Inr (Some (r, events))" and "ReconcileOSP R r (ns, n) w = (x, w')"
    and "\<forall>old. objs w k = Some (OSP old) \<longrightarrow> validateOperatingSystemProfile old = Inr ()"
    and "objs w' k = Some (OSP new)" and "objs w' k \<noteq> objs w k" and "decode (req_Object req) = Inr new"
    and "if objs w k = None then req_Operation req = ''CREATE''
         else req_Operation req = ''UPDATE'' \<and> (\<exists>old. objs w k = Some (OSP old) \<and> decode (req_OldObject req) = Inr old)"
  shows "(\<exists>osps. loadDefaultOSPs F = Inr osps \<and> o_defaultOSPs r = osps
      \<and> (\<forall>(name, src) \<in> set osps. validateOperatingSystemProfile src = Inr ()))
    \<and> (\<exists>m. HandleOSP decode req = Allowed m)"
proof -
  obtain osps where osps: "loadDefaultOSPs F = Inr osps"
    and valid: "\<forall>(n, src) \<in> set osps. validateOperatingSystemProfile src = Inr ()"
    by (rule embeds_load [OF assms(1)])
  with assms(3) have r: "o_defaultOSPs r = osps" by (auto simp: AddOSP_def)
  have "map_of (o_defaultOSPs r) n \<noteq> None"
  proof
    assume "map_of (o_defaultOSPs r) n = None"
    from osp_reconciling.reconcile_other [OF assms(2) this, of ns w] assms(4,7) show False by simp
  qed
  then obtain src where src: "map_of (o_defaultOSPs r) n = Some src" by blast
  have units: "unitsOk (osp_Spec src)" using map_of_SomeD [OF src] valid r by (auto simp: validate_unitsOk)
  note run = osp_reconciling.reconcile_name [OF assms(2,4) src]
  with assms(7) have k: "k = ospKeyOf r n" by blast
  have "provided src (objs w k) (Some (OSP new))" using run assms(6,7) unfolding k by metis
  then have spec: "osp_Spec new = (let cur = (case objs w k of Some (OSP osp) \<Rightarrow> osp_Spec osp | _ \<Rightarrow> osp_Spec emptyOSP) in
      if osps_Version cur = osp_Version src then cur else osp_Spec src)" by (auto simp: provided_def)
  have "\<exists>m. HandleOSP decode req = Allowed m"
  proof (cases "objs w k = None")
    case True
    have "unitsOk (osp_Spec emptyOSP)" by (simp add: emptyOSP_def emptyOSPConfig_def unitsOk_def)
    with True spec units have "unitsOk (osp_Spec new)" by (simp add: Let_def)
    with True assms(8,9) HandleOSP_create [of req decode new] show ?thesis by simp
  next
    case False
    with assms(9) obtain old where old: "objs w k = Some (OSP old)" "decode (req_OldObject req) = Inr old"
      "req_Operation req = ''UPDATE''" by auto
    with assms(5) have "unitsOk (osp_Spec old)" by (simp add: validate_unitsOk)
    moreover have "DeepEqualOSP (osp_Spec old) (osp_Spec old)" by (simp add: DeepEqualOSP_def)
    ultimately show ?thesis
      using HandleOSP_update [OF old(3) assms(8) old(2)] units spec old(1) by (simp add: Let_def)
  qed
  with osps r valid show ?thesis by blast
qed

text \<open>The example: files that say just this, and a stored profile of another version.\<close>

definition demo_unit :: "string \<Rightarrow> Unit" where
  "demo_unit name = \<lparr>unit_Name = name, unit_Enable = Some True, unit_Mask = None, unit_Content = None, unit_DropIns = []\<rparr>"

definition demo_embedded :: "profileFacts \<Rightarrow> OperatingSystemProfile" where
  "demo_embedded facts = \<lparr>osp_meta = emptyMeta\<lparr>meta_Name := pf_Name facts\<rparr>, osp_Spec = (osp_Spec demo_osp)
     \<lparr>osps_OSName := pf_OSName facts, osps_Version := pf_Version facts, osps_ProvisioningUtility := pf_ProvisioningUtility facts,
      osps_SupportedCloudProviders := map (\<lambda>p. \<lparr>cps_Name = p, cps_Spec = None\<rparr>) (pf_CloudProviders facts),
      osps_BootstrapConfig := emptyOSPConfig\<lparr>ospc_Units := map demo_unit (pf_BootstrapUnits facts)\<rparr>,
      osps_ProvisioningConfig := emptyOSPConfig\<lparr>ospc_Units := map demo_unit (pf_ProvisioningUnits facts)\<rparr>\<rparr>\<rparr>"

definition demo_default_files :: osp_files where
  "demo_default_files = \<lparr>fs_ReadDir = (\<lambda>d. Inr (map fst embeddedProfiles)), fs_ReadFile = (\<lambda>f. Inr (drop 8 f)),
     yaml_Unmarshal = (\<lambda>t. case map_of embeddedProfiles t of
        None \<Rightarrow> Inl (Errorf ''no profile'' []) | Some facts \<Rightarrow> Inr (demo_embedded facts))\<rparr>"

lemma factsOf_embedded [simp]: "factsOf (demo_embedded facts) = facts"
  by (simp add: factsOf_def demo_embedded_def demo_unit_def emptyMeta_def emptyOSPConfig_def comp_def)

lemma distinct_embedded: "distinct (map fst embeddedProfiles)"
  by (simp add: embeddedProfiles_def profileFile_def)

lemma demo_embeds: "embeds demo_default_files"
proof -
  have "map_of embeddedProfiles filename = Some facts" if "(filename, facts) \<in> set embeddedProfiles" for filename facts
    using that distinct_embedded by simp
  then show ?thesis by (auto simp: embeds_def demo_default_files_def)
qed

theorem default_profiles_admitted_witness:
  "\<exists>r events w' new. AddOSP demo_default_files Management ''kube-system'' False = Inr (Some (r, events))
    \<and> ReconcileOSP store_reconciling r (''kube-system'', ''osp-ubuntu'')
        (empty_store\<lparr>s_objs := [(Management, OSP demo_newer)]\<rparr>) = (Inr (), w')
    \<and> store_objs w' (Key Management KOSP ''kube-system'' ''osp-ubuntu'') = Some (OSP new) \<and> osp_Version new = ''v1.11.2''
    \<and> (\<exists>m. HandleOSP (\<lambda>raw. Inr (if raw = ''old'' then demo_newer else new)) (demo_request ''UPDATE'' ''old'' ''new'') = Allowed m)"
proof -
  let ?w = "empty_store\<lparr>s_objs := [(Management, OSP demo_newer)]\<rparr>" and ?k = "Key Management KOSP ''kube-system'' ''osp-ubuntu''"
  obtain osps where osps: "loadDefaultOSPs demo_default_files = Inr osps"
    and facts: "\<forall>(n, src) \<in> set osps. factsOf src \<in> set (map snd embeddedProfiles) \<and> pf_Name (factsOf src) = n"
    and keys: "set (keys osps) = set (map (\<lambda>x. pf_Name (snd x)) embeddedProfiles)"
    by (rule embeds_load [OF demo_embeds])
  then obtain r events where add: "AddOSP demo_default_files Management ''kube-system'' False = Inr (Some (r, events))"
    and r: "r = \<lparr>o_Client = Management, o_defaultOSPs = osps, o_namespace = ''kube-system''\<rparr>" by (simp add: AddOSP_def)
  have "s_faults ?w = []" by (simp add: empty_store_def)
  from store_run [OF this] obtain w' where
    run: "ReconcileOSP store_reconciling r (''kube-system'', ''osp-ubuntu'') ?w = (Inr (), w')" by blast
  have old: "store_objs ?w ?k = Some (OSP demo_newer)"
    by (simp add: store_objs_def find_Cons key_of_def demo_newer_def setName_def demo_profile_def demo_osp_def emptyMeta_def)
  from keys have "''osp-ubuntu'' \<in> set (keys osps)" by (simp add: embeddedProfiles_def profileFile_def)
  then obtain src where src: "map_of osps ''osp-ubuntu'' = Some src" by (auto simp: set_keys)
  have "osp_Version src = ''v1.11.2''"
    using map_of_SomeD [OF src] facts by (auto simp: factsOf_def embeddedProfiles_def profileFile_def)
  moreover from src r have "map_of (o_defaultOSPs r) ''osp-ubuntu'' = Some src" "ospKeyOf r ''osp-ubuntu'' = ?k"
    by (simp_all add: ospKeyOf_def)
  ultimately obtain new where new: "store_objs w' ?k = Some (OSP new)" "osp_Version new = ''v1.11.2''"
    using os.reconcile_name [OF run] by (auto simp: provided_def old demo_newer_def setName_def Let_def)
  have "new \<noteq> demo_newer" using new(2) by (auto simp: demo_newer_def setName_def)
  then have "\<exists>m. HandleOSP (\<lambda>raw. Inr (if raw = ''old'' then demo_newer else new)) (demo_request ''UPDATE'' ''old'' ''new'') = Allowed m"
    using default_profiles_admitted [OF demo_embeds os.osp_reconciling_axioms add run, where k = ?k and new = new
        and decode = "\<lambda>raw. Inr (if raw = ''old'' then demo_newer else new)" and req = "demo_request ''UPDATE'' ''old'' ''new''"]
    by (simp add: old new(1) demo_request_def validate_unitsOk) (simp add: demo_newer_def setName_def)
  with add run new show ?thesis by blast
qed

text \<open>C40. The webhook for MachineDeployments and the default profiles fit together. With the files that the repository embeds, a
  deployment that names no profile is given the name of one that the program carries, for the machine's operating
  system; and the OSC controller accepts this profile for the deployment exactly if its file lists the machine's cloud
  provider. (Where the webhook's decoder and the controller's read the same provider configuration.)\<close>

theorem mutation_names_default:
  assumes "embeds F" and "loadDefaultOSPs F = Inr osps"
    and "MutateMachineDeployment S getConfig md = Inr md'" and "\<not> filterMachineDeploymentPredicate md"
    and "md_ProviderSpecValue md = Some raw" and "getConfig (Some raw) = Inr pc" and "Unmarshal (pc_decode S False) (orDefault [] raw) = Inr pc"
  shows "\<exists>facts \<in> set (map snd embeddedProfiles). \<exists>src.
      pf_Name facts = mget (md_Annotations md') MachineDeploymentOSPAnnotation \<and> pf_OSName facts = pc_OperatingSystem pc
    \<and> map_of osps (pf_Name facts) = Some src \<and> factsOf src = facts
    \<and> (checkOSP S md' src = Inr () \<longleftrightarrow> pc_CloudProvider pc \<in> set (pf_CloudProviders facts))"
proof -
  let ?n = "mget (md_Annotations md') MachineDeploymentOSPAnnotation"
  obtain osps' where load: "loadDefaultOSPs F = Inr osps'"
    and facts: "\<forall>(n, src) \<in> set osps'. factsOf src \<in> set (map snd embeddedProfiles) \<and> pf_Name (factsOf src) = n"
    and keys: "set (keys osps') = set (map (\<lambda>x. pf_Name (snd x)) embeddedProfiles)"
    by (rule embeds_load [OF assms(1)])
  have osps: "osps' = osps" using load assms(2) by simp
  have "?n = ''osp-flatcar-cloud-init'' \<and> pc_OperatingSystem pc = OperatingSystemFlatcar
      \<or> ?n = ''osp-'' @ pc_OperatingSystem pc \<and> pc_OperatingSystem pc \<in> {OperatingSystemUbuntu, OperatingSystemFlatcar,
          OperatingSystemAmazonLinux2, OperatingSystemRockyLinux, OperatingSystemRHEL}"
    using assms(3-6)
    by (simp add: MutateMachineDeployment_def filterMachineDeploymentPredicate_def ospNameFor_def split: if_splits) auto
  then have named: "(?n, pc_OperatingSystem pc) \<in> (\<lambda>x. (pf_Name (snd x), pf_OSName (snd x))) ` set embeddedProfiles"
    by (elim disjE conjE insertE emptyE) (simp_all add: os_defs embeddedProfiles_def profileFile_def)
  then have "?n \<in> set (keys osps)" using keys by (auto simp: osps)
  then obtain src where src: "map_of osps ?n = Some src" by (auto simp: set_keys)
  with facts map_of_SomeD [OF src] have src': "factsOf src \<in> set (map snd embeddedProfiles)" "pf_Name (factsOf src) = ?n"
    by (auto simp: osps)
  have "pf_OSName (factsOf src) = pc_OperatingSystem pc"
    using named src' by (auto simp: embeddedProfiles_def profileFile_def)
  moreover have "md_ProviderSpecValue md' = Some raw"
    using assms(3,5) by (auto simp: MutateMachineDeployment_def res_simps split: if_splits)
  ultimately have "checkOSP S md' src = Inr () \<longleftrightarrow> pc_CloudProvider pc \<in> set (pf_CloudProviders (factsOf src))"
    using assms(7) by (auto simp: checkOSP_def validateMachineDeployment_def factsOf_def list_ex_iff intro: rev_image_eqI)
  with \<open>pf_OSName (factsOf src) = pc_OperatingSystem pc\<close> src src' show ?thesis by (intro bexI exI conjI) simp_all
qed

theorem mutation_names_default_witness:
  "\<exists>osps md' src. loadDefaultOSPs demo_default_files = Inr osps
    \<and> MutateMachineDeployment demo_sdk (\<lambda>raw. Inr (demo_pc ''hetzner'' ''rhel'')) ((demo_md ''hetzner'' ''rhel'')\<lparr>md_meta := emptyMeta\<rparr>) = Inr md'
    \<and> map_of osps (mget (md_Annotations md') MachineDeploymentOSPAnnotation) = Some src \<and> checkOSP demo_sdk md' src \<noteq> Inr ()"
proof -
  obtain osps where load: "loadDefaultOSPs demo_default_files = Inr osps" by (rule embeds_load [OF demo_embeds])
  let ?md = "(demo_md ''hetzner'' ''rhel'')\<lparr>md_meta := emptyMeta\<rparr>"
  have run: "MutateMachineDeployment demo_sdk (\<lambda>raw. Inr (demo_pc ''hetzner'' ''rhel'')) ?md
      = Inr (annotate MachineDeploymentOSPAnnotation ''osp-rhel'' ?md)"
    by (simp add: MutateMachineDeployment_def demo_pc_def CloudProviderAnexia_def ospNameFor_def OperatingSystemRHEL_def
        emptyMeta_def mget_def)
  have other: "\<not> filterMachineDeploymentPredicate ?md"
    by (simp add: filterMachineDeploymentPredicate_def emptyMeta_def mget_def)
  have raw: "md_ProviderSpecValue ?md = Some (Some (demo_raw ''hetzner'' ''rhel''))" by (simp add: demo_md_simps)
  have decode: "Unmarshal (pc_decode demo_sdk False) (orDefault [] (Some (demo_raw ''hetzner'' ''rhel''))) = Inr (demo_pc ''hetzner'' ''rhel'')"
    by (simp add: orDefault_def demo_unmarshal)
  let ?md' = "annotate MachineDeploymentOSPAnnotation ''osp-rhel'' ?md"
  from mutation_names_default [OF demo_embeds load run other raw _ decode] obtain facts src where
    facts: "facts \<in> set (map snd embeddedProfiles)" "pf_Name facts = mget (md_Annotations ?md') MachineDeploymentOSPAnnotation"
      "map_of osps (pf_Name facts) = Some src"
    and check: "checkOSP demo_sdk ?md' src = Inr () \<longleftrightarrow> pc_CloudProvider (demo_pc ''hetzner'' ''rhel'') \<in> set (pf_CloudProviders facts)"
    by blast
  have name: "pf_Name facts = ''osp-rhel''" "mget (md_Annotations ?md') MachineDeploymentOSPAnnotation = ''osp-rhel''"
    using facts(2) by simp_all
  have "''hetzner'' \<notin> set (pf_CloudProviders facts)"
    using facts(1) name(1) by (auto simp: embeddedProfiles_def profileFile_def)
  with check have "checkOSP demo_sdk ?md' src \<noteq> Inr ()" by (simp add: demo_pc_def)
  with facts(3) name load run show ?thesis by (intro exI conjI) simp_all
qed

end
