(* ===== verification/SystemInvariant.thy ===== *)
theory SystemInvariant
  imports OSCProperties OSCRendering OSPProperties
begin

text \<open>
  The system as a whole: both controllers and the two validating webhooks over one world, while users
  write profiles and configurations. Where a stored configuration comes from, and what happens to it when a
  profile's version is used twice.
\<close>

section \<open>The steps of the system\<close>

text \<open>A write of a user that the webhook of the kind admits: a new object, or a new version of the stored one.\<close>

definition profile_write :: "(string \<Rightarrow> OperatingSystemProfile res) \<Rightarrow> request \<Rightarrow> objkey
    \<Rightarrow> (objkey \<Rightarrow> kobj option) \<Rightarrow> (objkey \<Rightarrow> kobj option) \<Rightarrow> bool" where
  "profile_write decode req k os os' \<longleftrightarrow> (\<exists>osp m. decode (req_Object req) = Inr osp \<and> HandleOSP decode req = Allowed m
     \<and> os' = os(k \<mapsto> OSP osp)
     \<and> (case os k of
          None \<Rightarrow> req_Operation req = ''CREATE''
        | Some x \<Rightarrow> req_Operation req = ''UPDATE'' \<and> (\<exists>old. x = OSP old \<and> decode (req_OldObject req) = Inr old)))"

definition config_update :: "(string \<Rightarrow> OperatingSystemConfig res) \<Rightarrow> request \<Rightarrow> objkey
    \<Rightarrow> (objkey \<Rightarrow> kobj option) \<Rightarrow> (objkey \<Rightarrow> kobj option) \<Rightarrow> bool" where
  "config_update decode req k os os' \<longleftrightarrow> (\<exists>osc old m. req_Operation req = ''UPDATE'' \<and> decode (req_Object req) = Inr osc
     \<and> decode (req_OldObject req) = Inr old \<and> os k = Some (OSC old) \<and> HandleOSC decode req = Allowed m
     \<and> os' = os(k \<mapsto> OSC osc))"

text \<open>A configuration that a user creates; the webhook looks at updates only.\<close>

definition config_create :: "(string \<Rightarrow> OperatingSystemConfig res) \<Rightarrow> request \<Rightarrow> objkey \<Rightarrow> OperatingSystemConfig
    \<Rightarrow> (objkey \<Rightarrow> kobj option) \<Rightarrow> (objkey \<Rightarrow> kobj option) \<Rightarrow> bool" where
  "config_create decode req k osc os os' \<longleftrightarrow> (\<exists>m. req_Operation req = ''CREATE'' \<and> decode (req_Object req) = Inr osc
     \<and> os k = None \<and> HandleOSC decode req = Allowed m \<and> os' = os(k \<mapsto> OSC osc))"

text \<open>Anything else, by anyone: profiles and configurations are at most deleted.\<close>

definition elsewhere :: "(objkey \<Rightarrow> kobj option) \<Rightarrow> (objkey \<Rightarrow> kobj option) \<Rightarrow> bool" where
  "elsewhere os os' \<longleftrightarrow> (\<forall>k x. os' k = Some x \<and> kind_of x \<in> {KOSP, KOSC} \<longrightarrow> os k = Some x)"

text \<open>The worlds that can be reached, each with the configurations that users have created so far, and where.\<close>

inductive system :: "'w env \<Rightarrow> ('w \<Rightarrow> objkey \<Rightarrow> kobj option) \<Rightarrow> 'w Reconciler \<Rightarrow> 'w reconciling \<Rightarrow> OSPControl
    \<Rightarrow> (string \<Rightarrow> OperatingSystemProfile res) \<Rightarrow> (string \<Rightarrow> OperatingSystemConfig res)
    \<Rightarrow> (objkey \<times> OperatingSystemConfig) set \<Rightarrow> 'w \<Rightarrow> bool"
  for E objs r R o' dP dC where
  empty: "elsewhere (\<lambda>_. None) (objs w) \<Longrightarrow> system E objs r R o' dP dC {} w"
| osc: "system E objs r R o' dP dC U w \<Longrightarrow> Reconcile E r (ns, n) w = (x, w') \<Longrightarrow> system E objs r R o' dP dC U w'"
| osp: "system E objs r R o' dP dC U w \<Longrightarrow> ReconcileOSP R o' (ns, n) w = (x, w') \<Longrightarrow> system E objs r R o' dP dC U w'"
| profile: "system E objs r R o' dP dC U w \<Longrightarrow> profile_write dP req k (objs w) (objs w') \<Longrightarrow> system E objs r R o' dP dC U w'"
| create: "system E objs r R o' dP dC U w \<Longrightarrow> config_create dC req k osc (objs w) (objs w')
    \<Longrightarrow> system E objs r R o' dP dC (insert (k, osc) U) w'"
| config: "system E objs r R o' dP dC U w \<Longrightarrow> config_update dC req k (objs w) (objs w') \<Longrightarrow> system E objs r R o' dP dC U w'"
| other: "system E objs r R o' dP dC U w \<Longrightarrow> elsewhere (objs w) (objs w') \<Longrightarrow> system E objs r R o' dP dC U w'"

section \<open>The invariant\<close>

text \<open>Up to the order of maps, the controller made the configuration, from a profile without stray units.\<close>

definition derived :: "'w env \<Rightarrow> 'w Reconciler \<Rightarrow> OperatingSystemConfig \<Rightarrow> bool" where
  "derived E r osc \<longleftrightarrow> (\<exists>md osp osc0. unitsOk (osp_Spec osp) \<and> generatedOSC E r md osp osc0
     \<and> DeepEqualOSC (osc_Spec osc0) (osc_Spec osc))"

text \<open>Or a user created it, where it is now.\<close>

definition created :: "(objkey \<times> OperatingSystemConfig) set \<Rightarrow> objkey \<Rightarrow> OperatingSystemConfig \<Rightarrow> bool" where
  "created U k osc \<longleftrightarrow> (\<exists>osc0. (k, osc0) \<in> U \<and> DeepEqualOSC (osc_Spec osc0) (osc_Spec osc))"

definition sound :: "'w env \<Rightarrow> 'w Reconciler \<Rightarrow> (objkey \<times> OperatingSystemConfig) set \<Rightarrow> (objkey \<Rightarrow> kobj option) \<Rightarrow> bool" where
  "sound E r U os \<longleftrightarrow> (\<forall>k osp. os k = Some (OSP osp) \<longrightarrow> unitsOk (osp_Spec osp))
     \<and> (\<forall>k osc. os k = Some (OSC osc) \<longrightarrow> derived E r osc \<or> created U k osc)"

lemma sound_elsewhere: "sound E r U os \<Longrightarrow> elsewhere os os' \<Longrightarrow> sound E r U os'"
  by (auto simp: sound_def elsewhere_def) (metis kind_of.simps)+

lemma sound_profile: "sound E r U os \<Longrightarrow> unitsOk (osp_Spec osp) \<Longrightarrow> sound E r U (os(k \<mapsto> OSP osp))"
  by (auto simp: sound_def)

lemma sound_config: "sound E r U os \<Longrightarrow> derived E r osc \<or> created U k osc \<Longrightarrow> sound E r U (os(k \<mapsto> OSC osc))"
  by (auto simp: sound_def)

lemma sound_create: "sound E r U os \<Longrightarrow> sound E r (insert (k, osc) U) (os(k \<mapsto> OSC osc))"
  by (auto simp: sound_def created_def DeepEqualOSC_def)

lemma write_units: "profile_write decode req k os os' \<Longrightarrow> \<exists>osp. unitsOk (osp_Spec osp) \<and> os' = os(k \<mapsto> OSP osp)"
  using HandleOSP_create [of req decode] HandleOSP_update [of req decode]
  by (auto simp: profile_write_def split: option.splits) blast+

lemma update_derived:
  assumes "config_update decode req k os os'" and "sound E r U os"
  shows "\<exists>osc. (derived E r osc \<or> created U k osc) \<and> os' = os(k \<mapsto> OSC osc)"
proof -
  from assms(1) obtain osc old m where osc: "req_Operation req = ''UPDATE''" "decode (req_Object req) = Inr osc"
    "decode (req_OldObject req) = Inr old" "os k = Some (OSC old)" "HandleOSC decode req = Allowed m" "os' = os(k \<mapsto> OSC osc)"
    unfolding config_update_def by blast
  then have "DeepEqualOSC (osc_Spec old) (osc_Spec osc)" using HandleOSC_update [of req decode osc old] by simp
  then have "derived E r old \<Longrightarrow> derived E r osc" "created U k old \<Longrightarrow> created U k osc"
    unfolding derived_def created_def DeepEqualOSC_def by metis+
  with assms(2) osc(4,6) show ?thesis unfolding sound_def by blast
qed

text \<open>What the OSC controller does to profiles and configurations, whatever it returns.\<close>

lemma reconciled_configs:
  assumes "osc_controller E objs r" and "Reconcile E r (ns, n) w = (x, w')" and "objs w' k = Some (OSC osc)"
  shows "objs w k = Some (OSC osc)
    \<or> (\<exists>md osp. objs w (ospKey r md) = Some (OSP osp) \<and> generatedOSC E r md osp osc)"
proof (cases "k = oscKey r ns n")
  case False
  have "k_kind k = KOSC"
    using kube_api.typed [OF osc_controller.api [OF assms(1)] assms(3)] by (metis key_of_def kind_of.simps(1) objkey.sel(2))
  with False have "\<not> touches E r ns n k" "k \<noteq> mdKey r ns n" by (auto simp: touches_iff system_secret_def)
  with reconciled_out [OF assms(1,2)] assms(3) show ?thesis by simp
next
  case True
  note spec = outcomeI [OF assms(1,2)]
  show ?thesis
  proof (cases "\<exists>md. objs w (mdKey r ns n) = Some (MD md)")
    case none: False
    with spec have "objs w' = objs w" by (auto simp: outcome_def Let_def split: option.splits kobj.splits)
    with assms(3) show ?thesis by simp
  next
    case some: True
    then obtain md where md: "objs w (mdKey r ns n) = Some (MD md)" ..
    note at = md_named [OF assms(1) md]
    show ?thesis
    proof (cases "md_DeletionTimestamp md")
      case dead: (Some t)
      have "objs w' = objs w \<or> deletes (\<lambda>os. os) (ownKeys E r ns n) (objs w) (objs w')
          \<or> (\<exists>y. objs w' = (erase (ownKeys E r ns n) (objs w))(mdKey r ns n := y))"
        using spec md dead by (auto simp: outcome_def Let_def simp del: stored_update.simps split: if_splits)
      moreover have "k \<noteq> mdKey r ns n" "k \<in> set (ownKeys E r ns n)"
        using True by (auto simp: ownKeys_def dest: arg_cong [where f = k_kind])
      moreover have "objs w' k = objs w k \<or> objs w' k = None"
        if "deletes (\<lambda>os. os) (ownKeys E r ns n) (objs w) (objs w')"
        using that [unfolded deletes_def, rule_format, of k] by (elim disjE conjE) (rule disjI1, assumption, rule disjI2)
      ultimately have "objs w' k = objs w k \<or> objs w' k = None"
        by (elim disjE exE) (simp_all add: erase_def)
      with assms(3) show ?thesis by auto
    next
      case live: None
      note spec = spec [unfolded osc_controller.outcome_live [where os = "objs w", OF assms(1) md live] Let_def]
      have neq: "oscKey r ns n \<noteq> mdKey r ns n" by (simp add: oscKey_def mdKey_def)
      show ?thesis
      proof (cases x)
        case (Inl e)
        with spec True assms(3) at show ?thesis by (auto simp: traced_def Let_def)
      next
        case (Inr u)
        with spec obtain osp where osp: "objs w (ospKey r md) = Some (OSP osp)"
          "synced E r (finalized md) osp ((objs w)(mdKey r ns n \<mapsto> MD (finalized md))) (objs w')" by auto
        let ?old = "rotated E r (finalized md) osp ((objs w)(mdKey r ns n \<mapsto> MD (finalized md))) k"
        have "?old = None \<and> generatedOSC E r (finalized md) osp osc \<or> ?old = Some (OSC osc)"
          using osp(2) True assms(3) at by (auto simp: synced_def Let_def split: if_splits)
        moreover have "?old = Some (OSC osc) \<Longrightarrow> objs w k = Some (OSC osc)"
          using True neq by (auto simp: rotated_def erase_def split: option.splits kobj.splits if_splits)
        ultimately show ?thesis using osp(1) by (metis ospKey_finalized)
      qed
    qed
  qed
qed

lemma derived_generated: "generatedOSC E r md osp osc \<Longrightarrow> unitsOk (osp_Spec osp) \<Longrightarrow> derived E r osc"
  by (auto simp: derived_def DeepEqualOSC_def)

lemma sound_osc_step:
  assumes "osc_controller E objs r" and "Reconcile E r (ns, n) w = (x, w')" and sound: "sound E r U (objs w)"
  shows "sound E r U (objs w')"
  unfolding sound_def
proof (intro conjI allI impI)
  fix k osp
  assume osp: "objs w' k = Some (OSP osp)"
  have "k_kind k = KOSP"
    using kube_api.typed [OF osc_controller.api [OF assms(1)] osp] by (metis key_of_def kind_of.simps(2) objkey.sel(2))
  then have "\<not> touches E r ns n k" "k \<noteq> mdKey r ns n" by (auto simp: touches_iff system_secret_def)
  with reconciled_out [OF assms(1,2)] osp sound show "unitsOk (osp_Spec osp)" by (auto simp: sound_def)
next
  fix k osc
  assume "objs w' k = Some (OSC osc)"
  from reconciled_configs [OF assms(1,2) this] show "derived E r osc \<or> created U k osc"
    using sound derived_generated unfolding sound_def by blast
qed

lemma provided_units:
  assumes "provided src old new" and "unitsOk (osp_Spec src)" and "\<And>osp. old = Some (OSP osp) \<Longrightarrow> unitsOk (osp_Spec osp)"
  obtains osp where "new = Some (OSP osp)" "unitsOk (osp_Spec osp)"
proof -
  have "unitsOk (osp_Spec emptyOSP)" by (simp add: emptyOSP_def emptyOSPConfig_def unitsOk_def)
  then show ?thesis using assms that
    by (auto simp: provided_def Let_def split: option.splits kobj.splits if_splits)
qed

lemma sound_osp_step:
  assumes "osp_reconciling R objs" and "\<forall>(n, src) \<in> set (o_defaultOSPs o'). validateOperatingSystemProfile src = Inr ()"
    and run: "ReconcileOSP R o' (ns, n) w = (x, w')" and sound: "sound E r U (objs w)"
  shows "sound E r U (objs w')"
proof (cases "map_of (o_defaultOSPs o') n")
  case None
  with osp_reconciling.reconcile_other [OF assms(1) None, of ns w] run sound show ?thesis by simp
next
  case (Some src)
  have "unitsOk (osp_Spec src)" using map_of_SomeD [OF Some] assms(2) by (auto simp: validate_unitsOk)
  from osp_reconciling.reconcile_name [OF assms(1) run Some]
  consider "objs w' = objs w" | "\<forall>k. k \<noteq> ospKeyOf o' n \<longrightarrow> objs w' k = objs w k"
    "provided src (objs w (ospKeyOf o' n)) (objs w' (ospKeyOf o' n))" by blast
  then show ?thesis
  proof cases
    case 2
    from 2(2) \<open>unitsOk (osp_Spec src)\<close> obtain osp where "objs w' (ospKeyOf o' n) = Some (OSP osp)" "unitsOk (osp_Spec osp)"
      by (rule provided_units) (use sound in \<open>auto simp: sound_def\<close>)
    moreover from this 2(1) have "objs w' = (objs w)(ospKeyOf o' n \<mapsto> OSP osp)" by (auto simp: fun_eq_iff)
    ultimately show ?thesis using sound_profile [OF sound] by simp
  qed (use sound in simp)
qed

lemma system_sound:
  assumes "osc_controller E objs r" and "osp_reconciling R objs"
    and "\<forall>(n, src) \<in> set (o_defaultOSPs o'). validateOperatingSystemProfile src = Inr ()"
    and "system E objs r R o' dP dC U w"
  shows "sound E r U (objs w)"
  using assms(4)
proof induction
  case (empty w)
  then show ?case by (auto simp: elsewhere_def sound_def) (metis kind_of.simps option.distinct(1))+
next
  case (osc U w ns n x w')
  then show ?case using sound_osc_step [OF assms(1)] by blast
next
  case (osp U w ns n x w')
  then show ?case using sound_osp_step [OF assms(2,3)] by blast
next
  case (profile U w req k w')
  then show ?case using write_units sound_profile by metis
next
  case (create U w req k osc w')
  then show ?case unfolding config_create_def using sound_create by metis
next
  case (config U w req k w')
  then show ?case using update_derived sound_config by metis
next
  case (other U w w')
  then show ?case using sound_elsewhere by blast
qed

section \<open>What every stored configuration is\<close>

lemma DeepEqualOSC_units:
  assumes "DeepEqualOSC a b"
  shows "oscc_Units (oscs_BootstrapConfig a) = oscc_Units (oscs_BootstrapConfig b)"
    "oscc_Units (oscs_ProvisioningConfig a) = oscc_Units (oscs_ProvisioningConfig b)"
proof -
  have eq: "canonOSC a = canonOSC b" using assms by (simp add: DeepEqualOSC_def)
  from arg_cong [OF eq, of "\<lambda>s. oscc_Units (oscs_BootstrapConfig s)"]
    arg_cong [OF eq, of "\<lambda>s. oscc_Units (oscs_ProvisioningConfig s)"]
  show "oscc_Units (oscs_BootstrapConfig a) = oscc_Units (oscs_BootstrapConfig b)"
    "oscc_Units (oscs_ProvisioningConfig a) = oscc_Units (oscs_ProvisioningConfig b)" by simp_all
qed

text \<open>What a configuration made from such a profile looks like.\<close>

lemma generated_shape:
  assumes "generatedOSC E r md osp osc" and "unitsOk (osp_Spec osp)"
  shows "oscs_OSName (osc_Spec osc) = OperatingSystemFlatcar
      \<or> oscc_Units (oscs_BootstrapConfig (osc_Spec osc)) = [] \<and> oscc_Units (oscs_ProvisioningConfig (osc_Spec osc)) = []"
    "\<forall>f \<in> set (oscc_Files (oscs_BootstrapConfig (osc_Spec osc)) @ oscc_Files (oscs_ProvisioningConfig (osc_Spec osc))).
      file_Inline f \<noteq> None \<and> file_Permissions f \<noteq> 0"
proof -
  from assms(1) obtain kubeconfig kn token crc osc0 where osc0:
    "GenerateOperatingSystemConfig (env_libs E) md osp kubeconfig kn token
       (k_name (oscKey r (md_Namespace md) (md_Name md))) (r_namespace r) (r_caCert r) (r_hostCACert r)
       (r_clusterDNSIPs r) (r_containerRuntime r) (r_externalCloudProvider r) (r_initialTaints r)
       (r_nodeHTTPProxy r) (r_nodeNoProxy r) crc (r_kubeletFeatureGates r) = Inr osc0"
    and osc: "osc = completeOSC (env_sdk E) md osp osc0"
    unfolding generatedOSC_def by blast
  note spec = completed_spec [OF refl [of "osc_Spec (completeOSC (env_sdk E) md osp osc0)"], folded osc]
  show "oscs_OSName (osc_Spec osc) = OperatingSystemFlatcar
      \<or> oscc_Units (oscs_BootstrapConfig (osc_Spec osc)) = [] \<and> oscc_Units (oscs_ProvisioningConfig (osc_Spec osc)) = []"
    using assms(2) unfolding spec generated_units [OF osc0] unitsOk_def .
  show "\<forall>f \<in> set (oscc_Files (oscs_BootstrapConfig (osc_Spec osc)) @ oscc_Files (oscs_ProvisioningConfig (osc_Spec osc))).
      file_Inline f \<noteq> None \<and> file_Permissions f \<noteq> 0"
    unfolding spec by (rule generated_parts [OF osc0])
qed

text \<open>C3. Through everything that can happen to the system, with both controllers, with users who write profiles and create and
  update configurations as far as the webhooks let them, with objects deleted by anyone and calls failing at any
  time: a configuration that is stored is, up to the order of maps, either what a user created there,
  which nobody has changed since, or one that the OSC controller made from a profile that the webhook admits; and then
  it has systemd units only for Flatcar, and each of its files has a content and permissions. (The profiles that
  the program carries are assumed to be admissible; that the embedded ones are is shown with the OSP controller.)\<close>

theorem stored_configurations:
  assumes "osc_controller E objs r" and "osp_reconciling R objs"
    and "\<forall>(n, src) \<in> set (o_defaultOSPs o'). validateOperatingSystemProfile src = Inr ()"
    and "system E objs r R o' dP dC U w" and "objs w k = Some (OSC osc)"
  shows "(\<exists>osc0. (k, osc0) \<in> U \<and> DeepEqualOSC (osc_Spec osc0) (osc_Spec osc))
    \<or> (\<exists>md osp osc0. validateOperatingSystemProfile osp = Inr () \<and> generatedOSC E r md osp osc0
        \<and> DeepEqualOSC (osc_Spec osc0) (osc_Spec osc))
      \<and> (oscs_OSName (osc_Spec osc) = OperatingSystemFlatcar
          \<or> oscc_Units (oscs_BootstrapConfig (osc_Spec osc)) = [] \<and> oscc_Units (oscs_ProvisioningConfig (osc_Spec osc)) = [])
      \<and> (\<forall>f \<in> set (oscc_Files (oscs_BootstrapConfig (osc_Spec osc)) @ oscc_Files (oscs_ProvisioningConfig (osc_Spec osc))).
          file_Inline f \<noteq> None \<and> file_Permissions f \<noteq> 0)"
proof (cases "created U k osc")
  case True
  then show ?thesis unfolding created_def by blast
next
  case False
  with system_sound [OF assms(1-4)] assms(5) have "derived E r osc" by (auto simp: sound_def)
  then obtain md osp osc0 where osc0: "unitsOk (osp_Spec osp)" "generatedOSC E r md osp osc0"
    "DeepEqualOSC (osc_Spec osc0) (osc_Spec osc)"
    unfolding derived_def by blast
  with generated_shape [OF osc0(2,1)] show ?thesis
    unfolding DeepEqualOSC_fields [OF osc0(3)] DeepEqualOSC_units [OF osc0(3)] validate_unitsOk by blast
qed

text \<open>The example: users create the profile and a configuration, then the controller reconciles the deployment.\<close>

definition demo_before :: store where
  "demo_before = empty_store\<lparr>s_objs := map (Pair Management) [MD (demo_md ''hetzner'' ''ubuntu''),
     SEC (demo_secret ''cloud-init-settings'' ''cloud-init-getter-token'' [] [(''token'', ''t'')]),
     SA demo_sa, SEC demo_sa_token]\<rparr>"

lemma demo_before_objs:
  "store_objs (demo_world (demo_md ''hetzner'' ''ubuntu'') [])
    = (store_objs demo_before)(Key Management KOSP ''kube-system'' ''osp'' \<mapsto> OSP demo_osp)"
  "store_objs demo_before (Key Management KOSP ''kube-system'' ''osp'') = None"
  by (auto simp: fun_eq_iff store_objs_def demo_before_def demo_world_def find_Cons find_obj_def [of _ "[]"] key_of_def demo_secret_def
      demo_sa_token_def demo_osp_def demo_sa_def demo_md_simps)

lemma demo_added:
  assumes "key_of Management (OSC osc) = k"
  shows "store_objs (demo_world (demo_md ''hetzner'' ''ubuntu'') [OSC osc])
      = (store_objs (demo_world (demo_md ''hetzner'' ''ubuntu'') []))(k \<mapsto> OSC osc)"
    "store_objs (demo_world (demo_md ''hetzner'' ''ubuntu'') []) k = None"
  using assms by (auto simp: fun_eq_iff store_objs_def demo_world_def find_Cons find_obj_def [of _ "[]"] key_of_def)

theorem stored_configurations_witness:
  "\<exists>U w osc. system demo_env store_objs demo_reconciler store_reconciling demo_control (\<lambda>raw. Inr demo_osp)
        (\<lambda>raw. Inr (demo_rendered ''own'')) U w \<and> U \<noteq> {}
    \<and> store_objs w (Key Management KOSC ''kube-system'' ''md-kube-system-config'') = Some (OSC osc)
    \<and> (\<exists>md osp osc0. validateOperatingSystemProfile osp = Inr () \<and> generatedOSC demo_env demo_reconciler md osp osc0
      \<and> DeepEqualOSC (osc_Spec osc0) (osc_Spec osc))"
proof -
  let ?md = "demo_md ''hetzner'' ''ubuntu''" and ?u = "demo_rendered ''own''"
  let ?wp = "demo_world ?md []" and ?w = "demo_world ?md [OSC ?u]"
  let ?k = "Key Management KOSC ''kube-system'' ''md-kube-system-config''" and ?uk = "Key Management KOSC ''kube-system'' ''own''"
  let ?sys = "system demo_env store_objs demo_reconciler store_reconciling demo_control
      (\<lambda>raw. Inr demo_osp) (\<lambda>raw. Inr ?u)"
  have key: "key_of Management (OSC ?u) = ?uk" by (simp add: key_of_def demo_rendered_def emptyMeta_def)
  note added = demo_added [OF key]
  have "elsewhere (\<lambda>_. None) (store_objs demo_before)"
    by (auto simp: elsewhere_def store_objs_def demo_before_def find_Cons find_obj_def [of _ "[]"] split: if_splits)
  then have "?sys {} demo_before" by (rule system.empty)
  moreover have "profile_write (\<lambda>raw. Inr demo_osp) (demo_request ''CREATE'' [] []) (Key Management KOSP ''kube-system'' ''osp'')
      (store_objs demo_before) (store_objs ?wp)"
    using HandleOSP_create [of "demo_request ''CREATE'' [] []" "\<lambda>raw. Inr demo_osp" demo_osp]
    by (simp add: profile_write_def demo_before_objs demo_request_def)
  ultimately have "?sys {} ?wp" by (rule system.profile)
  moreover have "config_create (\<lambda>raw. Inr ?u) (demo_request ''CREATE'' [] []) ?uk ?u (store_objs ?wp) (store_objs ?w)"
    using added by (simp add: config_create_def demo_request_def HandleOSC_def)
  ultimately have sys: "?sys {(?uk, ?u)} ?w" by (rule system.create)
  have "store_objs ?wp ?k = None"
    by (simp add: store_objs_def demo_world_def find_obj_def key_of_def)
  then have "store_objs ?w ?k = None" using added by simp
  from demo_run_with [OF this] obtain w' where
    run: "Reconcile demo_env demo_reconciler (''kube-system'', ''md'') ?w = (Inr (), w')" by (auto simp: suc_def)
  from sys run have sys: "?sys {(?uk, ?u)} w'" by (rule system.osc)
  have live: "store_objs ?w (mdKey demo_reconciler ''kube-system'' ''md'') = Some (MD ?md)" "md_DeletionTimestamp ?md = None"
    by (simp_all add: demo_world_objs [OF demo_md_simps(1)] demo_md_simps)
  then obtain osp where
    "synced demo_env demo_reconciler (finalized ?md) osp
      ((store_objs ?w)(mdKey demo_reconciler ''kube-system'' ''md'' \<mapsto> MD (finalized ?md))) (store_objs w')"
    by (rule live_success [OF demo_controller run]) blast
  then obtain osc where osc: "store_objs w' ?k = Some (OSC osc)" by (auto simp: synced_def Let_def demo_md_simps)
  have valid: "\<forall>(n, src) \<in> set (o_defaultOSPs demo_control). validateOperatingSystemProfile src = Inr ()"
    by (simp add: demo_control_def validate_unitsOk)
  from stored_configurations [where objs = store_objs and w = w' and U = "{(?uk, ?u)}", OF demo_controller os.osp_reconciling_axioms valid sys osc]
  have "\<exists>md osp osc0. validateOperatingSystemProfile osp = Inr () \<and> generatedOSC demo_env demo_reconciler md osp osc0
      \<and> DeepEqualOSC (osc_Spec osc0) (osc_Spec osc)" by simp
  with sys osc show ?thesis by blast
qed

section \<open>A version used twice\<close>

text \<open>C27. A version does not identify a profile's content. Of three profiles with units only for Flatcar, where the last has
  the version of the first and the second another one, the webhook lets users create the first, update it to the second
  and that to the last, whatever else differs between them. And a configuration made from the first then counts as in
  step with the last: a Reconcile that succeeds while the last one is in place leaves it as it is.\<close>

theorem osp_version_reuse:
  assumes "osc_controller E objs r" and "Reconcile E r (ns, n) w = (Inr (), w')"
    and "validateOperatingSystemProfile a = Inr ()" and "validateOperatingSystemProfile b = Inr ()" and "validateOperatingSystemProfile c = Inr ()"
    and "osp_Version b \<noteq> osp_Version a" and "osp_Version c = osp_Version a"
    and "decode x = Inr a" and "decode y = Inr b" and "decode z = Inr c"
    and "objs w (mdKey r ns n) = Some (MD md)" and "md_DeletionTimestamp md = None" and "objs w (ospKey r md) = Some (OSP c)"
    and "objs w (oscKey r ns n) = Some (OSC osc)" and "inSync (env_sdk E) (finalized md) a osc"
  shows "(\<exists>m. HandleOSP decode \<lparr>req_UID = u, req_Operation = ''CREATE'', req_Object = x, req_OldObject = []\<rparr> = Allowed m)
    \<and> (\<exists>m. HandleOSP decode \<lparr>req_UID = u, req_Operation = ''UPDATE'', req_Object = y, req_OldObject = x\<rparr> = Allowed m)
    \<and> (\<exists>m. HandleOSP decode \<lparr>req_UID = u, req_Operation = ''UPDATE'', req_Object = z, req_OldObject = y\<rparr> = Allowed m)
    \<and> (\<forall>osc0. generatedOSC E r (finalized md) a osc0 \<longrightarrow> inSync (env_sdk E) (finalized md) c osc0)
    \<and> objs w' (oscKey r ns n) = Some (OSC osc)"
proof -
  from live_success [OF assms(1,2,11,12)] obtain osp where run:
    "synced E r (finalized md) osp ((objs w)(mdKey r ns n \<mapsto> MD (finalized md))) (objs w')"
    "objs w' (ospKey r md) = Some (OSP osp)" "md_Namespace md = ns" "md_Name md = n" .
  have "k_kind (ospKey r md) = KOSP" by (simp add: ospKey_def)
  then have "ospKey r md \<noteq> mdKey r ns n" "\<not> touches E r ns n (ospKey r md)"
    by (auto simp: touches_iff system_secret_def)
  with run(2) reconciled_out [OF assms(1,2)] assms(13) have osp: "osp = c" by simp
  have same: "inSync (env_sdk E) (finalized md) c osc' \<longleftrightarrow> inSync (env_sdk E) (finalized md) a osc'" for osc'
    using assms(7) by (simp add: inSync_def)
  have neq: "oscKey r ns n \<noteq> mdKey r ns n" by (simp add: oscKey_def mdKey_def)
  let ?os = "(objs w)(mdKey r ns n \<mapsto> MD (finalized md))"
  have "rotated E r (finalized md) c ?os = ?os"
    using assms(14,15) same neq run(3,4) by (simp add: rotated_def)
  with run osp assms(14) neq have "objs w' (oscKey r ns n) = Some (OSC osc)"
    by (auto simp: synced_def Let_def)
  moreover have "inSync (env_sdk E) (finalized md) c osc0" if "generatedOSC E r (finalized md) a osc0" for osc0
    using osc_controller.generatedOSC_inSync [OF assms(1) that] same by simp
  ultimately show ?thesis
    using assms(3-10) HandleOSP_create [of _ decode a] HandleOSP_update [of _ decode b a] HandleOSP_update [of _ decode c b]
    by (simp add: validate_unitsOk)
qed

text \<open>The example: the configuration of the example's deployment, and the same profile for another system version.\<close>

theorem osp_version_reuse_witness:
  "\<exists>w'. Reconcile demo_env demo_reconciler (''kube-system'', ''md'') (demo_world (demo_md ''hetzner'' ''ubuntu'')
      [OSC (completeOSC demo_sdk demo_final (demo_profile ''v1.0.0'' ''23'') (demo_rendered ''md-kube-system-config''))]) = (Inr (), w')
    \<and> store_objs w' (Key Management KOSC ''kube-system'' ''md-kube-system-config'')
      = Some (OSC (completeOSC demo_sdk demo_final (demo_profile ''v1.0.0'' ''23'') (demo_rendered ''md-kube-system-config'')))"
proof -
  let ?md = "demo_md ''hetzner'' ''ubuntu''" and ?k = "Key Management KOSC ''kube-system'' ''md-kube-system-config''"
  let ?a = "demo_profile ''v1.0.0'' ''23''" and ?n = "''md-kube-system-config''"
  let ?osc = "completeOSC demo_sdk demo_final ?a (demo_rendered ?n)"
  let ?decode = "\<lambda>raw. Inr (if raw = ''x'' then ?a else if raw = ''y'' then demo_profile ''v2.0.0'' [] else demo_osp)"
  have versions: "osp_Version demo_osp = ''v1.0.0''" "osps_ProvisioningUtility (osp_Spec ?a) = osps_ProvisioningUtility (osp_Spec demo_osp)"
    by (simp_all add: demo_osp_def demo_profile_def)
  then have eq: "?osc = completeOSC demo_sdk demo_final demo_osp (demo_rendered ?n)" by (simp add: completeOSC_def)
  have key: "key_of Management (OSC ?osc) = ?k"
    by (simp add: key_of_def completeOSC_def demo_rendered_def emptyMeta_def Let_def)
  have stored: "store_objs (demo_world ?md [OSC ?osc]) ?k = Some (OSC ?osc)" by (simp add: demo_added(1) [OF key])
  then have "suc (Reconcile demo_env demo_reconciler (''kube-system'', ''md'')) (\<lambda>_ w'. True) (demo_world ?md [OSC ?osc])"
    by (intro demo_run_kept demo_generates [where n = ?n]) (simp add: eq)
  then obtain w' where run: "Reconcile demo_env demo_reconciler (''kube-system'', ''md'') (demo_world ?md [OSC ?osc]) = (Inr (), w')"
    by (auto simp: suc_def)
  have "inSync demo_sdk demo_final ?a ?osc"
    using demo.inSync_complete [of "demo_rendered ?n" demo_final ?a] by (simp add: demo_rendered_def emptyMeta_def)
  moreover have "ospKey demo_reconciler ?md = Key Management KOSP ''kube-system'' ''osp''"
    using demo_osp_key by (simp add: demo_final_def)
  ultimately show ?thesis
    using osp_version_reuse [OF demo_controller run, of ?a "demo_profile ''v2.0.0'' []" demo_osp ?decode "''x''" "''y''" "''z''" ?md ?osc]
      run stored versions demo_world_objs [OF demo_md_simps(1)] demo_md_simps
    by (simp add: validate_unitsOk demo_final_def)
qed

end
