(* ===== verification/OSCNames.thy ===== *)
theory OSCNames
  imports OSCProperties
begin

text \<open>
  The names and annotations by which the OSC controller recognises what it made: when a configuration
  counts as in step, and which deployments share their objects.
\<close>
section \<open>Rotation\<close>

lemma empty_of_map_of: "map_of m = map_of m' \<Longrightarrow> m = [] \<longleftrightarrow> m' = []"
  by (metis dom_map_of_conv_image_fst image_is_empty set_empty)

lemma annotationsJSON_cong:
  assumes "distinct (keys a)" "distinct (keys b)" "map_of a = map_of b"
  shows "annotationsJSON a = annotationsJSON b"
  using sorted_keys_cong [OF assms] assms(3) empty_of_map_of [OF assms(3)]
  by (simp add: annotationsJSON_def marshal_strmap_def mget_def)

lemma annotationsJSON_parse:
  "json_parse (annotationsJSON a)
    = Some (if a = [] then JNull else JObj (map (\<lambda>k. (k, JStr (mget a k))) (sorted_keys a)))"
proof (cases "a = []")
  case True
  then show ?thesis using json_parse_print [of JNull] by (simp add: annotationsJSON_def)
next
  case False
  have "num_free (JObj (map (\<lambda>k. (k, JStr (mget a k))) (sorted_keys a)))" by (simp add: list_all_iff)
  moreover have "nestedWithin maxNestingDepth (JObj (map (\<lambda>k. (k, JStr (mget a k))) (sorted_keys a)))"
    by (rule nested_flat) (simp add: list_all_iff)
  ultimately have "json_parse (json_print (JObj (map (\<lambda>k. (k, JStr (mget a k))) (sorted_keys a))))
      = Some (JObj (map (\<lambda>k. (k, JStr (mget a k))) (sorted_keys a)))" by (rule json_parse_print)
  with False show ?thesis
    by (simp only: annotationsJSON_def marshal_strmap_def if_False)
qed

lemma annotationsJSON_inj:
  assumes "annotationsJSON a = annotationsJSON b"
  shows "map_of a = map_of b"
proof -
  define doc where "doc m = (if m = [] then JNull else JObj (map (\<lambda>k. (k, JStr (mget m k))) (sorted_keys m)))" for m
  have "doc a = doc b"
    using annotationsJSON_parse [of a] annotationsJSON_parse [of b] unfolding assms doc_def by (rule trans [OF sym, THEN option.inject [THEN iffD1]])
  then have eq: "(a = [] \<longleftrightarrow> b = []) \<and> (a \<noteq> [] \<longrightarrow>
      map (\<lambda>k. (k, JStr (mget a k))) (sorted_keys a) = map (\<lambda>k. (k, JStr (mget b k))) (sorted_keys b))"
    by (cases "a = []"; cases "b = []") (simp_all only: doc_def if_True if_False json.distinct json.inject simp_thms)
  show ?thesis
  proof (cases "a = []")
    case False
    with eq have vals: "map (\<lambda>k. (k, JStr (mget a k))) (sorted_keys a) = map (\<lambda>k. (k, JStr (mget b k))) (sorted_keys b)"
      by blast
    then have keys: "sorted_keys a = sorted_keys b"
      by (auto dest: arg_cong [where f = "map fst"] simp: comp_def)
    with vals have vals: "mget a k = mget b k" if "k \<in> set (sorted_keys a)" for k
      using that by (simp add: map_eq_conv)
    have none: "map_of a k = None \<longleftrightarrow> map_of b k = None" for k using keys by (metis domIff set_sorted_keys)
    have "map_of a k = map_of b k" for k
    proof (cases "map_of a k")
      case (Some v)
      then obtain v' where "map_of b k = Some v'" using none [of k] by auto
      with Some vals [of k] show ?thesis by (auto simp: mget_def)
    qed (use none [of k] in simp)
    then show ?thesis by (rule ext)
  qed (use eq in simp)
qed

lemma inSync_completed:
  assumes "MachineDeploymentRevision S \<notin> {OperatingSystemConfigVersionAnnotation, OperatingSystemConfigMDHash}"
  shows "inSync S md' osp' (completeOSC S md osp osc) \<longleftrightarrow>
    mget (md_Annotations md') (RevisionAnnotation S) = mget (md_Annotations md) (RevisionAnnotation S)
    \<and> osp_Version osp' = osp_Version osp
    \<and> sha256_hex (annotationsJSON (md_Annotations md)) = sha256_hex (annotationsJSON (md_Annotations md'))"
  using assms
  by (auto simp: inSync_def completeOSC_def oscRotationAnnotations_def calculateAnnotationsHash_def Let_def
      OperatingSystemConfigVersionAnnotation_def OperatingSystemConfigMDHash_def)

text \<open>C10. When a rotation is due: a configuration the controller made is in step exactly as long as the profile has
  the version it was made from and the annotations of the deployment are the same ones, in whatever order the maps
  are iterated; or else two different documents of annotations have one SHA-256 digest.\<close>

theorem rotation_due:
  assumes "MachineDeploymentRevision S \<notin> {OperatingSystemConfigVersionAnnotation, OperatingSystemConfigMDHash}"
    and "distinct (keys (md_Annotations md))" and "distinct (keys (md_Annotations md'))"
    and "annotationsJSON (md_Annotations md) = annotationsJSON (md_Annotations md')
      \<or> sha256_hex (annotationsJSON (md_Annotations md)) \<noteq> sha256_hex (annotationsJSON (md_Annotations md'))"
  shows "inSync S md' osp' (completeOSC S md osp osc)
    \<longleftrightarrow> osp_Version osp' = osp_Version osp \<and> map_of (md_Annotations md') = map_of (md_Annotations md)"
proof -
  have "sha256_hex (annotationsJSON (md_Annotations md)) = sha256_hex (annotationsJSON (md_Annotations md'))
      \<longleftrightarrow> map_of (md_Annotations md') = map_of (md_Annotations md)"
    using assms(4) annotationsJSON_inj annotationsJSON_cong [OF assms(2,3)] by metis
  then show ?thesis
    unfolding inSync_completed [OF assms(1)] by (auto simp: mget_def)
qed

text \<open>The example: the same annotations in another order, and a profile of another version.\<close>

definition demo_annotated :: "strmap \<Rightarrow> MachineDeployment" where
  "demo_annotated a = demo_final\<lparr>md_meta := (md_meta demo_final)\<lparr>meta_Annotations := a\<rparr>\<rparr>"

theorem rotation_due_witness:
  "inSync demo_sdk (demo_annotated [(''b'', ''2''), (''a'', ''1'')]) demo_osp
      (completeOSC demo_sdk (demo_annotated [(''a'', ''1''), (''b'', ''2'')]) demo_osp (demo_rendered ''n''))
   \<and> \<not> inSync demo_sdk (demo_annotated [(''b'', ''2''), (''a'', ''1'')])
        (demo_osp\<lparr>osp_Spec := (osp_Spec demo_osp)\<lparr>osps_Version := ''v2''\<rparr>\<rparr>)
        (completeOSC demo_sdk (demo_annotated [(''a'', ''1''), (''b'', ''2'')]) demo_osp (demo_rendered ''n''))"
proof -
  let ?a = "[(''a'', ''1''), (''b'', ''2'')] :: strmap" and ?b = "[(''b'', ''2''), (''a'', ''1'')] :: strmap"
  have eq: "map_of ?b = map_of ?a" by (rule ext) simp
  have "annotationsJSON ?a = annotationsJSON ?b"
    by (rule annotationsJSON_cong [OF _ _ eq [symmetric]]) (simp_all add: keys_def)
  then have json: "annotationsJSON (md_Annotations (demo_annotated ?a)) = annotationsJSON (md_Annotations (demo_annotated ?b))"
    by (simp add: demo_annotated_def)
  have rev: "MachineDeploymentRevision demo_sdk \<notin> {OperatingSystemConfigVersionAnnotation, OperatingSystemConfigMDHash}"
    by (simp add: demo_sdk_def OperatingSystemConfigVersionAnnotation_def OperatingSystemConfigMDHash_def)
  have "distinct (keys (md_Annotations (demo_annotated ?a)))" "distinct (keys (md_Annotations (demo_annotated ?b)))"
    by (simp_all add: demo_annotated_def keys_def)
  note due = rotation_due [OF rev this disjI1 [OF json]]
  show ?thesis unfolding due using eq by (simp add: demo_annotated_def demo_osp_def)
qed

section \<open>Shared names\<close>

text \<open>C13. Names are not unique. The configuration of the deployment \<open>n\<close> in the namespace \<open>m-ns\<close> has the name of the
  configuration of \<open>n-m\<close> in \<open>ns\<close>: cleaning up the one deletes the configuration of the other, and with long names two
  deployments of one name share the kubelet secret across namespaces, so that is deleted for both too.\<close>

theorem shared_names:
  assumes "osc_controller E objs r" and "Reconcile E r (m @ ''-'' @ ns, n) w = (Inr (), w')"
    and "objs w (mdKey r (m @ ''-'' @ ns) n) = Some (MD md)" and "md_DeletionTimestamp md \<noteq> None" and "hasCleanup md"
  shows "objs w' (oscKey r ns (n @ ''-'' @ m)) = None
    \<and> objs w' (mdKey r ns (n @ ''-'' @ m)) = objs w (mdKey r ns (n @ ''-'' @ m))
    \<and> (62 \<le> length (m @ ''-'' @ ns) + length n \<and> 62 \<le> length ns' + length n
        \<longrightarrow> objs w' (kubeletConfigKey E r ns' n) = None)"
proof -
  have gone: "objs w' = (erase (ownKeys E r (m @ ''-'' @ ns) n) (objs w))(mdKey r (m @ ''-'' @ ns) n
      := stored_update (MD (unfinalized md)))"
    by (rule cleanup_spec [OF assms]) simp
  have osc: "oscKey r ns (n @ ''-'' @ m) = oscKey r (m @ ''-'' @ ns) n"
    by (simp add: oscKey_def oscNameOf_def)
  have kubelet: "kubeletConfigKey E r ns' n = kubeletConfigKey E r (m @ ''-'' @ ns) n"
    if "62 \<le> length (m @ ''-'' @ ns) + length n" "62 \<le> length ns' + length n"
    using that by (simp add: kubeletConfigKey_def machineDeploymentKey_def)
  have own: "oscKey r (m @ ''-'' @ ns) n \<in> set (ownKeys E r (m @ ''-'' @ ns) n)"
    "kubeletConfigKey E r (m @ ''-'' @ ns) n \<in> set (ownKeys E r (m @ ''-'' @ ns) n)"
    by (simp_all add: ownKeys_def secretKeys_def)
  have "objs w' k = None" if "k \<in> set (ownKeys E r (m @ ''-'' @ ns) n)" for k
    using that mdKey_not_own unfolding gone by (auto simp: erase_def)
  moreover have "objs w' (mdKey r ns (n @ ''-'' @ m)) = objs w (mdKey r ns (n @ ''-'' @ m))"
    unfolding gone by (simp add: mdKey_inj erase_def)
  ultimately show ?thesis using own osc kubelet by simp
qed

text \<open>The example: the deployment \<open>md-kube\<close> of the namespace \<open>system\<close> is live and has its configuration.\<close>

definition demo_victim :: MachineDeployment where
  "demo_victim = (demo_md ''hetzner'' ''ubuntu'')\<lparr>md_meta := emptyMeta\<lparr>meta_Name := ''md-kube'', meta_Namespace := ''system''\<rparr>\<rparr>"

theorem shared_names_witness:
  "\<exists>w'. Reconcile demo_env demo_reconciler (''kube-system'', ''md'')
      (demo_world demo_leaving [MD demo_victim, OSC (demo_rendered ''md-kube-system-config'')]) = (Inr (), w')
    \<and> store_objs (demo_world demo_leaving [MD demo_victim, OSC (demo_rendered ''md-kube-system-config'')])
        (oscKey demo_reconciler ''system'' ''md-kube'') \<noteq> None
    \<and> store_objs w' (oscKey demo_reconciler ''system'' ''md-kube'') = None
    \<and> store_objs w' (mdKey demo_reconciler ''system'' ''md-kube'') = Some (MD demo_victim)"
proof -
  let ?w = "demo_world demo_leaving [MD demo_victim, OSC (demo_rendered ''md-kube-system-config'')]"
  have "suc (Reconcile demo_env demo_reconciler (''kube-system'', ''md'')) (\<lambda>_ w'. True) ?w"
    by (rule demo.suc_Reconcile [where md = demo_leaving])
      (simp_all add: demo_world_objs [OF demo_leaving_simps(1)] demo_leaving_simps demo_world_calm)
  then obtain w' where run: "Reconcile demo_env demo_reconciler (''kube'' @ ''-'' @ ''system'', ''md'') ?w = (Inr (), w')"
    by (auto simp: suc_def)
  have before: "store_objs ?w (oscKey demo_reconciler ''system'' ''md-kube'') \<noteq> None"
    "store_objs ?w (mdKey demo_reconciler ''system'' ''md-kube'') = Some (MD demo_victim)"
    by (simp_all add: store_objs_def demo_world_def find_Cons key_of_def demo_victim_def demo_rendered_def oscKey_def
        oscNameOf_def demo_secret_def demo_sa_token_def demo_osp_def demo_sa_def demo_leaving_simps emptyMeta_def)
  have md: "store_objs ?w (mdKey demo_reconciler (''kube'' @ ''-'' @ ''system'') ''md'') = Some (MD demo_leaving)"
    by (simp add: demo_world_objs [OF demo_leaving_simps(1)])
  have "md_DeletionTimestamp demo_leaving \<noteq> None" by (simp add: demo_leaving_simps)
  note shared = shared_names [where objs = store_objs, OF demo_controller run md this demo_leaving_simps(3)]
  have victim: "''md'' @ ''-'' @ ''kube'' = ''md-kube''" "''kube'' @ ''-'' @ ''system'' = ''kube-system''" by simp_all
  note shared [THEN conjunct1] trans [OF shared [THEN conjunct2, THEN conjunct1], unfolded victim, OF before(2)]
  then show ?thesis using run before(1) unfolding victim by blast
qed

end
