(* ===== verification/BootstrapProperties.thy ===== *)
theory BootstrapProperties
  imports OSCDemo
begin

text \<open>
  What \<open>pkg/bootstrap\<close> guarantees: the contract of \<open>CreateBootstrapKubeconfig\<close>, how long the token it
  hands out is valid, and which kubeconfig the secret of the nodes is left with.
\<close>

section \<open>An example\<close>

definition demo_boot_manager :: "store Bootstrap" where
  "demo_boot_manager = demo_manager\<lparr>b_ServiceAccount := None\<rparr>"

definition demo_boot_world :: "Secret list \<Rightarrow> store" where
  "demo_boot_world secrets = empty_store\<lparr>s_objs := map (\<lambda>s. (Management, SEC s)) secrets, s_clock := 1700000000000000000\<rparr>"

definition demo_token :: Secret where
  "demo_token = newTokenSecret ''n'' ''abcdef'' ''0123456789abcdef'' ''2100-01-01T00:00:00Z''"

lemma demo_boot_manager_simps [simp]:
  "b_ServiceAccount demo_boot_manager = None" "b_overrideServer demo_boot_manager = []"
  "b_GetKubeconfig demo_boot_manager = ret demo_kubeconfig" "b_client demo_boot_manager = Management"
  by (simp_all add: demo_boot_manager_def demo_manager_def)

lemma demo_out: "\<exists>out. outKubeconfig [] token demo_kubeconfig = Inr out"
  by (simp add: outKubeconfig_def demo_kubeconfig_def Let_def)

lemma demo_boot_readonly: "readonly store_objs (b_GetKubeconfig demo_boot_manager)"
  by (simp add: readonly_def keeps_def wp_simps)

lemma demo_new_token: "\<exists>tok w'. createBootstrapToken demo_client_go store_ops 0 demo_boot_manager ''n'' (demo_boot_world [])
    = (Inr (tok, False), w') \<and> s_clock w' = 1700000000000000001 \<and> s_faults w' = []
      \<and> store_objs w' (config_key Management ''n'') = None"
  by (simp add: createBootstrapToken_def getSecretIfExists_def expiry_def demo_client_go_def list_as_def bindE_def wrapE_def
      lift_def ret_def store_ops_def faulty_def next_fault_def consume_def demo_boot_world_def empty_store_def find_obj_def
      map_filter_simps put_obj_def remove_obj_def store_objs_def config_key_def CloudInitNamespace_def key_of_def
      newTokenSecret_def)

lemma demo_expiration: "ParseRFC3339 ''2100-01-01T00:00:00Z'' = Inr 4102444800000000000"
  by code_simp

lemma demo_label: "map_of (meta_Labels (secret_meta demo_token)) machineDeploymentNameLabelKey = Some ''n''"
  by (simp add: demo_token_def token_at_new)

lemma demo_old_token: "createBootstrapToken demo_client_go store_ops 0 demo_boot_manager ''n''
     (demo_boot_world [demo_token, demo_secret ''cloud-init-settings'' ''n-kubelet-bootstrap-config'' [] [(''kubeconfig'', ''old'')]])
    = (Inr (''abcdef.0123456789abcdef'', True),
       (demo_boot_world [demo_token, demo_secret ''cloud-init-settings'' ''n-kubelet-bootstrap-config'' [] [(''kubeconfig'', ''old'')]])
         \<lparr>s_clock := 1700000000000000001\<rparr>)"
proof -
  have "mget (secret_Data demo_token) ''expiration'' = ''2100-01-01T00:00:00Z''" "tokenOf demo_token = ''abcdef.0123456789abcdef''"
    by (simp_all add: demo_token_def) (simp add: newTokenSecret_def mget_def)
  moreover have "key_of Management (SEC demo_token) = Key Management KSecret ''kube-system'' ''bootstrap-token-abcdef''"
    "secret_meta demo_token = emptyMeta\<lparr>meta_Name := ''bootstrap-token-abcdef'', meta_Namespace := ''kube-system'',
       meta_Labels := [(machineDeploymentNameLabelKey, ''n'')]\<rparr>"
    by (simp_all add: demo_token_def newTokenSecret_def key_of_def)
  ultimately show ?thesis
    by (simp add: createBootstrapToken_def getSecretIfExists_def updateSecretExpirationAndGetToken_def demo_client_go_def
      list_as_def bindE_def wrapE_def lift_def ret_def store_ops_def faulty_def next_fault_def consume_def demo_boot_world_def
      empty_store_def find_obj_def map_filter_simps demo_secret_def demo_expiration minute_def emptyMeta_def)
qed

section \<open>The contract\<close>

text \<open>C16. A call of CreateBootstrapKubeconfig for a key changes nothing but bootstrap tokens with the key's label,
  which are secrets of \<open>kube-system\<close>, and the kubeconfig secret of the key, even if it fails: a token may be made, or one
  that is there may get a later expiration. If the call succeeds, the secret is there; the returned kubeconfig carries
  the token of the one and only token secret labelled with the key (unless a service account provides the
  token); and the secret holds exactly the returned kubeconfig if the token is new or comes from a service
  account or the secret was missing.\<close>

theorem bootstrap_contract:
  assumes "kube_api A objs" and "readonly objs (b_GetKubeconfig b)"
    and "CreateBootstrapKubeconfig G A tz b name w = (r, w')"
  shows "(\<forall>k. objs w' k = objs w k \<or> system_secret (b_client b) k \<or> k = config_key (b_client b) name)
    \<and> (\<forall>k. system_secret (b_client b) k \<longrightarrow> own_token name k (objs w k) (objs w' k))
    \<and> (\<forall>cfg n. r = Inr (cfg, n) \<longrightarrow>
        n = bootstrapConfigName name
        \<and> (\<exists>t. objs w' (config_key (b_client b) name) = Some (SEC t)
            \<and> (b_ServiceAccount b \<noteq> None \<or> (\<forall>x. \<not> token_at (objs w) (b_client b) name x)
                \<or> objs w (config_key (b_client b) name) = None \<longrightarrow>
              (\<exists>cs. clientcmd_Write G cfg = Inr cs \<and> secret_Data t = [(''kubeconfig'', cs)])))
        \<and> (b_ServiceAccount b = None \<longrightarrow>
            (\<exists>s. kc_AuthInfos cfg = [(contextIdentifier, tokenOf s)]
              \<and> (\<forall>x. token_at (objs w') (b_client b) name x \<longleftrightarrow> x = s))))"
proof -
  have "boot_post G objs b name w r w'"
    by (rule wpD [OF kube_api.wp_CreateBootstrapKubeconfig [OF assms(1,2)] assms(3)])
  then show ?thesis unfolding boot_post_def frame_def boot_key_def tokens_only_def by fastforce
qed

theorem bootstrap_contract_witness:
  "\<exists>cfg n w' t cs. CreateBootstrapKubeconfig demo_client_go store_ops 0 demo_boot_manager ''n'' (demo_boot_world []) = (Inr (cfg, n), w')
    \<and> n = ''n-kubelet-bootstrap-config'' \<and> store_objs w' (config_key Management ''n'') = Some (SEC t)
    \<and> secret_Data t = [(''kubeconfig'', cs)]"
proof -
  obtain tok w1 where tok: "createBootstrapToken demo_client_go store_ops 0 demo_boot_manager ''n'' (demo_boot_world [])
      = (Inr (tok, False), w1)" "s_faults w1 = []" "store_objs w1 (config_key Management ''n'') = None"
    using demo_new_token by blast
  obtain out where out: "outKubeconfig [] tok demo_kubeconfig = Inr out" using demo_out by blast
  have "find_obj (Key Management KSecret CloudInitNamespace (bootstrapConfigName ''n'')) (s_objs w1) = None"
    using tok(3) by (simp add: store_objs_def config_key_def)
  then obtain w' where run: "CreateBootstrapKubeconfig demo_client_go store_ops 0 demo_boot_manager ''n'' (demo_boot_world [])
      = (Inr (out, bootstrapConfigName ''n''), w')"
    using tok(1,2)
    by (simp add: CreateBootstrapKubeconfig_def bootstrapToken_def generateKubeconfig_def StringifyKubeconfig_def
        storeBootstrapConfig_def bindE_def wrapE_def lift_def ret_def tryE_def get_as_def out store_ops_def faulty_def
        next_fault_def consume_def demo_client_go_def key_config_secret config_key_def)
  have "\<not> token_at (store_objs (demo_boot_world [])) Management ''n'' x" for x
    by (simp add: token_at_def store_objs_def demo_boot_world_def find_obj_def)
  with bootstrap_contract [OF st.kube_api_axioms demo_boot_readonly run] run show ?thesis
    by (auto simp: bootstrapConfigName_def)
qed

section \<open>Validity of the token\<close>

text \<open>C17. A token that a call hands out, new or used again, is stored under the key and is valid for at least 30
  minutes from the start of the call: its expiration, as the API server will read it, is that late. (For times
  that the format can represent, and a clock that does not go back.)\<close>

theorem bootstrap_token_valid:
  assumes "kube_clock A objs clk" and "\<bar>tz\<bar> < 1440" and "10 ^ 14 \<le> clk w" and "clk w' + hour < 10 ^ 20"
    and "createBootstrapToken G A tz b name w = (Inr (tok, old), w')"
  shows "\<exists>s e. token_at (objs w') (b_client b) name s \<and> tokenOf s = tok
    \<and> expires s = Inr e \<and> clk w + 30 * minute \<le> e"
  using wpD [OF kube_clock.wp_createBootstrapToken_valid [OF assms(1-3)] assms(5)] assms(4) by blast

theorem bootstrap_token_valid_witness:
  "\<exists>tok w' s e. createBootstrapToken demo_client_go store_ops 0 demo_boot_manager ''n'' (demo_boot_world []) = (Inr (tok, False), w')
    \<and> token_at (store_objs w') Management ''n'' s \<and> tokenOf s = tok \<and> expires s = Inr e
    \<and> 1700000000000000000 + 30 * minute \<le> e"
proof -
  obtain tok w' where run: "createBootstrapToken demo_client_go store_ops 0 demo_boot_manager ''n'' (demo_boot_world [])
      = (Inr (tok, False), w')" "s_clock w' = 1700000000000000001"
    using demo_new_token by blast
  have "s_clock (demo_boot_world []) = 1700000000000000000" by (simp add: demo_boot_world_def)
  with bootstrap_token_valid [OF stc.kube_clock_axioms _ _ _ run(1)] run show ?thesis
    by (auto simp: hour_def)
qed

section \<open>The kubeconfig that is kept\<close>

context kube_api
begin

lemma wp_kept:
  assumes ro: "readonly objs (b_GetKubeconfig b)" and sa: "b_ServiceAccount b = None"
    and tok: "token_at (objs w) (b_client b) name x" and cfg: "objs w (config_key (b_client b) name) = Some (SEC t)"
  shows "wp (CreateBootstrapKubeconfig G A tz b name) (\<lambda>r w'. isOk r \<longrightarrow> objs w' (config_key (b_client b) name) = Some (SEC t)) w"
proof -
  let ?k = "config_key (b_client b) name"
  have gen: "wp (b_GetKubeconfig b) Q w'"
    if "\<And>e w2. objs w2 = objs w' \<Longrightarrow> Q (Inl e) w2" "\<And>x w2. objs w2 = objs w' \<Longrightarrow> Q (Inr x) w2" for Q w'
  proof (rule wp_mono [OF keeps_wp [OF ro [unfolded readonly_def]]])
    fix r w2
    assume "objs w2 = objs w'"
    then show "Q r w2" using that by (cases r) auto
  qed
  show ?thesis
    unfolding CreateBootstrapKubeconfig_def wp_bindE [of "bootstrapToken G A tz b name"]
  proof (rule wp_mono [OF wp_bootstrapToken])
    fix r w1
    assume "if b_ServiceAccount b = None then token_post objs (b_client b) name w r w1
      else objs w1 = objs w \<and> (\<forall>tok old. r = Inr (tok, old) \<longrightarrow> \<not> old)"
    with sa have post: "token_post objs (b_client b) name w r w1" by simp
    then have "frame objs (system_secret (b_client b)) w w1" by (simp add: token_post_def)
    then have w1: "objs w1 ?k = Some (SEC t)" using cfg config_not_token by (auto simp: frame_def)
    show "case r of Inl e \<Rightarrow> isOk (Inl e) \<longrightarrow> objs w1 ?k = Some (SEC t)
      | Inr x \<Rightarrow> wp (case x of (token, updated) \<Rightarrow>
          bindE (generateKubeconfig b token) (\<lambda>outConfig.
          bindE (lift (StringifyKubeconfig G outConfig)) (\<lambda>configString.
          bindE (storeBootstrapConfig A b name configString updated) (\<lambda>_.
            ret (outConfig, bootstrapConfigName name)))))
          (\<lambda>r w'. isOk r \<longrightarrow> objs w' ?k = Some (SEC t)) w1"
    proof (cases r)
      case (Inr x)
      obtain token old where x: "x = (token, old)" by (cases x)
      with post tok Inr have old by (auto simp: token_post_def)
      then show ?thesis
        unfolding Inr x generateKubeconfig_def StringifyKubeconfig_def
        by (intro wp_intros gen) (use w1 in auto)
    qed simp
  qed
qed

end

text \<open>C18. The kubeconfig secret is never repaired: if there is a token for the key and a kubeconfig secret, then every
  successful call leaves the secret as it is, whatever it contains. So after a call that made a new token and then
  failed before it wrote the secret (say after the old token had expired and been removed), the secret keeps the
  kubeconfig with the old token, and all later calls succeed without noticing.\<close>

theorem kubeconfig_never_repaired:
  assumes "kube_api A objs" and "readonly objs (b_GetKubeconfig b)" and "b_ServiceAccount b = None"
    and "token_at (objs w) (b_client b) name x" and "objs w (config_key (b_client b) name) = Some (SEC t)"
    and "CreateBootstrapKubeconfig G A tz b name w = (Inr cfg, w')"
  shows "objs w' (config_key (b_client b) name) = Some (SEC t)"
  using wpD [OF kube_api.wp_kept [OF assms(1-5)] assms(6)] by simp

text \<open>The example: the secret says ``old'', the returned kubeconfig is another, and the secret stays.\<close>

theorem kubeconfig_never_repaired_witness:
  "\<exists>cfg w' t. CreateBootstrapKubeconfig demo_client_go store_ops 0 demo_boot_manager ''n''
      (demo_boot_world [demo_token, demo_secret ''cloud-init-settings'' ''n-kubelet-bootstrap-config'' [] [(''kubeconfig'', ''old'')]])
      = (Inr (cfg, ''n-kubelet-bootstrap-config''), w')
    \<and> clientcmd_Write demo_client_go cfg = Inr ''kubeconfig''
    \<and> store_objs w' (config_key Management ''n'') = Some (SEC t) \<and> mget (secret_Data t) ''kubeconfig'' = ''old''"
proof -
  let ?t = "demo_secret ''cloud-init-settings'' ''n-kubelet-bootstrap-config'' [] [(''kubeconfig'', ''old'')]"
  let ?w = "demo_boot_world [demo_token, ?t]"
  have key: "key_of Management (SEC ?t) = config_key Management ''n''"
    "key_of Management (SEC demo_token) = Key Management KSecret ''kube-system'' ''bootstrap-token-abcdef''"
    by (simp_all add: key_of_def demo_secret_def emptyMeta_def config_key_def CloudInitNamespace_def bootstrapConfigName_def
        demo_token_def newTokenSecret_def)
  have cfg: "store_objs ?w (config_key Management ''n'') = Some (SEC ?t)"
    by (simp add: store_objs_def demo_boot_world_def find_Cons key) (simp add: config_key_def CloudInitNamespace_def)
  have tok: "token_at (store_objs ?w) Management ''n'' demo_token"
    using demo_label by (simp add: token_at_def store_objs_def demo_boot_world_def find_Cons key)
      (simp add: demo_token_def newTokenSecret_def)
  obtain out where out: "outKubeconfig [] ''abcdef.0123456789abcdef'' demo_kubeconfig = Inr out" using demo_out by blast
  have "find_obj (config_key Management ''n'') (s_objs ?w) = Some (SEC ?t)" "s_faults ?w = []"
    using cfg by (simp_all add: store_objs_def) (simp add: demo_boot_world_def empty_store_def)
  then obtain w' where run: "CreateBootstrapKubeconfig demo_client_go store_ops 0 demo_boot_manager ''n'' ?w
      = (Inr (out, bootstrapConfigName ''n''), w')"
    using demo_old_token
    by (simp add: CreateBootstrapKubeconfig_def bootstrapToken_def generateKubeconfig_def StringifyKubeconfig_def
        storeBootstrapConfig_def bindE_def wrapE_def lift_def ret_def tryE_def get_as_def out store_ops_def faulty_def
        next_fault_def consume_def demo_client_go_def flip: config_key_def)
  from kubeconfig_never_repaired [OF st.kube_api_axioms demo_boot_readonly demo_boot_manager_simps(1) _ _ run, of demo_token ?t]
    cfg tok run
  show ?thesis by (auto simp: demo_client_go_def demo_secret_def mget_def bootstrapConfigName_def)
qed

end
