(* ===== verification/GoFlag.thy ===== *)
theory GoFlag
  imports GoStrings
begin

text \<open>
  The package \<open>flag\<close> of Go's library, as far as the commands use it: a set of flags, each with a name, a
  setter and whether it is boolean, and the parsing of the arguments. The values that flags are bound to are
  the fields of a state. An integer is read by \<open>strconv.ParseInt\<close> with base 0, so prefixes and underscores
  are allowed.
\<close>

section \<open>Integers of any base\<close>

text \<open>The digit values of \<open>ParseUint\<close>, and the base that a prefix gives.\<close>

definition lower :: "char \<Rightarrow> char" where
  "lower c = (let n = of_char c :: nat in if 65 \<le> n \<and> n \<le> 90 then char_of (n + 32) else c)"

definition ToLower :: "string \<Rightarrow> string" where
  "ToLower s = map lower s"

definition digit_of :: "char \<Rightarrow> nat option" where
  "digit_of c = (if is_digit c then Some (digit_val c)
     else let n = of_char (lower c) :: nat in if 97 \<le> n \<and> n \<le> 122 then Some (n - 87) else None)"

definition base_of :: "string \<Rightarrow> nat \<times> string" where
  "base_of s =
     (if s = [] \<or> hd s \<noteq> CHR ''0'' then (10, s)
      else if length s \<ge> 3 \<and> lower (s ! 1) = CHR ''b'' then (2, drop 2 s)
      else if length s \<ge> 3 \<and> lower (s ! 1) = CHR ''o'' then (8, drop 2 s)
      else if length s \<ge> 3 \<and> lower (s ! 1) = CHR ''x'' then (16, drop 2 s)
      else (8, drop 1 s))"

fun digits_in :: "nat \<Rightarrow> nat \<Rightarrow> string \<Rightarrow> nat option" where
  "digits_in base n [] = Some n"
| "digits_in base n (c # s) =
     (if c = CHR ''_'' then digits_in base n s
      else case digit_of c of
        None \<Rightarrow> None
      | Some d \<Rightarrow> if d < base then digits_in base (n * base + d) s else None)"

text \<open>
  \<open>underscoreOK\<close>: underscores only separate digits, or the prefix from the digits. The scan carries what
  came last: a digit or a prefix, an underscore, or something else.
\<close>

datatype scanned = SStart | SDigit | SUnderscore | SOther

fun underscores :: "bool \<Rightarrow> scanned \<Rightarrow> string \<Rightarrow> bool" where
  "underscores hex i [] \<longleftrightarrow> i \<noteq> SUnderscore"
| "underscores hex i (c # s) \<longleftrightarrow>
     (if is_digit c \<or> hex \<and> CHR ''a'' \<le> lower c \<and> lower c \<le> CHR ''f'' then underscores hex SDigit s
      else if c = CHR ''_'' then i = SDigit \<and> underscores hex SUnderscore s
      else i \<noteq> SUnderscore \<and> underscores hex SOther s)"

definition underscoreOK :: "string \<Rightarrow> bool" where
  "underscoreOK s =
     (if length s \<ge> 2 \<and> hd s = CHR ''0'' \<and> lower (s ! 1) \<in> {CHR ''b'', CHR ''o'', CHR ''x''}
      then underscores (lower (s ! 1) = CHR ''x'') SDigit (drop 2 s)
      else underscores False SStart s)"

definition ParseUint0 :: "string \<Rightarrow> nat option" where
  "ParseUint0 s =
     (if s = [] then None
      else case base_of s of (base, ds) \<Rightarrow>
        case digits_in base 0 ds of
          None \<Rightarrow> None
        | Some n \<Rightarrow> if CHR ''_'' \<in> set ds \<and> \<not> underscoreOK s then None else Some n)"

definition ParseInt0 :: "nat \<Rightarrow> string \<Rightarrow> int res" where
  "ParseInt0 bits s =
     (let neg = (s \<noteq> [] \<and> hd s = CHR ''-'');
          ds = (if s \<noteq> [] \<and> hd s \<in> {CHR ''-'', CHR ''+''} then tl s else s) in
      case ParseUint0 ds of
        None \<Rightarrow> Inl (Errorf ''parse error'' [])
      | Some n \<Rightarrow>
          let i = (if neg then - int n else int n) in
          if - (2 ^ (bits - 1)) \<le> i \<and> i < 2 ^ (bits - 1) then Inr i
          else Inl (Errorf ''value out of range'' []))"

section \<open>Flag sets\<close>

record 's flag =
  fl_Name :: string
  fl_IsBool :: bool
  fl_Set :: "string \<Rightarrow> 's \<Rightarrow> 's res"

definition BoolVar :: "(bool \<Rightarrow> 's \<Rightarrow> 's) \<Rightarrow> string \<Rightarrow> 's flag" where
  "BoolVar put name = \<lparr>fl_Name = name, fl_IsBool = True, fl_Set = (\<lambda>v s. bindR (ParseBool v) (\<lambda>b. Inr (put b s)))\<rparr>"

definition StringVar :: "(string \<Rightarrow> 's \<Rightarrow> 's) \<Rightarrow> string \<Rightarrow> 's flag" where
  "StringVar put name = \<lparr>fl_Name = name, fl_IsBool = False, fl_Set = (\<lambda>v s. Inr (put v s))\<rparr>"

definition IntVar :: "(int \<Rightarrow> 's \<Rightarrow> 's) \<Rightarrow> string \<Rightarrow> 's flag" where
  "IntVar put name = \<lparr>fl_Name = name, fl_IsBool = False, fl_Set = (\<lambda>v s. bindR (ParseInt0 64 v) (\<lambda>i. Inr (put i s)))\<rparr>"

definition Var :: "(string \<Rightarrow> 's \<Rightarrow> 's res) \<Rightarrow> string \<Rightarrow> 's flag" where
  "Var setter name = \<lparr>fl_Name = name, fl_IsBool = False, fl_Set = setter\<rparr>"

definition Lookup :: "'s flag list \<Rightarrow> string \<Rightarrow> 's flag option" where
  "Lookup F name = find (\<lambda>f. fl_Name f = name) F"

text \<open>What an argument is: no flag, the end of the flags, a flag with or without a value, or none of these.\<close>

datatype arg = NonFlag | Terminator | BadSyntax | FlagArg string "string option"

definition flagArg :: "string \<Rightarrow> arg" where
  "flagArg s =
     (if length s < 2 \<or> hd s \<noteq> CHR ''-'' then NonFlag
      else if s = ''--'' then Terminator
      else let name = (if s ! 1 = CHR ''-'' then drop 2 s else drop 1 s) in
        if name = [] \<or> hd name = CHR ''-'' \<or> hd name = CHR ''='' then BadSyntax
        else if CHR ''='' \<in> set name
        then FlagArg (takeWhile (\<lambda>c. c \<noteq> CHR ''='') name) (Some (tl (dropWhile (\<lambda>c. c \<noteq> CHR ''='') name)))
        else FlagArg name None)"

text \<open>\<open>FlagSet.Parse\<close>: the values set, and the arguments that are left.\<close>

fun parseArgs :: "'s flag list \<Rightarrow> string list \<Rightarrow> 's \<Rightarrow> ('s \<times> string list) res" where
  "parseArgs F [] st = Inr (st, [])"
| "parseArgs F (s # rest) st =
     (case flagArg s of
        NonFlag \<Rightarrow> Inr (st, s # rest)
      | Terminator \<Rightarrow> Inr (st, rest)
      | BadSyntax \<Rightarrow> Inl (Errorf ''bad flag syntax: %s'' [s])
      | FlagArg name val \<Rightarrow>
          (case Lookup F name of
             None \<Rightarrow> if name = ''help'' \<or> name = ''h'' then Inl (Errorf ''flag: help requested'' [])
                     else Inl (Errorf ''flag provided but not defined: -%s'' [name])
           | Some f \<Rightarrow>
               if fl_IsBool f
               then bindR (wrapR ''invalid boolean value %q for -%s: %v'' [name]
                             (fl_Set f (case val of Some v \<Rightarrow> v | None \<Rightarrow> ''true'') st)) (\<lambda>st'. parseArgs F rest st')
               else (case val of
                       Some v \<Rightarrow> bindR (wrapR ''invalid value %q for flag -%s: %v'' [v, name] (fl_Set f v st))
                                   (\<lambda>st'. parseArgs F rest st')
                     | None \<Rightarrow>
                         (case rest of
                            [] \<Rightarrow> Inl (Errorf ''flag needs an argument: -%s'' [name])
                          | v # rest' \<Rightarrow> bindR (wrapR ''invalid value %q for flag -%s: %v'' [v, name] (fl_Set f v st))
                                           (\<lambda>st'. parseArgs F rest' st')))))"

section \<open>Setting flags one by one\<close>

text \<open>An argument that sets a flag.\<close>

definition setArg :: "string \<times> string \<Rightarrow> string" where
  "setArg nv = CHR ''-'' # fst nv @ CHR ''='' # snd nv"

definition flagName :: "string \<Rightarrow> bool" where
  "flagName n \<longleftrightarrow> n \<noteq> [] \<and> hd n \<noteq> CHR ''-'' \<and> CHR ''='' \<notin> set n"

fun setAll :: "'s flag list \<Rightarrow> (string \<times> string) list \<Rightarrow> 's \<Rightarrow> 's res" where
  "setAll F [] st = Inr st"
| "setAll F ((n, v) # nvs) st =
     (case Lookup F n of
        None \<Rightarrow> Inl (Errorf ''flag provided but not defined: -%s'' [n])
      | Some f \<Rightarrow> bindR (fl_Set f v st) (setAll F nvs))"

lemma flagArg_setArg: "flagName n \<Longrightarrow> flagArg (setArg (n, v)) = FlagArg n (Some v)"
  by (cases n) (auto simp: flagArg_def setArg_def flagName_def takeWhile_append dropWhile_append split: if_splits)

lemma parseArgs_setArgs:
  assumes "setAll F nvs st = Inr st'" and "\<forall>f \<in> set F. flagName (fl_Name f)"
  shows "parseArgs F (map setArg nvs) st = Inr (st', [])"
  using assms(1)
proof (induction nvs arbitrary: st)
  case (Cons nv nvs)
  obtain n v where nv: "nv = (n, v)" by (cases nv)
  with Cons.prems obtain f st1 where f: "Lookup F n = Some f" "fl_Set f v st = Inr st1" "setAll F nvs st1 = Inr st'"
    by (auto simp: res_simps split: option.splits)
  then have "flagName n" using assms(2) by (auto simp: Lookup_def find_Some_iff)
  with f Cons.IH [OF f(3)] show ?case by (simp add: nv flagArg_setArg)
qed simp

lemma setAll_append: "setAll F (xs @ ys) st = bindR (setAll F xs st) (setAll F ys)"
  by (induction xs arbitrary: st) (auto split: option.splits, metis (no_types, lifting) bindR_simps old.sum.exhaust)

lemma digits_show_nat:
  assumes "list_all is_digit s"
  shows "digits_in 10 n s = Some (foldl (\<lambda>n c. n * 10 + digit_val c) n s)" "CHR ''_'' \<notin> set s"
proof -
  have d: "c \<noteq> CHR ''_''" "digit_val c < 10" if "is_digit c" for c
    using that by (auto simp: is_digit_def digit_val_def)
  show "digits_in 10 n s = Some (foldl (\<lambda>n c. n * 10 + digit_val c) n s)"
    using assms d by (induction s arbitrary: n) (auto simp: digit_of_def)
  show "CHR ''_'' \<notin> set s" using assms d(1) by (auto simp: list_all_iff)
qed

lemma digit_char_0: "digit_char 0 = CHR ''0''"
  by code_simp

lemma first_digit_show_nat: "hd (show_nat n) = CHR ''0'' \<longleftrightarrow> n = 0"
proof (induction n rule: show_nat.induct)
  case (1 n)
  have "digit_char d = CHR ''0'' \<longleftrightarrow> d = 0" if "d < 10" for d
    using digit_val_digit_char [OF that] digit_val_digit_char [of 0] unfolding digit_char_0 [symmetric]
    by (metis zero_less_numeral)
  with 1 show ?case by (cases "n < 10") (simp_all add: show_nat.simps [of n])
qed

lemma ParseUint0_show_nat: "ParseUint0 (show_nat n) = Some n"
proof (cases "n = 0")
  case True
  then show ?thesis by (simp add: ParseUint0_def show_nat.simps [of 0] digit_char_0 base_of_def)
next
  case False
  then have "base_of (show_nat n) = (10, show_nat n)" by (simp add: base_of_def first_digit_show_nat)
  moreover have "foldl (\<lambda>n c. n * 10 + digit_val c) 0 (show_nat n) = n"
    using read_show_nat [of n] by (simp add: read_nat_def show_nat_digits mult.commute)
  ultimately show ?thesis using digits_show_nat [OF show_nat_digits] by (simp add: ParseUint0_def)
qed

text \<open>A decimal integer that fits is read back as it was written.\<close>

lemma ParseInt0_show_int:
  assumes "- (2 ^ 63) \<le> i" "i < 2 ^ 63"
  shows "ParseInt0 64 (show_int i) = Inr i"
proof -
  have "hd (show_nat n) \<notin> {CHR ''-'', CHR ''+''}" for n
    using show_nat_digits [of n] by (cases "show_nat n") (auto simp: is_digit_def)
  with assms show ?thesis by (auto simp: ParseInt0_def show_int_def ParseUint0_show_nat)
qed

end
