(* ===== verification/Logging.thy ===== *)
theory Logging
  imports GoFlag
begin

text \<open>
  \<open>pkg/log\<close>: the options of the logger with their flags, and the logger they give. The library that logs
  (\<open>go.uber.org/zap\<close>) is not modelled: a logger is the configuration it is made from.
\<close>

section \<open>Formats\<close>

definition FormatJSON :: string where
  "FormatJSON = ''JSON''"

definition FormatConsole :: string where
  "FormatConsole = ''Console''"

definition AvailableFormats :: "string list" where
  "AvailableFormats = [FormatJSON, FormatConsole]"

text \<open>
  \<open>Format.Set\<close>. \<open>strings.ToLower\<close> changes bytes outside ASCII as well, but nothing outside ASCII becomes
  one of the letters of the two names.
\<close>

definition Format_Set :: "string \<Rightarrow> string res" where
  "Format_Set s =
     (if ToLower s = ''json'' then Inr FormatJSON
      else if ToLower s = ''console'' then Inr FormatConsole
      else Inl (Errorf (''invalid format '' @ [CHR 0x27] @ ''%s'' @ [CHR 0x27]) [s]))"

text \<open>\<open>Format.String\<close> and \<open>Format.Type\<close>, of the flag packages' interfaces.\<close>

definition Format_String :: "string \<Rightarrow> string" where
  "Format_String f = f"

definition Format_Type :: "string \<Rightarrow> string" where
  "Format_Type f = ''string''"

definition Formats_String :: "string list \<Rightarrow> string" where
  "Formats_String f = (let separator = '', '' in
     TrimPrefix separator (foldl (\<lambda>s format. s @ separator @ format) [] f))"

fun Formats_Contains :: "string list \<Rightarrow> string \<Rightarrow> bool" where
  "Formats_Contains [] s \<longleftrightarrow> False"
| "Formats_Contains (format # f) s \<longleftrightarrow> (if s = format then True else Formats_Contains f s)"

section \<open>Options\<close>

record LogOptions =
  lo_Debug :: bool
  lo_Format :: string

definition NewDefaultOptions :: LogOptions where
  "NewDefaultOptions = \<lparr>lo_Debug = False, lo_Format = FormatJSON\<rparr>"

definition AddFlags :: "LogOptions flag list" where
  "AddFlags =
     [BoolVar (\<lambda>b o'. o'\<lparr>lo_Debug := b\<rparr>) ''log-debug'',
      Var (\<lambda>s o'. bindR (Format_Set s) (\<lambda>f. Inr (o'\<lparr>lo_Format := f\<rparr>))) ''log-format'']"

text \<open>\<open>AddPFlags\<close> registers the same with a flag set of \<open>spf13/pflag\<close>.\<close>

definition AddPFlags :: "LogOptions flag list" where
  "AddPFlags =
     [BoolVar (\<lambda>b o'. o'\<lparr>lo_Debug := b\<rparr>) ''log-debug'',
      Var (\<lambda>s o'. bindR (Format_Set s) (\<lambda>f. Inr (o'\<lparr>lo_Format := f\<rparr>))) ''log-format'']"

definition Options_Validate :: "LogOptions \<Rightarrow> unit res" where
  "Options_Validate o' =
     (if \<not> Formats_Contains AvailableFormats (lo_Format o')
      then Inl (Errorf ''invalid log-format specified %q; available: %s'' [lo_Format o', Formats_String AvailableFormats])
      else Inr ())"

section \<open>Loggers\<close>

datatype level = InfoLevel | DebugLevel

record EncoderConfig =
  ec_TimeKey :: string
  ec_EncodeTime :: string
  ec_EncodeDuration :: string

datatype encoder = JSONEncoder EncoderConfig | ConsoleEncoder EncoderConfig

text \<open>What \<open>New\<close> hands to zap: the encoder (wrapped for Kubernetes objects), the level, and the option to add callers.\<close>

record Logger =
  lg_Encoder :: encoder
  lg_Level :: level
  lg_AddCaller :: bool

definition newLogger :: "EncoderConfig \<Rightarrow> bool \<Rightarrow> string \<Rightarrow> Logger" where
  "newLogger production debug format =
     (let lvl = (if debug then DebugLevel else InfoLevel);
          encCfg = production\<lparr>ec_TimeKey := ''time'', ec_EncodeTime := ''ISO8601TimeEncoder'',
                     ec_EncodeDuration := ''StringDurationEncoder''\<rparr>;
          enc = (if format = FormatJSON then JSONEncoder encCfg else ConsoleEncoder encCfg) in
      \<lparr>lg_Encoder = enc, lg_Level = lvl, lg_AddCaller = True\<rparr>)"

definition NewFromOptions :: "EncoderConfig \<Rightarrow> LogOptions \<Rightarrow> Logger" where
  "NewFromOptions production o' = newLogger production (lo_Debug o') (lo_Format o')"

definition NewDefault :: "EncoderConfig \<Rightarrow> Logger" where
  "NewDefault production = newLogger production False FormatJSON"

section \<open>Facts\<close>

lemma Formats_Contains_iff: "Formats_Contains f s \<longleftrightarrow> s \<in> set f"
  by (induction f) auto

text \<open>Every value that the flag accepts passes the validation, and every available format is accepted as it is.\<close>

lemma Format_Set_available: "Format_Set s = Inr f \<Longrightarrow> f \<in> set AvailableFormats"
  by (auto simp: Format_Set_def AvailableFormats_def split: if_splits)

lemma Format_Set_id: "f \<in> set AvailableFormats \<Longrightarrow> Format_Set f = Inr f"
proof -
  have "Format_Set ''JSON'' = Inr ''JSON''" "Format_Set ''Console'' = Inr ''Console''" by code_simp+
  then show "f \<in> set AvailableFormats \<Longrightarrow> Format_Set f = Inr f"
    by (auto simp: AvailableFormats_def FormatJSON_def FormatConsole_def)
qed

text \<open>A format that was set is printed so that setting it again gives the same.\<close>

lemma Format_Set_String: "Format_Set s = Inr f \<Longrightarrow> Format_Set (Format_String f) = Inr f"
  using Format_Set_available Format_Set_id by (simp add: Format_String_def)

lemma Options_Validate_iff: "Options_Validate o' = Inr () \<longleftrightarrow> lo_Format o' \<in> set AvailableFormats"
  by (simp add: Options_Validate_def Formats_Contains_iff)

lemma AddFlags_available:
  assumes "f \<in> set AddFlags" "fl_Set f v o' = Inr o''" "lo_Format o' \<in> set AvailableFormats"
  shows "lo_Format o'' \<in> set AvailableFormats"
  using assms Format_Set_available [of v] by (auto simp: AddFlags_def BoolVar_def Var_def res_simps)

end
