(* ===== verification/CommandLine.thy ===== *)
theory CommandLine
  imports Logging ContainerRuntime
begin

text \<open>
  The command line of \<open>cmd/osm-controller\<close>: the options with their flags and default values, and what is read
  from the arguments. The flag \<open>kubeconfig\<close> may have been registered by the controller runtime before; its
  value is read back either way. The deprecated flag \<open>ca-bundle\<close> is accepted and ignored.
\<close>

section \<open>Options\<close>

record options =
  opt_workerCount :: int
  opt_namespace :: string
  opt_containerRuntime :: string
  opt_externalCloudProvider :: bool
  opt_pauseImage :: string
  opt_initialTaints :: string
  opt_enableLeaderElection :: bool
  opt_clusterDNSIPs :: string
  opt_workerClusterKubeconfig :: string
  opt_kubeconfig :: string
  opt_kubeletFeatureGates :: string
  opt_disableDefaultOSPs :: bool
  opt_healthProbeAddress :: string
  opt_metricsAddress :: string
  opt_workerHealthProbeAddress :: string
  opt_workerMetricsAddress :: string
  opt_nodeInsecureRegistries :: string
  opt_nodeRegistryMirrors :: string
  opt_nodeRegistryCredentialsSecret :: string
  opt_nodeContainerdRegistryMirrors :: "(string \<times> string list) list"
  opt_deviceOwnershipFromSecurityContext :: bool
  opt_nodeHTTPProxy :: string
  opt_nodeNoProxy :: string
  opt_overrideBootstrapKubeletAPIServer :: string
  opt_bootstrapTokenServiceAccountName :: string
  opt_kubernetesCABundleFile :: string
  opt_caBundleFile :: string

definition defaultOptions :: options where
  "defaultOptions =
     \<lparr>opt_workerCount = 10,
      opt_namespace = [],
      opt_containerRuntime = ''containerd'',
      opt_externalCloudProvider = False,
      opt_pauseImage = [],
      opt_initialTaints = [],
      opt_enableLeaderElection = True,
      opt_clusterDNSIPs = ''10.10.10.10'',
      opt_workerClusterKubeconfig = [],
      opt_kubeconfig = [],
      opt_kubeletFeatureGates = ''RotateKubeletServerCertificate=true'',
      opt_disableDefaultOSPs = False,
      opt_healthProbeAddress = ''127.0.0.1:8085'',
      opt_metricsAddress = ''127.0.0.1:8080'',
      opt_workerHealthProbeAddress = ''127.0.0.1:8086'',
      opt_workerMetricsAddress = ''127.0.0.1:8081'',
      opt_nodeInsecureRegistries = [],
      opt_nodeRegistryMirrors = [],
      opt_nodeRegistryCredentialsSecret = [],
      opt_nodeContainerdRegistryMirrors = [],
      opt_deviceOwnershipFromSecurityContext = False,
      opt_nodeHTTPProxy = [],
      opt_nodeNoProxy = ''.svc,.cluster.local,localhost,127.0.0.1'',
      opt_overrideBootstrapKubeletAPIServer = [],
      opt_bootstrapTokenServiceAccountName = [],
      opt_kubernetesCABundleFile = [],
      opt_caBundleFile = []\<rparr>"

definition mainFlags :: "options flag list" where
  "mainFlags =
     [StringVar (\<lambda>v o'. o'\<lparr>opt_kubeconfig := v\<rparr>) ''kubeconfig'',
      StringVar (\<lambda>v o'. o'\<lparr>opt_workerClusterKubeconfig := v\<rparr>) ''worker-cluster-kubeconfig'',
      IntVar (\<lambda>v o'. o'\<lparr>opt_workerCount := v\<rparr>) ''worker-count'',
      StringVar (\<lambda>v o'. o'\<lparr>opt_namespace := v\<rparr>) ''namespace'',
      StringVar (\<lambda>v o'. o'\<lparr>opt_containerRuntime := v\<rparr>) ''container-runtime'',
      BoolVar (\<lambda>v o'. o'\<lparr>opt_externalCloudProvider := v\<rparr>) ''external-cloud-provider'',
      StringVar (\<lambda>v o'. o'\<lparr>opt_clusterDNSIPs := v\<rparr>) ''cluster-dns'',
      StringVar (\<lambda>v o'. o'\<lparr>opt_pauseImage := v\<rparr>) ''pause-image'',
      StringVar (\<lambda>v o'. o'\<lparr>opt_initialTaints := v\<rparr>) ''initial-taints'',
      BoolVar (\<lambda>v o'. o'\<lparr>opt_disableDefaultOSPs := v\<rparr>) ''disable-default-osps'',
      StringVar (\<lambda>v o'. o'\<lparr>opt_kubeletFeatureGates := v\<rparr>) ''node-kubelet-feature-gates'',
      StringVar (\<lambda>v o'. o'\<lparr>opt_nodeHTTPProxy := v\<rparr>) ''node-http-proxy'',
      StringVar (\<lambda>v o'. o'\<lparr>opt_nodeNoProxy := v\<rparr>) ''node-no-proxy'',
      StringVar (\<lambda>v o'. o'\<lparr>opt_nodeInsecureRegistries := v\<rparr>) ''node-insecure-registries'',
      StringVar (\<lambda>v o'. o'\<lparr>opt_nodeRegistryMirrors := v\<rparr>) ''node-registry-mirrors'',
      BoolVar (\<lambda>v o'. o'\<lparr>opt_deviceOwnershipFromSecurityContext := v\<rparr>) ''device-ownership-from-security-context'',
      Var (\<lambda>v o'. bindR (flag_Set v (opt_nodeContainerdRegistryMirrors o')) (\<lambda>m. Inr (o'\<lparr>opt_nodeContainerdRegistryMirrors := m\<rparr>))) ''node-containerd-registry-mirrors'',
      StringVar (\<lambda>v o'. o'\<lparr>opt_nodeRegistryCredentialsSecret := v\<rparr>) ''node-registry-credentials-secret'',
      StringVar (\<lambda>v o'. o'\<lparr>opt_healthProbeAddress := v\<rparr>) ''health-probe-address'',
      StringVar (\<lambda>v o'. o'\<lparr>opt_metricsAddress := v\<rparr>) ''metrics-address'',
      StringVar (\<lambda>v o'. o'\<lparr>opt_workerHealthProbeAddress := v\<rparr>) ''worker-health-probe-address'',
      StringVar (\<lambda>v o'. o'\<lparr>opt_workerMetricsAddress := v\<rparr>) ''worker-metrics-address'',
      BoolVar (\<lambda>v o'. o'\<lparr>opt_enableLeaderElection := v\<rparr>) ''leader-elect'',
      StringVar (\<lambda>v o'. o'\<lparr>opt_overrideBootstrapKubeletAPIServer := v\<rparr>) ''override-bootstrap-kubelet-apiserver'',
      StringVar (\<lambda>v o'. o'\<lparr>opt_bootstrapTokenServiceAccountName := v\<rparr>) ''bootstrap-token-service-account-name'',
      StringVar (\<lambda>v o'. o'\<lparr>opt_kubernetesCABundleFile := v\<rparr>) ''kubernetes-ca-bundle'',
      StringVar (\<lambda>v o'. o'\<lparr>opt_caBundleFile := v\<rparr>) ''host-ca-bundle'',
      StringVar (\<lambda>v o'. o') ''ca-bundle'']"

text \<open>A flag of a part of the state.\<close>

definition fstFlag :: "'a flag \<Rightarrow> ('a \<times> 'b) flag" where
  "fstFlag f = \<lparr>fl_Name = fl_Name f, fl_IsBool = fl_IsBool f,
     fl_Set = (\<lambda>v (a, b). bindR (fl_Set f v a) (\<lambda>a'. Inr (a', b)))\<rparr>"

definition sndFlag :: "'b flag \<Rightarrow> ('a \<times> 'b) flag" where
  "sndFlag f = \<lparr>fl_Name = fl_Name f, fl_IsBool = fl_IsBool f,
     fl_Set = (\<lambda>v (a, b). bindR (fl_Set f v b) (\<lambda>b'. Inr (a, b')))\<rparr>"

definition commandLine :: "(LogOptions \<times> options) flag list" where
  "commandLine = map fstFlag AddFlags @ map sndFlag mainFlags"

text \<open>\<open>flag.Parse\<close>; arguments that are left are ignored.\<close>

definition parseCommandLine :: "string list \<Rightarrow> (LogOptions \<times> options) res" where
  "parseCommandLine args =
     bindR (parseArgs commandLine args (NewDefaultOptions, defaultOptions)) (\<lambda>(st, rest). Inr st)"

section \<open>Properties\<close>

text \<open>Every option as an argument.\<close>

definition mirrorSettings :: "mirrors \<Rightarrow> (string \<times> string) list" where
  "mirrorSettings m = concat (map (\<lambda>(registry, urls).
     map (\<lambda>url. (''node-containerd-registry-mirrors'', registry @ ''='' @ url)) urls) m)"

definition optionSettings :: "LogOptions \<times> options \<Rightarrow> (string \<times> string) list" where
  "optionSettings lo = (case lo of (l, o') \<Rightarrow>
     [(''log-debug'', FormatBool (lo_Debug l)), (''log-format'', lo_Format l),
      (''kubeconfig'', opt_kubeconfig o'),
      (''worker-cluster-kubeconfig'', opt_workerClusterKubeconfig o'),
      (''worker-count'', show_int (opt_workerCount o')),
      (''namespace'', opt_namespace o'),
      (''container-runtime'', opt_containerRuntime o'),
      (''external-cloud-provider'', FormatBool (opt_externalCloudProvider o')),
      (''cluster-dns'', opt_clusterDNSIPs o'),
      (''pause-image'', opt_pauseImage o'),
      (''initial-taints'', opt_initialTaints o'),
      (''disable-default-osps'', FormatBool (opt_disableDefaultOSPs o')),
      (''node-kubelet-feature-gates'', opt_kubeletFeatureGates o'),
      (''node-http-proxy'', opt_nodeHTTPProxy o'),
      (''node-no-proxy'', opt_nodeNoProxy o'),
      (''node-insecure-registries'', opt_nodeInsecureRegistries o'),
      (''node-registry-mirrors'', opt_nodeRegistryMirrors o'),
      (''device-ownership-from-security-context'', FormatBool (opt_deviceOwnershipFromSecurityContext o'))]
     @ mirrorSettings (opt_nodeContainerdRegistryMirrors o')
     @ [(''node-registry-credentials-secret'', opt_nodeRegistryCredentialsSecret o'),
      (''health-probe-address'', opt_healthProbeAddress o'),
      (''metrics-address'', opt_metricsAddress o'),
      (''worker-health-probe-address'', opt_workerHealthProbeAddress o'),
      (''worker-metrics-address'', opt_workerMetricsAddress o'),
      (''leader-elect'', FormatBool (opt_enableLeaderElection o')),
      (''override-bootstrap-kubelet-apiserver'', opt_overrideBootstrapKubeletAPIServer o'),
      (''bootstrap-token-service-account-name'', opt_bootstrapTokenServiceAccountName o'),
      (''kubernetes-ca-bundle'', opt_kubernetesCABundleFile o'),
      (''host-ca-bundle'', opt_caBundleFile o')])"

lemma update_last: "k \<notin> fst ` set xs \<Longrightarrow> AList.update k v (xs @ [(k, w)]) = xs @ [(k, v)]"
  by (induction xs) auto

lemma update_new: "k \<notin> fst ` set xs \<Longrightarrow> AList.update k v xs = xs @ [(k, v)]"
  by (induction xs) auto

lemma fold_addMirror_urls:
  assumes "r \<notin> fst ` set acc"
  shows "fold (addMirror r) us (acc @ [(r, vs)]) = acc @ [(r, vs @ us)]"
  using assms
proof (induction us arbitrary: vs)
  case (Cons u us)
  then have "map_of (acc @ [(r, vs)]) r = Some vs" by (auto simp: map_add_def map_of_eq_None_iff [THEN iffD2])
  with Cons show ?case by (simp add: addMirror_def mput_def update_last)
qed simp

lemma fold_addMirror:
  assumes "distinct (map fst (acc @ m))" and "\<forall>(r, us) \<in> set m. us \<noteq> []"
  shows "fold (\<lambda>(r, us). fold (addMirror r) us) m acc = acc @ m"
  using assms
proof (induction m arbitrary: acc)
  case (Cons p m)
  obtain r u us where p: "p = (r, u # us)" using Cons.prems(2) by (cases p; cases "snd p") auto
  have "addMirror r u acc = acc @ [(r, [u])]"
    using Cons.prems(1) by (simp add: p addMirror_def mput_def update_new map_of_eq_None_iff [THEN iffD2])
  then have "fold (addMirror r) (u # us) acc = acc @ [(r, u # us)]"
    using Cons.prems(1) fold_addMirror_urls [of r acc us "[u]"] by (simp add: p)
  with Cons.IH [of "acc @ [(r, u # us)]"] Cons.prems show ?case by (simp add: p)
qed simp

text \<open>Setting one flag.\<close>

lemma Lookup_append: "Lookup (F @ G) n = (case Lookup F n of None \<Rightarrow> Lookup G n | Some f \<Rightarrow> Some f)"
  by (induction F) (auto simp: Lookup_def)

lemma Lookup_map:
  "Lookup (map fstFlag F) n = map_option fstFlag (Lookup F n)" "Lookup (map sndFlag G) n = map_option sndFlag (Lookup G n)"
  by (induction F; simp add: Lookup_def fstFlag_def) (induction G; simp add: Lookup_def sndFlag_def)

lemma commandLine_names: "\<forall>f \<in> set commandLine. flagName (fl_Name f)"
  by (simp add: commandLine_def AddFlags_def mainFlags_def fstFlag_def sndFlag_def BoolVar_def StringVar_def IntVar_def
      Var_def flagName_def)

lemmas flag_simps = commandLine_def Lookup_append Lookup_map AddFlags_def mainFlags_def fstFlag_def sndFlag_def
  BoolVar_def StringVar_def IntVar_def Var_def

lemma setAll_mirrors:
  assumes "\<forall>(r, us) \<in> set m. CHR ''='' \<notin> set r"
  shows "setAll commandLine (mirrorSettings m) (l, o')
    = Inr (l, o'\<lparr>opt_nodeContainerdRegistryMirrors :=
        fold (\<lambda>(r, us). fold (addMirror r) us) m (opt_nodeContainerdRegistryMirrors o')\<rparr>)"
proof -
  have look: "Lookup commandLine ''node-containerd-registry-mirrors''
    = Some (sndFlag (Var (\<lambda>v o'. bindR (flag_Set v (opt_nodeContainerdRegistryMirrors o'))
        (\<lambda>m. Inr (o'\<lparr>opt_nodeContainerdRegistryMirrors := m\<rparr>))) ''node-containerd-registry-mirrors''))"
    unfolding commandLine_def Lookup_append Lookup_map by (simp add: Lookup_def AddFlags_def mainFlags_def
      BoolVar_def StringVar_def IntVar_def Var_def)
  have set: "flag_Set (r @ CHR ''='' # u) m = Inr (addMirror r u m)" if "CHR ''='' \<notin> set r" for r u m
    using that SplitN2_pair [of "CHR ''=''" "r @ CHR ''='' # u" r u] by (simp add: flag_Set_def)
  have urls: "setAll commandLine (map (\<lambda>u. (''node-containerd-registry-mirrors'', r @ ''='' @ u)) us) (l, o')
    = Inr (l, o'\<lparr>opt_nodeContainerdRegistryMirrors := fold (addMirror r) us (opt_nodeContainerdRegistryMirrors o')\<rparr>)"
    if "CHR ''='' \<notin> set r" for r us o'
    using that by (induction us arbitrary: o') (simp_all add: look sndFlag_def Var_def set)
  show ?thesis
    using assms
    by (induction m arbitrary: o') (auto simp: mirrorSettings_def setAll_append urls simp del: append.simps)
qed

lemma fl_Set_simps:
  "fl_Set (fstFlag f) v (a, b) = bindR (fl_Set f v a) (\<lambda>a'. Inr (a', b))"
  "fl_Set (sndFlag g) v (a, b) = bindR (fl_Set g v b) (\<lambda>b'. Inr (a, b'))"
  "fl_Set (StringVar put n) v s = Inr (put v s)"
  "fl_Set (BoolVar put' n) v s = bindR (ParseBool v) (\<lambda>b. Inr (put' b s))"
  "fl_Set (IntVar put'' n) v s = bindR (ParseInt0 64 v) (\<lambda>i. Inr (put'' i s))"
  by (simp_all add: fstFlag_def sndFlag_def StringVar_def BoolVar_def IntVar_def)

lemma log_lookups:
  "Lookup commandLine ''log-debug'' = Some (fstFlag (BoolVar (\<lambda>b o'. o'\<lparr>lo_Debug := b\<rparr>) ''log-debug''))"
  "Lookup commandLine ''log-format'' = Some (fstFlag (Var (\<lambda>s o'. bindR (Format_Set s) (\<lambda>f. Inr (o'\<lparr>lo_Format := f\<rparr>))) ''log-format''))"
  unfolding commandLine_def Lookup_append Lookup_map by (simp_all add: Lookup_def AddFlags_def BoolVar_def Var_def)

lemma main_lookups:
  "Lookup commandLine ''kubeconfig'' = Some (sndFlag (StringVar (\<lambda>v o'. o'\<lparr>opt_kubeconfig := v\<rparr>) ''kubeconfig''))"
  "Lookup commandLine ''worker-cluster-kubeconfig'' = Some (sndFlag (StringVar (\<lambda>v o'. o'\<lparr>opt_workerClusterKubeconfig := v\<rparr>) ''worker-cluster-kubeconfig''))"
  "Lookup commandLine ''worker-count'' = Some (sndFlag (IntVar (\<lambda>v o'. o'\<lparr>opt_workerCount := v\<rparr>) ''worker-count''))"
  "Lookup commandLine ''namespace'' = Some (sndFlag (StringVar (\<lambda>v o'. o'\<lparr>opt_namespace := v\<rparr>) ''namespace''))"
  "Lookup commandLine ''container-runtime'' = Some (sndFlag (StringVar (\<lambda>v o'. o'\<lparr>opt_containerRuntime := v\<rparr>) ''container-runtime''))"
  "Lookup commandLine ''external-cloud-provider'' = Some (sndFlag (BoolVar (\<lambda>v o'. o'\<lparr>opt_externalCloudProvider := v\<rparr>) ''external-cloud-provider''))"
  "Lookup commandLine ''cluster-dns'' = Some (sndFlag (StringVar (\<lambda>v o'. o'\<lparr>opt_clusterDNSIPs := v\<rparr>) ''cluster-dns''))"
  "Lookup commandLine ''pause-image'' = Some (sndFlag (StringVar (\<lambda>v o'. o'\<lparr>opt_pauseImage := v\<rparr>) ''pause-image''))"
  "Lookup commandLine ''initial-taints'' = Some (sndFlag (StringVar (\<lambda>v o'. o'\<lparr>opt_initialTaints := v\<rparr>) ''initial-taints''))"
  "Lookup commandLine ''disable-default-osps'' = Some (sndFlag (BoolVar (\<lambda>v o'. o'\<lparr>opt_disableDefaultOSPs := v\<rparr>) ''disable-default-osps''))"
  "Lookup commandLine ''node-kubelet-feature-gates'' = Some (sndFlag (StringVar (\<lambda>v o'. o'\<lparr>opt_kubeletFeatureGates := v\<rparr>) ''node-kubelet-feature-gates''))"
  "Lookup commandLine ''node-http-proxy'' = Some (sndFlag (StringVar (\<lambda>v o'. o'\<lparr>opt_nodeHTTPProxy := v\<rparr>) ''node-http-proxy''))"
  "Lookup commandLine ''node-no-proxy'' = Some (sndFlag (StringVar (\<lambda>v o'. o'\<lparr>opt_nodeNoProxy := v\<rparr>) ''node-no-proxy''))"
  "Lookup commandLine ''node-insecure-registries'' = Some (sndFlag (StringVar (\<lambda>v o'. o'\<lparr>opt_nodeInsecureRegistries := v\<rparr>) ''node-insecure-registries''))"
  "Lookup commandLine ''node-registry-mirrors'' = Some (sndFlag (StringVar (\<lambda>v o'. o'\<lparr>opt_nodeRegistryMirrors := v\<rparr>) ''node-registry-mirrors''))"
  "Lookup commandLine ''device-ownership-from-security-context'' = Some (sndFlag (BoolVar (\<lambda>v o'. o'\<lparr>opt_deviceOwnershipFromSecurityContext := v\<rparr>) ''device-ownership-from-security-context''))"
  "Lookup commandLine ''node-registry-credentials-secret'' = Some (sndFlag (StringVar (\<lambda>v o'. o'\<lparr>opt_nodeRegistryCredentialsSecret := v\<rparr>) ''node-registry-credentials-secret''))"
  "Lookup commandLine ''health-probe-address'' = Some (sndFlag (StringVar (\<lambda>v o'. o'\<lparr>opt_healthProbeAddress := v\<rparr>) ''health-probe-address''))"
  "Lookup commandLine ''metrics-address'' = Some (sndFlag (StringVar (\<lambda>v o'. o'\<lparr>opt_metricsAddress := v\<rparr>) ''metrics-address''))"
  "Lookup commandLine ''worker-health-probe-address'' = Some (sndFlag (StringVar (\<lambda>v o'. o'\<lparr>opt_workerHealthProbeAddress := v\<rparr>) ''worker-health-probe-address''))"
  "Lookup commandLine ''worker-metrics-address'' = Some (sndFlag (StringVar (\<lambda>v o'. o'\<lparr>opt_workerMetricsAddress := v\<rparr>) ''worker-metrics-address''))"
  "Lookup commandLine ''leader-elect'' = Some (sndFlag (BoolVar (\<lambda>v o'. o'\<lparr>opt_enableLeaderElection := v\<rparr>) ''leader-elect''))"
  "Lookup commandLine ''override-bootstrap-kubelet-apiserver'' = Some (sndFlag (StringVar (\<lambda>v o'. o'\<lparr>opt_overrideBootstrapKubeletAPIServer := v\<rparr>) ''override-bootstrap-kubelet-apiserver''))"
  "Lookup commandLine ''bootstrap-token-service-account-name'' = Some (sndFlag (StringVar (\<lambda>v o'. o'\<lparr>opt_bootstrapTokenServiceAccountName := v\<rparr>) ''bootstrap-token-service-account-name''))"
  "Lookup commandLine ''kubernetes-ca-bundle'' = Some (sndFlag (StringVar (\<lambda>v o'. o'\<lparr>opt_kubernetesCABundleFile := v\<rparr>) ''kubernetes-ca-bundle''))"
  "Lookup commandLine ''host-ca-bundle'' = Some (sndFlag (StringVar (\<lambda>v o'. o'\<lparr>opt_caBundleFile := v\<rparr>) ''host-ca-bundle''))"
  unfolding commandLine_def Lookup_append Lookup_map
  by (simp_all add: Lookup_def AddFlags_def mainFlags_def BoolVar_def StringVar_def IntVar_def Var_def)

text \<open>C20. Every option is wired to its own flag: writing out all options as arguments and reading them back gives the
  options, for a format that is available, a number of workers that is an int, and mirrors without repetition.\<close>

theorem command_line_roundtrip:
  assumes "lo_Format l \<in> set AvailableFormats" and "- (2 ^ 63) \<le> opt_workerCount o'" and "opt_workerCount o' < 2 ^ 63"
    and "distinct (map fst (opt_nodeContainerdRegistryMirrors o'))"
    and "\<forall>(r, us) \<in> set (opt_nodeContainerdRegistryMirrors o'). us \<noteq> [] \<and> CHR ''='' \<notin> set r"
  shows "parseCommandLine (map setArg (optionSettings (l, o'))) = Inr (l, o')"
proof -
  let ?m = "opt_nodeContainerdRegistryMirrors o'"
  have mirrors: "setAll commandLine (mirrorSettings ?m) (l', p)
      = Inr (l', p\<lparr>opt_nodeContainerdRegistryMirrors := ?m\<rparr>)"
    if "opt_nodeContainerdRegistryMirrors p = []" for l' p
    using setAll_mirrors [of ?m l' p] fold_addMirror [of "[]" ?m] assms(4,5) that by (auto simp: case_prod_unfold)
  have fmt: "fl_Set (Var (\<lambda>s o'. bindR (Format_Set s) (\<lambda>f. Inr (o'\<lparr>lo_Format := f\<rparr>))) n) (lo_Format l) a
      = Inr (a\<lparr>lo_Format := lo_Format l\<rparr>)" for n a
    using Format_Set_id [OF assms(1)] by (simp add: Var_def)
  have num: "ParseInt0 64 (show_int (opt_workerCount o')) = Inr (opt_workerCount o')"
    by (rule ParseInt0_show_int [OF assms(2,3)])
  have "setAll commandLine (optionSettings (l, o')) (NewDefaultOptions, defaultOptions)
    = Inr (NewDefaultOptions\<lparr>lo_Debug := lo_Debug l, lo_Format := lo_Format l\<rparr>, o')"
    unfolding optionSettings_def case_prod_conv setAll_append setAll.simps log_lookups main_lookups option.case
      fmt fl_Set_simps num ParseBool_FormatBool bindR_simps
    by (subst mirrors) (simp add: defaultOptions_def,
      simp only: bindR_simps fl_Set_simps ParseBool_FormatBool, cases o', simp add: defaultOptions_def)
  moreover have "NewDefaultOptions\<lparr>lo_Debug := lo_Debug l, lo_Format := lo_Format l\<rparr> = l" by simp
  ultimately have "setAll commandLine (optionSettings (l, o')) (NewDefaultOptions, defaultOptions) = Inr (l, o')" by simp
  from parseArgs_setArgs [OF this commandLine_names] show ?thesis by (simp add: parseCommandLine_def)
qed

text \<open>The example: a namespace, two mirrors and a format given, the rest as it is by default.\<close>

definition demo_command :: "LogOptions \<times> options" where
  "demo_command = (\<lparr>lo_Debug = True, lo_Format = ''Console''\<rparr>, defaultOptions\<lparr>opt_namespace := ''kube-system'',
     opt_nodeContainerdRegistryMirrors := [(''docker.io'', [''https://a'', ''https://b''])]\<rparr>)"

theorem command_line_roundtrip_witness:
  "parseCommandLine (map setArg (optionSettings demo_command)) = Inr demo_command
   \<and> ''-node-containerd-registry-mirrors=docker.io=https://b'' \<in> set (map setArg (optionSettings demo_command))"
proof -
  have "parseCommandLine (map setArg (optionSettings demo_command)) = Inr demo_command"
    unfolding demo_command_def
    by (rule command_line_roundtrip) (simp_all add: AvailableFormats_def FormatConsole_def defaultOptions_def)
  then show ?thesis
    by (simp add: demo_command_def optionSettings_def mirrorSettings_def setArg_def)
qed

text \<open>Whatever is read passes the validation of the logger's options.\<close>

lemma parseArgs_step:
  assumes "parseArgs F (s # rest) st = Inr (st', left)"
  shows "st' = st \<or> (\<exists>f v st1 r. f \<in> set F \<and> fl_Set f v st = Inr st1
    \<and> parseArgs F r st1 = Inr (st', left) \<and> length r < length (s # rest))"
proof (cases "flagArg s")
  case (FlagArg n val)
  with assms obtain f where f: "Lookup F n = Some f" by (auto split: option.splits if_splits)
  then have mem: "f \<in> set F" by (auto simp: Lookup_def find_Some_iff)
  have "\<exists>v st1 r. fl_Set f v st = Inr st1 \<and> parseArgs F r st1 = Inr (st', left) \<and> length r < length (s # rest)"
  proof (cases "fl_IsBool f")
    case True
    with assms FlagArg f show ?thesis by (auto simp: res_simps)
  next
    case nobool: False
    show ?thesis
    proof (cases val)
      case None
      with assms FlagArg f nobool obtain v r st1 where "rest = v # r" "fl_Set f v st = Inr st1"
          "parseArgs F r st1 = Inr (st', left)"
        by (cases rest) (auto simp: res_simps)
      then show ?thesis by (intro exI [of _ v] exI [of _ st1] exI [of _ r]) simp
    next
      case (Some v)
      with assms FlagArg f nobool show ?thesis by (auto simp: res_simps)
    qed
  qed
  with mem show ?thesis by blast
qed (use assms in auto)

lemma parseArgs_inv:
  assumes "parseArgs F args st = Inr (st', left)" and "P st"
    and step: "\<And>f v s s'. f \<in> set F \<Longrightarrow> P s \<Longrightarrow> fl_Set f v s = Inr s' \<Longrightarrow> P s'"
  shows "P st'"
  using assms(1,2)
proof (induction args arbitrary: st rule: length_induct)
  case (1 args)
  show ?case
  proof (cases args)
    case Nil
    with 1 show ?thesis by simp
  next
    case (Cons s rest)
    from parseArgs_step [OF 1(2) [unfolded Cons]] show ?thesis
      using 1 step unfolding Cons by blast
  qed
qed

lemma parsed_log_options:
  assumes "parseCommandLine args = Inr (l, o')"
  shows "Options_Validate l = Inr ()"
proof -
  obtain left where run: "parseArgs commandLine args (NewDefaultOptions, defaultOptions) = Inr ((l, o'), left)"
    using assms by (auto simp: parseCommandLine_def res_simps)
  have "lo_Format (fst (l, o')) \<in> set AvailableFormats"
  proof (rule parseArgs_inv [OF run, where P = "\<lambda>s. lo_Format (fst s) \<in> set AvailableFormats"])
    show "lo_Format (fst (NewDefaultOptions, defaultOptions)) \<in> set AvailableFormats"
      by (simp add: NewDefaultOptions_def AvailableFormats_def)
    fix f v s s'
    assume "f \<in> set commandLine" "lo_Format (fst s) \<in> set AvailableFormats" "fl_Set f v s = Inr s'"
    then show "lo_Format (fst s') \<in> set AvailableFormats"
      using AddFlags_available [of _ v "fst s"]
      by (cases s) (auto simp: commandLine_def fl_Set_simps res_simps)
  qed
  then show ?thesis by (simp add: Options_Validate_iff)
qed

end
