(* ===== verification/Startup.thy ===== *)
theory Startup
  imports OSPProperties CommandLine
begin

text \<open>
  \<open>cmd/osm-controller\<close> with \<open>pkg/util/certificate\<close>: the program's options, how they are checked, and
  how the two controllers are put together from them. \<open>log.Fatal\<close> ends the program; it is an error here.

  The file system, the check of PEM data, the reading of kubeconfig files and the controller runtime
  (managers, their clients and configurations) are parameters, collected in \<open>runtime\<close>.

  The program has up to two managers and three clients: each manager's own client, which reads through the manager's
  cache, and for a separate worker cluster a dedicated client that reads from the server. Here they are told
  apart. The controllers themselves are modelled over one set of operations per cluster (theory \<open>KubeAPI\<close>):
  \<open>clusterOf\<close> is the cluster that a client talks to.
\<close>

datatype manager = MainManager | WorkerManager

datatype client = GetClient manager | DedicatedClient

fun clusterOf :: "client \<Rightarrow> cluster" where
  "clusterOf (GetClient MainManager) = Management"
| "clusterOf (GetClient WorkerManager) = Worker"
| "clusterOf DedicatedClient = Worker"

section \<open>Certificates\<close>

text \<open>\<open>rest.Config\<close>: the fields that the repository reads; the pointer may be nil.\<close>

record restConfig =
  rest_CAData :: string
  rest_CAFile :: string

text \<open>\<open>manager.Options\<close>; without default namespaces a manager's cache covers all of them.\<close>

record managerOptions =
  mo_LeaderElection :: bool
  mo_LeaderElectionID :: string
  mo_LeaderElectionNamespace :: string
  mo_HealthProbeBindAddress :: string
  mo_MetricsBindAddress :: string
  mo_DefaultNamespaces :: "string list option"

record runtime =
  os_ReadFile :: "string \<Rightarrow> string res"
  AppendCertsFromPEM :: "string \<Rightarrow> bool"
  LoadFromFile :: "string \<Rightarrow> Kubeconfig res"
  manager_New :: "manager \<Rightarrow> managerOptions \<Rightarrow> unit res"
  mgr_AddHealthzCheck :: "unit res"
  mgr_AddReadyzCheck :: "unit res"
  mgr_GetConfig :: "restConfig option"
  clientcmd_ClientConfig :: "string \<Rightarrow> unit res"
  client_New :: "string \<Rightarrow> unit res"
  mgr_Add :: "unit res"
  configvar_NewResolver :: "client \<Rightarrow> resolver"
  registerController :: "manager \<Rightarrow> string \<Rightarrow> int \<Rightarrow> unit res"

definition getCACertFromKubeconfigPath :: "runtime \<Rightarrow> string \<Rightarrow> string res" where
  "getCACertFromKubeconfigPath X kubeconfigPath =
     bindR (LoadFromFile X kubeconfigPath) (\<lambda>kubeconfig.
       if length (kc_Clusters kubeconfig) \<noteq> 1
       then Inl (Errorf ''kubeconfig does not contain exactly one cluster, can not extract server address'' [])
       else case kc_Clusters kubeconfig of
         (name, Some cl) # _ \<Rightarrow> Inr (cl_CertificateAuthorityData cl)
       | (name, None) # _ \<Rightarrow> Inl (Panic ''invalid memory address or nil pointer dereference'')
       | [] \<Rightarrow> Inl (Errorf ''no CACert found'' []))"

definition GetCACert :: "runtime \<Rightarrow> string \<Rightarrow> restConfig option \<Rightarrow> string res" where
  "GetCACert X kubeconfigPath config =
     (if kubeconfigPath \<noteq> [] then getCACertFromKubeconfigPath X kubeconfigPath
      else case config of
        None \<Rightarrow> Inl (Errorf ''no CA certificate found'' [])
      | Some c \<Rightarrow>
          if length (rest_CAData c) > 0 then Inr (rest_CAData c)
          else if length (rest_CAFile c) > 0
          then wrapR ''failed to load CA certificate %w'' [] (os_ReadFile X (rest_CAFile c))
          else Inl (Errorf ''no CA certificate found'' []))"

definition retrieveCustomCACertificate :: "runtime \<Rightarrow> string \<Rightarrow> string res" where
  "retrieveCustomCACertificate X filepath =
     bindR (wrapR ''failed to read file %q: %w'' [filepath] (os_ReadFile X filepath)) (\<lambda>cert.
       if \<not> AppendCertsFromPEM X cert
       then Inl (Errorf ''file does not contain valid PEM-encoded certificates'' [])
       else Inr cert)"

section \<open>Flags\<close>

definition parseClusterDNSIPs :: "string \<Rightarrow> IP list res" where
  "parseClusterDNSIPs s =
     mapR (\<lambda>sip. case ParseIP (TrimSpace sip) of
         None \<Rightarrow> Inl (Errorf ''unable to parse ip %s'' [sip])
       | Some ip \<Rightarrow> Inr ip) (SplitC CHR '','' s)"

text \<open>The loop over the feature gates and its map.\<close>

fun gatesLoop :: "string list \<Rightarrow> (string \<times> bool) list \<Rightarrow> (string \<times> bool) list res" where
  "gatesLoop [] featureGates = Inr featureGates"
| "gatesLoop (featureGate # gs) featureGates =
     (case SplitC CHR ''='' featureGate of
        [name, value] \<Rightarrow>
          (case ParseBool value of
             Inl e \<Rightarrow> Inl (Errorf ''failed to parse kubelet feature gate: %q'' [featureGate])
           | Inr enabled \<Rightarrow> gatesLoop gs (mput name enabled featureGates))
      | _ \<Rightarrow> Inl (Errorf ''invalid kubelet feature gate: %q'' [featureGate]))"

definition rotateServerCertificate :: string where
  "rotateServerCertificate = ''RotateKubeletServerCertificate''"

definition parseKubeletFeatureGates :: "string \<Rightarrow> (string \<times> bool) list res" where
  "parseKubeletFeatureGates s =
     bindR (gatesLoop (SplitC CHR '','' s) []) (\<lambda>featureGates.
       Inr (if map_of featureGates rotateServerCertificate = None
            then mput rotateServerCertificate True featureGates else featureGates))"

text \<open>The flag for a service account, \<open>namespace/name\<close>.\<close>

definition parseServiceAccount :: "string \<Rightarrow> (string \<times> string) option res" where
  "parseServiceAccount s =
     (if s = [] then Inr None
      else case SplitC CHR ''/'' s of
        [ns, n] \<Rightarrow> Inr (Some (ns, n))
      | parts \<Rightarrow> Inl (Errorf ''splitting the bootstrap-token-service-account-name flag value in '/' returned %d parts, expected exactly two''
                    [show_nat (length parts)]))"

section \<open>The program\<close>

definition createManager :: "runtime \<Rightarrow> options \<Rightarrow> unit res" where
  "createManager X opt =
     (let mo = \<lparr>mo_LeaderElection = opt_enableLeaderElection opt, mo_LeaderElectionID = ''operating-system-manager'',
            mo_LeaderElectionNamespace = opt_namespace opt, mo_HealthProbeBindAddress = opt_healthProbeAddress opt,
            mo_MetricsBindAddress = opt_metricsAddress opt,
            mo_DefaultNamespaces = (if opt_workerClusterKubeconfig opt \<noteq> [] then Some [opt_namespace opt] else None)\<rparr> in
      bindR (wrapR ''error building ctrlruntime manager: %w'' [] (manager_New X MainManager mo)) (\<lambda>_.
      bindR (wrapR ''failed to add health check: %w'' [] (mgr_AddHealthzCheck X)) (\<lambda>_.
      wrapR ''failed to add readiness check: %w'' [] (mgr_AddReadyzCheck X))))"

text \<open>The client and the manager of a worker cluster of its own.\<close>

definition workerManager :: "runtime \<Rightarrow> options \<Rightarrow> unit res" where
  "workerManager X opt =
     bindR (clientcmd_ClientConfig X (opt_workerClusterKubeconfig opt)) (\<lambda>_.
     bindR (wrapR ''failed to build worker client: %v'' [] (client_New X (opt_workerClusterKubeconfig opt))) (\<lambda>_.
     bindR (manager_New X WorkerManager
        \<lparr>mo_LeaderElection = opt_enableLeaderElection opt, mo_LeaderElectionID = ''operating-system-manager-worker-manager'',
         mo_LeaderElectionNamespace = ''kube-system'', mo_HealthProbeBindAddress = opt_workerHealthProbeAddress opt,
         mo_MetricsBindAddress = opt_workerMetricsAddress opt, mo_DefaultNamespaces = None\<rparr>) (\<lambda>_.
     wrapR ''failed to add workers cluster mgr to main mgr'' [] (mgr_Add X))))"

definition newKubeconfigProvider :: "client \<Rightarrow> string \<Rightarrow> KubeconfigProvider" where
  "newKubeconfigProvider client caCert = \<lparr>kp_caCert = caCert, kp_client = clusterOf client\<rparr>"

definition newBootstrap :: "client \<Rightarrow> ('w, Kubeconfig) M \<Rightarrow> (string \<times> string) option \<Rightarrow> string \<Rightarrow> 'w Bootstrap" where
  "newBootstrap client getKubeconfig serviceAccount overrideServer =
     \<lparr>b_ServiceAccount = serviceAccount, b_overrideServer = overrideServer, b_GetKubeconfig = getKubeconfig,
      b_client = clusterOf client\<rparr>"

text \<open>
  The global of \<open>pkg/providerconfig/config\<close> with the resolver of configuration variables, nil until it is set;
  the cloud providers work with what is in it.
\<close>

type_synonym resolver_instance = "resolver option"

definition SetConfigVarResolver :: "runtime \<Rightarrow> client \<Rightarrow> resolver_instance \<Rightarrow> resolver_instance" where
  "SetConfigVarResolver X client instance' = Some (configvar_NewResolver X client)"

text \<open>A file that is read only if its flag is set.\<close>

definition caBundle :: "runtime \<Rightarrow> string \<Rightarrow> string \<Rightarrow> string res" where
  "caBundle X fmt path =
     (if length path > 0 then wrapR fmt [] (retrieveCustomCACertificate X path) else Inr [])"

text \<open>\<open>osc.Add\<close>: the reconciler it registers with a manager, and the clients it was given.\<close>

record 'w oscControl =
  oc_manager :: manager
  oc_workerClient :: client
  oc_client :: client
  oc_reconciler :: "'w Reconciler"

definition ControllerName :: string where
  "ControllerName = ''operating-system-config-controller''"

definition AddOSC ::
    "runtime \<Rightarrow> manager \<Rightarrow> client \<Rightarrow> client \<Rightarrow> 'w Bootstrap \<Rightarrow> string \<Rightarrow> string \<Rightarrow> string \<Rightarrow> int \<Rightarrow> IP list \<Rightarrow> CloudConfigGenerator
     \<Rightarrow> string \<Rightarrow> bool \<Rightarrow> string \<Rightarrow> string \<Rightarrow> string \<Rightarrow> CRConfig \<Rightarrow> string \<Rightarrow> (string \<times> bool) list \<Rightarrow> 'w oscControl res" where
  "AddOSC X mgr workerClient client bootstrappingManager caCert hostCACert namespace workerCount clusterDNSIPs generator
      containerRuntime externalCloudProvider initialTaints nodeHTTPProxy nodeNoProxy containerRuntimeConfig
      nodeRegistryCredentialsSecret kubeletFeatureGates =
     bindR (registerController X mgr ControllerName workerCount) (\<lambda>_.
       Inr \<lparr>oc_manager = mgr, oc_workerClient = workerClient, oc_client = client, oc_reconciler =
        \<lparr>r_Client = clusterOf client, r_workerClient = clusterOf workerClient, r_bootstrappingManager = bootstrappingManager,
         r_namespace = namespace, r_containerRuntime = containerRuntime,
         r_externalCloudProvider = externalCloudProvider, r_initialTaints = initialTaints,
         r_generator = generator, r_clusterDNSIPs = clusterDNSIPs, r_caCert = caCert, r_hostCACert = hostCACert,
         r_nodeHTTPProxy = nodeHTTPProxy, r_nodeNoProxy = nodeNoProxy,
         r_nodeRegistryCredentialsSecret = nodeRegistryCredentialsSecret,
         r_containerRuntimeConfig = containerRuntimeConfig, r_kubeletFeatureGates = kubeletFeatureGates\<rparr>\<rparr>)"

definition containerRuntimeOpts :: "options \<Rightarrow> Opts" where
  "containerRuntimeOpts opt =
     \<lparr>op_ContainerRuntime = opt_containerRuntime opt, op_ContainerdVersion = [],
      op_InsecureRegistries = opt_nodeInsecureRegistries opt, op_RegistryMirrors = opt_nodeRegistryMirrors opt,
      op_RegistryCredentialsSecret = opt_nodeRegistryCredentialsSecret opt, op_PauseImage = opt_pauseImage opt,
      op_ContainerdRegistryMirrors = opt_nodeContainerdRegistryMirrors opt,
      op_DeviceOwnership = opt_deviceOwnershipFromSecurityContext opt\<rparr>"

text \<open>
  \<open>main\<close>, up to the point where the managers are started: the OSC controller, what
  \<open>osp.Add\<close> has set up, and the resolver of configuration variables. The worker cluster, with its manager and client, is
  the management cluster unless there is a kubeconfig for it.
\<close>

definition startup ::
    "runtime \<Rightarrow> 'w env \<Rightarrow> 'c transpiler \<Rightarrow> osp_files \<Rightarrow> options
     \<Rightarrow> ('w oscControl \<times> (OSPControl \<times> (string \<times> string) list) option \<times> resolver_instance) res" where
  "startup X E T F opt =
     (if length (opt_namespace opt) = 0 then Inl (Errorf ''-namespace is required'' [])
      else if opt_containerRuntime opt \<noteq> ''containerd''
      then Inl (Errorf ''%s not supported; containerd is the only supported container runtimes'' [opt_containerRuntime opt])
      else
      bindR (caBundle X ''-kubernetes-ca-bundle is invalid: %s'' (opt_kubernetesCABundleFile opt)) (\<lambda>kubernetesCustomCACert.
      bindR (caBundle X ''-host-ca-bundle is invalid: %s'' (opt_caBundleFile opt)) (\<lambda>hostCACert.
      bindR (wrapR ''invalid cluster dns specified: %v'' [] (parseClusterDNSIPs (opt_clusterDNSIPs opt))) (\<lambda>ips.
      bindR (wrapR ''invalid kubelet feature gates specified: %v'' []
               (parseKubeletFeatureGates (opt_kubeletFeatureGates opt))) (\<lambda>gates.
      bindR (parseServiceAccount (opt_bootstrapTokenServiceAccountName opt)) (\<lambda>serviceAccount.
      bindR (wrapR ''failed to generate container runtime config: %v'' [] (BuildConfig (containerRuntimeOpts opt))) (\<lambda>crc.
      bindR (wrapR ''failed to create runtime manager: %v'' [] (createManager X opt)) (\<lambda>_.
      let external = opt_workerClusterKubeconfig opt \<noteq> [];
          mgr = MainManager;
          workerMgr = (if external then WorkerManager else mgr);
          workerClient = (if external then DedicatedClient else GetClient mgr);
          kubeconfig = (if external then opt_workerClusterKubeconfig opt else opt_kubeconfig opt) in
      bindR (if external then workerManager X opt else Inr ()) (\<lambda>_.
      bindR (if opt_kubernetesCABundleFile opt = []
             then wrapR ''failed to load CA certificate'' [] (GetCACert X kubeconfig (mgr_GetConfig X))
             else Inr kubernetesCustomCACert) (\<lambda>caCert.
      let kubeconfigProvider = newKubeconfigProvider workerClient caCert;
          bootstrappingManager = newBootstrap workerClient
            (GetKubeconfig (lib_client_go (env_libs E)) (env_api E) kubeconfigProvider) serviceAccount
            (opt_overrideBootstrapKubeletAPIServer opt);
          resolver = SetConfigVarResolver X (GetClient workerMgr) None in
      bindR (AddOSP F (clusterOf (GetClient mgr)) (opt_namespace opt) (opt_disableDefaultOSPs opt)) (\<lambda>osps.
      bindR (if osps = None then Inr () else registerController X mgr ''OperatingSystemProfileController'' (opt_workerCount opt)) (\<lambda>_.
      bindR (AddOSC X workerMgr workerClient (GetClient mgr) bootstrappingManager caCert hostCACert (opt_namespace opt)
               (opt_workerCount opt) ips
               (Generate (env_sdk E) T) (opt_containerRuntime opt) (opt_externalCloudProvider opt)
               (opt_initialTaints opt) (opt_nodeHTTPProxy opt) (opt_nodeNoProxy opt) crc
               (opt_nodeRegistryCredentialsSecret opt) gates) (\<lambda>c.
        Inr (c, osps, resolver))))))))))))))"

text \<open>The program with its arguments.\<close>

definition osm_main ::
    "runtime \<Rightarrow> 'w env \<Rightarrow> 'c transpiler \<Rightarrow> osp_files \<Rightarrow> string list
     \<Rightarrow> ('w oscControl \<times> (OSPControl \<times> (string \<times> string) list) option \<times> resolver_instance) res" where
  "osm_main X E T F args =
     bindR (parseCommandLine args) (\<lambda>(logFlags, opt).
     bindR (wrapR ''invalid options: %v'' [] (Options_Validate logFlags)) (\<lambda>_. startup X E T F opt))"

section \<open>Properties\<close>

text \<open>A list of names and values, as the flag has it.\<close>

definition gateText :: "string \<times> bool \<Rightarrow> string" where
  "gateText g = fst g @ ''='' @ FormatBool (snd g)"

lemma gatesLoop_text:
  assumes "\<forall>g \<in> set gs. CHR ''='' \<notin> set (fst g)"
  shows "gatesLoop (map gateText gs) m = Inr (fold (\<lambda>(name, enabled). mput name enabled) gs m)"
  using assms
proof (induction gs arbitrary: m)
  case (Cons g gs)
  have "CHR ''='' \<notin> set (FormatBool b)" for b by (simp add: FormatBool_def)
  then have "SplitC CHR ''='' (gateText g) = [fst g, FormatBool (snd g)]"
    using Cons.prems by (simp add: gateText_def SplitC_append SplitC_id)
  with Cons show ?case by (simp add: case_prod_unfold)
qed simp

lemma map_of_fold_gates: "map_of (fold (\<lambda>(k, v). mput k v) xs m) = map_of m ++ map_of (rev xs)"
  by (induction xs arbitrary: m) (auto simp: map_add_def fun_eq_iff split: option.splits)

text \<open>C28. The feature gates of the flag: a list of gates in its textual form is read back as the map in which the
  last value of a gate counts, with the rotation of the kubelet's server certificate on unless the flag says
  otherwise; and whatever is read, that gate is decided.\<close>

theorem feature_gates_roundtrip:
  assumes "gs \<noteq> []" and "\<forall>g \<in> set gs. CHR ''='' \<notin> set (fst g) \<and> CHR '','' \<notin> set (fst g)"
  shows "\<exists>m. parseKubeletFeatureGates (Join '','' (map gateText gs)) = Inr m
    \<and> (\<forall>k. map_of m k = (case map_of (rev gs) k of Some v \<Rightarrow> Some v
          | None \<Rightarrow> if k = ''RotateKubeletServerCertificate'' then Some True else None))"
proof -
  have "CHR '','' \<notin> set (FormatBool b)" for b by (simp add: FormatBool_def)
  then have "SplitC CHR '','' (Join '','' (map gateText gs)) = map gateText gs"
    using assms by (intro SplitC_Join) (auto simp: gateText_def)
  then show ?thesis
    using assms gatesLoop_text [of gs "[]"]
    by (auto simp: parseKubeletFeatureGates_def map_of_fold_gates rotateServerCertificate_def split: option.splits)
qed

theorem feature_gates_roundtrip_witness:
  "\<exists>m. parseKubeletFeatureGates ''A=true,B=false,A=false'' = Inr m \<and> map_of m ''A'' = Some False
    \<and> map_of m ''RotateKubeletServerCertificate'' = Some True"
  using feature_gates_roundtrip [of "[(''A'', True), (''B'', False), (''A'', False)]"]
  by (auto simp: gateText_def FormatBool_def)

lemma TrimLeft_space: "TrimLeftSpace (CHR 0x20 # s) = TrimLeftSpace s"
  unfolding TrimLeftSpace_def by (subst strip_front.simps) (simp add: space_encodings_def)

lemma TrimLeft_spaces: "TrimLeftSpace (replicate n CHR 0x20 @ s) = TrimLeftSpace s"
  by (induction n) (simp_all add: TrimLeft_space)

lemma digit_not_space:
  assumes "p \<in> set space_encodings"
  shows "\<not> is_digit (hd p)" "\<not> is_digit (last p)"
  using assms by (auto simp: space_encodings_def is_digit_def)

lemma Trim_digits:
  assumes "s \<noteq> []" "is_digit (hd s)" "is_digit (last s)"
  shows "TrimLeftSpace s = s" "TrimRightSpace s = s"
proof -
  have ne: "p \<noteq> []" if "p \<in> set space_encodings" for p using that by (auto simp: space_encodings_def)
  show "TrimLeftSpace s = s" unfolding TrimLeftSpace_def
  proof (rule strip_front_fix)
    fix p assume p: "p \<in> set space_encodings" "p \<noteq> []"
    then have "prefix p s \<Longrightarrow> hd s = hd p" by (auto simp: prefix_def)
    with assms digit_not_space(1) [OF p(1)] show "\<not> prefix p s" by metis
  qed
  have "strip_front (map rev space_encodings) (rev s) = rev s"
  proof (rule strip_front_fix)
    fix p assume "p \<in> set (map rev space_encodings)" "p \<noteq> []"
    then obtain q where q: "q \<in> set space_encodings" "p = rev q" by auto
    then have "prefix p (rev s) \<Longrightarrow> hd (rev s) = hd p" using ne by (auto simp: prefix_def)
    then show "\<not> prefix p (rev s)"
      using assms q digit_not_space(2) [OF q(1)] ne by (auto simp: hd_rev)
  qed
  then show "TrimRightSpace s = s" by (simp add: TrimRightSpace_def)
qed

lemma show_nat_ends: "is_digit (hd (show_nat n))" "is_digit (last (show_nat n))"
  using show_nat_digits [of n] by (simp_all add: list_all_iff)

lemma Trim_v4:
  assumes "length bs = 4"
  shows "TrimSpace (replicate n CHR 0x20 @ IPString (v4_prefix @ bs)) = IPString (v4_prefix @ bs)"
proof -
  let ?s = "IPString (v4_prefix @ bs)"
  obtain a b c d where bs: "bs = [a, b, c, d]"
    using assms by (auto simp: length_Suc_conv numeral_eq_Suc)
  have s: "?s = show_nat a @ ''.'' @ show_nat b @ ''.'' @ show_nat c @ ''.'' @ show_nat d"
    by (simp add: bs IPString_def v4_prefix_def)
  have "?s \<noteq> []" "is_digit (hd ?s)" "is_digit (last ?s)"
    unfolding s by (simp_all add: show_nat_ends)
  from Trim_digits [OF this] show ?thesis by (simp add: TrimSpace_def TrimLeft_spaces)
qed

text \<open>A list of IPv4 addresses, separated by commas and possibly spaces, is read back as it is.\<close>

theorem cluster_dns_roundtrip:
  assumes "ips \<noteq> []" and "\<forall>(n, bs) \<in> set ips. length bs = 4 \<and> (\<forall>b \<in> set bs. b < 256)"
  shows "parseClusterDNSIPs (Join '','' (map (\<lambda>(n, bs). replicate n CHR 0x20 @ IPString (v4_prefix @ bs)) ips))
    = Inr (map (\<lambda>(n, bs). v4_prefix @ bs) ips)"
proof -
  have no_sep: "CHR '','' \<notin> set (IPString (v4_prefix @ bs))" if bs: "length bs = 4" for bs
  proof -
    obtain a b c d where "bs = [a, b, c, d]" using bs by (auto simp: length_Suc_conv numeral_eq_Suc)
    moreover have "CHR '','' \<notin> set (show_nat n)" for n
      using show_nat_digits [of n] by (auto simp: list_all_iff is_digit_def)
    ultimately show ?thesis by (simp add: IPString_def v4_prefix_def)
  qed
  have "SplitC CHR '','' (Join '','' (map (\<lambda>(n, bs). replicate n CHR 0x20 @ IPString (v4_prefix @ bs)) ips))
      = map (\<lambda>(n, bs). replicate n CHR 0x20 @ IPString (v4_prefix @ bs)) ips"
    using assms no_sep by (intro SplitC_Join) auto
  moreover have "mapR (\<lambda>sip. case ParseIP (TrimSpace sip) of
         None \<Rightarrow> Inl (Errorf ''unable to parse ip %s'' [sip]) | Some ip \<Rightarrow> Inr ip)
      (map (\<lambda>(n, bs). replicate n CHR 0x20 @ IPString (v4_prefix @ bs)) ips) = Inr (map (\<lambda>(n, bs). v4_prefix @ bs) ips)"
    using assms(2) by (induction ips) (auto simp: Trim_v4 ParseIP_IPString_v4)
  ultimately show ?thesis unfolding parseClusterDNSIPs_def by simp
qed

theorem cluster_dns_roundtrip_witness:
  "parseClusterDNSIPs ''10.10.10.10, 8.8.4.4'' = Inr [v4_prefix @ [10, 10, 10, 10], v4_prefix @ [8, 8, 4, 4]]"
proof -
  have "Join '','' (map (\<lambda>(n, bs). replicate n CHR 0x20 @ IPString (v4_prefix @ bs))
      [(0, [10, 10, 10, 10]), (1, [8, 8, 4, 4])]) = ''10.10.10.10, 8.8.4.4''" by code_simp
  with cluster_dns_roundtrip [of "[(0, [10, 10, 10, 10]), (1, [8, 8, 4, 4])]"] show ?thesis by simp
qed

lemma gates_decided: "parseKubeletFeatureGates s = Inr m \<Longrightarrow> map_of m ''RotateKubeletServerCertificate'' \<noteq> None"
  by (auto simp: parseKubeletFeatureGates_def rotateServerCertificate_def res_simps split: if_splits)
    (metis fun_upd_same map_of_mput)

lemma dns_nonempty: "parseClusterDNSIPs s = Inr ips \<Longrightarrow> ips \<noteq> []"
  by (auto simp: parseClusterDNSIPs_def dest: mapR_length)

lemma AddOSC_simps:
  assumes "AddOSC X m wc c bm ca hca ns n ips gen cr ext taints hp np crc cred gates = Inr oc"
  shows "oc_manager oc = m" "oc_workerClient oc = wc" "oc_client oc = c"
    "r_Client (oc_reconciler oc) = clusterOf c" "r_workerClient (oc_reconciler oc) = clusterOf wc"
    "r_bootstrappingManager (oc_reconciler oc) = bm" "r_namespace (oc_reconciler oc) = ns"
    "r_containerRuntime (oc_reconciler oc) = cr" "r_clusterDNSIPs (oc_reconciler oc) = ips"
    "r_kubeletFeatureGates (oc_reconciler oc) = gates" "r_generator (oc_reconciler oc) = gen"
    "r_caCert (oc_reconciler oc) = ca" "r_hostCACert (oc_reconciler oc) = hca" "r_containerRuntimeConfig (oc_reconciler oc) = crc"
    "r_nodeRegistryCredentialsSecret (oc_reconciler oc) = cred" "r_externalCloudProvider (oc_reconciler oc) = ext"
    "r_initialTaints (oc_reconciler oc) = taints" "r_nodeHTTPProxy (oc_reconciler oc) = hp" "r_nodeNoProxy (oc_reconciler oc) = np"
    "registerController X m ControllerName n = Inr ()"
  using assms by (auto simp: AddOSC_def res_simps)

lemma newBootstrap_simps: "b_client (newBootstrap c g sa o') = clusterOf c" "b_GetKubeconfig (newBootstrap c g sa o') = g"
  "b_ServiceAccount (newBootstrap c g sa o') = sa" "b_overrideServer (newBootstrap c g sa o') = o'"
  by (simp_all add: newBootstrap_def)

lemma provider_readonly: "kube_api A objs \<Longrightarrow> readonly objs (GetKubeconfig G A p)"
  unfolding readonly_def keeps_def by (intro allI kube_api.wp_GetKubeconfig_frame)


text \<open>With the SDK's constants and an interface to the API servers, the whole interface of the OSC controller.\<close>

lemma startup_controller:
  assumes "kube_api (env_api E) objs" and "CloudInitSettingsNamespace (env_sdk E) = CloudInitNamespace"
    and "MachineDeploymentRevision (env_sdk E) \<notin> {OperatingSystemConfigVersionAnnotation, OperatingSystemConfigMDHash}"
    and "b_client (r_bootstrappingManager r) = r_workerClient r" and "readonly objs (b_GetKubeconfig (r_bootstrappingManager r))"
  shows "osc_controller E objs r"
  using assms by (intro osc_controller.intro)

definition demo_runtime :: runtime where
  "demo_runtime = \<lparr>os_ReadFile = (\<lambda>f. Inr f), AppendCertsFromPEM = (\<lambda>c. True), LoadFromFile = (\<lambda>f. Inr demo_kubeconfig),
     manager_New = (\<lambda>c mo. Inr ()), mgr_AddHealthzCheck = Inr (), mgr_AddReadyzCheck = Inr (), mgr_GetConfig = None,
     clientcmd_ClientConfig = (\<lambda>f. Inr ()), client_New = (\<lambda>f. Inr ()), mgr_Add = Inr (),
     configvar_NewResolver = (\<lambda>c. demo_resolver), registerController = (\<lambda>m n i. Inr ())\<rparr>"

definition demo_options :: options where
  "demo_options = defaultOptions\<lparr>opt_namespace := ''kube-system'', opt_workerClusterKubeconfig := ''worker''\<rparr>"

lemma demo_options_simps:
  "opt_namespace demo_options = ''kube-system''" "opt_containerRuntime demo_options = ''containerd''"
  "opt_kubernetesCABundleFile demo_options = []" "opt_caBundleFile demo_options = []"
  "opt_clusterDNSIPs demo_options = ''10.10.10.10''" "opt_workerClusterKubeconfig demo_options = ''worker''"
  "opt_kubeletFeatureGates demo_options = ''RotateKubeletServerCertificate=true''"
  "opt_bootstrapTokenServiceAccountName demo_options = []" "opt_disableDefaultOSPs demo_options = False"
  by (simp_all add: demo_options_def defaultOptions_def)

lemma demo_runtime_simps:
  "LoadFromFile demo_runtime f = Inr demo_kubeconfig" "createManager demo_runtime o' = Inr ()"
  "workerManager demo_runtime o' = Inr ()" "registerController demo_runtime m k i = Inr ()"
  by (simp_all add: demo_runtime_def createManager_def workerManager_def)

lemma demo_startup: "isOk (startup demo_runtime demo_env demo_transpiler demo_osp_files demo_options)"
proof -
  have "isOk (parseClusterDNSIPs ''10.10.10.10'')" by code_simp
  then obtain ips where ips: "parseClusterDNSIPs ''10.10.10.10'' = Inr ips" by (auto simp: isOk_iff)
  have "isOk (parseKubeletFeatureGates ''RotateKubeletServerCertificate=true'')" by code_simp
  then obtain gates where gates: "parseKubeletFeatureGates ''RotateKubeletServerCertificate=true'' = Inr gates"
    by (auto simp: isOk_iff)
  have "isOk (BuildConfig (containerRuntimeOpts demo_options))" by code_simp
  then obtain crc where crc: "BuildConfig (containerRuntimeOpts demo_options) = Inr crc" by (auto simp: isOk_iff)
  have ca: "GetCACert demo_runtime ''worker'' c = Inr ''ca''" for c
    by (simp add: GetCACert_def getCACertFromKubeconfigPath_def demo_runtime_simps demo_kubeconfig_def)
  show ?thesis
    by (simp add: startup_def demo_options_simps demo_runtime_simps ips gates crc ca caBundle_def parseServiceAccount_def
        AddOSP_def demo_loaded AddOSC_def Let_def)
qed


end
