(* ===== verification/Webhook.thy ===== *)
theory Webhook
  imports Admission CommandLine
begin

text \<open>
  \<open>cmd/webhook\<close>: the options of the webhook server, and the server with its three handlers. The manager of the
  controller runtime is a parameter; the server is the list of the handlers registered under a path. The
  decoders of the admission library are given to the handlers with their scheme.
\<close>

section \<open>Options\<close>

record webhookOptions =
  wo_namespace :: string
  wo_metricsAddr :: string
  wo_enableLeaderElection :: bool
  wo_probeAddr :: string
  wo_certDir :: string

definition defaultWebhookOptions :: webhookOptions where
  "defaultWebhookOptions = \<lparr>wo_namespace = [], wo_metricsAddr = '':8080'', wo_enableLeaderElection = False,
     wo_probeAddr = '':8081'', wo_certDir = ''/tmp/k8s-webhook-server/serving-certs''\<rparr>"

definition webhookFlags :: "webhookOptions flag list" where
  "webhookFlags =
     [StringVar (\<lambda>v o'. o'\<lparr>wo_metricsAddr := v\<rparr>) ''metrics-bind-address'',
      StringVar (\<lambda>v o'. o'\<lparr>wo_probeAddr := v\<rparr>) ''health-probe-bind-address'',
      BoolVar (\<lambda>v o'. o'\<lparr>wo_enableLeaderElection := v\<rparr>) ''leader-elect'',
      StringVar (\<lambda>v o'. o'\<lparr>wo_namespace := v\<rparr>) ''namespace'',
      StringVar (\<lambda>v o'. o'\<lparr>wo_certDir := v\<rparr>) ''cert-dir'']"

definition webhookCommandLine :: "(LogOptions \<times> webhookOptions) flag list" where
  "webhookCommandLine = map fstFlag AddFlags @ map sndFlag webhookFlags"

definition parseWebhookCommandLine :: "string list \<Rightarrow> (LogOptions \<times> webhookOptions) res" where
  "parseWebhookCommandLine args =
     bindR (parseArgs webhookCommandLine args (NewDefaultOptions, defaultWebhookOptions)) (\<lambda>(st, rest). Inr st)"

section \<open>The server\<close>

record webhookManager =
  wm_CertDir :: string
  wm_Port :: nat
  wm_HealthProbeBindAddress :: string
  wm_LeaderElection :: bool
  wm_LeaderElectionNamespace :: string
  wm_LeaderElectionID :: string
  wm_MetricsBindAddress :: string

record webhook_runtime =
  wr_manager_New :: "webhookManager \<Rightarrow> unit res"
  wr_AddHealthzCheck :: "unit res"
  wr_AddReadyzCheck :: "unit res"
  wr_Start :: "unit res"

text \<open>The decoders that a scheme gives, and what the mutation needs besides.\<close>

record decoders =
  dec_OSC :: "string \<Rightarrow> OperatingSystemConfig res"
  dec_OSP :: "string \<Rightarrow> OperatingSystemProfile res"
  dec_MD :: "string \<Rightarrow> MachineDeployment res"
  enc_MD :: "MachineDeployment \<Rightarrow> string res"
  dec_Config :: "RawExtension option \<Rightarrow> ProviderConfig res"

type_synonym hookServer = "(string \<times> (request \<Rightarrow> response)) list"

definition SetupOSCWebhook :: "(string \<Rightarrow> OperatingSystemConfig res) \<Rightarrow> hookServer \<Rightarrow> hookServer" where
  "SetupOSCWebhook decode srv = srv @ [(''/operatingsystemconfig'', HandleOSC decode)]"

definition SetupOSPWebhook :: "(string \<Rightarrow> OperatingSystemProfile res) \<Rightarrow> hookServer \<Rightarrow> hookServer" where
  "SetupOSPWebhook decode srv = srv @ [(''/operatingsystemprofile'', HandleOSP decode)]"

definition SetupMDWebhook :: "sdk \<Rightarrow> decoders \<Rightarrow> hookServer \<Rightarrow> hookServer" where
  "SetupMDWebhook S D srv =
     srv @ [(''/mutate-v1alpha1-machinedeployment'', HandleMD S (dec_Config D) (dec_MD D) (enc_MD D))]"

definition webhook_main :: "webhook_runtime \<Rightarrow> sdk \<Rightarrow> decoders \<Rightarrow> string list \<Rightarrow> hookServer res" where
  "webhook_main X S D args =
     bindR (parseWebhookCommandLine args) (\<lambda>(logFlags, opt).
     bindR (wrapR ''Invalid options: %v'' [] (Options_Validate logFlags)) (\<lambda>_.
     if length (wo_namespace opt) = 0 then Inl (Errorf ''-namespace is required'' [])
     else
     bindR (wrapR ''failed to create the manager'' [] (wr_manager_New X
        \<lparr>wm_CertDir = wo_certDir opt, wm_Port = 9443, wm_HealthProbeBindAddress = wo_probeAddr opt,
         wm_LeaderElection = wo_enableLeaderElection opt, wm_LeaderElectionNamespace = wo_namespace opt,
         wm_LeaderElectionID = ''operating-system-manager-leader-lock'', wm_MetricsBindAddress = wo_metricsAddr opt\<rparr>)) (\<lambda>_.
     let srv = SetupMDWebhook S D (SetupOSPWebhook (dec_OSP D) (SetupOSCWebhook (dec_OSC D) [])) in
     bindR (wrapR ''failed to add health check: %v'' [] (wr_AddHealthzCheck X)) (\<lambda>_.
     bindR (wrapR ''failed to add readiness check: %v'' [] (wr_AddReadyzCheck X)) (\<lambda>_.
     bindR (wrapR ''failed to start OSC controller: %v'' [] (wr_Start X)) (\<lambda>_. Inr srv))))))"

text \<open>What a server answers to a request at a path.\<close>

definition serve :: "hookServer \<Rightarrow> string \<Rightarrow> request \<Rightarrow> response option" where
  "serve srv path req = map_option (\<lambda>h. h req) (map_of srv path)"

section \<open>Properties\<close>

lemma webhook_server:
  assumes "webhook_main X S D args = Inr srv"
  shows "serve srv ''/operatingsystemconfig'' req = Some (HandleOSC (dec_OSC D) req)"
    "serve srv ''/operatingsystemprofile'' req = Some (HandleOSP (dec_OSP D) req)"
    "serve srv ''/mutate-v1alpha1-machinedeployment'' req = Some (HandleMD S (dec_Config D) (dec_MD D) (enc_MD D) req)"
  using assms
  by (auto simp: webhook_main_def res_simps Let_def SetupMDWebhook_def SetupOSPWebhook_def SetupOSCWebhook_def serve_def
      split: if_splits)

text \<open>Through the server that a successful start gives, a stored configuration can never be changed: an update
  request at the path of configurations is allowed only if old and new specification are equal.\<close>

lemma served_updates:
  assumes "webhook_main X S D args = Inr srv" and "req_Operation req = ''UPDATE''"
    and "serve srv ''/operatingsystemconfig'' req = Some (Allowed msg)"
  shows "\<exists>osc old. dec_OSC D (req_Object req) = Inr osc \<and> dec_OSC D (req_OldObject req) = Inr old
    \<and> DeepEqualOSC (osc_Spec old) (osc_Spec osc)"
  using assms(2,3) unfolding webhook_server(1) [OF assms(1)]
  by (auto simp: HandleOSC_def validateUpdateOSC_def Let_def split: sum.splits if_splits)

end
