(* ===== verification/Heap.thy ===== *)
theory Heap
  imports OSCResources
begin

text \<open>
  A Go heap and what a copy function promises on it. Elsewhere the development works with values, on which a
  copy is the identity; here a struct of \<open>pkg/crd/osm/v1alpha1\<close> holds the addresses of what its pointers,
  slices and maps refer to. The value of an address is read off the heap together with the addresses that it
  depends on (\<open>view\<close>). The locale \<open>copier\<close> is the contract of a copy function: the copy denotes the same value
  and shares no cell with the original. It is proved once for pointers, arrays, maps, pairs and the fields of
  a struct.
\<close>

section \<open>The heap\<close>

type_synonym addr = nat

text \<open>A pointer, a map, and a slice (array, offset, length) may be nil.\<close>

type_synonym ptr = "addr option"
type_synonym slice = "(addr \<times> nat \<times> nat) option"

text \<open>The structs. A string is a value; \<open>TypeMeta\<close> holds no addresses and is left out.\<close>

record FileContentH =
  fcH_Inline :: ptr

record FileH =
  fileH_Path :: string
  fileH_Permissions :: int32
  fileH_Content :: FileContentH

record UnitH =
  unitH_Name :: string
  unitH_Enable :: ptr
  unitH_Mask :: ptr
  unitH_Content :: ptr
  unitH_DropIns :: slice

record ContainerRuntimeSpecH =
  crsH_Name :: ContainerRuntime
  crsH_Files :: slice
  crsH_Templates :: ptr

record CloudInitModuleH =
  cimH_BootCMD :: slice
  cimH_RHSubscription :: ptr
  cimH_RunCMD :: slice
  cimH_YumRepos :: ptr
  cimH_YumRepoDir :: string

record CloudProviderSpecH =
  cpsH_Name :: CloudProvider
  cpsH_Spec :: slice

record ObjectMetaH =
  metaH_Name :: string
  metaH_Namespace :: string
  metaH_Labels :: ptr
  metaH_Annotations :: ptr

record ListMetaH =
  lmH_ResourceVersion :: string
  lmH_Continue :: string
  lmH_RemainingItemCount :: ptr

record OSPConfigH =
  ospcH_SupportedContainerRuntimes :: slice
  ospcH_Templates :: ptr
  ospcH_Units :: slice
  ospcH_Files :: slice
  ospcH_CloudInitModules :: ptr

record OSCConfigH =
  osccH_Units :: slice
  osccH_Files :: slice
  osccH_UserSSHKeys :: slice
  osccH_CloudInitModules :: ptr

record OperatingSystemProfileSpecH =
  ospsH_OSName :: OperatingSystem
  ospsH_OSVersion :: string
  ospsH_Version :: string
  ospsH_SupportedCloudProviders :: slice
  ospsH_BootstrapConfig :: OSPConfigH
  ospsH_ProvisioningConfig :: OSPConfigH
  ospsH_ProvisioningUtility :: ProvisioningUtility

record OperatingSystemConfigSpecH =
  oscsH_OSName :: OperatingSystem
  oscsH_OSVersion :: string
  oscsH_CloudProvider :: CloudProviderSpecH
  oscsH_BootstrapConfig :: OSCConfigH
  oscsH_ProvisioningConfig :: OSCConfigH
  oscsH_ProvisioningUtility :: ProvisioningUtility

record OperatingSystemProfileH =
  ospH_meta :: ObjectMetaH
  ospH_Spec :: OperatingSystemProfileSpecH

record OperatingSystemConfigH =
  oscH_meta :: ObjectMetaH
  oscH_Spec :: OperatingSystemConfigSpecH

record OperatingSystemProfileListH =
  osplH_meta :: ListMetaH
  osplH_Items :: slice

record OperatingSystemConfigListH =
  osclH_meta :: ListMetaH
  osclH_Items :: slice

text \<open>What a cell can hold: the target of a pointer, an array, or a map.\<close>

datatype cell =
    CBool bool | CInt int | CString string | CBytes string | CStrs "string list"
  | CMap strmap | CMaps "(string \<times> ptr) list"
  | CInline FileContentInline | CContent FileContentH | CFile FileH | CFiles "FileH list"
  | CDropIn DropIn | CDropIns "DropIn list" | CUnit UnitH | CUnits "UnitH list"
  | CRuntime ContainerRuntimeSpecH | CRuntimes "ContainerRuntimeSpecH list"
  | CModule CloudInitModuleH
  | CProvider CloudProviderSpecH | CProviders "CloudProviderSpecH list"
  | COSPConfig OSPConfigH | COSCConfig OSCConfigH
  | COSPSpec OperatingSystemProfileSpecH | COSCSpec OperatingSystemConfigSpecH
  | COSP OperatingSystemProfileH | COSPs "OperatingSystemProfileH list"
  | COSC OperatingSystemConfigH | COSCs "OperatingSystemConfigH list"
  | COSPList OperatingSystemProfileListH | COSCList OperatingSystemConfigListH

record heap =
  h_next :: addr
  h_cells :: "addr \<Rightarrow> cell option"

text \<open>Every address in use lies below the next free one.\<close>

definition heap_ok :: "heap \<Rightarrow> bool" where
  "heap_ok h \<longleftrightarrow> (\<forall>a. h_cells h a \<noteq> None \<longrightarrow> a < h_next h)"

text \<open>Later heaps have the same cells below what was the next free address; this is a preorder.\<close>

instantiation heap_ext :: (type) preorder
begin

definition less_eq_heap_ext :: "'a heap_scheme \<Rightarrow> 'a heap_scheme \<Rightarrow> bool" where
  "h \<le> h' \<longleftrightarrow> h_next h \<le> h_next h' \<and> (\<forall>a < h_next h. h_cells h' a = h_cells h a)"

definition less_heap_ext :: "'a heap_scheme \<Rightarrow> 'a heap_scheme \<Rightarrow> bool" where
  "h < h' \<longleftrightarrow> h \<le> h' \<and> \<not> h' \<le> (h :: 'a heap_scheme)"

instance
  by standard (auto simp: less_eq_heap_ext_def less_heap_ext_def)

end

abbreviation extends :: "heap \<Rightarrow> heap \<Rightarrow> bool" where
  "extends h h' \<equiv> h \<le> h'"

lemmas extends_iff = less_eq_heap_ext_def [where 'a = unit]
lemmas extends_trans = order_trans [where 'a = heap]

text \<open>A projection selects the cells of one kind.\<close>

definition select :: "(cell \<Rightarrow> 'h option) \<Rightarrow> heap \<Rightarrow> addr \<Rightarrow> 'h option" where
  "select proj h a = Option.bind (h_cells h a) proj"

lemma select_cong: "h_cells h' a = h_cells h a \<Longrightarrow> select proj h' a = select proj h a"
  by (simp add: select_def)

lemma select_Some: "h_cells h a = Some c \<Longrightarrow> select proj h a = proj c"
  by (simp add: select_def)

lemma select_live: "select proj h a = Some x \<Longrightarrow> \<exists>c. h_cells h a = Some c"
  by (auto simp: select_def bind_eq_Some_conv)

definition load :: "(cell \<Rightarrow> 'h option) \<Rightarrow> addr \<Rightarrow> (heap, 'h) M" where
  "load proj a = (\<lambda>h. case select proj h a of
     None \<Rightarrow> (Inl (Panic ''invalid memory address or nil pointer dereference''), h)
   | Some x \<Rightarrow> (Inr x, h))"

definition alloc :: "cell \<Rightarrow> (heap, addr) M" where
  "alloc c = (\<lambda>h. (Inr (h_next h), h\<lparr>h_next := h_next h + 1, h_cells := (h_cells h)(h_next h \<mapsto> c)\<rparr>))"

definition store_cell :: "addr \<Rightarrow> cell \<Rightarrow> (heap, unit) M" where
  "store_cell a c = (\<lambda>h. (Inr (), h\<lparr>h_cells := (h_cells h)(a \<mapsto> c)\<rparr>))"

lemma alloc_props:
  assumes "heap_ok h" and "alloc c h = (r, h')"
  shows "r = Inr (h_next h)" "extends h h'" "heap_ok h'" "h_cells h' (h_next h) = Some c"
  using assms by (auto simp: alloc_def extends_iff heap_ok_def less_Suc_eq)

section \<open>Copying, once and for all\<close>

text \<open>
  What a copy function promises. \<open>view h x\<close> is the value that \<open>x\<close> denotes in \<open>h\<close> and the addresses that it
  is read from, if \<open>x\<close> denotes one.
\<close>

locale copier =
  fixes view :: "heap \<Rightarrow> 'h \<Rightarrow> ('v \<times> addr list) option" and copy :: "'h \<Rightarrow> (heap, 'h) M"
  assumes local: "view h x = Some (v, as) \<Longrightarrow> (\<And>a. a \<in> set as \<Longrightarrow> h_cells (h' :: heap) a = h_cells h a) \<Longrightarrow> view h' x = Some (v, as)"
    and live: "view h x = Some (v, as) \<Longrightarrow> a \<in> set as \<Longrightarrow> h_cells h a \<noteq> None"
    and copies: "heap_ok h \<Longrightarrow> view h x = Some (v, as) \<Longrightarrow> \<exists>y h' bs. copy x h = (Inr y, h') \<and> extends h h' \<and> heap_ok h'
      \<and> view h' y = Some (v, bs) \<and> (\<forall>b \<in> set bs. h_next h \<le> b)"
begin

lemma below: "heap_ok h \<Longrightarrow> view h x = Some (v, as) \<Longrightarrow> a \<in> set as \<Longrightarrow> a < h_next h"
  using live [of h x v as a] by (auto simp: heap_ok_def)

lemma stable: "heap_ok h \<Longrightarrow> extends h h' \<Longrightarrow> view h x = Some (v, as) \<Longrightarrow> view h' x = Some (v, as)"
  by (rule local [of h]) (auto simp: extends_iff dest: below)

text \<open>A copy and its original are separate: changing the cells of one leaves the other.\<close>

lemma separate:
  assumes "heap_ok h" and "view h x = Some (v, as)"
  shows "\<exists>y h' bs. copy x h = (Inr y, h') \<and> extends h h' \<and> heap_ok h' \<and> view h' y = Some (v, bs) \<and> set as \<inter> set bs = {}
    \<and> (\<forall>h2. (\<forall>a. a \<notin> set bs \<longrightarrow> h_cells h2 a = h_cells h' a) \<longrightarrow> view h2 x = Some (v, as))
    \<and> (\<forall>h2. (\<forall>a. a \<notin> set as \<longrightarrow> h_cells h2 a = h_cells h' a) \<longrightarrow> view h2 y = Some (v, bs))"
proof -
  obtain y h' bs where c: "copy x h = (Inr y, h')" "extends h h'" "heap_ok h'" "view h' y = Some (v, bs)"
    "\<forall>b \<in> set bs. h_next h \<le> b" using copies [OF assms] by blast
  have dis: "set as \<inter> set bs = {}" using below [OF assms] c(5) by fastforce
  have x: "view h' x = Some (v, as)" by (rule stable [OF assms(1) c(2) assms(2)])
  have "view h2 x = Some (v, as)" if "\<forall>a. a \<notin> set bs \<longrightarrow> h_cells h2 a = h_cells h' a" for h2
    by (rule local [OF x]) (use that dis in auto)
  moreover have "view h2 y = Some (v, bs)" if "\<forall>a. a \<notin> set as \<longrightarrow> h_cells h2 a = h_cells h' a" for h2
    by (rule local [OF c(4)]) (use that dis in auto)
  ultimately show ?thesis using c(1-4) dis by blast
qed

end

text \<open>How a copier is put together from others.\<close>

named_theorems copying

subsection \<open>Values without addresses\<close>

definition viewFlat :: "heap \<Rightarrow> 'a \<Rightarrow> ('a \<times> addr list) option" where
  "viewFlat h x = Some (x, [])"

lemma copier_flat: "copier viewFlat ret"
  by unfold_locales (auto simp: viewFlat_def ret_def)

subsection \<open>Pairs, pointers, arrays\<close>

definition viewPair ::
    "(heap \<Rightarrow> 'a \<Rightarrow> ('v \<times> addr list) option) \<Rightarrow> (heap \<Rightarrow> 'b \<Rightarrow> ('u \<times> addr list) option)
     \<Rightarrow> heap \<Rightarrow> 'a \<times> 'b \<Rightarrow> (('v \<times> 'u) \<times> addr list) option" where
  "viewPair view1 view2 h xy =
     Option.bind (view1 h (fst xy)) (\<lambda>(v, as). Option.bind (view2 h (snd xy)) (\<lambda>(u, bs). Some ((v, u), as @ bs)))"

definition copyPair :: "('a \<Rightarrow> (heap, 'a) M) \<Rightarrow> ('b \<Rightarrow> (heap, 'b) M) \<Rightarrow> 'a \<times> 'b \<Rightarrow> (heap, 'a \<times> 'b) M" where
  "copyPair copy1 copy2 xy = bindE (copy1 (fst xy)) (\<lambda>x. bindE (copy2 (snd xy)) (\<lambda>y. ret (x, y)))"

text \<open>
  The fields \<open>get\<close> of a struct are copied and put into a copy of the struct, the others are plain values;
  \<open>mk\<close> makes the value from the plain fields of the struct and the values of the others.
\<close>

definition viewFields ::
    "('s \<Rightarrow> 'a) \<Rightarrow> ('s \<Rightarrow> 'v \<Rightarrow> 'u) \<Rightarrow> (heap \<Rightarrow> 'a \<Rightarrow> ('v \<times> addr list) option) \<Rightarrow> heap \<Rightarrow> 's \<Rightarrow> ('u \<times> addr list) option" where
  "viewFields get mk view h s = map_option (\<lambda>(v, as). (mk s v, as)) (view h (get s))"

definition copyFields :: "('s \<Rightarrow> 'a) \<Rightarrow> ('a \<Rightarrow> 's \<Rightarrow> 's) \<Rightarrow> ('a \<Rightarrow> (heap, 'a) M) \<Rightarrow> 's \<Rightarrow> (heap, 's) M" where
  "copyFields get put copy s = bindE (copy (get s)) (\<lambda>fields. ret (put fields s))"

text \<open>A pointer: \<open>*out = new(T)\<close> and a copy of what the old one points to, unless it is nil.\<close>

definition viewPtr ::
    "(cell \<Rightarrow> 'h option) \<Rightarrow> (heap \<Rightarrow> 'h \<Rightarrow> ('v \<times> addr list) option) \<Rightarrow> heap \<Rightarrow> ptr \<Rightarrow> ('v option \<times> addr list) option" where
  "viewPtr proj view h p = (case p of
     None \<Rightarrow> Some (None, [])
   | Some a \<Rightarrow> Option.bind (select proj h a) (\<lambda>x. map_option (\<lambda>(v, as). (Some v, a # as)) (view h x)))"

definition newPtr :: "('h \<Rightarrow> cell) \<Rightarrow> (cell \<Rightarrow> 'h option) \<Rightarrow> ('h \<Rightarrow> (heap, 'h) M) \<Rightarrow> ptr \<Rightarrow> (heap, ptr) M" where
  "newPtr wrap proj copy p = (case p of
     None \<Rightarrow> ret None
   | Some a \<Rightarrow> bindE (load proj a) (\<lambda>x. bindE (copy x) (\<lambda>y. bindE (alloc (wrap y)) (\<lambda>b. ret (Some b)))))"

text \<open>A slice: \<open>make([]T, len(*in))\<close> with a copy of each element in its place.\<close>

fun viewAll :: "(heap \<Rightarrow> 'h \<Rightarrow> ('v \<times> addr list) option) \<Rightarrow> heap \<Rightarrow> 'h list \<Rightarrow> ('v list \<times> addr list) option" where
  "viewAll view h [] = Some ([], [])"
| "viewAll view h (x # xs) =
     Option.bind (view h x) (\<lambda>(v, as). map_option (\<lambda>(vs, bs). (v # vs, as @ bs)) (viewAll view h xs))"

fun copyAll :: "('h \<Rightarrow> (heap, 'h) M) \<Rightarrow> 'h list \<Rightarrow> (heap, 'h list) M" where
  "copyAll copy [] = ret []"
| "copyAll copy (x # xs) = bindE (copy x) (\<lambda>y. bindE (copyAll copy xs) (\<lambda>ys. ret (y # ys)))"

definition viewSlice ::
    "(cell \<Rightarrow> 'h list option) \<Rightarrow> (heap \<Rightarrow> 'h \<Rightarrow> ('v \<times> addr list) option) \<Rightarrow> heap \<Rightarrow> slice \<Rightarrow> ('v list \<times> addr list) option" where
  "viewSlice proj view h s = (case s of
     None \<Rightarrow> Some ([], [])
   | Some (a, off, n) \<Rightarrow> Option.bind (select proj h a) (\<lambda>xs.
       if off + n \<le> length xs
       then map_option (\<lambda>(vs, as). (vs, a # as)) (viewAll view h (take n (drop off xs))) else None))"

definition makeSlice ::
    "('h list \<Rightarrow> cell) \<Rightarrow> (cell \<Rightarrow> 'h list option) \<Rightarrow> ('h \<Rightarrow> (heap, 'h) M) \<Rightarrow> slice \<Rightarrow> (heap, slice) M" where
  "makeSlice wrap proj copy s = (case s of
     None \<Rightarrow> ret None
   | Some (a, off, n) \<Rightarrow> bindE (load proj a) (\<lambda>xs. bindE (copyAll copy (take n (drop off xs))) (\<lambda>ys.
       bindE (alloc (wrap ys)) (\<lambda>b. ret (Some (b, 0, n))))))"

lemma copier_pair:
  assumes "copier view1 copy1" and "copier view2 copy2"
  shows "copier (viewPair view1 view2) (copyPair copy1 copy2)"
proof unfold_locales
  fix h h' :: heap and xy v as
  assume "viewPair view1 view2 h xy = Some (v, as)" and same: "\<And>a. a \<in> set as \<Longrightarrow> h_cells h' a = h_cells h a"
  then obtain v1 as1 v2 as2 where v: "view1 h (fst xy) = Some (v1, as1)" "view2 h (snd xy) = Some (v2, as2)"
    "v = (v1, v2)" "as = as1 @ as2"
    by (auto simp: viewPair_def bind_eq_Some_conv)
  then have "view1 h' (fst xy) = Some (v1, as1)" "view2 h' (snd xy) = Some (v2, as2)"
    using copier.local [OF assms(1) v(1)] copier.local [OF assms(2) v(2)] same by auto
  then show "viewPair view1 view2 h' xy = Some (v, as)" by (simp add: viewPair_def v)
next
  fix h xy v as a
  assume "viewPair view1 view2 h xy = Some (v, as)" "a \<in> set as"
  then show "h_cells h a \<noteq> None"
    using copier.live [OF assms(1)] copier.live [OF assms(2)]
    by (auto simp: viewPair_def bind_eq_Some_conv)
next
  fix h xy v as
  assume ok: "heap_ok h" and "viewPair view1 view2 h xy = Some (v, as)"
  then obtain v1 as1 v2 as2 where v: "view1 h (fst xy) = Some (v1, as1)" "view2 h (snd xy) = Some (v2, as2)" "v = (v1, v2)"
    by (auto simp: viewPair_def bind_eq_Some_conv)
  obtain x h1 bs1 where x: "copy1 (fst xy) h = (Inr x, h1)" "extends h h1" "heap_ok h1" "view1 h1 x = Some (v1, bs1)"
    "\<forall>b \<in> set bs1. h_next h \<le> b" using copier.copies [OF assms(1) ok v(1)] by blast
  have "view2 h1 (snd xy) = Some (v2, as2)" by (rule copier.stable [OF assms(2) ok x(2) v(2)])
  then obtain y h2 bs2 where y: "copy2 (snd xy) h1 = (Inr y, h2)" "extends h1 h2" "heap_ok h2" "view2 h2 y = Some (v2, bs2)"
    "\<forall>b \<in> set bs2. h_next h1 \<le> b" using copier.copies [OF assms(2) x(3)] by blast
  have "view1 h2 x = Some (v1, bs1)" by (rule copier.stable [OF assms(1) x(3) y(2) x(4)])
  with x y show "\<exists>y h' bs. copyPair copy1 copy2 xy h = (Inr y, h') \<and> extends h h' \<and> heap_ok h'
      \<and> viewPair view1 view2 h' y = Some (v, bs) \<and> (\<forall>b \<in> set bs. h_next h \<le> b)"
    by (intro exI [of _ "(x, y)"] exI [of _ h2] exI [of _ "bs1 @ bs2"])
      (auto simp: copyPair_def bindE_def ret_def viewPair_def v(3) extends_iff)
qed

lemma copier_fields:
  assumes copy: "copier view copy" and get: "\<And>fs s. get (put fs s) = fs" and mk: "\<And>fs s v. mk (put fs s) v = mk s v"
  shows "copier (viewFields get mk view) (copyFields get put copy)"
proof unfold_locales
  fix h h' :: heap and s v as
  assume "viewFields get mk view h s = Some (v, as)" "\<And>a. a \<in> set as \<Longrightarrow> h_cells h' a = h_cells h a"
  then show "viewFields get mk view h' s = Some (v, as)"
    using copier.local [OF copy, of h "get s" _ as h'] by (auto simp: viewFields_def)
next
  fix h s v as a
  assume "viewFields get mk view h s = Some (v, as)" "a \<in> set as"
  then show "h_cells h a \<noteq> None"
    using copier.live [OF copy, of h "get s" _ as a] by (auto simp: viewFields_def)
next
  fix h s v as
  assume ok: "heap_ok h" and "viewFields get mk view h s = Some (v, as)"
  then obtain u where u: "view h (get s) = Some (u, as)" "v = mk s u" by (auto simp: viewFields_def)
  obtain y h' bs where y: "copy (get s) h = (Inr y, h')" "extends h h'" "heap_ok h'" "view h' y = Some (u, bs)"
    "\<forall>b \<in> set bs. h_next h \<le> b" using copier.copies [OF copy ok u(1)] by blast
  then show "\<exists>y h' bs. copyFields get put copy s h = (Inr y, h') \<and> extends h h' \<and> heap_ok h'
      \<and> viewFields get mk view h' y = Some (v, bs) \<and> (\<forall>b \<in> set bs. h_next h \<le> b)"
    by (intro exI [of _ "put y s"] exI [of _ h'] exI [of _ bs])
      (simp add: copyFields_def bindE_def ret_def viewFields_def get mk u(2))
qed

text \<open>A new cell after a copy: what pointers and slices have in common.\<close>

lemma alloc_after:
  assumes "copier view copy" and "copy x h = (Inr y, h1)" "extends h h1" "heap_ok h1" "view h1 y = Some (v, bs)"
    "\<forall>b \<in> set bs. h_next h \<le> b"
  shows "\<exists>b h'. alloc c h1 = (Inr b, h') \<and> extends h h' \<and> heap_ok h' \<and> h_cells h' b = Some c \<and> h_next h \<le> b
    \<and> view h' y = Some (v, bs)"
proof -
  obtain b h' where a: "alloc c h1 = (Inr b, h')" by (auto simp: alloc_def)
  note props = alloc_props [OF assms(4) a]
  then have "extends h h'" "b = h_next h1" using extends_trans [OF assms(3)] by auto
  moreover have "h_next h \<le> h_next h1" using assms(3) by (simp add: extends_iff)
  moreover have "view h' y = Some (v, bs)" by (rule copier.stable [OF assms(1,4) props(2) assms(5)])
  ultimately show ?thesis using a props by auto
qed

lemma copier_ptr:
  assumes copy: "copier view copy" and wrap: "\<And>x. proj (wrap x) = Some x"
  shows "copier (viewPtr proj view) (newPtr wrap proj copy)"
proof unfold_locales
  fix h h' :: heap and p v as
  assume view: "viewPtr proj view h p = Some (v, as)" and same: "\<And>a. a \<in> set as \<Longrightarrow> h_cells h' a = h_cells h a"
  show "viewPtr proj view h' p = Some (v, as)"
  proof (cases p)
    case (Some a)
    with view obtain x u bs where x: "select proj h a = Some x" "view h x = Some (u, bs)"
      "v = Some u" "as = a # bs" by (auto simp: viewPtr_def bind_eq_Some_conv)
    moreover have "view h' x = Some (u, bs)" by (rule copier.local [OF copy x(2)]) (use same x(4) in simp)
    ultimately show ?thesis using select_cong [OF same [of a], of proj] Some by (simp add: viewPtr_def)
  qed (use view in \<open>simp add: viewPtr_def\<close>)
next
  fix h p v as a
  assume "viewPtr proj view h p = Some (v, as)" "a \<in> set as"
  then show "h_cells h a \<noteq> None"
    using copier.live [OF copy, of h] by (auto simp: viewPtr_def bind_eq_Some_conv dest: select_live split: option.splits)
next
  fix h p v as
  assume ok: "heap_ok h" and view: "viewPtr proj view h p = Some (v, as)"
  show "\<exists>y h' bs. newPtr wrap proj copy p h = (Inr y, h') \<and> extends h h' \<and> heap_ok h'
      \<and> viewPtr proj view h' y = Some (v, bs) \<and> (\<forall>b \<in> set bs. h_next h \<le> b)"
  proof (cases p)
    case None
    with view ok show ?thesis by (auto simp: newPtr_def viewPtr_def ret_def)
  next
    case (Some a)
    with view obtain x u cs where x: "select proj h a = Some x" "view h x = Some (u, cs)" "v = Some u"
      by (auto simp: viewPtr_def bind_eq_Some_conv)
    obtain y h1 bs where y: "copy x h = (Inr y, h1)" "extends h h1" "heap_ok h1" "view h1 y = Some (u, bs)"
      "\<forall>b \<in> set bs. h_next h \<le> b" using copier.copies [OF copy ok x(2)] by blast
    from alloc_after [OF copy this, of "wrap y"] obtain b h' where b: "alloc (wrap y) h1 = (Inr b, h')" "extends h h'"
      "heap_ok h'" "h_cells h' b = Some (wrap y)" "h_next h \<le> b" "view h' y = Some (u, bs)" by blast
    then show ?thesis using Some x(1,3) y(1,5)
      by (intro exI [of _ "Some b"] exI [of _ h'] exI [of _ "b # bs"])
        (auto simp: newPtr_def bindE_def ret_def load_def viewPtr_def wrap select_Some)
  qed
qed

lemma copier_all:
  assumes copy: "copier view copy"
  shows "copier (viewAll view) (copyAll copy)"
proof unfold_locales
  fix h h' :: heap and xs v as
  assume "viewAll view h xs = Some (v, as)" "\<And>a. a \<in> set as \<Longrightarrow> h_cells h' a = h_cells h a"
  then show "viewAll view h' xs = Some (v, as)"
  proof (induction xs arbitrary: v as)
    case (Cons x xs)
    then obtain u bs us cs where x: "view h x = Some (u, bs)" "viewAll view h xs = Some (us, cs)" "v = u # us" "as = bs @ cs"
      by (auto simp: bind_eq_Some_conv)
    moreover have "view h' x = Some (u, bs)" by (rule copier.local [OF copy x(1)]) (use Cons.prems x(4) in simp)
    moreover have "viewAll view h' xs = Some (us, cs)" by (rule Cons.IH [OF x(2)]) (use Cons.prems x(4) in simp)
    ultimately show ?case by simp
  qed simp
next
  fix h xs v as a
  assume "viewAll view h xs = Some (v, as)" "a \<in> set as"
  then show "h_cells h a \<noteq> None"
  proof (induction xs arbitrary: v as)
    case (Cons x xs)
    then obtain u bs us cs where x: "view h x = Some (u, bs)" "viewAll view h xs = Some (us, cs)" "a \<in> set bs \<or> a \<in> set cs"
      by (auto simp: bind_eq_Some_conv)
    then show ?case using copier.live [OF copy x(1)] Cons.IH [OF x(2)] by blast
  qed simp
next
  fix h xs v as
  assume "heap_ok h" and "viewAll view h xs = Some (v, as)"
  then show "\<exists>y h' bs. copyAll copy xs h = (Inr y, h') \<and> extends h h' \<and> heap_ok h'
      \<and> viewAll view h' y = Some (v, bs) \<and> (\<forall>b \<in> set bs. h_next h \<le> b)"
  proof (induction xs arbitrary: v as h)
    case Nil
    then show ?case by (auto simp: ret_def)
  next
    case (Cons x xs)
    then obtain u as us cs where x: "view h x = Some (u, as)" "viewAll view h xs = Some (us, cs)" "v = u # us"
      by (auto simp: bind_eq_Some_conv)
    obtain y h1 bs1 where y: "copy x h = (Inr y, h1)" "extends h h1" "heap_ok h1" "view h1 y = Some (u, bs1)"
      "\<forall>b \<in> set bs1. h_next h \<le> b" using copier.copies [OF copy Cons.prems(1) x(1)] by blast
    have "viewAll view h1 xs = Some (us, cs)"
      using x(2)
    proof (induction xs arbitrary: us cs)
      case (Cons z zs)
      then show ?case using copier.stable [OF copy \<open>heap_ok h\<close> y(2)] by (fastforce simp: bind_eq_Some_conv)
    qed simp
    from Cons.IH [OF y(3) this] obtain ys h2 bs2 where ys: "copyAll copy xs h1 = (Inr ys, h2)" "extends h1 h2" "heap_ok h2"
      "viewAll view h2 ys = Some (us, bs2)" "\<forall>b \<in> set bs2. h_next h1 \<le> b" by blast
    have "view h2 y = Some (u, bs1)" by (rule copier.stable [OF copy y(3) ys(2) y(4)])
    with y ys show ?case
      by (intro exI [of _ "y # ys"] exI [of _ h2] exI [of _ "bs1 @ bs2"])
        (auto simp: bindE_def ret_def x(3) extends_iff)
  qed
qed

lemma copyAll_length: "copyAll copy xs h = (Inr ys, h') \<Longrightarrow> length ys = length xs"
  by (induction xs arbitrary: ys h) (auto simp: bindE_def ret_def split: prod.splits sum.splits)

lemma copier_slice:
  assumes copy: "copier view copy" and wrap: "\<And>x. proj (wrap x) = Some x"
  shows "copier (viewSlice proj view) (makeSlice wrap proj copy)"
proof unfold_locales
  note all = copier_all [OF copy]
  fix h h' :: heap and s v as
  assume view: "viewSlice proj view h s = Some (v, as)" and same: "\<And>a. a \<in> set as \<Longrightarrow> h_cells h' a = h_cells h a"
  show "viewSlice proj view h' s = Some (v, as)"
  proof (cases s)
    case (Some t)
    obtain a off n where t: "t = (a, off, n)" by (cases t)
    with view Some obtain xs bs where x: "select proj h a = Some xs" "off + n \<le> length xs"
      "viewAll view h (take n (drop off xs)) = Some (v, bs)" "as = a # bs"
      by (auto simp: viewSlice_def bind_eq_Some_conv split: if_splits)
    moreover have "viewAll view h' (take n (drop off xs)) = Some (v, bs)"
      by (rule copier.local [OF all x(3)]) (use same x(4) in simp)
    ultimately show ?thesis using select_cong [OF same [of a], of proj] Some t by (simp add: viewSlice_def)
  qed (use view in \<open>simp add: viewSlice_def\<close>)
next
  note all = copier_all [OF copy]
  fix h s v as a
  assume "viewSlice proj view h s = Some (v, as)" "a \<in> set as"
  then show "h_cells h a \<noteq> None"
    using copier.live [OF all, of h] select_live [of proj h a]
    by (auto simp: viewSlice_def bind_eq_Some_conv split: option.splits if_splits)
next
  note all = copier_all [OF copy]
  fix h s v as
  assume ok: "heap_ok h" and view: "viewSlice proj view h s = Some (v, as)"
  show "\<exists>y h' bs. makeSlice wrap proj copy s h = (Inr y, h') \<and> extends h h' \<and> heap_ok h'
      \<and> viewSlice proj view h' y = Some (v, bs) \<and> (\<forall>b \<in> set bs. h_next h \<le> b)"
  proof (cases s)
    case None
    with view ok show ?thesis by (auto simp: makeSlice_def viewSlice_def ret_def)
  next
    case (Some t)
    obtain a off n where t: "t = (a, off, n)" by (cases t)
    with view Some obtain xs cs where x: "select proj h a = Some xs" "off + n \<le> length xs"
      "viewAll view h (take n (drop off xs)) = Some (v, cs)"
      by (auto simp: viewSlice_def bind_eq_Some_conv split: if_splits)
    obtain ys h1 bs where y: "copyAll copy (take n (drop off xs)) h = (Inr ys, h1)" "extends h h1" "heap_ok h1"
      "viewAll view h1 ys = Some (v, bs)" "\<forall>b \<in> set bs. h_next h \<le> b" using copier.copies [OF all ok x(3)] by blast
    from alloc_after [OF all this, of "wrap ys"] obtain b h' where b: "alloc (wrap ys) h1 = (Inr b, h')" "extends h h'"
      "heap_ok h'" "h_cells h' b = Some (wrap ys)" "h_next h \<le> b" "viewAll view h' ys = Some (v, bs)" by blast
    have "length ys = n" using copyAll_length [OF y(1)] x(2) by simp
    then show ?thesis using Some t x(1) y(1,5) b
      by (intro exI [of _ "Some (b, 0, n)"] exI [of _ h'] exI [of _ "b # bs"])
        (auto simp: makeSlice_def bindE_def ret_def load_def viewSlice_def wrap select_Some)
  qed
qed

section \<open>The cells of each kind\<close>

definition cellBool :: "cell \<Rightarrow> bool option" where
  "cellBool c = (case c of CBool x \<Rightarrow> Some x | _ \<Rightarrow> None)"

definition cellInt :: "cell \<Rightarrow> int option" where
  "cellInt c = (case c of CInt x \<Rightarrow> Some x | _ \<Rightarrow> None)"

definition cellString :: "cell \<Rightarrow> string option" where
  "cellString c = (case c of CString x \<Rightarrow> Some x | _ \<Rightarrow> None)"

definition cellBytes :: "cell \<Rightarrow> string option" where
  "cellBytes c = (case c of CBytes x \<Rightarrow> Some x | _ \<Rightarrow> None)"

definition cellStrings :: "cell \<Rightarrow> (string list) option" where
  "cellStrings c = (case c of CStrs x \<Rightarrow> Some x | _ \<Rightarrow> None)"

definition cellMap :: "cell \<Rightarrow> strmap option" where
  "cellMap c = (case c of CMap x \<Rightarrow> Some x | _ \<Rightarrow> None)"

definition cellMaps :: "cell \<Rightarrow> ((string \<times> ptr) list) option" where
  "cellMaps c = (case c of CMaps x \<Rightarrow> Some x | _ \<Rightarrow> None)"

definition cellInline :: "cell \<Rightarrow> FileContentInline option" where
  "cellInline c = (case c of CInline x \<Rightarrow> Some x | _ \<Rightarrow> None)"

definition cellContent :: "cell \<Rightarrow> FileContentH option" where
  "cellContent c = (case c of CContent x \<Rightarrow> Some x | _ \<Rightarrow> None)"

definition cellFile :: "cell \<Rightarrow> FileH option" where
  "cellFile c = (case c of CFile x \<Rightarrow> Some x | _ \<Rightarrow> None)"

definition cellFiles :: "cell \<Rightarrow> (FileH list) option" where
  "cellFiles c = (case c of CFiles x \<Rightarrow> Some x | _ \<Rightarrow> None)"

definition cellDropIn :: "cell \<Rightarrow> DropIn option" where
  "cellDropIn c = (case c of CDropIn x \<Rightarrow> Some x | _ \<Rightarrow> None)"

definition cellDropIns :: "cell \<Rightarrow> (DropIn list) option" where
  "cellDropIns c = (case c of CDropIns x \<Rightarrow> Some x | _ \<Rightarrow> None)"

definition cellUnit :: "cell \<Rightarrow> UnitH option" where
  "cellUnit c = (case c of CUnit x \<Rightarrow> Some x | _ \<Rightarrow> None)"

definition cellUnits :: "cell \<Rightarrow> (UnitH list) option" where
  "cellUnits c = (case c of CUnits x \<Rightarrow> Some x | _ \<Rightarrow> None)"

definition cellRuntime :: "cell \<Rightarrow> ContainerRuntimeSpecH option" where
  "cellRuntime c = (case c of CRuntime x \<Rightarrow> Some x | _ \<Rightarrow> None)"

definition cellRuntimes :: "cell \<Rightarrow> (ContainerRuntimeSpecH list) option" where
  "cellRuntimes c = (case c of CRuntimes x \<Rightarrow> Some x | _ \<Rightarrow> None)"

definition cellModule :: "cell \<Rightarrow> CloudInitModuleH option" where
  "cellModule c = (case c of CModule x \<Rightarrow> Some x | _ \<Rightarrow> None)"

definition cellProvider :: "cell \<Rightarrow> CloudProviderSpecH option" where
  "cellProvider c = (case c of CProvider x \<Rightarrow> Some x | _ \<Rightarrow> None)"

definition cellProviders :: "cell \<Rightarrow> (CloudProviderSpecH list) option" where
  "cellProviders c = (case c of CProviders x \<Rightarrow> Some x | _ \<Rightarrow> None)"

definition cellOSPConfig :: "cell \<Rightarrow> OSPConfigH option" where
  "cellOSPConfig c = (case c of COSPConfig x \<Rightarrow> Some x | _ \<Rightarrow> None)"

definition cellOSCConfig :: "cell \<Rightarrow> OSCConfigH option" where
  "cellOSCConfig c = (case c of COSCConfig x \<Rightarrow> Some x | _ \<Rightarrow> None)"

definition cellOSPSpec :: "cell \<Rightarrow> OperatingSystemProfileSpecH option" where
  "cellOSPSpec c = (case c of COSPSpec x \<Rightarrow> Some x | _ \<Rightarrow> None)"

definition cellOSCSpec :: "cell \<Rightarrow> OperatingSystemConfigSpecH option" where
  "cellOSCSpec c = (case c of COSCSpec x \<Rightarrow> Some x | _ \<Rightarrow> None)"

definition cellOSP :: "cell \<Rightarrow> OperatingSystemProfileH option" where
  "cellOSP c = (case c of COSP x \<Rightarrow> Some x | _ \<Rightarrow> None)"

definition cellOSPs :: "cell \<Rightarrow> (OperatingSystemProfileH list) option" where
  "cellOSPs c = (case c of COSPs x \<Rightarrow> Some x | _ \<Rightarrow> None)"

definition cellOSC :: "cell \<Rightarrow> OperatingSystemConfigH option" where
  "cellOSC c = (case c of COSC x \<Rightarrow> Some x | _ \<Rightarrow> None)"

definition cellOSCs :: "cell \<Rightarrow> (OperatingSystemConfigH list) option" where
  "cellOSCs c = (case c of COSCs x \<Rightarrow> Some x | _ \<Rightarrow> None)"

definition cellOSPList :: "cell \<Rightarrow> OperatingSystemProfileListH option" where
  "cellOSPList c = (case c of COSPList x \<Rightarrow> Some x | _ \<Rightarrow> None)"

definition cellOSCList :: "cell \<Rightarrow> OperatingSystemConfigListH option" where
  "cellOSCList c = (case c of COSCList x \<Rightarrow> Some x | _ \<Rightarrow> None)"

lemmas cell_defs = cellBool_def cellInt_def cellString_def cellBytes_def cellStrings_def cellMap_def
  cellMaps_def cellInline_def cellContent_def cellFile_def cellFiles_def cellDropIn_def
  cellDropIns_def cellUnit_def cellUnits_def cellRuntime_def cellRuntimes_def cellModule_def
  cellProvider_def cellProviders_def cellOSPConfig_def cellOSCConfig_def cellOSPSpec_def cellOSCSpec_def
  cellOSP_def cellOSPs_def cellOSC_def cellOSCs_def cellOSPList_def cellOSCList_def

lemma cell_simps [simp]:
  "cellBool (CBool x0) = Some x0"
  "cellInt (CInt n) = Some n"
  "cellString (CString x1) = Some x1"
  "cellBytes (CBytes x2) = Some x2"
  "cellStrings (CStrs x3) = Some x3"
  "cellMap (CMap x4) = Some x4"
  "cellMaps (CMaps x5) = Some x5"
  "cellInline (CInline x6) = Some x6"
  "cellContent (CContent x7) = Some x7"
  "cellFile (CFile x8) = Some x8"
  "cellFiles (CFiles x9) = Some x9"
  "cellDropIn (CDropIn x10) = Some x10"
  "cellDropIns (CDropIns x11) = Some x11"
  "cellUnit (CUnit x12) = Some x12"
  "cellUnits (CUnits x13) = Some x13"
  "cellRuntime (CRuntime x14) = Some x14"
  "cellRuntimes (CRuntimes x15) = Some x15"
  "cellModule (CModule x16) = Some x16"
  "cellProvider (CProvider x17) = Some x17"
  "cellProviders (CProviders x18) = Some x18"
  "cellOSPConfig (COSPConfig x19) = Some x19"
  "cellOSCConfig (COSCConfig x20) = Some x20"
  "cellOSPSpec (COSPSpec x21) = Some x21"
  "cellOSCSpec (COSCSpec x22) = Some x22"
  "cellOSP (COSP x23) = Some x23"
  "cellOSPs (COSPs x24) = Some x24"
  "cellOSC (COSC x25) = Some x25"
  "cellOSCs (COSCs x26) = Some x26"
  "cellOSPList (COSPList x27) = Some x27"
  "cellOSCList (COSCList x28) = Some x28"
  by (simp_all add: cell_defs)

section \<open>Maps and arrays of strings\<close>

text \<open>
  Maps. A new map is filled entry by entry; the keys of a map are distinct. In a map of maps each value is
  copied in turn, a nil one staying nil.
\<close>

definition viewMap :: "heap \<Rightarrow> ptr \<Rightarrow> (strmap \<times> addr list) option" where
  "viewMap h p = (case p of
     None \<Rightarrow> Some ([], [])
   | Some a \<Rightarrow> Option.bind (select cellMap h a) (\<lambda>m. if distinct (keys m) then Some (m, [a]) else None))"

definition makeMap :: "ptr \<Rightarrow> (heap, ptr) M" where
  "makeMap p = (case p of
     None \<Rightarrow> ret None
   | Some a \<Rightarrow> bindE (load cellMap a) (\<lambda>m.
       bindE (alloc (CMap (fold (\<lambda>(key, val) out. mput key val out) m []))) (\<lambda>b. ret (Some b))))"

definition viewEntry :: "heap \<Rightarrow> string \<times> ptr \<Rightarrow> ((string \<times> strmap) \<times> addr list) option" where
  "viewEntry = viewPair viewFlat viewMap"

definition viewMaps :: "heap \<Rightarrow> ptr \<Rightarrow> ((string \<times> strmap) list \<times> addr list) option" where
  "viewMaps h p = (case p of
     None \<Rightarrow> Some ([], [])
   | Some a \<Rightarrow> Option.bind (select cellMaps h a) (\<lambda>m. if distinct (keys m)
       then map_option (\<lambda>(vs, as). (vs, a # as)) (viewAll viewEntry h m) else None))"

definition makeMaps :: "ptr \<Rightarrow> (heap, ptr) M" where
  "makeMaps p = (case p of
     None \<Rightarrow> ret None
   | Some a \<Rightarrow> bindE (load cellMaps a) (\<lambda>m.
       bindE (copyAll (copyPair ret makeMap) m) (\<lambda>entries.
       bindE (alloc (CMaps (fold (\<lambda>(key, val) out. mput key val out) entries []))) (\<lambda>b. ret (Some b)))))"

lemma fold_mput_id:
  assumes "distinct (keys (acc @ m))"
  shows "fold (\<lambda>(k, v) out. mput k v out) m acc = acc @ m"
  using assms
proof (induction m arbitrary: acc)
  case (Cons p m)
  obtain k v where p: "p = (k, v)" by (cases p)
  have "mput k v acc = acc @ [(k, v)]"
    using Cons.prems by (auto simp: p mput_def keys_def) (induction acc, auto)
  with Cons.IH [of "acc @ [(k, v)]"] Cons.prems show ?case by (simp add: p)
qed simp

lemma copier_map: "copier viewMap makeMap"
proof unfold_locales
  fix h h' :: heap and p v as
  assume "viewMap h p = Some (v, as)" "\<And>a. a \<in> set as \<Longrightarrow> h_cells h' a = h_cells h a"
  then show "viewMap h' p = Some (v, as)"
    by (auto simp: viewMap_def select_def bind_eq_Some_conv split: option.splits if_splits)
next
  fix h p v as a
  assume "viewMap h p = Some (v, as)" "a \<in> set as"
  then show "h_cells h a \<noteq> None"
    by (auto simp: viewMap_def bind_eq_Some_conv dest: select_live split: option.splits if_splits)
next
  fix h p v as
  assume ok: "heap_ok h" and view: "viewMap h p = Some (v, as)"
  show "\<exists>y h' bs. makeMap p h = (Inr y, h') \<and> extends h h' \<and> heap_ok h' \<and> viewMap h' y = Some (v, bs)
      \<and> (\<forall>b \<in> set bs. h_next h \<le> b)"
  proof (cases p)
    case None
    with view ok show ?thesis by (auto simp: makeMap_def viewMap_def ret_def)
  next
    case (Some a)
    with view have a: "select cellMap h a = Some v" "distinct (keys v)"
      by (auto simp: viewMap_def bind_eq_Some_conv split: if_splits)
    obtain r h' where run: "alloc (CMap v) h = (r, h')" by (cases "alloc (CMap v) h")
    note props = alloc_props [OF ok run]
    have "makeMap p h = (Inr (Some (h_next h)), h')"
      using Some a run props(1) fold_mput_id [of "[]" v] by (simp add: makeMap_def bindE_def load_def ret_def)
    moreover have "viewMap h' (Some (h_next h)) = Some (v, [h_next h])"
      using a(2) by (simp add: viewMap_def select_Some [OF props(4)])
    ultimately show ?thesis using props by fastforce
  qed
qed

lemma copyAll_keys:
  "copyAll (copyPair ret makeMap) m h = (Inr es, h') \<Longrightarrow> keys es = keys m"
proof (induction m arbitrary: h es)
  case Nil
  then show ?case by (simp add: ret_def)
next
  case (Cons p m)
  from Cons.prems obtain q h1 where q: "copyPair ret makeMap p h = (Inr q, h1)"
    and "bindE (copyAll (copyPair ret makeMap) m) (\<lambda>ys. ret (q # ys)) h1 = (Inr es, h')"
    unfolding copyAll.simps bindE_def [of "copyPair ret makeMap p"] by (auto split: prod.splits sum.splits)
  then obtain qs h2 where qs: "copyAll (copyPair ret makeMap) m h1 = (Inr qs, h2)" "ret (q # qs) h2 = (Inr es, h')"
    unfolding bindE_def by (auto split: prod.splits sum.splits)
  from q have "fst q = fst p" by (auto simp: copyPair_def bindE_def ret_def split: prod.splits sum.splits)
  moreover from qs(2) have "es = q # qs" "h2 = h'" by (simp_all add: ret_def)
  ultimately show ?case using Cons.IH qs(1) by (simp add: keys_def)
qed

lemma copier_entries: "copier (viewAll viewEntry) (copyAll (copyPair ret makeMap))"
  unfolding viewEntry_def by (rule copier_all [OF copier_pair [OF copier_flat copier_map]])

lemma copier_maps: "copier viewMaps makeMaps"
proof unfold_locales
  note all = copier_entries
  fix h h' :: heap and p v as
  assume view: "viewMaps h p = Some (v, as)" and same: "\<And>a. a \<in> set as \<Longrightarrow> h_cells h' a = h_cells h a"
  show "viewMaps h' p = Some (v, as)"
  proof (cases p)
    case (Some a)
    with view obtain m bs where m: "select cellMaps h a = Some m" "distinct (keys m)" "viewAll viewEntry h m = Some (v, bs)"
      "as = a # bs" by (auto simp: viewMaps_def bind_eq_Some_conv split: if_splits)
    moreover have "viewAll viewEntry h' m = Some (v, bs)" by (rule copier.local [OF all m(3)]) (use same m(4) in simp)
    ultimately show ?thesis using select_cong [OF same [of a], of cellMaps] Some by (simp add: viewMaps_def)
  qed (use view in \<open>simp add: viewMaps_def\<close>)
next
  note all = copier_entries
  fix h p v as a
  assume "viewMaps h p = Some (v, as)" "a \<in> set as"
  then show "h_cells h a \<noteq> None"
    using copier.live [OF all, of h] select_live [of cellMaps h a]
    by (auto simp: viewMaps_def bind_eq_Some_conv split: option.splits if_splits)
next
  note all = copier_entries
  fix h p v as
  assume ok: "heap_ok h" and view: "viewMaps h p = Some (v, as)"
  show "\<exists>y h' bs. makeMaps p h = (Inr y, h') \<and> extends h h' \<and> heap_ok h' \<and> viewMaps h' y = Some (v, bs)
      \<and> (\<forall>b \<in> set bs. h_next h \<le> b)"
  proof (cases p)
    case None
    with view ok show ?thesis by (auto simp: makeMaps_def viewMaps_def ret_def)
  next
    case (Some a)
    with view obtain m cs where m: "select cellMaps h a = Some m" "distinct (keys m)" "viewAll viewEntry h m = Some (v, cs)"
      by (auto simp: viewMaps_def bind_eq_Some_conv split: if_splits)
    obtain es h1 bs where es: "copyAll (copyPair ret makeMap) m h = (Inr es, h1)" "extends h h1" "heap_ok h1"
      "viewAll viewEntry h1 es = Some (v, bs)" "\<forall>b \<in> set bs. h_next h \<le> b" using copier.copies [OF all ok m(3)] by blast
    from alloc_after [OF all this, of "CMaps es"] obtain b h' where b: "alloc (CMaps es) h1 = (Inr b, h')" "extends h h'"
      "heap_ok h'" "h_cells h' b = Some (CMaps es)" "h_next h \<le> b" "viewAll viewEntry h' es = Some (v, bs)" by blast
    have d: "distinct (keys es)" using copyAll_keys [OF es(1)] m(2) by simp
    then have "makeMaps p h = (Inr (Some b), h')"
      using Some m(1) es(1) b(1) fold_mput_id [of "[]" es] by (simp add: makeMaps_def bindE_def load_def ret_def)
    moreover have "viewMaps h' (Some b) = Some (v, b # bs)"
      using b(6) d by (simp add: viewMaps_def select_Some [OF b(4)])
    ultimately show ?thesis using b(2,3,5) es(5) by fastforce
  qed
qed

text \<open>Strings and bytes in arrays, and what the types have in common.\<close>

definition viewStrings :: "heap \<Rightarrow> slice \<Rightarrow> (string list \<times> addr list) option" where
  "viewStrings = viewSlice cellStrings viewFlat"

definition makeStrings :: "slice \<Rightarrow> (heap, slice) M" where
  "makeStrings = makeSlice CStrs cellStrings ret"

lemma copier_strings: "copier viewStrings makeStrings"
  unfolding viewStrings_def makeStrings_def by (intro copier_slice copier_flat) simp

lemmas [copying] = copier_flat copier_pair copier_fields copier_ptr copier_slice copier_map copier_maps copier_strings

end
