(* ===== verification/DeepCopy.thy ===== *)
theory DeepCopy
  imports Heap
begin

text \<open>
  \<open>zz_generated.deepcopy.go\<close>, over the heap of theory \<open>Heap\<close>: for every type the view of a struct, the
  function \<open>DeepCopyInto\<close> (which makes the struct to be written into \<open>out\<close>), \<open>DeepCopy\<close> and the lemma that it is a
  copier. At the end the place where the program depends on it most: \<open>populateFilesList\<close> writes the rendered
  text into a deep copy of the profile's file.

  The functions of \<open>ObjectMeta\<close>, \<open>ListMeta\<close> and \<open>RawExtension\<close> belong to Kubernetes and are parameters.
\<close>

section \<open>Kubernetes types\<close>

record ListMeta =
  lm_ResourceVersion :: string
  lm_Continue :: string
  lm_RemainingItemCount :: "int option"

record OperatingSystemProfileList =
  ospl_meta :: ListMeta
  ospl_Items :: "OperatingSystemProfile list"

record OperatingSystemConfigList =
  oscl_meta :: ListMeta
  oscl_Items :: "OperatingSystemConfig list"

record apimachinery =
  am_ObjectMeta :: "ObjectMetaH \<Rightarrow> (heap, ObjectMetaH) M"
  am_ListMeta :: "ListMetaH \<Rightarrow> (heap, ListMetaH) M"
  am_RawExtension :: "slice \<Rightarrow> (heap, slice) M"

definition viewObjectMeta :: "heap \<Rightarrow> ObjectMetaH \<Rightarrow> (ObjectMeta \<times> addr list) option" where
  "viewObjectMeta = viewFields (\<lambda>x. (metaH_Labels x, metaH_Annotations x))
     (\<lambda>x (a, b). \<lparr>meta_Name = metaH_Name x, meta_Namespace = metaH_Namespace x, meta_Labels = a, meta_Annotations = b\<rparr>)
     (viewPair viewMap viewMap)"

definition viewListMeta :: "heap \<Rightarrow> ListMetaH \<Rightarrow> (ListMeta \<times> addr list) option" where
  "viewListMeta = viewFields lmH_RemainingItemCount
     (\<lambda>x a. \<lparr>lm_ResourceVersion = lmH_ResourceVersion x, lm_Continue = lmH_Continue x, lm_RemainingItemCount = a\<rparr>)
     (viewPtr cellInt viewFlat)"

text \<open>The bytes of a \<open>RawExtension\<close>, nil or not.\<close>

definition viewRaw :: "heap \<Rightarrow> slice \<Rightarrow> (RawExtension \<times> addr list) option" where
  "viewRaw h s = map_option (\<lambda>(v, as). (map_option (\<lambda>_. v) s, as)) (viewSlice cellBytes viewFlat h s)"

definition apimachinery_copies :: "apimachinery \<Rightarrow> bool" where
  "apimachinery_copies A \<longleftrightarrow> copier viewObjectMeta (am_ObjectMeta A) \<and> copier viewListMeta (am_ListMeta A)
     \<and> copier viewRaw (am_RawExtension A)"

lemma copier_machinery [copying]:
  assumes "apimachinery_copies A"
  shows "copier viewObjectMeta (am_ObjectMeta A)" "copier viewListMeta (am_ListMeta A)" "copier viewRaw (am_RawExtension A)"
  using assms by (simp_all add: apimachinery_copies_def)

section \<open>Files and units\<close>

definition FileContentInline_DeepCopyInto :: "FileContentInline \<Rightarrow> (heap, FileContentInline) M" where
  "FileContentInline_DeepCopyInto x = ret x"

definition FileContentInline_DeepCopy :: "ptr \<Rightarrow> (heap, ptr) M" where
  "FileContentInline_DeepCopy = newPtr CInline cellInline FileContentInline_DeepCopyInto"

lemma copier_FileContentInline [copying]: "copier viewFlat FileContentInline_DeepCopyInto"
  using copier_flat by (simp add: FileContentInline_DeepCopyInto_def [abs_def])

definition viewFileContent ::
    "heap \<Rightarrow> FileContentH \<Rightarrow> (FileContentInline option \<times> addr list) option" where
  "viewFileContent = viewFields fcH_Inline (\<lambda>x a. a) (viewPtr cellInline viewFlat)"

definition FileContent_DeepCopyInto :: "FileContentH \<Rightarrow> (heap, FileContentH) M" where
  "FileContent_DeepCopyInto =
     copyFields fcH_Inline (\<lambda>a x. x\<lparr>fcH_Inline := a\<rparr>) (newPtr CInline cellInline ret)"

definition FileContent_DeepCopy :: "ptr \<Rightarrow> (heap, ptr) M" where
  "FileContent_DeepCopy = newPtr CContent cellContent FileContent_DeepCopyInto"

lemma copier_FileContent [copying]: "copier viewFileContent FileContent_DeepCopyInto"
  unfolding viewFileContent_def FileContent_DeepCopyInto_def by (intro copying) auto

definition viewFile :: "heap \<Rightarrow> FileH \<Rightarrow> (File \<times> addr list) option" where
  "viewFile = viewFields fileH_Content
     (\<lambda>x a. \<lparr>file_Path = fileH_Path x, file_Permissions = fileH_Permissions x, file_Inline = a\<rparr>) viewFileContent"

definition File_DeepCopyInto :: "FileH \<Rightarrow> (heap, FileH) M" where
  "File_DeepCopyInto =
     copyFields fileH_Content (\<lambda>a x. x\<lparr>fileH_Content := a\<rparr>) FileContent_DeepCopyInto"

definition File_DeepCopy :: "ptr \<Rightarrow> (heap, ptr) M" where
  "File_DeepCopy = newPtr CFile cellFile File_DeepCopyInto"

lemma copier_File [copying]: "copier viewFile File_DeepCopyInto"
  unfolding viewFile_def File_DeepCopyInto_def by (intro copying) auto

definition DropIn_DeepCopyInto :: "DropIn \<Rightarrow> (heap, DropIn) M" where
  "DropIn_DeepCopyInto x = ret x"

definition DropIn_DeepCopy :: "ptr \<Rightarrow> (heap, ptr) M" where
  "DropIn_DeepCopy = newPtr CDropIn cellDropIn DropIn_DeepCopyInto"

lemma copier_DropIn [copying]: "copier viewFlat DropIn_DeepCopyInto"
  using copier_flat by (simp add: DropIn_DeepCopyInto_def [abs_def])

definition viewUnit :: "heap \<Rightarrow> UnitH \<Rightarrow> (Unit \<times> addr list) option" where
  "viewUnit = viewFields (\<lambda>x. (unitH_Enable x, unitH_Mask x, unitH_Content x, unitH_DropIns x))
     (\<lambda>x (a, b, c, d). \<lparr>unit_Name = unitH_Name x, unit_Enable = a, unit_Mask = b, unit_Content = c, unit_DropIns = d\<rparr>)
     (viewPair (viewPtr cellBool viewFlat)
       (viewPair (viewPtr cellBool viewFlat)
       (viewPair (viewPtr cellString viewFlat)
       (viewSlice cellDropIns viewFlat))))"

definition Unit_DeepCopyInto :: "UnitH \<Rightarrow> (heap, UnitH) M" where
  "Unit_DeepCopyInto = copyFields (\<lambda>x. (unitH_Enable x, unitH_Mask x, unitH_Content x, unitH_DropIns x))
     (\<lambda>(a, b, c, d) x. x\<lparr>unitH_Enable := a, unitH_Mask := b, unitH_Content := c, unitH_DropIns := d\<rparr>)
     (copyPair (newPtr CBool cellBool ret)
       (copyPair (newPtr CBool cellBool ret)
       (copyPair (newPtr CString cellString ret)
       (makeSlice CDropIns cellDropIns ret))))"

definition Unit_DeepCopy :: "ptr \<Rightarrow> (heap, ptr) M" where
  "Unit_DeepCopy = newPtr CUnit cellUnit Unit_DeepCopyInto"

lemma copier_Unit [copying]: "copier viewUnit Unit_DeepCopyInto"
  unfolding viewUnit_def Unit_DeepCopyInto_def by (intro copying) (auto split: prod.splits)

section \<open>Container runtimes, cloud-init modules, cloud providers\<close>

definition viewRuntime ::
    "heap \<Rightarrow> ContainerRuntimeSpecH \<Rightarrow> (ContainerRuntimeSpec \<times> addr list) option" where
  "viewRuntime = viewFields (\<lambda>x. (crsH_Files x, crsH_Templates x))
     (\<lambda>x (a, b). \<lparr>crs_Name = crsH_Name x, crs_Files = a, crs_Templates = b\<rparr>)
     (viewPair (viewSlice cellFiles viewFile)
       viewMap)"

definition ContainerRuntimeSpec_DeepCopyInto :: "ContainerRuntimeSpecH \<Rightarrow> (heap, ContainerRuntimeSpecH) M" where
  "ContainerRuntimeSpec_DeepCopyInto = copyFields (\<lambda>x. (crsH_Files x, crsH_Templates x))
     (\<lambda>(a, b) x. x\<lparr>crsH_Files := a, crsH_Templates := b\<rparr>)
     (copyPair (makeSlice CFiles cellFiles File_DeepCopyInto)
       makeMap)"

definition ContainerRuntimeSpec_DeepCopy :: "ptr \<Rightarrow> (heap, ptr) M" where
  "ContainerRuntimeSpec_DeepCopy = newPtr CRuntime cellRuntime ContainerRuntimeSpec_DeepCopyInto"

lemma copier_ContainerRuntimeSpec [copying]: "copier viewRuntime ContainerRuntimeSpec_DeepCopyInto"
  unfolding viewRuntime_def ContainerRuntimeSpec_DeepCopyInto_def by (intro copying) (auto split: prod.splits)

definition viewModule :: "heap \<Rightarrow> CloudInitModuleH \<Rightarrow> (CloudInitModule \<times> addr list) option" where
  "viewModule =
     viewFields (\<lambda>x. (cimH_BootCMD x, cimH_RHSubscription x, cimH_RunCMD x, cimH_YumRepos x))
     (\<lambda>x (a, b, c, d). \<lparr>cim_BootCMD = a, cim_RHSubscription = b, cim_RunCMD = c, cim_YumRepos = d,
        cim_YumRepoDir = cimH_YumRepoDir x\<rparr>)
     (viewPair viewStrings
       (viewPair viewMap
       (viewPair viewStrings
       viewMaps)))"

definition CloudInitModule_DeepCopyInto :: "CloudInitModuleH \<Rightarrow> (heap, CloudInitModuleH) M" where
  "CloudInitModule_DeepCopyInto =
     copyFields (\<lambda>x. (cimH_BootCMD x, cimH_RHSubscription x, cimH_RunCMD x, cimH_YumRepos x))
     (\<lambda>(a, b, c, d) x. x\<lparr>cimH_BootCMD := a, cimH_RHSubscription := b, cimH_RunCMD := c, cimH_YumRepos := d\<rparr>)
     (copyPair makeStrings
       (copyPair makeMap
       (copyPair makeStrings
       makeMaps)))"

definition CloudInitModule_DeepCopy :: "ptr \<Rightarrow> (heap, ptr) M" where
  "CloudInitModule_DeepCopy = newPtr CModule cellModule CloudInitModule_DeepCopyInto"

lemma copier_CloudInitModule [copying]: "copier viewModule CloudInitModule_DeepCopyInto"
  unfolding viewModule_def CloudInitModule_DeepCopyInto_def by (intro copying) (auto split: prod.splits)

definition viewProvider ::
    "heap \<Rightarrow> CloudProviderSpecH \<Rightarrow> (CloudProviderSpec \<times> addr list) option" where
  "viewProvider = viewFields cpsH_Spec
     (\<lambda>x a. \<lparr>cps_Name = cpsH_Name x, cps_Spec = a\<rparr>)
     viewRaw"

definition CloudProviderSpec_DeepCopyInto :: "apimachinery \<Rightarrow> CloudProviderSpecH \<Rightarrow> (heap, CloudProviderSpecH) M" where
  "CloudProviderSpec_DeepCopyInto A = copyFields cpsH_Spec
     (\<lambda>a x. x\<lparr>cpsH_Spec := a\<rparr>)
     (am_RawExtension A)"

definition CloudProviderSpec_DeepCopy :: "apimachinery \<Rightarrow> ptr \<Rightarrow> (heap, ptr) M" where
  "CloudProviderSpec_DeepCopy A = newPtr CProvider cellProvider (CloudProviderSpec_DeepCopyInto A)"

lemma copier_CloudProviderSpec [copying]:
  "apimachinery_copies A \<Longrightarrow> copier viewProvider (CloudProviderSpec_DeepCopyInto A)"
  unfolding viewProvider_def CloudProviderSpec_DeepCopyInto_def by (intro copying) (auto split: prod.splits)

section \<open>Profiles and configurations\<close>

definition viewOSPConfig :: "heap \<Rightarrow> OSPConfigH \<Rightarrow> (OSPConfig \<times> addr list) option" where
  "viewOSPConfig =
     viewFields (\<lambda>x. (ospcH_SupportedContainerRuntimes x, ospcH_Templates x, ospcH_Units x, ospcH_Files x, ospcH_CloudInitModules x))
     (\<lambda>x (a, b, c, d, e). \<lparr>ospc_SupportedContainerRuntimes = a, ospc_Templates = b, ospc_Units = c, ospc_Files = d,
        ospc_CloudInitModules = e\<rparr>)
     (viewPair (viewSlice cellRuntimes viewRuntime)
       (viewPair viewMap
       (viewPair (viewSlice cellUnits viewUnit)
       (viewPair (viewSlice cellFiles viewFile)
       (viewPtr cellModule viewModule)))))"

definition OSPConfig_DeepCopyInto :: "OSPConfigH \<Rightarrow> (heap, OSPConfigH) M" where
  "OSPConfig_DeepCopyInto =
     copyFields (\<lambda>x. (ospcH_SupportedContainerRuntimes x, ospcH_Templates x, ospcH_Units x, ospcH_Files x, ospcH_CloudInitModules x))
     (\<lambda>(a, b, c, d, e) x. x\<lparr>ospcH_SupportedContainerRuntimes := a, ospcH_Templates := b, ospcH_Units := c, ospcH_Files := d,
        ospcH_CloudInitModules := e\<rparr>)
     (copyPair (makeSlice CRuntimes cellRuntimes ContainerRuntimeSpec_DeepCopyInto)
       (copyPair makeMap
       (copyPair (makeSlice CUnits cellUnits Unit_DeepCopyInto)
       (copyPair (makeSlice CFiles cellFiles File_DeepCopyInto)
       (newPtr CModule cellModule CloudInitModule_DeepCopyInto)))))"

definition OSPConfig_DeepCopy :: "ptr \<Rightarrow> (heap, ptr) M" where
  "OSPConfig_DeepCopy = newPtr COSPConfig cellOSPConfig OSPConfig_DeepCopyInto"

lemma copier_OSPConfig [copying]: "copier viewOSPConfig OSPConfig_DeepCopyInto"
  unfolding viewOSPConfig_def OSPConfig_DeepCopyInto_def by (intro copying) (auto split: prod.splits)

definition viewOSCConfig :: "heap \<Rightarrow> OSCConfigH \<Rightarrow> (OSCConfig \<times> addr list) option" where
  "viewOSCConfig =
     viewFields (\<lambda>x. (osccH_Units x, osccH_Files x, osccH_UserSSHKeys x, osccH_CloudInitModules x))
     (\<lambda>x (a, b, c, d). \<lparr>oscc_Units = a, oscc_Files = b, oscc_UserSSHKeys = c, oscc_CloudInitModules = d\<rparr>)
     (viewPair (viewSlice cellUnits viewUnit)
       (viewPair (viewSlice cellFiles viewFile)
       (viewPair viewStrings
       (viewPtr cellModule viewModule))))"

definition OSCConfig_DeepCopyInto :: "OSCConfigH \<Rightarrow> (heap, OSCConfigH) M" where
  "OSCConfig_DeepCopyInto =
     copyFields (\<lambda>x. (osccH_Units x, osccH_Files x, osccH_UserSSHKeys x, osccH_CloudInitModules x))
     (\<lambda>(a, b, c, d) x. x\<lparr>osccH_Units := a, osccH_Files := b, osccH_UserSSHKeys := c, osccH_CloudInitModules := d\<rparr>)
     (copyPair (makeSlice CUnits cellUnits Unit_DeepCopyInto)
       (copyPair (makeSlice CFiles cellFiles File_DeepCopyInto)
       (copyPair makeStrings
       (newPtr CModule cellModule CloudInitModule_DeepCopyInto))))"

definition OSCConfig_DeepCopy :: "ptr \<Rightarrow> (heap, ptr) M" where
  "OSCConfig_DeepCopy = newPtr COSCConfig cellOSCConfig OSCConfig_DeepCopyInto"

lemma copier_OSCConfig [copying]: "copier viewOSCConfig OSCConfig_DeepCopyInto"
  unfolding viewOSCConfig_def OSCConfig_DeepCopyInto_def by (intro copying) (auto split: prod.splits)

definition viewOSPSpec ::
    "heap \<Rightarrow> OperatingSystemProfileSpecH \<Rightarrow> (OperatingSystemProfileSpec \<times> addr list) option" where
  "viewOSPSpec =
     viewFields (\<lambda>x. (ospsH_SupportedCloudProviders x, ospsH_BootstrapConfig x, ospsH_ProvisioningConfig x))
     (\<lambda>x (a, b, c). \<lparr>osps_OSName = ospsH_OSName x, osps_OSVersion = ospsH_OSVersion x,
        osps_Version = ospsH_Version x, osps_SupportedCloudProviders = a, osps_BootstrapConfig = b,
        osps_ProvisioningConfig = c, osps_ProvisioningUtility = ospsH_ProvisioningUtility x\<rparr>)
     (viewPair (viewSlice cellProviders viewProvider)
       (viewPair viewOSPConfig
       viewOSPConfig))"

definition OperatingSystemProfileSpec_DeepCopyInto ::
    "apimachinery \<Rightarrow> OperatingSystemProfileSpecH \<Rightarrow> (heap, OperatingSystemProfileSpecH) M" where
  "OperatingSystemProfileSpec_DeepCopyInto A =
     copyFields (\<lambda>x. (ospsH_SupportedCloudProviders x, ospsH_BootstrapConfig x, ospsH_ProvisioningConfig x))
     (\<lambda>(a, b, c) x. x\<lparr>ospsH_SupportedCloudProviders := a, ospsH_BootstrapConfig := b, ospsH_ProvisioningConfig := c\<rparr>)
     (copyPair (makeSlice CProviders cellProviders (CloudProviderSpec_DeepCopyInto A))
       (copyPair OSPConfig_DeepCopyInto
       OSPConfig_DeepCopyInto))"

definition OperatingSystemProfileSpec_DeepCopy :: "apimachinery \<Rightarrow> ptr \<Rightarrow> (heap, ptr) M" where
  "OperatingSystemProfileSpec_DeepCopy A = newPtr COSPSpec cellOSPSpec (OperatingSystemProfileSpec_DeepCopyInto A)"

lemma copier_OperatingSystemProfileSpec [copying]:
  "apimachinery_copies A \<Longrightarrow> copier viewOSPSpec (OperatingSystemProfileSpec_DeepCopyInto A)"
  unfolding viewOSPSpec_def OperatingSystemProfileSpec_DeepCopyInto_def by (intro copying) (auto split: prod.splits)

definition viewOSCSpec ::
    "heap \<Rightarrow> OperatingSystemConfigSpecH \<Rightarrow> (OperatingSystemConfigSpec \<times> addr list) option" where
  "viewOSCSpec =
     viewFields (\<lambda>x. (oscsH_CloudProvider x, oscsH_BootstrapConfig x, oscsH_ProvisioningConfig x))
     (\<lambda>x (a, b, c). \<lparr>oscs_OSName = oscsH_OSName x, oscs_OSVersion = oscsH_OSVersion x, oscs_CloudProvider = a,
        oscs_BootstrapConfig = b, oscs_ProvisioningConfig = c,
        oscs_ProvisioningUtility = oscsH_ProvisioningUtility x\<rparr>)
     (viewPair viewProvider
       (viewPair viewOSCConfig
       viewOSCConfig))"

definition OperatingSystemConfigSpec_DeepCopyInto ::
    "apimachinery \<Rightarrow> OperatingSystemConfigSpecH \<Rightarrow> (heap, OperatingSystemConfigSpecH) M" where
  "OperatingSystemConfigSpec_DeepCopyInto A =
     copyFields (\<lambda>x. (oscsH_CloudProvider x, oscsH_BootstrapConfig x, oscsH_ProvisioningConfig x))
     (\<lambda>(a, b, c) x. x\<lparr>oscsH_CloudProvider := a, oscsH_BootstrapConfig := b, oscsH_ProvisioningConfig := c\<rparr>)
     (copyPair (CloudProviderSpec_DeepCopyInto A)
       (copyPair OSCConfig_DeepCopyInto
       OSCConfig_DeepCopyInto))"

definition OperatingSystemConfigSpec_DeepCopy :: "apimachinery \<Rightarrow> ptr \<Rightarrow> (heap, ptr) M" where
  "OperatingSystemConfigSpec_DeepCopy A = newPtr COSCSpec cellOSCSpec (OperatingSystemConfigSpec_DeepCopyInto A)"

lemma copier_OperatingSystemConfigSpec [copying]:
  "apimachinery_copies A \<Longrightarrow> copier viewOSCSpec (OperatingSystemConfigSpec_DeepCopyInto A)"
  unfolding viewOSCSpec_def OperatingSystemConfigSpec_DeepCopyInto_def by (intro copying) (auto split: prod.splits)

definition viewOSP ::
    "heap \<Rightarrow> OperatingSystemProfileH \<Rightarrow> (OperatingSystemProfile \<times> addr list) option" where
  "viewOSP = viewFields (\<lambda>x. (ospH_meta x, ospH_Spec x))
     (\<lambda>x (a, b). \<lparr>osp_meta = a, osp_Spec = b\<rparr>)
     (viewPair viewObjectMeta
       viewOSPSpec)"

definition OperatingSystemProfile_DeepCopyInto ::
    "apimachinery \<Rightarrow> OperatingSystemProfileH \<Rightarrow> (heap, OperatingSystemProfileH) M" where
  "OperatingSystemProfile_DeepCopyInto A = copyFields (\<lambda>x. (ospH_meta x, ospH_Spec x))
     (\<lambda>(a, b) x. x\<lparr>ospH_meta := a, ospH_Spec := b\<rparr>)
     (copyPair (am_ObjectMeta A)
       (OperatingSystemProfileSpec_DeepCopyInto A))"

definition OperatingSystemProfile_DeepCopy :: "apimachinery \<Rightarrow> ptr \<Rightarrow> (heap, ptr) M" where
  "OperatingSystemProfile_DeepCopy A = newPtr COSP cellOSP (OperatingSystemProfile_DeepCopyInto A)"

lemma copier_OperatingSystemProfile [copying]:
  "apimachinery_copies A \<Longrightarrow> copier viewOSP (OperatingSystemProfile_DeepCopyInto A)"
  unfolding viewOSP_def OperatingSystemProfile_DeepCopyInto_def by (intro copying) (auto split: prod.splits)

definition OperatingSystemProfile_DeepCopyObject :: "apimachinery \<Rightarrow> ptr \<Rightarrow> (heap, addr option) M" where
  "OperatingSystemProfile_DeepCopyObject A p =
     bindE (OperatingSystemProfile_DeepCopy A p) (\<lambda>c. case c of Some x \<Rightarrow> ret (Some x) | None \<Rightarrow> ret None)"

definition viewOSC ::
    "heap \<Rightarrow> OperatingSystemConfigH \<Rightarrow> (OperatingSystemConfig \<times> addr list) option" where
  "viewOSC = viewFields (\<lambda>x. (oscH_meta x, oscH_Spec x))
     (\<lambda>x (a, b). \<lparr>osc_meta = a, osc_Spec = b\<rparr>)
     (viewPair viewObjectMeta
       viewOSCSpec)"

definition OperatingSystemConfig_DeepCopyInto ::
    "apimachinery \<Rightarrow> OperatingSystemConfigH \<Rightarrow> (heap, OperatingSystemConfigH) M" where
  "OperatingSystemConfig_DeepCopyInto A = copyFields (\<lambda>x. (oscH_meta x, oscH_Spec x))
     (\<lambda>(a, b) x. x\<lparr>oscH_meta := a, oscH_Spec := b\<rparr>)
     (copyPair (am_ObjectMeta A)
       (OperatingSystemConfigSpec_DeepCopyInto A))"

definition OperatingSystemConfig_DeepCopy :: "apimachinery \<Rightarrow> ptr \<Rightarrow> (heap, ptr) M" where
  "OperatingSystemConfig_DeepCopy A = newPtr COSC cellOSC (OperatingSystemConfig_DeepCopyInto A)"

lemma copier_OperatingSystemConfig [copying]:
  "apimachinery_copies A \<Longrightarrow> copier viewOSC (OperatingSystemConfig_DeepCopyInto A)"
  unfolding viewOSC_def OperatingSystemConfig_DeepCopyInto_def by (intro copying) (auto split: prod.splits)

definition OperatingSystemConfig_DeepCopyObject :: "apimachinery \<Rightarrow> ptr \<Rightarrow> (heap, addr option) M" where
  "OperatingSystemConfig_DeepCopyObject A p =
     bindE (OperatingSystemConfig_DeepCopy A p) (\<lambda>c. case c of Some x \<Rightarrow> ret (Some x) | None \<Rightarrow> ret None)"

definition viewOSPList ::
    "heap \<Rightarrow> OperatingSystemProfileListH \<Rightarrow> (OperatingSystemProfileList \<times> addr list) option" where
  "viewOSPList = viewFields (\<lambda>x. (osplH_meta x, osplH_Items x))
     (\<lambda>x (a, b). \<lparr>ospl_meta = a, ospl_Items = b\<rparr>)
     (viewPair viewListMeta
       (viewSlice cellOSPs viewOSP))"

definition OperatingSystemProfileList_DeepCopyInto ::
    "apimachinery \<Rightarrow> OperatingSystemProfileListH \<Rightarrow> (heap, OperatingSystemProfileListH) M" where
  "OperatingSystemProfileList_DeepCopyInto A = copyFields (\<lambda>x. (osplH_meta x, osplH_Items x))
     (\<lambda>(a, b) x. x\<lparr>osplH_meta := a, osplH_Items := b\<rparr>)
     (copyPair (am_ListMeta A)
       (makeSlice COSPs cellOSPs (OperatingSystemProfile_DeepCopyInto A)))"

definition OperatingSystemProfileList_DeepCopy :: "apimachinery \<Rightarrow> ptr \<Rightarrow> (heap, ptr) M" where
  "OperatingSystemProfileList_DeepCopy A = newPtr COSPList cellOSPList (OperatingSystemProfileList_DeepCopyInto A)"

lemma copier_OperatingSystemProfileList [copying]:
  "apimachinery_copies A \<Longrightarrow> copier viewOSPList (OperatingSystemProfileList_DeepCopyInto A)"
  unfolding viewOSPList_def OperatingSystemProfileList_DeepCopyInto_def by (intro copying) (auto split: prod.splits)

definition OperatingSystemProfileList_DeepCopyObject :: "apimachinery \<Rightarrow> ptr \<Rightarrow> (heap, addr option) M" where
  "OperatingSystemProfileList_DeepCopyObject A p =
     bindE (OperatingSystemProfileList_DeepCopy A p) (\<lambda>c. case c of Some x \<Rightarrow> ret (Some x) | None \<Rightarrow> ret None)"

definition viewOSCList ::
    "heap \<Rightarrow> OperatingSystemConfigListH \<Rightarrow> (OperatingSystemConfigList \<times> addr list) option" where
  "viewOSCList = viewFields (\<lambda>x. (osclH_meta x, osclH_Items x))
     (\<lambda>x (a, b). \<lparr>oscl_meta = a, oscl_Items = b\<rparr>)
     (viewPair viewListMeta
       (viewSlice cellOSCs viewOSC))"

definition OperatingSystemConfigList_DeepCopyInto ::
    "apimachinery \<Rightarrow> OperatingSystemConfigListH \<Rightarrow> (heap, OperatingSystemConfigListH) M" where
  "OperatingSystemConfigList_DeepCopyInto A = copyFields (\<lambda>x. (osclH_meta x, osclH_Items x))
     (\<lambda>(a, b) x. x\<lparr>osclH_meta := a, osclH_Items := b\<rparr>)
     (copyPair (am_ListMeta A)
       (makeSlice COSCs cellOSCs (OperatingSystemConfig_DeepCopyInto A)))"

definition OperatingSystemConfigList_DeepCopy :: "apimachinery \<Rightarrow> ptr \<Rightarrow> (heap, ptr) M" where
  "OperatingSystemConfigList_DeepCopy A = newPtr COSCList cellOSCList (OperatingSystemConfigList_DeepCopyInto A)"

lemma copier_OperatingSystemConfigList [copying]:
  "apimachinery_copies A \<Longrightarrow> copier viewOSCList (OperatingSystemConfigList_DeepCopyInto A)"
  unfolding viewOSCList_def OperatingSystemConfigList_DeepCopyInto_def by (intro copying) (auto split: prod.splits)

definition OperatingSystemConfigList_DeepCopyObject :: "apimachinery \<Rightarrow> ptr \<Rightarrow> (heap, addr option) M" where
  "OperatingSystemConfigList_DeepCopyObject A p =
     bindE (OperatingSystemConfigList_DeepCopy A p) (\<lambda>c. case c of Some x \<Rightarrow> ret (Some x) | None \<Rightarrow> ret None)"

section \<open>A copy is separate\<close>

lemma copier_profile:
  "apimachinery_copies A \<Longrightarrow> copier (viewPtr cellOSP viewOSP) (OperatingSystemProfile_DeepCopy A)"
  unfolding OperatingSystemProfile_DeepCopy_def by (intro copying) simp_all

lemma bindE_ret_option: "bindE m (\<lambda>c. case c of Some x \<Rightarrow> ret (Some x) | None \<Rightarrow> ret None) = m"
  by (rule ext) (auto simp: bindE_def ret_def split: prod.splits sum.splits option.splits)

lemma DeepCopyObject_eq: "OperatingSystemProfile_DeepCopyObject A p = OperatingSystemProfile_DeepCopy A p"
  unfolding OperatingSystemProfile_DeepCopyObject_def by (rule bindE_ret_option)

text \<open>
  A heap with a profile (0), its labels (1), its bootstrap files (2, 3), and what Kubernetes' copy functions do
  to the fields of the model.
\<close>

definition demo_machinery :: apimachinery where
  "demo_machinery = \<lparr>
     am_ObjectMeta = copyFields (\<lambda>x. (metaH_Labels x, metaH_Annotations x))
       (\<lambda>(a, b) x. x\<lparr>metaH_Labels := a, metaH_Annotations := b\<rparr>) (copyPair makeMap makeMap),
     am_ListMeta = copyFields lmH_RemainingItemCount (\<lambda>a x. x\<lparr>lmH_RemainingItemCount := a\<rparr>) (newPtr CInt cellInt ret),
     am_RawExtension = makeSlice CBytes cellBytes ret\<rparr>"

lemma copier_raw: "copier viewRaw (makeSlice CBytes cellBytes ret)"
proof -
  have slice: "copier (viewSlice cellBytes viewFlat) (makeSlice CBytes cellBytes ret)"
    by (intro copying) simp
  have nil: "y = None \<longleftrightarrow> s = None" if "makeSlice CBytes cellBytes ret s h = (Inr y, h')" for s y h h'
    using that by (auto simp: makeSlice_def bindE_def ret_def split: option.splits prod.splits sum.splits)
  show ?thesis
  proof unfold_locales
    fix h h' :: heap and s v as
    assume "viewRaw h s = Some (v, as)" "\<And>a. a \<in> set as \<Longrightarrow> h_cells h' a = h_cells h a"
    then show "viewRaw h' s = Some (v, as)"
      using copier.local [OF slice, of h s _ as h'] by (auto simp: viewRaw_def)
  next
    fix h s v as a
    assume "viewRaw h s = Some (v, as)" "a \<in> set as"
    then show "h_cells h a \<noteq> None"
      using copier.live [OF slice, of h s _ as a] by (auto simp: viewRaw_def)
  next
    fix h s v as
    assume ok: "heap_ok h" and "viewRaw h s = Some (v, as)"
    then obtain u where u: "viewSlice cellBytes viewFlat h s = Some (u, as)" "v = map_option (\<lambda>_. u) s"
      by (auto simp: viewRaw_def)
    obtain y h' bs where y: "makeSlice CBytes cellBytes ret s h = (Inr y, h')" "extends h h'" "heap_ok h'"
      "viewSlice cellBytes viewFlat h' y = Some (u, bs)" "\<forall>b \<in> set bs. h_next h \<le> b"
      using copier.copies [OF slice ok u(1)] by blast
    with nil [OF y(1)] u(2) show "\<exists>y h' bs. makeSlice CBytes cellBytes ret s h = (Inr y, h') \<and> extends h h' \<and> heap_ok h'
        \<and> viewRaw h' y = Some (v, bs) \<and> (\<forall>b \<in> set bs. h_next h \<le> b)"
      by (intro exI [of _ y] exI [of _ h'] exI [of _ bs]) (cases s; cases y; simp add: viewRaw_def)
  qed
qed

lemma demo_machinery_copies: "apimachinery_copies demo_machinery"
  unfolding apimachinery_copies_def demo_machinery_def viewObjectMeta_def viewListMeta_def
  by (intro conjI; (simp only: apimachinery.simps)?; (intro copying copier_raw)?; (auto split: prod.splits)?)

definition copied_files :: "FileH list" where
  "copied_files = [\<lparr>fileH_Path = ''/etc/a'', fileH_Permissions = 0, fileH_Content = \<lparr>fcH_Inline = Some 3\<rparr>\<rparr>]"

definition copied_file :: File where
  "copied_file = \<lparr>file_Path = ''/etc/a'', file_Permissions = 0, file_Inline = Some \<lparr>inl_Encoding = ''b64'', inl_Data = ''text''\<rparr>\<rparr>"

definition demo_no_config :: OSPConfigH where
  "demo_no_config = \<lparr>ospcH_SupportedContainerRuntimes = None, ospcH_Templates = None, ospcH_Units = None,
     ospcH_Files = None, ospcH_CloudInitModules = None\<rparr>"

definition copied_profile :: OperatingSystemProfileH where
  "copied_profile = \<lparr>
     ospH_meta = \<lparr>metaH_Name = ''osp-ubuntu'', metaH_Namespace = ''kube-system'', metaH_Labels = Some 1, metaH_Annotations = None\<rparr>,
     ospH_Spec = \<lparr>ospsH_OSName = ''ubuntu'', ospsH_OSVersion = ''22.04'', ospsH_Version = ''v1.0.0'',
       ospsH_SupportedCloudProviders = None, ospsH_BootstrapConfig = demo_no_config\<lparr>ospcH_Files := Some (2, 0, 1)\<rparr>,
       ospsH_ProvisioningConfig = demo_no_config, ospsH_ProvisioningUtility = ''cloud-init''\<rparr>\<rparr>"

definition copied_heap :: heap where
  "copied_heap = \<lparr>h_next = 4, h_cells = [0 \<mapsto> COSP copied_profile, 1 \<mapsto> CMap [(''k'', ''v'')], 2 \<mapsto> CFiles copied_files,
     3 \<mapsto> CInline \<lparr>inl_Encoding = ''b64'', inl_Data = ''text''\<rparr>]\<rparr>"

text \<open>A template engine that appends a mark.\<close>

definition marking_engine :: engine where
  "marking_engine = \<lparr>te_Parse = (\<lambda>_ _ _. Inr ()), te_Execute = (\<lambda>_ texts _. Inr (concat texts @ ''!'')), te_range = (\<lambda>m. m)\<rparr>"

lemma copied_heap_ok: "heap_ok copied_heap"
  by (auto simp: heap_ok_def copied_heap_def split: if_splits)

lemmas view_defs = viewFlat_def viewPair_def viewFields_def viewPtr_def viewSlice_def viewMap_def viewStrings_def
  viewFileContent_def viewFile_def viewUnit_def viewRuntime_def viewModule_def viewProvider_def viewOSPConfig_def
  viewOSPSpec_def viewOSP_def viewObjectMeta_def

lemmas demo_copy_simps = view_defs select_def copied_heap_def copied_files_def copied_file_def copied_profile_def
  demo_no_config_def keys_def

text \<open>
  C39. Deep copies of a profile. Where a pointer denotes a profile, \<open>DeepCopyObject\<close> returns (it neither panics nor
  runs on), the new pointer denotes the same profile, the old one still does, and the two have no cell in common:
  whatever is written into the copy leaves the original as it was, and the other way round.
\<close>

theorem profile_deep_copy:
  assumes "apimachinery_copies A" and "heap_ok h" and "viewPtr cellOSP viewOSP h p = Some (osp, as)"
  shows "\<exists>q h' bs. OperatingSystemProfile_DeepCopyObject A p h = (Inr q, h')
    \<and> viewPtr cellOSP viewOSP h' q = Some (osp, bs) \<and> viewPtr cellOSP viewOSP h' p = Some (osp, as)
    \<and> set as \<inter> set bs = {}
    \<and> (\<forall>h2. (\<forall>a. a \<notin> set bs \<longrightarrow> h_cells h2 a = h_cells h' a) \<longrightarrow> viewPtr cellOSP viewOSP h2 p = Some (osp, as))
    \<and> (\<forall>h2. (\<forall>a. a \<notin> set as \<longrightarrow> h_cells h2 a = h_cells h' a) \<longrightarrow> viewPtr cellOSP viewOSP h2 q = Some (osp, bs))"
  using copier.separate [OF copier_profile [OF assms(1)] assms(2,3)] unfolding DeepCopyObject_eq by blast

theorem profile_deep_copy_witness:
  "\<exists>osp q h' bs. file_Path (ospc_Files (osps_BootstrapConfig (osp_Spec osp)) ! 0) = ''/etc/a''
    \<and> OperatingSystemProfile_DeepCopyObject demo_machinery (Some 0) copied_heap = (Inr q, h')
    \<and> viewPtr cellOSP viewOSP h' q = Some (Some osp, bs) \<and> viewPtr cellOSP viewOSP h' (Some 0) = Some (Some osp, [0, 1, 2, 3])
    \<and> {0, 1, 2, 3} \<inter> set bs = {}"
proof -
  obtain osp where osp: "viewPtr cellOSP viewOSP copied_heap (Some 0) = Some (Some osp, [0, 1, 2, 3])"
    "file_Path (ospc_Files (osps_BootstrapConfig (osp_Spec osp)) ! 0) = ''/etc/a''"
    by (simp add: demo_copy_simps)
  show ?thesis using profile_deep_copy [OF demo_machinery_copies copied_heap_ok osp(1)] osp(2) by auto
qed

section \<open>Rendering into a copy\<close>

text \<open>
  The loop of \<open>populateFilesList\<close> over the heap. \<open>file\<close> is the loop variable, a copy of the element's struct that
  shares its \<open>Inline\<close> pointer; \<open>pfile\<close> is its deep copy, and the rendered text is written through \<open>pfile\<close>.
\<close>

definition loadFile :: "ptr \<Rightarrow> (heap, FileH) M" where
  "loadFile p = (case p of
     None \<Rightarrow> throw (Panic ''invalid memory address or nil pointer dereference'')
   | Some a \<Rightarrow> load cellFile a)"

text \<open>\<open>pfile.Content.Inline.Data = buff.String()\<close>\<close>

definition setInlineData :: "ptr \<Rightarrow> string \<Rightarrow> (heap, unit) M" where
  "setInlineData pfile buff = bindE (loadFile pfile) (\<lambda>f. case fcH_Inline (fileH_Content f) of
     None \<Rightarrow> throw (Panic ''invalid memory address or nil pointer dereference'')
   | Some a \<Rightarrow> bindE (load cellInline a) (\<lambda>inl. store_cell a (CInline (inl\<lparr>inl_Data := buff\<rparr>))))"

text \<open>\<open>if pfile.Permissions == 0 { pfile.Permissions = defaultFilePermissions }\<close>\<close>

definition defaultPermissions :: "ptr \<Rightarrow> (heap, unit) M" where
  "defaultPermissions pfile = bindE (loadFile pfile) (\<lambda>f.
     case pfile of
       Some a \<Rightarrow> if fileH_Permissions f = 0 then store_cell a (CFile (f\<lparr>fileH_Permissions := defaultFilePermissions\<rparr>)) else ret ()
     | None \<Rightarrow> ret ())"

definition populateFileH :: "engine \<Rightarrow> string list \<Rightarrow> filesData \<Rightarrow> FileH \<Rightarrow> (heap, FileH) M" where
  "populateFileH E additionalTemplates d file =
     (case fcH_Inline (fileH_Content file) of
        None \<Rightarrow> throw (Panic ''nil pointer: File.Content.Inline'')
      | Some p \<Rightarrow>
          bindE (load cellInline p) (\<lambda>inl.
          bindE (lift (wrapR ''failed to parse OSP file [%s] template: %w'' [fileH_Path file]
            (te_Parse E (fileH_Path file) [] (inl_Data inl)))) (\<lambda>_.
          bindE (lift (parseMore E (fileH_Path file) [inl_Data inl] additionalTemplates)) (\<lambda>texts.
          bindE (lift (te_Execute E (fileH_Path file) texts d)) (\<lambda>buff.
          bindE (alloc (CFile file)) (\<lambda>receiver.
          bindE (File_DeepCopy (Some receiver)) (\<lambda>pfile.
          bindE (setInlineData pfile buff) (\<lambda>_.
          bindE (defaultPermissions pfile) (\<lambda>_.
          loadFile pfile)))))))))"

fun populateFilesListH :: "engine \<Rightarrow> FileH list \<Rightarrow> string list \<Rightarrow> filesData \<Rightarrow> (heap, FileH list) M" where
  "populateFilesListH E [] additionalTemplates d = ret []"
| "populateFilesListH E (file # files) additionalTemplates d =
     bindE (populateFileH E additionalTemplates d file) (\<lambda>pfile.
     bindE (populateFilesListH E files additionalTemplates d) (\<lambda>pfiles. ret (pfile # pfiles)))"

lemma bindE_load: "select proj h a = Some x \<Longrightarrow> bindE (load proj a) f h = f x h"
  by (simp add: bindE_def load_def)

lemma bindE_lift: "bindE (lift r) f h = (case r of Inl e \<Rightarrow> (Inl e, h) | Inr x \<Rightarrow> f x h)"
  by (simp add: bindE_def lift_def split: sum.splits)

lemma bindE_run: "m h = (Inr x, h') \<Longrightarrow> bindE m f h = f x h'"
  by (simp add: bindE_def)

text \<open>
  One file: the run either fails as \<open>populateFile\<close> does on the values, or returns a struct that denotes its
  result; the cells that were there before are as they were, and the result lies in new ones.
\<close>

lemma cell_elims:
  "cellInline c = Some x \<longleftrightarrow> c = CInline x" "cellFile c = Some y \<longleftrightarrow> c = CFile y"
  by (auto simp: cell_defs split: cell.splits)

interpretation filec: copier viewFile File_DeepCopyInto
  by (rule copier_File)

interpretation filesc: copier "viewAll viewFile" "copyAll File_DeepCopyInto"
  by (rule copier_all [OF copier_File])

lemma viewFile_Some:
  "viewFile h f = Some (v, as) \<longleftrightarrow>
     (case fcH_Inline (fileH_Content f) of
        None \<Rightarrow> v = \<lparr>file_Path = fileH_Path f, file_Permissions = fileH_Permissions f, file_Inline = None\<rparr> \<and> as = []
      | Some a \<Rightarrow> \<exists>inl. h_cells h a = Some (CInline inl) \<and> as = [a]
          \<and> v = \<lparr>file_Path = fileH_Path f, file_Permissions = fileH_Permissions f, file_Inline = Some inl\<rparr>)"
  by (auto simp: viewFile_def viewFileContent_def viewFields_def viewPtr_def viewFlat_def select_def
      bind_eq_Some_conv cell_elims split: option.splits)

lemma viewFilePtr_Some:
  "viewPtr cellFile viewFile h q = Some (Some v, bs) \<longleftrightarrow>
     (\<exists>c g cs. q = Some c \<and> h_cells h c = Some (CFile g) \<and> viewFile h g = Some (v, cs) \<and> bs = c # cs)"
  by (auto simp: viewPtr_def select_def bind_eq_Some_conv cell_elims split: option.splits)

text \<open>Writing through the pointer to a file with inline content.\<close>

lemma write_through:
  assumes c: "h_cells h c = Some (CFile g)" "fcH_Inline (fileH_Content g) = Some b" "h_cells h b = Some (CInline inl)"
  defines "g' \<equiv> g\<lparr>fileH_Permissions := if fileH_Permissions g = 0 then defaultFilePermissions else fileH_Permissions g\<rparr>"
  shows "\<exists>h'. bindE (setInlineData (Some c) out) (\<lambda>_. bindE (defaultPermissions (Some c)) (\<lambda>_. loadFile (Some c))) h
      = (Inr g', h') \<and> h_next h' = h_next h \<and> (\<forall>a. a \<noteq> b \<and> a \<noteq> c \<longrightarrow> h_cells h' a = h_cells h a)
      \<and> h_cells h' b = Some (CInline (inl\<lparr>inl_Data := out\<rparr>)) \<and> h_cells h' c \<noteq> None"
proof -
  have "b \<noteq> c" using c by auto
  then show ?thesis
    using c by (simp add: setInlineData_def defaultPermissions_def loadFile_def load_def select_def store_cell_def
        bindE_def ret_def g'_def)
qed

lemma populateFileH_run:
  assumes ok: "heap_ok h" and view: "viewFile h f = Some (v, as)"
  shows "\<exists>r h'. populateFileH E ts d f h = (r, h') \<and> extends h h' \<and> heap_ok h'
    \<and> (case r of
         Inl e \<Rightarrow> populateFile E ts d v = Inl e
       | Inr g \<Rightarrow> \<exists>w bs. populateFile E ts d v = Inr w \<and> viewFile h' g = Some (w, bs) \<and> (\<forall>b \<in> set bs. h_next h \<le> b))"
proof (cases "fcH_Inline (fileH_Content f)")
  case None
  with view show ?thesis using ok by (auto simp: viewFile_Some populateFileH_def populateFile_def throw_def)
next
  case (Some p)
  with view obtain inl where inl: "h_cells h p = Some (CInline inl)" "as = [p]" "file_Inline v = Some inl"
    "file_Path v = fileH_Path f" by (auto simp: viewFile_Some)
  let ?render = "bindR (wrapR ''failed to parse OSP file [%s] template: %w'' [fileH_Path f]
      (te_Parse E (fileH_Path f) [] (inl_Data inl))) (\<lambda>_.
    bindR (parseMore E (fileH_Path f) [inl_Data inl] ts) (\<lambda>texts. te_Execute E (fileH_Path f) texts d))"
  have val: "populateFile E ts d v = bindR ?render (\<lambda>out. Inr (v\<lparr>file_Inline := Some (inl\<lparr>inl_Data := out\<rparr>),
      file_Permissions := (if file_Permissions v = 0 then defaultFilePermissions else file_Permissions v)\<rparr>))"
    by (simp add: populateFile_def inl bindR_def split: sum.splits)
  have sel: "select cellInline h p = Some inl" by (simp add: select_Some [OF inl(1)])
  have run: "populateFileH E ts d f h = (case ?render of Inl e \<Rightarrow> (Inl e, h) | Inr out \<Rightarrow>
      bindE (alloc (CFile f)) (\<lambda>receiver. bindE (File_DeepCopy (Some receiver)) (\<lambda>pfile.
      bindE (setInlineData pfile out) (\<lambda>_. bindE (defaultPermissions pfile) (\<lambda>_. loadFile pfile)))) h)"
    by (simp add: populateFileH_def Some bindE_load [of cellInline, OF sel] bindE_lift bindR_def split: sum.splits)
  show ?thesis
  proof (cases ?render)
    case (Inl e)
    then show ?thesis using ok by (auto simp: val run bindR_def)
  next
    case (Inr out)
    obtain r1 h1 where al: "alloc (CFile f) h = (r1, h1)" by (cases "alloc (CFile f) h")
    note props = alloc_props [OF ok al]
    have view1: "viewPtr cellFile viewFile h1 (Some (h_next h)) = Some (Some v, h_next h # as)"
      using filec.stable [OF ok props(2) view] props(4) by (simp add: viewFilePtr_Some)
    have "copier (viewPtr cellFile viewFile) File_DeepCopy"
      unfolding File_DeepCopy_def by (intro copying) simp
    from copier.copies [OF this props(3) view1] obtain q h2 bs where q: "File_DeepCopy (Some (h_next h)) h1 = (Inr q, h2)"
      "extends h1 h2" "heap_ok h2" "viewPtr cellFile viewFile h2 q = Some (Some v, bs)" "\<forall>b \<in> set bs. h_next h1 \<le> b"
      by blast
    from q(4) obtain c g cs where c: "q = Some c" "h_cells h2 c = Some (CFile g)" "viewFile h2 g = Some (v, cs)" "bs = c # cs"
      by (auto simp: viewFilePtr_Some)
    from c(3) inl(3) obtain b where b: "fcH_Inline (fileH_Content g) = Some b" "h_cells h2 b = Some (CInline inl)" "cs = [b]"
      "v = \<lparr>file_Path = fileH_Path g, file_Permissions = fileH_Permissions g, file_Inline = Some inl\<rparr>"
      by (auto simp: viewFile_Some split: option.splits)
    from write_through [OF c(2) b(1,2), of out] obtain h3 where h3:
      "bindE (setInlineData (Some c) out) (\<lambda>_. bindE (defaultPermissions (Some c)) (\<lambda>_. loadFile (Some c))) h2
        = (Inr (g\<lparr>fileH_Permissions := if fileH_Permissions g = 0 then defaultFilePermissions else fileH_Permissions g\<rparr>), h3)"
      "h_next h3 = h_next h2" "\<forall>a. a \<noteq> b \<and> a \<noteq> c \<longrightarrow> h_cells h3 a = h_cells h2 a"
      "h_cells h3 b = Some (CInline (inl\<lparr>inl_Data := out\<rparr>))" by blast
    have new: "h_next h \<le> b" "h_next h \<le> c" using q(5) c(4) b(3) props(2) by (auto simp: extends_iff)
    have "extends h h2" using extends_trans [OF props(2) q(2)] .
    with new h3(2,3) have "extends h h3" by (auto simp: extends_iff)
    moreover have "heap_ok h3" using q(3) c(2) b(2) h3(2,3) unfolding heap_ok_def by (metis option.distinct(1))
    moreover have "populateFileH E ts d f h = (Inr (g\<lparr>fileH_Permissions :=
        if fileH_Permissions g = 0 then defaultFilePermissions else fileH_Permissions g\<rparr>), h3)"
      using al h3(1) by (simp add: run Inr props(1) c(1) bindE_run [of "alloc (CFile f)"] bindE_run [where m = "File_DeepCopy (Some (h_next h))", OF q(1)])
    moreover have "populateFile E ts d v = Inr (v\<lparr>file_Inline := Some (inl\<lparr>inl_Data := out\<rparr>),
        file_Permissions := (if file_Permissions v = 0 then defaultFilePermissions else file_Permissions v)\<rparr>)"
      unfolding val Inr by (simp add: bindR_def)
    ultimately show ?thesis
      using h3(4) b(1,4) new by (auto simp: viewFile_Some intro!: exI [of _ "[b]"])
  qed
qed

lemma populateFilesListH_run:
  assumes "heap_ok h" and "viewAll viewFile h fs = Some (vs, as)"
  shows "\<exists>r h'. populateFilesListH E fs ts d h = (r, h') \<and> extends h h' \<and> heap_ok h'
    \<and> (case r of
         Inl e \<Rightarrow> populateFilesList E vs ts d = Inl e
       | Inr gs \<Rightarrow> \<exists>ws bs. populateFilesList E vs ts d = Inr ws \<and> viewAll viewFile h' gs = Some (ws, bs)
           \<and> (\<forall>b \<in> set bs. h_next h \<le> b))"
  using assms
proof (induction fs arbitrary: h vs as)
  case Nil
  then show ?case by (auto simp: ret_def populateFilesList_def)
next
  case (Cons f fs)
  from Cons.prems(2) obtain v as1 us as2 where v: "viewFile h f = Some (v, as1)" "viewAll viewFile h fs = Some (us, as2)"
    "vs = v # us" by (auto simp: bind_eq_Some_conv)
  have val: "populateFilesList E vs ts d = bindR (populateFile E ts d v) (\<lambda>w.
      bindR (populateFilesList E us ts d) (\<lambda>ws. Inr (w # ws)))" by (simp add: populateFilesList_def v(3))
  obtain r1 h1 where r1: "populateFileH E ts d f h = (r1, h1)" "extends h h1" "heap_ok h1"
    "case r1 of Inl e \<Rightarrow> populateFile E ts d v = Inl e
     | Inr g \<Rightarrow> \<exists>w bs. populateFile E ts d v = Inr w \<and> viewFile h1 g = Some (w, bs) \<and> (\<forall>b \<in> set bs. h_next h \<le> b)"
    using populateFileH_run [OF Cons.prems(1) v(1)] by blast
  show ?case
  proof (cases r1)
    case (Inl e)
    with r1 show ?thesis by (simp add: val bindE_def bindR_def)
  next
    case (Inr g)
    with r1(4) obtain w bs where w: "populateFile E ts d v = Inr w" "viewFile h1 g = Some (w, bs)"
      "\<forall>b \<in> set bs. h_next h \<le> b" by auto
    have "viewAll viewFile h1 fs = Some (us, as2)"
      by (rule filesc.stable [OF Cons.prems(1) r1(2) v(2)])
    from Cons.IH [OF r1(3) this] obtain r2 h2 where r2: "populateFilesListH E fs ts d h1 = (r2, h2)" "extends h1 h2" "heap_ok h2"
      "case r2 of Inl e \<Rightarrow> populateFilesList E us ts d = Inl e
       | Inr gs \<Rightarrow> \<exists>ws bs. populateFilesList E us ts d = Inr ws \<and> viewAll viewFile h2 gs = Some (ws, bs)
           \<and> (\<forall>b \<in> set bs. h_next h1 \<le> b)" by blast
    note ext = extends_trans [OF r1(2) r2(2)]
    have "viewFile h2 g = Some (w, bs)" by (rule filec.stable [OF r1(3) r2(2) w(2)])
    moreover have "h_next h \<le> x" if "h_next h1 \<le> x" for x using r1(2) that by (simp add: extends_iff)
    ultimately show ?thesis
      using r1(1) Inr r2 w ext by (cases r2) (auto simp: val bindE_def ret_def bindR_def)
  qed
qed

text \<open>
  C15. Rendering leaves the profile alone. Run over a heap in which the profile's files denote \<open>vs\<close>,
  \<open>populateFilesList\<close> fails exactly with the error that it has on the values \<open>vs\<close>, and otherwise returns files that
  denote its result there; in either case the profile's files still denote \<open>vs\<close>, and no cell of the result
  belongs to them. So the model of the renderer over values is faithful although the code writes into memory.
\<close>

theorem populate_in_place:
  assumes "heap_ok h" and "viewAll viewFile h fs = Some (vs, as)"
  shows "\<exists>r h'. populateFilesListH E fs ts d h = (r, h') \<and> extends h h' \<and> heap_ok h'
    \<and> viewAll viewFile h' fs = Some (vs, as)
    \<and> (case r of
         Inl e \<Rightarrow> populateFilesList E vs ts d = Inl e
       | Inr gs \<Rightarrow> \<exists>ws bs. populateFilesList E vs ts d = Inr ws \<and> viewAll viewFile h' gs = Some (ws, bs)
           \<and> set as \<inter> set bs = {})"
proof -
  obtain r h' where r: "populateFilesListH E fs ts d h = (r, h')" "extends h h'" "heap_ok h'"
    "case r of Inl e \<Rightarrow> populateFilesList E vs ts d = Inl e
     | Inr gs \<Rightarrow> \<exists>ws bs. populateFilesList E vs ts d = Inr ws \<and> viewAll viewFile h' gs = Some (ws, bs)
         \<and> (\<forall>b \<in> set bs. h_next h \<le> b)"
    using populateFilesListH_run [OF assms] by blast
  moreover have "viewAll viewFile h' fs = Some (vs, as)" by (rule filesc.stable [OF assms(1) r(2) assms(2)])
  moreover have "set as \<inter> set bs = {}" if "\<forall>b \<in> set bs. h_next h \<le> b" for bs :: "addr list"
    using filesc.below [OF assms] that by fastforce
  ultimately show ?thesis by (cases r) auto
qed

theorem populate_in_place_witness:
  "\<forall>d. \<exists>r h'. populateFilesListH marking_engine copied_files [] d copied_heap = (r, h')
    \<and> viewAll viewFile h' copied_files = Some ([copied_file], [3])
    \<and> populateFilesList marking_engine [copied_file] [] d
        = Inr [copied_file\<lparr>file_Permissions := 644, file_Inline := Some \<lparr>inl_Encoding = ''b64'', inl_Data = ''text!''\<rparr>\<rparr>]
    \<and> (\<exists>gs bs. r = Inr gs \<and> 3 \<notin> set bs \<and> viewAll viewFile h' gs
        = Some ([copied_file\<lparr>file_Permissions := 644, file_Inline := Some \<lparr>inl_Encoding = ''b64'', inl_Data = ''text!''\<rparr>\<rparr>], bs))" (is "\<forall>d. ?P d")
proof
  fix d
  have v: "viewAll viewFile copied_heap copied_files = Some ([copied_file], [3])" by (simp add: demo_copy_simps)
  have p: "populateFilesList marking_engine [copied_file] [] d
      = Inr [copied_file\<lparr>file_Permissions := 644, file_Inline := Some \<lparr>inl_Encoding = ''b64'', inl_Data = ''text!''\<rparr>\<rparr>]"
    by (simp add: populateFilesList_def populateFile_def copied_file_def marking_engine_def wrapR_def bindR_def
        defaultFilePermissions_def)
  obtain r h' where "populateFilesListH marking_engine copied_files [] d copied_heap = (r, h')"
    "viewAll viewFile h' copied_files = Some ([copied_file], [3])"
    "case r of Inl e \<Rightarrow> populateFilesList marking_engine [copied_file] [] d = Inl e
     | Inr gs \<Rightarrow> \<exists>ws bs. populateFilesList marking_engine [copied_file] [] d = Inr ws \<and> viewAll viewFile h' gs = Some (ws, bs)
         \<and> set [3] \<inter> set bs = {}"
    using populate_in_place [OF copied_heap_ok v, of marking_engine "[]" d] by blast
  then show "?P d" using p by (cases r) auto
qed

end
