(* ===== verification/JsonTermination.thy ===== *)
theory JsonTermination
  imports GoJson
begin

text \<open>
  The fuel of the JSON parser of theory \<open>GoJson\<close>: every part of the parser takes something off the text, so that
  twice the length of the text is enough.
\<close>

text \<open>What the parts of the parser read, they take off the text.\<close>

lemma skip_ws_length: "length (skip_ws s) \<le> length s"
  by (simp add: skip_ws_def length_dropWhile_le)

lemma skip_ws_ConsD: "skip_ws s = c # r \<Longrightarrow> length r < length s"
  using skip_ws_length [of s] by simp

lemma pstr_step:
  assumes "pstr (c # s) = Some (k, r)"
  shows "r = s \<or> (\<exists>t k'. length t \<le> length s \<and> pstr t = Some (k', r))"
  using assms [unfolded pstr.simps(2)]
  by (force simp del: pstr.simps split: if_splits option.splits list.splits)

lemma pstr_length: "pstr s = Some (k, r) \<Longrightarrow> length r < length s"
proof (induction "length s" arbitrary: s k rule: less_induct)
  case less
  then obtain c s' where s: "s = c # s'" by (cases s) auto
  from pstr_step [OF less.prems [unfolded s]] show ?case
  proof
    assume "r = s'"
    with s show ?thesis by simp
  next
    assume "\<exists>t k'. length t \<le> length s' \<and> pstr t = Some (k', r)"
    then obtain t k' where "length t \<le> length s'" "pstr t = Some (k', r)" by blast
    with less.hyps [of t k'] s show ?thesis by simp
  qed
qed

lemma pdigits_length: "pdigits s = Some (d, r) \<Longrightarrow> length r < length s"
  by (cases s) (auto simp: pdigits_def length_dropWhile_le le_imp_less_Suc split: if_splits)

lemma pint_length: "pint s = Some (d, r) \<Longrightarrow> length r < length s"
  by (auto simp: pint_def split: list.splits if_splits dest!: pdigits_length)

lemma pfrac_length: "pfrac s = Some (d, r) \<Longrightarrow> length r \<le> length s"
  by (auto simp: pfrac_def split: list.splits if_splits dest!: pdigits_length)

lemma pexp_length: "pexp s = Some (d, r) \<Longrightarrow> length r \<le> length s"
  by (auto simp: pexp_def split: list.splits if_splits dest!: pdigits_length)

lemma pnum_length: "pnum s = Some (d, r) \<Longrightarrow> length r < length s"
  by (auto simp: pnum_def split: list.splits if_splits option.splits prod.splits
      dest!: pint_length pfrac_length pexp_length)

lemma parser_length:
  "(\<forall>s j r. pval n s = Some (j, r) \<longrightarrow> length r < length s)
   \<and> (\<forall>s js r. parr n s = Some (js, r) \<longrightarrow> length r < length s)
   \<and> (\<forall>s ms r. pmem n s = Some (ms, r) \<longrightarrow> length r < length s)"
proof (induction n)
  case (Suc n)
  then have val: "\<And>s j r. pval n s = Some (j, r) \<Longrightarrow> length r < length s"
    and arr: "\<And>s js r. parr n s = Some (js, r) \<Longrightarrow> length r < length s"
    and mem: "\<And>s ms r. pmem n s = Some (ms, r) \<Longrightarrow> length r < length s" by blast+
  have "length r < length s" if run: "pval (Suc n) s = Some (j, r)" for s j r
  proof -
    obtain c t where c: "skip_ws s = c # t" using run by (cases "skip_ws s") auto
    note run' = run [unfolded pval.simps(2) c list.case]
    have "length r < length (c # t)"
    proof (cases "c = CHR 0x22")
      case True
      with run' show ?thesis by (auto dest: pstr_length)
    next
      case q: False
      show ?thesis
      proof (cases "c \<in> {CHR ''{'', CHR ''[''}")
        case True
        then obtain d u where d: "skip_ws t = d # u" using run' q by (cases "skip_ws t") auto
        have "r = u \<or> length r < length (d # u)" using run' q True unfolding d by (auto dest: arr mem split: if_splits)
        with skip_ws_length [of t] d show ?thesis by auto
      next
        case False
        define p1 p2 p3 where p: "p1 = prefix ''null'' (c # t)" "p2 = prefix ''true'' (c # t)" "p3 = prefix ''false'' (c # t)"
        from False q run' have "(if p1 then Some (JNull, drop 4 (c # t)) else if p2 then Some (JBool True, drop 4 (c # t))
          else if p3 then Some (JBool False, drop 5 (c # t)) else map_option (apfst JNum) (pnum (c # t))) = Some (j, r)"
          unfolding p by simp
        then have "r = drop 4 (c # t) \<or> r = drop 5 (c # t) \<or> (\<exists>x. pnum (c # t) = Some (x, r))"
          by (cases p1; cases p2; cases p3) (auto simp del: drop_Suc_Cons drop_Cons_numeral)
        then show ?thesis by (auto dest: pnum_length)
      qed
    qed
    with skip_ws_length [of s] c show ?thesis by simp
  qed
  moreover have "length r < length s" if "parr (Suc n) s = Some (js, r)" for s js r
    using that by (auto split: option.splits list.splits if_splits dest!: val arr skip_ws_ConsD)
  moreover have "length r < length s" if "pmem (Suc n) s = Some (ms, r)" for s ms r
    using that by (auto split: option.splits list.splits if_splits dest!: val mem pstr_length skip_ws_ConsD)
  ultimately show ?case by blast
qed simp

lemmas pval_length = parser_length [THEN conjunct1, rule_format]

text \<open>Twice the length of the text is fuel enough: a parser that gives up has met an error.\<close>

lemma parser_fuel:
  "(\<forall>s m. 2 * length s + 1 \<le> n \<longrightarrow> n \<le> m \<longrightarrow> pval m s = pval n s)
   \<and> (\<forall>s m. 2 * length s + 2 \<le> n \<longrightarrow> n \<le> m \<longrightarrow> parr m s = parr n s)
   \<and> (\<forall>s m. 2 * length s + 2 \<le> n \<longrightarrow> n \<le> m \<longrightarrow> pmem m s = pmem n s)"
proof (induction n)
  case (Suc n)
  then have val: "\<And>s m. 2 * length s + 1 \<le> n \<Longrightarrow> n \<le> m \<Longrightarrow> pval m s = pval n s"
    and arr: "\<And>s m. 2 * length s + 2 \<le> n \<Longrightarrow> n \<le> m \<Longrightarrow> parr m s = parr n s"
    and mem: "\<And>s m. 2 * length s + 2 \<le> n \<Longrightarrow> n \<le> m \<Longrightarrow> pmem m s = pmem n s" by blast+
  have "pval m s = pval (Suc n) s" if fuel: "2 * length s + 1 \<le> Suc n" "Suc n \<le> m" for s m
  proof -
    obtain m' where m: "m = Suc m'" "n \<le> m'" using fuel(2) by (cases m) auto
    show ?thesis
    proof (cases "skip_ws s")
      case Nil
      then show ?thesis by (simp add: m)
    next
      case (Cons c t)
      have inner: "pmem m' u = pmem n u" "parr m' u = parr n u" if "length u \<le> length t" for u
        using fuel(1) that skip_ws_ConsD [OF Cons] m(2) by (auto intro!: mem arr)
      have "length (d # u) \<le> length t" if "skip_ws t = d # u" for d u
        using skip_ws_length [of t] that by simp
      with inner show ?thesis by (simp add: m Cons split: list.splits)
    qed
  qed
  moreover have "parr m s = parr (Suc n) s" if fuel: "2 * length s + 2 \<le> Suc n" "Suc n \<le> m" for s m
  proof -
    obtain m' where m: "m = Suc m'" "n \<le> m'" using fuel(2) by (cases m) auto
    have head: "pval m' s = pval n s" using fuel(1) m(2) by (intro val) auto
    have "parr m' t = parr n t" if "pval n s = Some (j, r)" "skip_ws r = d # t" for j r d t
      using fuel(1) m(2) pval_length [OF that(1)] skip_ws_ConsD [OF that(2)] by (intro arr) auto
    with head show ?thesis by (simp add: m split: option.splits list.splits)
  qed
  moreover have "pmem m s = pmem (Suc n) s" if fuel: "2 * length s + 2 \<le> Suc n" "Suc n \<le> m" for s m
  proof -
    obtain m' where m: "m = Suc m'" "n \<le> m'" using fuel(2) by (cases m) auto
    have v: "pval m' r2 = pval n r2" if "skip_ws s = c # r" "pstr r = Some (k, r1)" "skip_ws r1 = col # r2" for c r k r1 col r2
      using fuel(1) m(2) skip_ws_ConsD [OF that(1)] pstr_length [OF that(2)] skip_ws_ConsD [OF that(3)]
      by (intro val) auto
    have t: "pmem m' t = pmem n t" if "skip_ws s = c # r" "pstr r = Some (k, r1)" "skip_ws r1 = col # r2"
      "pval n r2 = Some (j, r3)" "skip_ws r3 = d # t" for c r k r1 col r2 j r3 d t
      using fuel(1) m(2) skip_ws_ConsD [OF that(1)] pstr_length [OF that(2)] skip_ws_ConsD [OF that(3)]
        pval_length [OF that(4)] skip_ws_ConsD [OF that(5)]
      by (intro mem) auto
    show ?thesis by (simp add: m v t cong: if_cong split: option.splits list.splits)
  qed
  ultimately show ?case by blast
qed simp

lemma json_fuel_enough: "json_fuel s \<le> n \<Longrightarrow> pval n s = pval (json_fuel s) s"
  using parser_fuel [of "json_fuel s"] by (simp add: json_fuel_def)

text \<open>
  So \<open>StrictUnmarshal\<close> refuses a text only because of what it says, or because it is nested more deeply than the
  scanner of \<open>encoding/json\<close> allows, never because the model gave up on a long one.
\<close>

lemma strict_unmarshal_fuel:
  assumes "json_fuel buf \<le> n"
  shows "StrictUnmarshal dec buf =
    (case pval n buf of
       None \<Rightarrow> Inl (Errorf ''invalid JSON'' [])
     | Some (j, rest) \<Rightarrow> if nestedWithin maxNestingDepth j then bindR (members j) (dec True) else Inl (Errorf ''invalid JSON'' []))"
  using json_fuel_enough [OF assms]
  by (simp add: StrictUnmarshal_def json_decode_first_def split: option.splits prod.splits)

end
