(* ===== verification/TemplateFunctions.thy ===== *)
theory TemplateFunctions
  imports GoStrings
begin

text \<open>
  \<open>pkg/util/funcmap\<close>: the functions that the templates of profiles may call, beside those of the sprig library.
  They convert between values of any Go type (\<open>'v\<close>) and text by encoders that work by reflection: YAML, TOML and
  JSON, parameters here. What the code adds is what becomes of an error inside a template, where none can be
  returned.
\<close>

text \<open>
  Unmarshalling fills in the map or slice it is given, a nil map (None) if the document says so, and may have
  filled in a part of it when it fails.
\<close>

type_synonym 'v gomap = "(string \<times> 'v) list option"

record 'v codec =
  Marshal :: "'v \<Rightarrow> string res"
  UnmarshalMap :: "string \<Rightarrow> 'v gomap \<Rightarrow> 'v gomap \<times> error option"
  UnmarshalSlice :: "string \<Rightarrow> 'v list \<Rightarrow> 'v list \<times> error option"

record 'v codecs =
  cd_yaml :: "'v codec"
  cd_toml :: "'v codec"
  cd_json :: "'v codec"
  cd_string :: "string \<Rightarrow> 'v"
  cd_Error :: "error \<Rightarrow> string"

section \<open>Writing\<close>

definition toYAML :: "'v codecs \<Rightarrow> 'v \<Rightarrow> string" where
  "toYAML C v = (case Marshal (cd_yaml C) v of Inl err \<Rightarrow> [] | Inr data \<Rightarrow> TrimSuffix data nl)"

definition toTOML :: "'v codecs \<Rightarrow> 'v \<Rightarrow> string" where
  "toTOML C v = (case Marshal (cd_toml C) v of Inl err \<Rightarrow> cd_Error C err | Inr data \<Rightarrow> data)"

definition toJSON :: "'v codecs \<Rightarrow> 'v \<Rightarrow> string" where
  "toJSON C v = (case Marshal (cd_json C) v of Inl err \<Rightarrow> [] | Inr data \<Rightarrow> data)"

section \<open>Reading\<close>

text \<open>\<open>m["Error"] = err.Error()\<close>, which panics on a nil map.\<close>

definition setError :: "'v codecs \<Rightarrow> error \<Rightarrow> 'v gomap \<Rightarrow> 'v gomap res" where
  "setError C err m = (case m of
     None \<Rightarrow> Inl (Panic ''assignment to entry in nil map'')
   | Some es \<Rightarrow> Inr (Some (mput ''Error'' (cd_string C (cd_Error C err)) es)))"

definition fromYAML :: "'v codecs \<Rightarrow> string \<Rightarrow> 'v gomap res" where
  "fromYAML C str = (case UnmarshalMap (cd_yaml C) str (Some []) of
     (m, Some err) \<Rightarrow> setError C err m | (m, None) \<Rightarrow> Inr m)"

definition fromTOML :: "'v codecs \<Rightarrow> string \<Rightarrow> 'v gomap res" where
  "fromTOML C str = (case UnmarshalMap (cd_toml C) str (Some []) of
     (m, Some err) \<Rightarrow> setError C err m | (m, None) \<Rightarrow> Inr m)"

definition fromJSON :: "'v codecs \<Rightarrow> string \<Rightarrow> 'v gomap res" where
  "fromJSON C str = (case UnmarshalMap (cd_json C) str (Some []) of
     (m, Some err) \<Rightarrow> setError C err m | (m, None) \<Rightarrow> Inr m)"

definition fromYAMLArray :: "'v codecs \<Rightarrow> string \<Rightarrow> 'v list" where
  "fromYAMLArray C str = (case UnmarshalSlice (cd_yaml C) str [] of
     (a, Some err) \<Rightarrow> [cd_string C (cd_Error C err)] | (a, None) \<Rightarrow> a)"

definition fromJSONArray :: "'v codecs \<Rightarrow> string \<Rightarrow> 'v list" where
  "fromJSONArray C str = (case UnmarshalSlice (cd_json C) str [] of
     (a, Some err) \<Rightarrow> [cd_string C (cd_Error C err)] | (a, None) \<Rightarrow> a)"

section \<open>The function map\<close>

datatype ('v, 'f) template_func =
    ToText "'v \<Rightarrow> string" | FromMap "string \<Rightarrow> 'v gomap res" | FromArray "string \<Rightarrow> 'v list" | Sprig 'f

definition extraFuncs :: "'v codecs \<Rightarrow> (string \<times> ('v, 'f) template_func) list" where
  "extraFuncs C =
     [(''toToml'', ToText (toTOML C)), (''fromToml'', FromMap (fromTOML C)),
      (''toYaml'', ToText (toYAML C)), (''fromYaml'', FromMap (fromYAML C)),
      (''fromYamlArray'', FromArray (fromYAMLArray C)),
      (''toJson'', ToText (toJSON C)), (''fromJson'', FromMap (fromJSON C)),
      (''fromJsonArray'', FromArray (fromJSONArray C))]"

definition ExtraTxtFuncMap ::
    "'v codecs \<Rightarrow> (string \<times> 'f) list \<Rightarrow> (string \<times> ('v, 'f) template_func) list" where
  "ExtraTxtFuncMap C sprig =
     fold (\<lambda>(k, v) funcMap. mput k v funcMap) (extraFuncs C) (map (\<lambda>(k, f). (k, Sprig f)) sprig)"

lemma map_of_Sprig: "map_of (map (\<lambda>(k, f). (k, Sprig f)) sprig) name = map_option Sprig (map_of sprig name)"
  by (induction sprig) auto

text \<open>The program's functions replace those of the same name in sprig, which has \<open>toJson\<close> and \<open>fromJson\<close>, too.\<close>

lemma function_map:
  "map_of (ExtraTxtFuncMap C sprig) name = (case map_of (extraFuncs C) name of
     Some f \<Rightarrow> Some f
   | None \<Rightarrow> map_option Sprig (map_of sprig name))"
  by (simp add: ExtraTxtFuncMap_def extraFuncs_def map_of_mput map_of_Sprig)

text \<open>
  Only \<open>toToml\<close> lets an error through: a value that no encoder takes is the empty text for the others and the text
  of the error for \<open>toToml\<close>, where it becomes part of the rendered file.
\<close>

lemma marshal_errors:
  assumes "\<And>c. c \<in> {cd_yaml C, cd_toml C, cd_json C} \<Longrightarrow> Marshal c v = Inl err"
  shows "toYAML C v = []" "toJSON C v = []" "toTOML C v = cd_Error C err"
  using assms by (simp_all add: toYAML_def toJSON_def toTOML_def)

end
