(* ===== verification/GoDuration.thy ===== *)
theory GoDuration
  imports GoTime
begin

text \<open>
  \<open>time.Duration.String\<close>, and that \<open>time.ParseDuration\<close> reads what it writes. The fractions that are
  written have at most as many digits as the unit has powers of ten, so that Go's multiplication in
  \<open>float64\<close> is exact for them.
\<close>

section \<open>Writing durations\<close>

text \<open>The fraction of \<open>v / 10^prec\<close> without trailing zeros, and the whole part.\<close>

definition fmtFrac :: "nat \<Rightarrow> nat \<Rightarrow> string \<times> nat" where
  "fmtFrac v prec =
     (let ds = pad prec (v mod 10 ^ prec); t = rev (dropWhile (\<lambda>c. c = CHR ''0'') (rev ds)) in
      (if t = [] then [] else CHR ''.'' # t, v div 10 ^ prec))"

definition unitText :: "nat \<Rightarrow> nat \<Rightarrow> string \<Rightarrow> string" where
  "unitText v prec u = show_nat (snd (fmtFrac v prec)) @ fst (fmtFrac v prec) @ u"

definition secondsText :: "nat \<Rightarrow> string" where
  "secondsText v =
     (let s = snd (fmtFrac v 9); m = s div 60; h = m div 60 in
      (if m > 0 then (if h > 0 then show_nat h @ ''h'' else []) @ show_nat (m mod 60) @ ''m'' else [])
      @ show_nat (s mod 60) @ fst (fmtFrac v 9) @ ''s'')"

definition DurationString :: "int \<Rightarrow> string" where
  "DurationString d =
     (let u = nat \<bar>d\<bar>;
          text = (if u = 0 then ''0s''
                  else if u < 1000 then unitText u 0 ''ns''
                  else if u < 1000000 then unitText u 3 [CHR 0xC2, CHR 0xB5, CHR ''s'']
                  else if u < 1000000000 then unitText u 6 ''ms''
                  else secondsText u) in
      if d < 0 then CHR ''-'' # text else text)"

section \<open>Reading them back\<close>

lemma digits_val_foldl:
  "list_all is_digit ds \<Longrightarrow> digits_val ds = foldl (\<lambda>n c. 10 * n + digit_val c) 0 ds"
  by (cases "ds = []") (simp_all add: digits_val_def read_nat_def)

lemma digits_val_simps [simp]: "digits_val (show_nat n) = n" "digits_val [] = 0"
  by (simp add: digits_val_def) (simp add: digits_val_def read_nat_def)

lemma foldl_zeros:
  "foldl (\<lambda>n c. 10 * n + digit_val c) a (replicate k (CHR ''0'')) = a * 10 ^ k"
  by (induction k arbitrary: a) (simp_all add: digit_val_def)

lemma pad_digits: "list_all is_digit (pad w n)"
  using show_nat_digits [of n] by (auto simp: pad_def list_all_iff is_digit_def)

text \<open>The digits without their trailing zeros still denote the fraction.\<close>

lemma fmtFrac_digits:
  assumes "fmtFrac v prec = (f, q)"
  shows "q = v div 10 ^ prec" "f = [] \<or> f = CHR ''.'' # tl f" "list_all is_digit (tl f)"
    "digits_val (tl f) * 10 ^ prec div 10 ^ length (tl f) = v mod 10 ^ prec"
proof -
  let ?ds = "pad prec (v mod 10 ^ prec)"
  define t where "t = rev (dropWhile (\<lambda>c. c = CHR ''0'') (rev ?ds))"
  have "f = fst (fmtFrac v prec)" "q = snd (fmtFrac v prec)" using assms by simp_all
  then have f: "f = (if t = [] then [] else CHR ''.'' # t)" and "q = v div 10 ^ prec"
    by (simp_all only: fmtFrac_def Let_def t_def fst_conv snd_conv)
  then have tl: "tl f = t" by simp
  define j where "j = length (takeWhile (\<lambda>c. c = CHR ''0'') (rev ?ds))"
  have split: "takeWhile (\<lambda>c. c = CHR ''0'') (rev ?ds) @ rev t = rev ?ds" by (simp add: t_def)
  have zeros: "takeWhile (\<lambda>c. c = CHR ''0'') (rev ?ds) = replicate j (CHR ''0'')"
    unfolding j_def by (rule replicate_length_same [symmetric]) (auto dest: set_takeWhileD)
  from split have "replicate j (CHR ''0'') @ rev t = rev ?ds" unfolding zeros .
  from arg_cong [OF this, of rev] have ds: "?ds = t @ replicate j (CHR ''0'')" by (simp only: rev_append rev_rev_ident rev_replicate)
  have digits: "list_all is_digit t" using pad_digits [of prec "v mod 10 ^ prec"] unfolding ds by simp
  have val: "v mod 10 ^ prec = digits_val t * 10 ^ j"
    using read_pad [of prec "v mod 10 ^ prec"] digits unfolding ds digits_val_foldl [OF digits]
    by (auto simp: read_nat_def foldl_zeros split: if_splits)
  show "digits_val (tl f) * 10 ^ prec div 10 ^ length (tl f) = v mod 10 ^ prec"
  proof (cases "prec = 0")
    case True
    then have "digits_val t = 0" using val by simp
    with True show ?thesis by (simp add: tl)
  next
    case False
    then have "length t + j = prec"
      using length_pad [of "v mod 10 ^ prec" prec] unfolding ds by simp
    then have "(10::nat) ^ prec = 10 ^ j * 10 ^ length t" by (metis add.commute power_add)
    then show ?thesis unfolding tl val by simp
  qed
  show "q = v div 10 ^ prec" by fact
  show "f = [] \<or> f = CHR ''.'' # tl f" "list_all is_digit (tl f)" using f digits by auto
qed

lemma takeWhile_digits:
  "list_all is_digit ds \<Longrightarrow> r = [] \<or> \<not> is_digit (hd r) \<Longrightarrow> takeWhile is_digit (ds @ r) = ds \<and> dropWhile is_digit (ds @ r) = r"
  by (cases r) (auto simp: list_all_iff takeWhile_append2 dropWhile_append2)

lemma takeWhile_unit:
  "\<forall>c \<in> set u. \<not> num_char c \<Longrightarrow> r = [] \<or> num_char (hd r)
    \<Longrightarrow> takeWhile (\<lambda>c. \<not> num_char c) (u @ r) = u \<and> dropWhile (\<lambda>c. \<not> num_char c) (u @ r) = r"
  by (cases r) (auto simp: takeWhile_append2 dropWhile_append2)

lemma duration_item_text:
  assumes f: "f = [] \<or> f = CHR ''.'' # tl f" "list_all is_digit (tl f)"
    and u: "u \<noteq> []" "\<forall>c \<in> set u. \<not> num_char c" "unit_map u = Some un"
    and r: "r = [] \<or> is_digit (hd r)"
    and v: "v = n * un + digits_val (tl f) * un div 10 ^ length (tl f)" "v \<le> 2 ^ 63"
  shows "duration_item (show_nat n @ f @ u @ r) = Some (v, r)"
proof -
  have un: "0 < un" using u(3) by (auto simp: unit_map_def split: if_splits)
  have hu: "\<not> is_digit (hd u)" "hd u \<noteq> CHR ''.''" using u(1,2) by (auto simp: neq_Nil_conv num_char_def)
  then have next1: "\<not> is_digit (hd (f @ u @ r))"
    using f(1) u(1) by (cases f) (auto simp: is_digit_def)
  note pre = takeWhile_digits [OF show_nat_digits [of n], of "f @ u @ r"]
  note post = takeWhile_digits [OF f(2), of "u @ r"]
  note unit = takeWhile_unit [OF u(2), of r]
  have "num_char (hd r)" if "r \<noteq> []" using r that by (simp add: num_char_def)
  then have unit': "takeWhile (\<lambda>c. \<not> num_char c) (u @ r) = u" "dropWhile (\<lambda>c. \<not> num_char c) (u @ r) = r"
    using unit by auto
  have pre': "takeWhile is_digit (show_nat n @ f @ u @ r) = show_nat n" "dropWhile is_digit (show_nat n @ f @ u @ r) = f @ u @ r"
    using pre next1 by auto
  have post': "takeWhile is_digit (tl f @ u @ r) = tl f" "dropWhile is_digit (tl f @ u @ r) = u @ r"
    using post hu(1) u(1) by auto
  have "n * un \<le> 2 ^ 63" using v by linarith
  then have "n \<le> 2 ^ 63 div un" using un by (simp add: less_eq_div_iff_mult_less_eq)
  moreover have "n \<le> 2 ^ 63" using \<open>n * un \<le> 2 ^ 63\<close> un by (metis le_trans mult_le_mono2 nat_mult_1_right Suc_leI One_nat_def)
  ultimately show ?thesis
  proof (cases "f = []")
    case True
    then show ?thesis
      using \<open>n \<le> 2 ^ 63 div un\<close> \<open>n \<le> 2 ^ 63\<close> hu u v unit' pre'
      by (simp add: duration_item_def Let_def)
  next
    case False
    then obtain t where t: "f = CHR ''.'' # t" using f(1) by blast
    then show ?thesis
      using \<open>n \<le> 2 ^ 63 div un\<close> \<open>n \<le> 2 ^ 63\<close> u v unit' pre' post'
      by (simp add: duration_item_def Let_def)
  qed
qed

lemma duration_items_text:
  assumes "f = [] \<or> f = CHR ''.'' # tl f" "list_all is_digit (tl f)"
    and "u \<noteq> []" "\<forall>c \<in> set u. \<not> num_char c" "unit_map u = Some un" "r = [] \<or> is_digit (hd r)"
    and "v = n * un + digits_val (tl f) * un div 10 ^ length (tl f)" "d + v \<le> 2 ^ 63"
  shows "duration_items d (show_nat n @ f @ u @ r) = duration_items (d + v) r"
  using duration_item_text [OF assms(1-7)] assms(8) by (subst duration_items.simps) simp

lemma duration_items_Nil: "duration_items d [] = Some d"
  by (subst duration_items.simps) simp

lemmas duration_whole = duration_items_text [where f = "[]", simplified]

lemma unit_chars:
  "\<forall>c \<in> set ''ns''. \<not> num_char c" "\<forall>c \<in> set [CHR 0xC2, CHR 0xB5, CHR ''s'']. \<not> num_char c" "\<forall>c \<in> set ''ms''. \<not> num_char c"
  "\<forall>c \<in> set ''s''. \<not> num_char c" "\<forall>c \<in> set ''m''. \<not> num_char c" "\<forall>c \<in> set ''h''. \<not> num_char c"
  by code_simp+

lemma read_unitText:
  assumes "unit_map u = Some (10 ^ prec)" "u \<noteq> []" "\<forall>c \<in> set u. \<not> num_char c" "v \<le> 2 ^ 63"
  shows "duration_items 0 (unitText v prec u) = Some v"
proof -
  obtain f q where fq: "fmtFrac v prec = (f, q)" by force
  note d = fmtFrac_digits [OF fq]
  have "v = q * 10 ^ prec + digits_val (tl f) * 10 ^ prec div 10 ^ length (tl f)"
    unfolding d(1,4) by (rule div_mult_mod_eq [symmetric])
  then have "duration_items 0 (show_nat q @ f @ u @ []) = duration_items (0 + v) []"
    by (rule duration_items_text [OF d(2,3) assms(2,3,1) disjI1 [OF refl]]) (use assms(4) in simp)
  then show ?thesis by (simp add: unitText_def fq duration_items_Nil)
qed

lemma is_digit_hd: "is_digit (hd (show_nat n @ r))"
  using show_nat_digits [of n] by (cases "show_nat n") (auto simp: list_all_iff dest: sym)

lemma read_secondsText:
  assumes "v \<le> 2 ^ 63"
  shows "duration_items 0 (secondsText v) = Some v"
proof -
  obtain f s where fs: "fmtFrac v 9 = (f, s)" by force
  note d = fmtFrac_digits [OF fs]
  define m h where "m = s div 60" and "h = m div 60"
  have units: "unit_map ''s'' = Some (10 ^ 9)" "unit_map ''m'' = Some (60 * 10 ^ 9)" "unit_map ''h'' = Some (3600 * 10 ^ 9)"
    by (simp_all add: unit_map_def)
  have s: "v = s * 10 ^ 9 + v mod 10 ^ 9" using d(1) by simp
  have sum: "s = h * 3600 + (m mod 60) * 60 + s mod 60"
  proof -
    have "m = h * 60 + m mod 60" "s = m * 60 + s mod 60" by (simp_all add: h_def m_def)
    then show ?thesis by linarith
  qed
  have secs: "duration_items a (show_nat (s mod 60) @ f @ ''s'') = Some v" if "a = (h * 3600 + (m mod 60) * 60) * 10 ^ 9" for a
  proof -
    have v: "v = a + ((s mod 60) * 10 ^ 9 + v mod 10 ^ 9)" using s sum that by simp
    have "duration_items a (show_nat (s mod 60) @ f @ ''s'' @ []) = duration_items (a + ((s mod 60) * 10 ^ 9 + v mod 10 ^ 9)) []"
      by (rule duration_items_text [OF d(2,3) _ unit_chars(4) units(1) disjI1 [OF refl]]) (use d(4) v assms in simp_all)
    then show ?thesis using v by (simp add: duration_items_Nil)
  qed
  have bound: "(h * 3600 + (m mod 60) * 60) * 10 ^ 9 \<le> v" using s sum by (simp add: distrib_right)
  have mins: "duration_items a (show_nat (m mod 60) @ ''m'' @ show_nat (s mod 60) @ f @ ''s'') = Some v"
    if "a = h * 3600 * 10 ^ 9" for a
    using duration_whole [OF _ unit_chars(5) units(2), of "show_nat (s mod 60) @ f @ ''s''" "(m mod 60) * (60 * 10 ^ 9)" "m mod 60" a]
      secs [of "a + (m mod 60) * (60 * 10 ^ 9)"] that bound assms is_digit_hd
    by (simp add: distrib_right algebra_simps)
  have hours: "duration_items 0 (show_nat h @ ''h'' @ show_nat (m mod 60) @ ''m'' @ show_nat (s mod 60) @ f @ ''s'') = Some v"
    using duration_whole [OF _ unit_chars(6) units(3), of "show_nat (m mod 60) @ ''m'' @ show_nat (s mod 60) @ f @ ''s''" "h * (3600 * 10 ^ 9)" h 0]
      mins [of "h * (3600 * 10 ^ 9)"] bound assms is_digit_hd
    by (simp add: distrib_right algebra_simps)
  have "h = 0" if "m = 0" using that by (simp add: h_def)
  then show ?thesis
    using secs [of 0] mins [of 0] hours
    by (auto simp: secondsText_def fs Let_def m_def [symmetric] h_def [symmetric])
qed

text \<open>What is written starts with a digit, is no bare zero, and is read as the absolute value.\<close>

lemma ParseDuration_text:
  assumes "duration_items 0 s = Some u" "is_digit (hd s)" "s \<noteq> []" "s \<noteq> ''0''" "u \<le> 2 ^ 63"
  shows "u < 2 ^ 63 \<Longrightarrow> ParseDuration s = Inr (int u)" "ParseDuration (CHR ''-'' # s) = Inr (- int u)"
proof -
  have "hd s \<noteq> CHR ''-''" "hd s \<noteq> CHR ''+''" using assms(2) by (auto simp: is_digit_def)
  then show "u < 2 ^ 63 \<Longrightarrow> ParseDuration s = Inr (int u)" "ParseDuration (CHR ''-'' # s) = Inr (- int u)"
    using assms by (simp_all add: ParseDuration_def Let_def)
qed

lemma zero_digit: "is_digit (CHR ''0'')"
  by (simp add: is_digit_def)

lemma ParseDuration_String:
  assumes "- (2 ^ 63) \<le> d" "d < 2 ^ 63"
  shows "ParseDuration (DurationString d) = Inr d"
proof -
  define u where "u = nat \<bar>d\<bar>"
  define out where "out = (if u = 0 then ''0s'' else if u < 1000 then unitText u 0 ''ns''
    else if u < 1000000 then unitText u 3 [CHR 0xC2, CHR 0xB5, CHR ''s''] else if u < 1000000000 then unitText u 6 ''ms''
    else secondsText u)"
  have u: "u \<le> 2 ^ 63" "0 \<le> d \<Longrightarrow> u < 2 ^ 63" using assms by (auto simp: u_def)
  have "show_nat 0 = ''0''" by code_simp
  then have zero: "duration_items 0 ''0s'' = Some 0"
    using duration_whole [of "''s''" "10 ^ 9" "[]" 0 0 0] unit_chars(4) by (simp add: unit_map_def duration_items_Nil)
  have units: "unit_map ''ns'' = Some (10 ^ 0)" "unit_map [CHR 0xC2, CHR 0xB5, CHR ''s''] = Some (10 ^ 3)"
    "unit_map ''ms'' = Some (10 ^ 6)" by (simp_all add: unit_map_def)
  have items: "duration_items 0 out = Some u"
    using zero read_unitText [OF units(1) _ unit_chars(1) u(1)] read_unitText [OF units(2) _ unit_chars(2) u(1)]
      read_unitText [OF units(3) _ unit_chars(3) u(1)] read_secondsText [OF u(1)]
    unfolding out_def by (simp split: if_split)
  have hd: "is_digit (hd out)"
    using is_digit_hd [of _ "[]"] zero_digit
    by (simp add: out_def unitText_def secondsText_def Let_def)
  have shape: "out \<noteq> []" "out \<noteq> ''0''"
    by (auto simp: out_def unitText_def secondsText_def Let_def)
  have "DurationString d = (if d < 0 then CHR ''-'' # out else out)"
    by (simp only: DurationString_def Let_def out_def u_def)
  then show ?thesis
    using ParseDuration_text [OF items hd shape u(1)] u(2) by (cases "d < 0") (auto simp: u_def)
qed

end
