(* ===== verification/Helpers.thy ===== *)
theory Helpers
  imports GoDuration OSPController
begin

text \<open>
  What the repository offers besides the two programs: filters for the events of a controller
  (\<open>pkg/util/predicate\<close>), durations in INI files (\<open>pkg/util/ini\<close>), the reconciling loop for configurations and
  the reports of the reconciling library (\<open>pkg/resources/reconciling\<close>), and the registration of the
  repository's types with a scheme (\<open>pkg/crd/osm/v1alpha1/register.go\<close>).
\<close>

section \<open>Event filters\<close>

text \<open>
  \<open>predicate.Funcs\<close> of controller-runtime: a function for each kind of event, or nil, which lets every event pass.
\<close>

datatype event = CreateEvent kobj | UpdateEvent kobj kobj | DeleteEvent kobj | GenericEvent kobj

record Funcs =
  CreateFunc :: "(kobj \<Rightarrow> bool) option"
  UpdateFunc :: "(kobj \<Rightarrow> kobj \<Rightarrow> bool) option"
  DeleteFunc :: "(kobj \<Rightarrow> bool) option"
  GenericFunc :: "(kobj \<Rightarrow> bool) option"

fun passes :: "Funcs \<Rightarrow> event \<Rightarrow> bool" where
  "passes p (CreateEvent x) = (case CreateFunc p of None \<Rightarrow> True | Some f \<Rightarrow> f x)"
| "passes p (UpdateEvent old new) = (case UpdateFunc p of None \<Rightarrow> True | Some f \<Rightarrow> f old new)"
| "passes p (DeleteEvent x) = (case DeleteFunc p of None \<Rightarrow> True | Some f \<Rightarrow> f x)"
| "passes p (GenericEvent x) = (case GenericFunc p of None \<Rightarrow> True | Some f \<Rightarrow> f x)"

definition noFuncs :: Funcs where
  "noFuncs = \<lparr>CreateFunc = None, UpdateFunc = None, DeleteFunc = None, GenericFunc = None\<rparr>"

definition Factory :: "(kobj \<Rightarrow> bool) option \<Rightarrow> Funcs" where
  "Factory filter' = (case filter' of
     None \<Rightarrow> noFuncs
   | Some f \<Rightarrow> noFuncs\<lparr>CreateFunc := Some f, UpdateFunc := Some (\<lambda>old new. f old \<or> f new), DeleteFunc := Some f\<rparr>)"

definition ByNamespace :: "string \<Rightarrow> Funcs" where
  "ByNamespace namespace = Factory (Some (\<lambda>x. meta_Namespace (meta_of x) = namespace))"

text \<open>The objects an event is about; an event passes if one of them is wanted, and a generic event always does.\<close>

fun involved :: "event \<Rightarrow> kobj set" where
  "involved (CreateEvent x) = {x}"
| "involved (UpdateEvent old new) = {old, new}"
| "involved (DeleteEvent x) = {x}"
| "involved (GenericEvent x) = {}"

lemma Factory_passes: "passes (Factory (Some f)) e \<longleftrightarrow> involved e = {} \<or> (\<exists>x \<in> involved e. f x)"
  by (cases e) (auto simp: Factory_def noFuncs_def)

lemma Factory_nil: "passes (Factory None) e"
  by (cases e) (simp_all add: Factory_def noFuncs_def)

text \<open>An object that moves out of the namespace or into it is seen.\<close>

lemma ByNamespace_passes:
  "passes (ByNamespace ns) e \<longleftrightarrow> involved e = {} \<or> (\<exists>x \<in> involved e. meta_Namespace (meta_of x) = ns)"
  by (simp add: ByNamespace_def Factory_passes)

section \<open>Durations in INI files\<close>

record Duration =
  dur :: int

definition UnmarshalText :: "string \<Rightarrow> Duration \<Rightarrow> Duration res" where
  "UnmarshalText txt d = bindR (ParseDuration txt) (\<lambda>r. Inr (d\<lparr>dur := r\<rparr>))"

definition MarshalText :: "Duration \<Rightarrow> string" where
  "MarshalText d = DurationString (dur d)"

text \<open>What is written for an \<open>int64\<close> of nanoseconds is read back, whatever the receiver held before.\<close>

lemma duration_text_roundtrip:
  assumes "- (2 ^ 63) \<le> dur d" and "dur d < 2 ^ 63"
  shows "UnmarshalText (MarshalText d) d' = Inr d"
  using ParseDuration_String [OF assms] by (simp add: UnmarshalText_def MarshalText_def)

section \<open>The reconciling loop for configurations\<close>

type_synonym OSCReconciler = "OperatingSystemConfig \<Rightarrow> OperatingSystemConfig res"
type_synonym ConfigReconciler = "OperatingSystemConfig option \<Rightarrow> OperatingSystemConfig res"

record 'w config_reconciling =
  ConfigWithNamespace :: "ConfigReconciler \<Rightarrow> string \<Rightarrow> ConfigReconciler"
  ConfigWithName :: "ConfigReconciler \<Rightarrow> string \<Rightarrow> ConfigReconciler"
  EnsureNamedConfig :: "string \<times> string \<Rightarrow> ConfigReconciler \<Rightarrow> cluster \<Rightarrow> ('w, unit) M"

definition emptyOSCConfig :: OSCConfig where
  "emptyOSCConfig = \<lparr>oscc_Units = [], oscc_Files = [], oscc_UserSSHKeys = [], oscc_CloudInitModules = None\<rparr>"

definition emptyOSC :: OperatingSystemConfig where
  "emptyOSC = \<lparr>osc_meta = emptyMeta, osc_Spec = \<lparr>oscs_OSName = [], oscs_OSVersion = [],
     oscs_CloudProvider = \<lparr>cps_Name = [], cps_Spec = None\<rparr>, oscs_BootstrapConfig = emptyOSCConfig,
     oscs_ProvisioningConfig = emptyOSCConfig, oscs_ProvisioningUtility = []\<rparr>\<rparr>"

definition OperatingSystemConfigObjectWrapper :: "OSCReconciler \<Rightarrow> ConfigReconciler" where
  "OperatingSystemConfigObjectWrapper reconciler =
     (\<lambda>existing. case existing of Some osc \<Rightarrow> reconciler osc | None \<Rightarrow> reconciler emptyOSC)"

fun ReconcileOperatingSystemConfigs ::
    "'w config_reconciling \<Rightarrow> (string \<times> OSCReconciler) list \<Rightarrow> string \<Rightarrow> cluster
     \<Rightarrow> (ConfigReconciler \<Rightarrow> ConfigReconciler) list \<Rightarrow> ('w, unit) M" where
  "ReconcileOperatingSystemConfigs R [] namespace client objectModifiers = ret ()"
| "ReconcileOperatingSystemConfigs R ((name, reconciler) # factories) namespace client objectModifiers =
     (let reconcileObject = OperatingSystemConfigObjectWrapper reconciler;
          reconcileObject = ConfigWithNamespace R reconcileObject namespace;
          reconcileObject = ConfigWithName R reconcileObject name;
          reconcileObject = foldl (\<lambda>f objectModifier. objectModifier f) reconcileObject objectModifiers in
      bindE (wrapE ''failed to ensure OperatingSystemConfig %s/%s: %w'' [namespace, name]
               (EnsureNamedConfig R (namespace, name) reconcileObject client)) (\<lambda>_.
        ReconcileOperatingSystemConfigs R factories namespace client objectModifiers))"

text \<open>The configurations are ensured in order, up to the first error.\<close>

lemma configs_append:
  "ReconcileOperatingSystemConfigs R (fs @ gs) ns c ms
    = bindE (ReconcileOperatingSystemConfigs R fs ns c ms) (\<lambda>_. ReconcileOperatingSystemConfigs R gs ns c ms)"
proof (induction fs)
  case (Cons f fs)
  obtain name reconciler where "f = (name, reconciler)" by (cases f)
  with Cons show ?case by (simp add: Let_def bindE_assoc)
qed (simp add: bindE_def ret_def)

section \<open>Reports of the reconciling library\<close>

text \<open>
  The globals of \<open>github.com/go-test/deep\<close>, and the log. \<open>deep.Equal\<close> is a parameter: it gives the differences, none
  for nil, and depends on the globals.
\<close>

record deep_globals =
  deep_MaxDepth :: int
  deep_LogErrors :: bool

record report_state =
  rs_deep :: deep_globals
  rs_log :: "(string \<times> string \<times> string list option) list"

type_synonym deep_Equal = "deep_globals \<Rightarrow> kobj \<Rightarrow> kobj \<Rightarrow> string list option"

definition logDiff :: "deep_Equal \<Rightarrow> kobj \<Rightarrow> kobj \<Rightarrow> report_state \<Rightarrow> report_state" where
  "logDiff Equal a b s =
     (let maxDepth = deep_MaxDepth (rs_deep s); logErrors = deep_LogErrors (rs_deep s);
          s1 = s\<lparr>rs_deep := (rs_deep s)\<lparr>deep_MaxDepth := 50, deep_LogErrors := True\<rparr>\<rparr>;
          diff = Equal (rs_deep s1) a b;
          diff = (if diff = None then Equal (rs_deep s1) b a else diff);
          s2 = s1\<lparr>rs_deep := (rs_deep s1)\<lparr>deep_MaxDepth := maxDepth, deep_LogErrors := logErrors\<rparr>\<rparr> in
      s2\<lparr>rs_log := rs_log s2 @ [(meta_Namespace (meta_of a), meta_Name (meta_of a), diff)]\<rparr>)"

text \<open>What \<open>Configure\<close> sets in the reconciling library: its logger and its reporter of differences.\<close>

record 'l library_hooks =
  lh_Logger :: 'l
  lh_DiffReporter :: "kobj \<Rightarrow> kobj \<Rightarrow> report_state \<Rightarrow> report_state"

definition Configure :: "deep_Equal \<Rightarrow> 'l \<Rightarrow> 'l library_hooks \<Rightarrow> 'l library_hooks" where
  "Configure Equal log h = h\<lparr>lh_Logger := log, lh_DiffReporter := logDiff Equal\<rparr>"

text \<open>
  A report leaves the library's settings as they were, and it has a difference if there is one in either direction.
\<close>

lemma report_settings: "rs_deep (logDiff Equal a b s) = rs_deep s"
  by (simp add: logDiff_def Let_def)

lemma report_difference:
  "\<exists>diff. rs_log (logDiff Equal a b s) = rs_log s @ [(meta_Namespace (meta_of a), meta_Name (meta_of a), diff)]
    \<and> (diff = None \<longleftrightarrow> Equal \<lparr>deep_MaxDepth = 50, deep_LogErrors = True\<rparr> a b = None
        \<and> Equal \<lparr>deep_MaxDepth = 50, deep_LogErrors = True\<rparr> b a = None)"
proof -
  have "(rs_deep s)\<lparr>deep_MaxDepth := 50, deep_LogErrors := True\<rparr> = \<lparr>deep_MaxDepth = 50, deep_LogErrors = True\<rparr>" by simp
  note deep = this
  show ?thesis by (auto simp: logDiff_def Let_def deep)
qed

section \<open>Schemes\<close>

text \<open>
  What \<open>k8s.io/apimachinery\<close> does with a scheme, and the types that other packages register, are parameters; a
  type goes by the name of its kind.
\<close>

record 's schemes =
  AddKnownTypes :: "'s \<Rightarrow> string \<times> string \<Rightarrow> string list \<Rightarrow> 's"
  AddToGroupVersion :: "'s \<Rightarrow> string \<times> string \<Rightarrow> 's"
  clientgo_AddToScheme :: "'s \<Rightarrow> 's res"
  cluster_AddToScheme :: "'s \<Rightarrow> 's res"

definition GroupName :: string where
  "GroupName = ''operatingsystemmanager.k8c.io''"

definition SchemeGroupVersion :: "string \<times> string" where
  "SchemeGroupVersion = (GroupName, ''v1alpha1'')"

definition Resource :: "string \<Rightarrow> string \<times> string" where
  "Resource resource = (fst SchemeGroupVersion, resource)"

definition ownKinds :: "string list" where
  "ownKinds = [''OperatingSystemProfile'', ''OperatingSystemProfileList'', ''OperatingSystemConfig'', ''OperatingSystemConfigList'']"

definition addKnownTypes :: "'s schemes \<Rightarrow> 's \<Rightarrow> 's res" where
  "addKnownTypes K s = Inr (AddToGroupVersion K (AddKnownTypes K s SchemeGroupVersion ownKinds) SchemeGroupVersion)"

text \<open>A scheme builder applies its functions in turn; here it has one.\<close>

fun applyAll :: "('s \<Rightarrow> 's res) list \<Rightarrow> 's \<Rightarrow> 's res" where
  "applyAll [] s = Inr s"
| "applyAll (f # fs) s = bindR (f s) (applyAll fs)"

definition osm_AddToScheme :: "'s schemes \<Rightarrow> 's \<Rightarrow> 's res" where
  "osm_AddToScheme K = applyAll [addKnownTypes K]"

text \<open>\<open>utilruntime.Must\<close>, and the \<open>init\<close> functions of both programs.\<close>

definition must :: "'a res \<Rightarrow> 'a res" where
  "must r = (case r of Inl e \<Rightarrow> Inl (Panic ''utilruntime.Must'') | Inr x \<Rightarrow> Inr x)"

definition initScheme :: "'s schemes \<Rightarrow> 's \<Rightarrow> 's res" where
  "initScheme K s =
     bindR (must (clientgo_AddToScheme K s)) (\<lambda>s.
     bindR (must (osm_AddToScheme K s)) (\<lambda>s.
     must (cluster_AddToScheme K s)))"

text \<open>If registering adds to what a scheme knows, both programs know the four types in their group.\<close>

lemma initScheme_knows:
  assumes "\<And>s gv ks. set ks \<subseteq> {k. (gv, k) \<in> knows (AddKnownTypes K s gv ks)}"
    and "\<And>s gv. knows s \<subseteq> knows (AddToGroupVersion K s gv)"
    and "\<And>s s'. cluster_AddToScheme K s = Inr s' \<Longrightarrow> knows s \<subseteq> knows s'"
    and "initScheme K s = Inr s'"
  shows "\<forall>k \<in> set ownKinds. (SchemeGroupVersion, k) \<in> knows s'"
proof
  fix k
  assume "k \<in> set ownKinds"
  from assms(4) obtain t where "cluster_AddToScheme K (AddToGroupVersion K (AddKnownTypes K t SchemeGroupVersion ownKinds)
      SchemeGroupVersion) = Inr s'"
    by (auto simp: initScheme_def osm_AddToScheme_def addKnownTypes_def must_def res_simps split: sum.splits)
  with assms(3) assms(2) [of "AddKnownTypes K t SchemeGroupVersion ownKinds" SchemeGroupVersion]
    assms(1) [of ownKinds SchemeGroupVersion t] \<open>k \<in> set ownKinds\<close>
  show "(SchemeGroupVersion, k) \<in> knows s'" by blast
qed

end
